(* ===== verification/Go_Prelude.thy ===== *)
theory Go_Prelude
  imports
    Main
    "HOL-Library.AList"
    "HOL-Library.Char_ord"
    "HOL-Library.List_Lexorder"
    "HOL-Library.Word"
begin

text \<open>
  What the operator uses of Go and of its standard library, and the lemmas that every
  component shares.

  \<^item> A call either returns or panics: \<open>'a go\<close> (\<open>Done\<close>, \<open>Panic\<close>), with
    \<open>go_bind\<close> for sequencing, \<open>go_deref\<close> for a pointer and \<open>go_index\<close> for a slice.
  \<^item> A Go error is a value, \<open>go_error\<close>; a function that returns \<open>(T, error)\<close> returns a pair
    \<open>'a res\<close>, because the callers of this operator do read the first component of a failed call.
  \<^item> A Go map is an association list with distinct keys, \<open>'v go_map\<close>; the order of the list is
    the (unspecified) order in which \<open>range\<close> visits it. Its meaning is \<open>map_of\<close>.
  \<^item> \<open>strings\<close>, \<open>strconv\<close>, \<open>path\<close>, \<open>maps\<close> and \<open>slices\<close>: the functions the source calls.
  \<^item> Strings are byte lists ordered bytewise, as Go compares them.
\<close>

named_theorems go_simps \<open>sequencing of calls that may panic\<close>
named_theorems gomap_simps \<open>reading Go maps back after writes\<close>
named_theorems split_simps \<open>splitting strings at separators\<close>

section \<open>Calls, panics and errors\<close>

datatype go_panic =
    NilDeref
  | IndexOutOfRange
  | TypeAssertionFailed
  | NegativeLength
  | PanicValue string

datatype 'a go = Done 'a | Panic go_panic

datatype go_error =
    ErrNew string
  | ErrWrap go_error string
  | ErrExt string

text \<open>
  \<open>ErrNew\<close> is \<open>errors.New\<close>, \<open>errors.NewWithDetails\<close> and \<open>fmt.Errorf\<close> without an operand;
  \<open>ErrWrap\<close> is \<open>errors.Wrap\<close> and \<open>errors.WrapWithDetails\<close>; the details are for the log and are
  not part of the model. \<open>ErrExt\<close> stands for the errors that third-party code returns.
\<close>

type_synonym 'a res = "'a \<times> go_error option"

fun go_bind :: "'a go \<Rightarrow> ('a \<Rightarrow> 'b go) \<Rightarrow> 'b go" where
  "go_bind (Done x) f = f x"
| "go_bind (Panic p) f = Panic p"

fun go_deref :: "'a option \<Rightarrow> 'a go" where
  "go_deref None = Panic NilDeref"
| "go_deref (Some x) = Done x"

definition go_index :: "'a list \<Rightarrow> nat \<Rightarrow> 'a go" where
  "go_index xs i = (if i < length xs then Done (xs ! i) else Panic IndexOutOfRange)"

fun go_map_list :: "('a \<Rightarrow> 'b go) \<Rightarrow> 'a list \<Rightarrow> 'b list go" where
  "go_map_list f [] = Done []"
| "go_map_list f (x # xs) = go_bind (f x) (\<lambda>y. go_bind (go_map_list f xs) (\<lambda>ys. Done (y # ys)))"

fun go_fold :: "('a \<Rightarrow> 's \<Rightarrow> 's go) \<Rightarrow> 'a list \<Rightarrow> 's \<Rightarrow> 's go" where
  "go_fold f [] s = Done s"
| "go_fold f (x # xs) s = go_bind (f x s) (go_fold f xs)"

fun returns :: "'a go \<Rightarrow> bool" where
  "returns (Done _) = True"
| "returns (Panic _) = False"

lemma go_bind_Done_iff [go_simps]:
  "go_bind m f = Done y \<longleftrightarrow> (\<exists>x. m = Done x \<and> f x = Done y)"
  by (cases m) auto

lemma go_bind_Panic_iff [go_simps]:
  "go_bind m f = Panic p \<longleftrightarrow> m = Panic p \<or> (\<exists>x. m = Done x \<and> f x = Panic p)"
  by (cases m) auto

lemma go_bind_assoc: "go_bind (go_bind m f) g = go_bind m (\<lambda>x. go_bind (f x) g)"
  by (cases m) auto

lemma go_bind_Done_right [simp]: "go_bind m Done = m"
  by (cases m) auto

lemma go_deref_Done_iff [go_simps]: "go_deref p = Done x \<longleftrightarrow> p = Some x"
  by (cases p) auto

lemma go_deref_Panic_iff [go_simps]: "go_deref p = Panic e \<longleftrightarrow> p = None \<and> e = NilDeref"
  by (cases p) auto

lemma go_index_Done_iff [go_simps]:
  "go_index xs i = Done x \<longleftrightarrow> i < length xs \<and> xs ! i = x"
  by (auto simp: go_index_def)

lemma go_index_Panic_iff [go_simps]:
  "go_index xs i = Panic p \<longleftrightarrow> length xs \<le> i \<and> p = IndexOutOfRange"
  by (auto simp: go_index_def)

lemma go_index_Cons_0 [simp]: "go_index (x # xs) 0 = Done x"
  by (simp add: go_index_def)

lemma go_index_Cons_Suc [simp]: "go_index (x # xs) (Suc i) = go_index xs i"
  by (simp add: go_index_def)

lemma go_index_Cons_numeral [simp]:
  "go_index (x # xs) (numeral k) = go_index xs (pred_numeral k)"
  by (simp add: numeral_eq_Suc)

lemma go_index_Nil [simp]: "go_index [] i = Panic IndexOutOfRange"
  by (simp add: go_index_def)

lemma returns_iff: "returns m \<longleftrightarrow> (\<exists>x. m = Done x)"
  by (cases m) auto

lemma returns_bind [go_simps]:
  "returns (go_bind m f) \<longleftrightarrow> (\<exists>x. m = Done x \<and> returns (f x))"
  by (cases m) auto

lemma go_fold_append:
  "go_fold f (xs @ ys) s = go_bind (go_fold f xs s) (go_fold f ys)"
proof (induction xs arbitrary: s)
  case (Cons x xs)
  then show ?case by (cases "f x s") simp_all
qed simp

text \<open>An invariant that every step keeps holds after the whole loop.\<close>

lemma go_fold_invariant:
  assumes "go_fold f xs s = Done s'" and "P s"
    and "\<And>x s s'. x \<in> set xs \<Longrightarrow> P s \<Longrightarrow> f x s = Done s' \<Longrightarrow> P s'"
  shows "P s'"
  using assms
proof (induction xs arbitrary: s)
  case (Cons x xs)
  then obtain t where "f x s = Done t" and "go_fold f xs t = Done s'"
    by (auto simp: go_bind_Done_iff)
  with Cons show ?case by (metis list.set_intros)
qed simp

lemma go_fold_Done:
  assumes "\<And>x s. x \<in> set xs \<Longrightarrow> f x s = Done (g x s)"
  shows "go_fold f xs s = Done (fold g xs s)"
  using assms by (induction xs arbitrary: s) auto

section \<open>Machine integers\<close>

type_synonym goint8 = "8 word"
type_synonym goint16 = "16 word"
type_synonym goint32 = "32 word"
type_synonym goint64 = "64 word"
type_synonym goint = "64 word"

section \<open>Go maps\<close>

type_synonym 'v go_map = "(string \<times> 'v) list"

definition gm_ok :: "'v go_map \<Rightarrow> bool" where
  "gm_ok m \<longleftrightarrow> distinct (map fst m)"

definition gm_get :: "'v go_map \<Rightarrow> string \<Rightarrow> 'v option" where
  "gm_get m k = map_of m k"

definition gm_put :: "string \<Rightarrow> 'v \<Rightarrow> 'v go_map \<Rightarrow> 'v go_map" where
  "gm_put k v m = AList.update k v m"

fun maps_Copy :: "'v go_map \<Rightarrow> 'v go_map \<Rightarrow> 'v go_map" where
  "maps_Copy dst [] = dst"
| "maps_Copy dst ((k, v) # src) = maps_Copy (gm_put k v dst) src"

text \<open>A read of a missing key of a \<open>map[string]string\<close> gives the empty string.\<close>

definition gm_str :: "string go_map \<Rightarrow> string \<Rightarrow> string" where
  "gm_str m k = (case gm_get m k of None \<Rightarrow> [] | Some v \<Rightarrow> v)"

text \<open>\<open>slices.Sorted(maps.Keys(m))\<close>\<close>

definition sorted_keys :: "'v go_map \<Rightarrow> string list" where
  "sorted_keys m = sort (map fst m)"

text \<open>
  The interface of a map as the rest of the model sees it: what a read returns after a write,
  and that writes keep the keys distinct. Everything the components prove about sequences of
  writes follows from these laws.
\<close>

locale keyed_store =
  fixes ok :: "'m \<Rightarrow> bool"
    and get :: "'m \<Rightarrow> 'k \<Rightarrow> 'v option"
    and put :: "'k \<Rightarrow> 'v \<Rightarrow> 'm \<Rightarrow> 'm"
  assumes get_put: "get (put k v m) = (get m)(k \<mapsto> v)"
    and ok_put: "ok m \<Longrightarrow> ok (put k v m)"
begin

lemma get_writes:
  "get (fold (\<lambda>(k, v). put k v) kvs m) = get m ++ map_of (rev kvs)"
proof (induction kvs arbitrary: m)
  case (Cons kv kvs)
  then show ?case
    by (cases kv) (simp add: get_put map_add_def fun_eq_iff split: option.split)
qed simp

lemma ok_writes: "ok m \<Longrightarrow> ok (fold (\<lambda>(k, v). put k v) kvs m)"
  by (induction kvs arbitrary: m) (auto simp: ok_put)

lemma writes_disjoint:
  assumes "k \<notin> fst ` set kvs"
  shows "get (fold (\<lambda>(k, v). put k v) kvs m) k = get m k"
  using assms by (simp add: get_writes map_add_dom_app_simps dom_map_of_conv_image_fst)

lemma writes_member:
  assumes "distinct (map fst kvs)" and "(k, v) \<in> set kvs"
  shows "get (fold (\<lambda>(k, v). put k v) kvs m) k = Some v"
proof -
  have "map_of (rev kvs) k = Some v"
    using assms by (simp add: map_of_eq_Some_iff flip: rev_map)
  then show ?thesis by (simp add: get_writes)
qed

end

lemma gm_get_put [gomap_simps]: "gm_get (gm_put k v m) = (gm_get m)(k \<mapsto> v)"
  by (auto simp: gm_get_def gm_put_def update_conv' fun_eq_iff)

lemma gm_ok_put [gomap_simps]: "gm_ok m \<Longrightarrow> gm_ok (gm_put k v m)"
  by (simp add: gm_ok_def gm_put_def distinct_update)

interpretation gomap: keyed_store gm_ok gm_get gm_put
  by unfold_locales (simp_all add: gm_get_put gm_ok_put)

lemma maps_Copy_fold: "maps_Copy dst src = fold (\<lambda>(k, v). gm_put k v) src dst"
  by (induction dst src rule: maps_Copy.induct) simp_all

lemma gm_ok_Nil [simp]: "gm_ok []"
  by (simp add: gm_ok_def)

lemma gm_get_Nil [simp]: "gm_get [] = Map.empty"
  by (simp add: gm_get_def fun_eq_iff)

lemma gm_get_Cons [gomap_simps]: "gm_get ((k, v) # m) = (gm_get m)(k \<mapsto> v)"
  by (simp add: gm_get_def fun_eq_iff)

lemma map_of_rev_ok: "gm_ok src \<Longrightarrow> map_of (rev src) = gm_get src"
proof -
  assume "gm_ok src"
  then have "map_of (rev src) = map_of src"
    by (simp add: gm_ok_def map_of_inject_set flip: rev_map)
  then show ?thesis by (simp add: gm_get_def fun_eq_iff)
qed

lemma gm_get_Copy [gomap_simps]:
  "gm_ok src \<Longrightarrow> gm_get (maps_Copy dst src) = gm_get dst ++ gm_get src"
  by (simp add: maps_Copy_fold gomap.get_writes map_of_rev_ok)

lemma gm_ok_Copy [gomap_simps]: "gm_ok dst \<Longrightarrow> gm_ok (maps_Copy dst src)"
  by (simp add: maps_Copy_fold gomap.ok_writes)

lemma gm_get_Some_iff: "gm_ok m \<Longrightarrow> gm_get m k = Some v \<longleftrightarrow> (k, v) \<in> set m"
  by (simp add: gm_ok_def gm_get_def)

lemma gm_get_None_iff: "gm_get m k = None \<longleftrightarrow> k \<notin> fst ` set m"
  by (simp add: gm_get_def map_of_eq_None_iff)

lemma gm_dom: "dom (gm_get m) = fst ` set m"
  by (simp add: gm_get_def[abs_def] dom_map_of_conv_image_fst)

text \<open>Two lists that stand for the same map are permutations of one another.\<close>

lemma gm_get_eq_set:
  "gm_ok m \<Longrightarrow> gm_ok m' \<Longrightarrow> gm_get m = gm_get m' \<Longrightarrow> set m = set m'"
  by (auto simp flip: gm_get_Some_iff)

lemma sorted_keys_set [simp]: "set (sorted_keys m) = fst ` set m"
  by (simp add: sorted_keys_def)

lemma sorted_keys_sorted [simp]: "sorted (sorted_keys m)"
  by (simp add: sorted_keys_def)

lemma sorted_keys_distinct [simp]: "gm_ok m \<Longrightarrow> distinct (sorted_keys m)"
  by (simp add: sorted_keys_def gm_ok_def)

lemma sorted_keys_cong:
  assumes "gm_ok m" and "gm_ok m'" and "gm_get m = gm_get m'"
  shows "sorted_keys m = sorted_keys m'"
proof (rule sorted_distinct_set_unique)
  show "set (sorted_keys m) = set (sorted_keys m')"
    using gm_get_eq_set [OF assms] by simp
qed (use assms(1,2) in simp_all)

end
