(* ===== verification/Go_Strings.thy ===== *)
theory Go_Strings
  imports Go_Prelude
begin

text \<open>
  The functions of \<open>strings\<close>, \<open>strconv\<close> and \<open>path\<close> that the operator calls, on byte strings.
  \<open>strings_ToUpper\<close> and \<open>strings_ToLower\<close> are the ASCII part of the Go functions: the operator
  applies them to provider hints and container names, which are ASCII constants.
\<close>

section \<open>strings\<close>

fun strings_Cut :: "string \<Rightarrow> string \<Rightarrow> (string \<times> string) option" where
  "strings_Cut sep [] = (if sep = [] then Some ([], []) else None)"
| "strings_Cut sep (c # s) =
     (if take (length sep) (c # s) = sep then Some ([], drop (length sep) (c # s))
      else map_option (\<lambda>(a, b). (c # a, b)) (strings_Cut sep s))"

lemma strings_Cut_Some: "strings_Cut sep s = Some (a, b) \<Longrightarrow> s = a @ sep @ b"
proof (induction sep s arbitrary: a rule: strings_Cut.induct)
  case (2 sep c s)
  then show ?case
    by (auto split: if_splits) (metis append_take_drop_id)
qed (simp split: if_splits)

function strings_Split :: "string \<Rightarrow> string \<Rightarrow> string list" where
  "strings_Split s sep =
     (if sep = [] then map (\<lambda>c. [c]) s
      else case strings_Cut sep s of
             None \<Rightarrow> [s]
           | Some (a, b) \<Rightarrow> a # strings_Split b sep)"
  by pat_completeness auto
termination
  by (relation "measure (\<lambda>(s, sep). length s)") (auto dest: strings_Cut_Some)

declare strings_Split.simps [simp del]

fun strings_Join :: "string list \<Rightarrow> string \<Rightarrow> string" where
  "strings_Join [] sep = []"
| "strings_Join [x] sep = x"
| "strings_Join (x # y # ys) sep = x @ sep @ strings_Join (y # ys) sep"

definition upper_char :: "char \<Rightarrow> char" where
  "upper_char c =
     (let n = (of_char c :: nat) in if 97 \<le> n \<and> n \<le> 122 then char_of (n - 32) else c)"

definition lower_char :: "char \<Rightarrow> char" where
  "lower_char c =
     (let n = (of_char c :: nat) in if 65 \<le> n \<and> n \<le> 90 then char_of (n + 32) else c)"

definition strings_ToUpper :: "string \<Rightarrow> string" where
  "strings_ToUpper s = map upper_char s"

definition strings_ToLower :: "string \<Rightarrow> string" where
  "strings_ToLower s = map lower_char s"

lemma strings_Join_Cons:
  "xs \<noteq> [] \<Longrightarrow> strings_Join (x # xs) sep = x @ sep @ strings_Join xs sep"
  by (cases xs) simp_all

lemma strings_Cut_char_None [split_simps]:
  "strings_Cut [c] s = None \<longleftrightarrow> c \<notin> set s"
  by (induction s) auto

lemma strings_Cut_char_append [split_simps]:
  "c \<notin> set a \<Longrightarrow> strings_Cut [c] (a @ c # b) = Some (a, b)"
  by (induction a) auto

lemma strings_Cut_pair_append [split_simps]:
  "c \<notin> set a \<Longrightarrow> strings_Cut [c, d] (a @ c # d # b) = Some (a, b)"
  by (induction a) auto

lemma strings_Split_nonempty [simp]: "sep \<noteq> [] \<Longrightarrow> strings_Split s sep \<noteq> []"
  by (subst strings_Split.simps) (auto split: option.split)

lemma strings_Split_no_sep [split_simps]: "c \<notin> set a \<Longrightarrow> strings_Split a [c] = [a]"
  by (subst strings_Split.simps) (simp add: strings_Cut_char_None [THEN iffD2])

lemma strings_Split_step [split_simps]:
  "c \<notin> set a \<Longrightarrow> strings_Split (a @ c # b) [c] = a # strings_Split b [c]"
  by (subst strings_Split.simps) (simp add: strings_Cut_char_append)

lemma strings_Split_Cons_sep [split_simps]:
  "strings_Split (c # b) [c] = [] # strings_Split b [c]"
  using strings_Split_step [of c "[]" b] by simp

lemma strings_Split_pair [split_simps]:
  "c \<notin> set a \<Longrightarrow> strings_Split (a @ c # d # b) [c, d] = a # strings_Split b [c, d]"
  by (subst strings_Split.simps) (simp add: strings_Cut_pair_append)

lemma strings_Join_Split: "sep \<noteq> [] \<Longrightarrow> strings_Join (strings_Split s sep) sep = s"
proof (induction s sep rule: strings_Split.induct)
  case (1 s sep)
  then show ?case
    by (subst strings_Split.simps)
      (auto split: option.split dest: strings_Cut_Some simp: strings_Join_Cons)
qed

lemma strings_Split_Join:
  assumes "xs \<noteq> []" and "\<forall>x \<in> set xs. c \<notin> set x"
  shows "strings_Split (strings_Join xs [c]) [c] = xs"
  using assms
proof (induction xs)
  case (Cons x xs)
  then show ?case
    by (cases "xs = []") (auto simp: strings_Join_Cons split_simps)
qed simp

text \<open>Splitting at a byte gives one piece more than there are occurrences of the byte.\<close>

lemma strings_Split_length: "length (strings_Split s [c]) = Suc (count_list s c)"
proof (induction s "[c]" rule: strings_Split.induct)
  case (1 s)
  show ?case
  proof (cases "strings_Cut [c] s")
    case None
    then show ?thesis by (simp add: split_simps count_notin)
  next
    case (Some ab)
    then obtain a b where ab: "strings_Cut [c] s = Some (a, b)" by (cases ab) auto
    then have s: "s = a @ c # b" using strings_Cut_Some by force
    have "c \<notin> set a"
    proof
      assume "c \<in> set a"
      then obtain a1 a2 where "a = a1 @ c # a2" "c \<notin> set a1" by (meson split_list_first)
      then have "strings_Cut [c] s = Some (a1, a2 @ c # b)"
        using s strings_Cut_char_append [of c a1 "a2 @ c # b"] by simp
      with ab \<open>a = a1 @ c # a2\<close> show False by simp
    qed
    with "1" ab s show ?thesis by (simp add: split_simps count_notin)
  qed
qed

lemma strings_Split_split_first:
  assumes "c \<in> set s"
  obtains a b where "s = a @ c # b" and "c \<notin> set a"
    and "strings_Split s [c] = a # strings_Split b [c]"
  using assms by (metis split_list_first strings_Split_step)

section \<open>strconv\<close>

definition digit_char :: "nat \<Rightarrow> char" where
  "digit_char d = ''0123456789'' ! d"

fun nat_digits :: "nat \<Rightarrow> string" where
  "nat_digits n =
     (if n < 10 then [digit_char n] else nat_digits (n div 10) @ [digit_char (n mod 10)])"

declare nat_digits.simps [simp del]

definition strconv_Itoa :: "int \<Rightarrow> string" where
  "strconv_Itoa i = (if i < 0 then CHR ''-'' # nat_digits (nat (- i)) else nat_digits (nat i))"

text \<open>Reading a decimal back: the left inverse that makes printing injective.\<close>

definition digit_val :: "char \<Rightarrow> nat" where
  "digit_val c = of_char c - 48"

definition digits_val :: "string \<Rightarrow> nat" where
  "digits_val s = foldl (\<lambda>n c. 10 * n + digit_val c) 0 s"

lemma digit_range: "d < 10 \<Longrightarrow> d \<in> {0, 1, 2, 3, 4, 5, 6, 7, 8, 9 :: nat}"
  by auto

lemma digit_val_char: "d < 10 \<Longrightarrow> digit_val (digit_char d) = d"
  by (drule digit_range) (auto simp: digit_val_def digit_char_def)

definition decimal_digit :: "char \<Rightarrow> bool" where
  "decimal_digit c \<longleftrightarrow> c \<in> set ''0123456789''"

lemma digit_char_decimal: "d < 10 \<Longrightarrow> decimal_digit (digit_char d)"
  unfolding digit_char_def decimal_digit_def by (rule nth_mem) simp

lemma minus_not_decimal [simp]: "\<not> decimal_digit (CHR ''-'')"
  by (simp add: decimal_digit_def)

lemma digits_val_nat_digits [simp]: "digits_val (nat_digits n) = n"
proof (induction n rule: nat_digits.induct)
  case (1 n)
  then show ?case
    by (subst nat_digits.simps) (auto simp: digits_val_def digit_val_char)
qed

lemma nat_digits_inj: "nat_digits m = nat_digits n \<longleftrightarrow> m = n"
  by (metis digits_val_nat_digits)

lemma nat_digits_decimal: "c \<in> set (nat_digits n) \<Longrightarrow> decimal_digit c"
proof (induction n rule: nat_digits.induct)
  case (1 n)
  show ?case
  proof (cases "n < 10")
    case True
    with "1.prems" show ?thesis by (simp add: nat_digits.simps [of n] digit_char_decimal)
  next
    case False
    with "1" show ?thesis
      by (auto simp: nat_digits.simps [of n] digit_char_decimal)
  qed
qed

lemma Itoa_chars: "c \<in> set (strconv_Itoa i) \<Longrightarrow> c = CHR ''-'' \<or> decimal_digit c"
  by (auto simp: strconv_Itoa_def dest: nat_digits_decimal split: if_splits)

lemma minus_nat_digits: "CHR ''-'' # xs \<noteq> nat_digits n"
  by (metis list.set_intros(1) minus_not_decimal nat_digits_decimal)

lemma strconv_Itoa_inj: "strconv_Itoa i = strconv_Itoa j \<longleftrightarrow> i = j"
  using minus_nat_digits minus_nat_digits [symmetric]
  by (auto simp: strconv_Itoa_def nat_digits_inj)

section \<open>path\<close>

text \<open>
  \<open>path.Clean\<close>: drop empty elements and \<open>.\<close>, let \<open>..\<close> remove the element before it (at the
  root it disappears, at the start of a relative path it stays), and write \<open>.\<close> for nothing.
\<close>

fun clean_elems :: "bool \<Rightarrow> string list \<Rightarrow> string list \<Rightarrow> string list" where
  "clean_elems rooted acc [] = rev acc"
| "clean_elems rooted acc (e # es) =
     (if e = [] \<or> e = ''.'' then clean_elems rooted acc es
      else if e = ''..'' then
        (case acc of
           [] \<Rightarrow> clean_elems rooted (if rooted then [] else [''..'']) es
         | a # as \<Rightarrow> if a = ''..'' then clean_elems rooted (''..'' # acc) es
                     else clean_elems rooted as es)
      else clean_elems rooted (e # acc) es)"

definition path_Clean :: "string \<Rightarrow> string" where
  "path_Clean p =
     (let rooted = (take 1 p = ''/'');
          out = (if rooted then ''/'' else []) @
                strings_Join (clean_elems rooted [] (strings_Split p ''/'')) ''/''
      in if out = [] then ''.'' else out)"

definition path_Join :: "string list \<Rightarrow> string" where
  "path_Join es =
     (case filter (\<lambda>e. e \<noteq> []) es of
        [] \<Rightarrow> []
      | es' \<Rightarrow> path_Clean (strings_Join es' ''/''))"

text \<open>A single ordinary path element.\<close>

definition plain_elem :: "string \<Rightarrow> bool" where
  "plain_elem e \<longleftrightarrow> e \<noteq> [] \<and> e \<noteq> ''.'' \<and> e \<noteq> ''..'' \<and> CHR ''/'' \<notin> set e"

text \<open>An absolute path written as its elements.\<close>

definition abs_path :: "string list \<Rightarrow> string" where
  "abs_path es = ''/'' @ strings_Join es ''/''"

lemma clean_elems_plain:
  "\<forall>e \<in> set es. plain_elem e \<Longrightarrow> clean_elems rooted acc es = rev acc @ es"
  by (induction es arbitrary: acc) (auto simp: plain_elem_def)

lemma strings_Join_append:
  "xs \<noteq> [] \<Longrightarrow> ys \<noteq> [] \<Longrightarrow>
   strings_Join (xs @ ys) sep = strings_Join xs sep @ sep @ strings_Join ys sep"
proof (induction xs)
  case (Cons x xs)
  then show ?case by (cases "xs = []") (simp_all add: strings_Join_Cons)
qed simp

lemma path_Clean_abs:
  assumes "\<forall>e \<in> set es. plain_elem e" and "es \<noteq> []"
  shows "path_Clean (abs_path es) = abs_path es"
proof -
  have "strings_Split (abs_path es) ''/'' = [] # es"
    using assms by (simp add: abs_path_def split_simps strings_Split_Join plain_elem_def)
  then show ?thesis
    using assms by (simp add: path_Clean_def abs_path_def clean_elems_plain)
qed

text \<open>Joining plain elements to an absolute path appends them.\<close>

lemma path_Join_abs:
  assumes "\<forall>e \<in> set (es @ xs). plain_elem e" and "es \<noteq> []"
  shows "path_Join (abs_path es # xs) = abs_path (es @ xs)"
proof -
  have ne: "filter (\<lambda>e. e \<noteq> []) (abs_path es # xs) = abs_path es # xs"
    using assms by (auto simp: abs_path_def plain_elem_def filter_id_conv)
  have "strings_Join (abs_path es # xs) ''/'' = abs_path (es @ xs)"
    using assms by (cases "xs = []") (simp_all add: abs_path_def strings_Join_Cons strings_Join_append)
  then show ?thesis
    using assms unfolding path_Join_def ne by (simp add: path_Clean_abs)
qed

end
