(* ===== verification/Platform.thy ===== *)
theory Platform
  imports Go_Strings
begin

text \<open>
  The data that crosses the boundary between the operator and the packages it is built on
  (\<open>k8s.io/api\<close>, \<open>sigs.k8s.io/controller-runtime\<close>, \<open>github.com/zncdatadev/operator-go\<close>): the
  struct types with the fields that the operator reads or writes, and two records of functions
  that stand for the code of those packages.

  \<^item> \<open>opgo\<close>: constants and pure functions of operator-go (names, labels, command snippets);
  \<^item> \<open>client\<close>: reads from the API server, each of which may fail.

  Nothing here is a definition of foreign code: both records are parameters of the model, and a
  theorem that needs to know something of them says so in a hypothesis. Where the operator drives
  a foreign builder, the model keeps the list of calls it makes (see \<open>Container_Builder\<close>).
  A pointer field is an \<open>option\<close>; a map field that the code compares with \<open>nil\<close> is an optional map.
\<close>

named_theorems const_simps \<open>string and number constants of the source\<close>

section \<open>k8s.io/api\<close>

datatype quantity = Quantity string

datatype envVarSource =
    ConfigMapKeyRef string string
  | SecretKeyRef string string

record envVar =
  ev_Name :: string
  ev_Value :: string
  ev_ValueFrom :: "envVarSource option"

record containerPort =
  cp_Name :: string
  cp_ContainerPort :: goint32
  cp_Protocol :: string

record volumeMount =
  vm_Name :: string
  vm_MountPath :: string
  vm_SubPath :: string
  vm_ReadOnly :: bool

record probe =
  pr_ExecCommand :: "string list"
  pr_InitialDelaySeconds :: goint32
  pr_SuccessThreshold :: goint32
  pr_FailureThreshold :: goint32
  pr_PeriodSeconds :: goint32
  pr_TimeoutSeconds :: goint32

record pvcSpec =
  pvc_AccessModes :: "string list"
  pvc_StorageClassName :: "string option"
  pvc_VolumeMode :: "string option"
  pvc_StorageRequest :: quantity

record persistentVolumeClaim =
  pvc_Name :: string
  pvc_Annotations :: "string go_map"
  pvc_Spec :: pvcSpec

datatype volumeSource =
    EmptyDir "quantity option"
  | ConfigMapVolume string "(string \<times> string) list"
  | Ephemeral persistentVolumeClaim

record volume =
  vol_Name :: string
  vol_Source :: volumeSource

record weightedPodAffinityTerm =
  wt_Weight :: goint32
  wt_TopologyKey :: string
  wt_MatchLabels :: "string go_map"

text \<open>The parts of an affinity that the operator never builds are kept as one opaque text.\<close>

record affinity =
  aff_PodAntiAffinityPreferred :: "weightedPodAffinityTerm list option"
  aff_Other :: string

record rawExtension =
  raw_Raw :: "string option"

datatype serviceType = ServiceTypeClusterIP | ServiceTypeNodePort | ServiceTypeLoadBalancer
  | ServiceTypeOther string

section \<open>operator-go: API types\<close>

record cpuResource =
  cpu_Min :: quantity
  cpu_Max :: quantity

record resourcesSpec =
  res_CPU :: "cpuResource option"
  res_Memory :: "quantity option"
  res_Storage :: "quantity option"

record logLevelSpec =
  ll_Level :: string

record loggingConfigSpec =
  lc_Loggers :: "logLevelSpec option go_map option"
  lc_Console :: "logLevelSpec option"
  lc_File :: "logLevelSpec option"

record loggingSpec =
  lg_Containers :: "loggingConfigSpec go_map option"
  lg_EnableVectorAgent :: "bool option"

record roleGroupConfigSpec =
  rgc_Affinity :: "rawExtension option"
  rgc_GracefulShutdownTimeout :: string
  rgc_Logging :: "loggingSpec option"
  rgc_Resources :: "resourcesSpec option"

record overridesSpec =
  ov_ConfigOverrides :: "string go_map go_map option"
  ov_EnvOverrides :: "string go_map option"

datatype roleConfigSpec = RoleConfigSpec string

record clusterOperationSpec =
  co_Stopped :: bool
  co_ReconciliationPaused :: bool

record credentialsScope =
  scope_Node :: bool
  scope_Pod :: bool
  scope_Services :: "string list"

record credentials =
  cred_SecretClass :: string
  cred_Scope :: "credentialsScope option"

record s3ConnectionSpec =
  s3c_Host :: string
  s3c_Port :: goint
  s3c_PathStyle :: bool
  s3c_Credentials :: "credentials option"

record s3BucketConnectionSpec =
  s3b_Reference :: string
  s3b_Inline :: "s3ConnectionSpec option"

record s3BucketSpec =
  s3_BucketName :: string
  s3_Connection :: "s3BucketConnectionSpec option"

record oidcProvider =
  oidc_Hostname :: string
  oidc_Port :: goint
  oidc_RootPath :: string
  oidc_ProviderHint :: string
  oidc_TLS :: "unit option"

record ldapFieldNames =
  lf_Uid :: string
  lf_Email :: string

record ldapProvider =
  ldap_BindCredentials :: "credentials option"
  ldap_Hostname :: string
  ldap_Port :: goint
  ldap_SearchBase :: string
  ldap_LDAPFieldNames :: "ldapFieldNames option"
  ldap_TLS :: "unit option"

record providerSpec =
  ps_OIDC :: "oidcProvider option"
  ps_TLS :: "unit option"
  ps_Static :: "unit option"
  ps_LDAP :: "ldapProvider option"

record authenticationClass =
  ac_AuthenticationProvider :: "providerSpec option"

section \<open>operator-go: reconciler and image types\<close>

record clusterInfo =
  ci_Group :: string
  ci_Version :: string
  ci_Kind :: string
  ci_ClusterName :: string

record roleInfo =
  ri_ClusterInfo :: clusterInfo
  ri_RoleName :: string

record roleGroupInfo =
  rgi_RoleInfo :: roleInfo
  rgi_RoleGroupName :: string

record imageOptions =
  io_Custom :: string
  io_Repo :: string
  io_PullPolicy :: string

record image =
  im_ProductName :: string
  im_KubedoopVersion :: string
  im_ProductVersion :: string
  im_Options :: imageOptions

record productLogging =
  pl_RootLogLevel :: string
  pl_ConsoleHandlerLevel :: string
  pl_ConsoleHandlerFormatter :: string
  pl_RotatingFileHandlerLevel :: string
  pl_RotatingFileHandlerFile :: string
  pl_RotatingFileHandlerMaxBytes :: goint64
  pl_RotatingFileHandlerBackupCount :: goint
  pl_Loggers :: "logLevelSpec go_map"

section \<open>operator-go: constants and functions\<close>

record opgo =
  KubedoopRoot :: string
  KubedoopLogDir :: string
  KubedoopSecretDir :: string
  KubedoopTlsDir :: string
  LabelKubernetesInstance :: string
  LabelKubernetesComponent :: string
  AnnotationSecretsClass :: string
  AnnotationSecretsScope :: string
  CommonDelimiter :: string
  SecretStorageClass :: string
  ClusterInternal :: string
  ExternalUnstable :: string
  ExternalStable :: string
  CommonBashTrapFunctions :: string
  RemoveVectorShutdownFileCommand :: string
  InvokePrepareSignalHandlers :: string
  InvokeWaitForTermination :: string
  CreateVectorShutdownFileCommand :: string
  VectorConfigFileName :: string
  DefaultLoggerLevel :: string
  RootLoggerName :: string
  DefaultRotatingFileHandlerMaxBytes :: goint64
  GetFullName :: "roleGroupInfo \<Rightarrow> string"
  GetLabels :: "roleGroupInfo \<Rightarrow> string go_map"
  GetAnnotations :: "roleGroupInfo \<Rightarrow> string go_map"
  GetClusterName :: "clusterInfo \<Rightarrow> string"
  GetRoleName :: "roleInfo \<Rightarrow> string"
  GetGroupName :: "roleGroupInfo \<Rightarrow> string"
  ClusterGetLabels :: "clusterInfo \<Rightarrow> string go_map"
  ClusterGetAnnotations :: "clusterInfo \<Rightarrow> string go_map"
  CalculateLogVolumeSizeLimit :: "quantity list \<Rightarrow> quantity"
  LoggingContent :: "string \<Rightarrow> (string \<Rightarrow> string \<Rightarrow> string) \<Rightarrow> productLogging \<Rightarrow> string res"
  MarshalAffinity :: "affinity \<Rightarrow> string res"
  UnmarshalAffinity :: "string \<Rightarrow> affinity res"
  NewImage :: "string \<Rightarrow> string \<Rightarrow> string \<Rightarrow> imageOptions \<Rightarrow> image"

text \<open>
  \<open>LoggingContent\<close> is \<open>productlogging.JavaLogTemplateValue\<close> followed by
  \<open>config.TemplateParser.Parse\<close>: a template, the logger formatter it calls back and the logging
  values give the text of the configuration file. \<open>MarshalAffinity\<close> and \<open>UnmarshalAffinity\<close> are
  \<open>encoding/json\<close> at the foreign type \<open>corev1.Affinity\<close>.
\<close>

section \<open>The API server\<close>

record client =
  GetSecret :: "string \<Rightarrow> string \<Rightarrow> string go_map res"
  GetS3Connection :: "string \<Rightarrow> string \<Rightarrow> s3ConnectionSpec res"
  GetAuthenticationClass :: "string \<Rightarrow> authenticationClass res"
  MakeVectorYaml :: "string \<Rightarrow> string \<Rightarrow> string \<Rightarrow> string \<Rightarrow> string \<Rightarrow> string res"
  GetOwnerName :: string
  GetOwnerNamespace :: string

text \<open>
  \<open>GetSecret\<close> and \<open>GetS3Connection\<close> take a namespace and a name; \<open>GetAuthenticationClass\<close> takes a
  name in the owner's namespace; \<open>MakeVectorYaml\<close> takes namespace, instance, role, group and the
  name of the aggregator's config map.
\<close>

section \<open>Values of type \<open>interface{}\<close>\<close>

datatype iface =
    VInt goint
  | VInt8 goint8
  | VInt16 goint16
  | VInt32 goint32
  | VInt64 goint64
  | VString string
  | VEnvVarSource envVarSource
  | VStringMap "string go_map"
  | VNil
  | VOther string

text \<open>\<open>VOther\<close> is a value of any other dynamic type, kept with the name of its type.\<close>

section \<open>An instance for examples\<close>

text \<open>
  One concrete value of the parameter \<open>opgo\<close>. Only witnesses use it: they show that the
  hypotheses of a theorem can hold.
\<close>

definition zeroAffinity :: affinity where
  "zeroAffinity = \<lparr>aff_PodAntiAffinityPreferred = None, aff_Other = []\<rparr>"

definition example_opgo :: opgo where
  "example_opgo = \<lparr>
     KubedoopRoot = ''/kubedoop'', KubedoopLogDir = ''/kubedoop/log'',
     KubedoopSecretDir = ''/kubedoop/secret'', KubedoopTlsDir = ''/kubedoop/tls'',
     LabelKubernetesInstance = ''app.kubernetes.io/instance'',
     LabelKubernetesComponent = ''app.kubernetes.io/component'',
     AnnotationSecretsClass = ''secrets.kubedoop.dev/class'',
     AnnotationSecretsScope = ''secrets.kubedoop.dev/scope'',
     CommonDelimiter = '','', SecretStorageClass = ''secrets.kubedoop.dev'',
     ClusterInternal = ''cluster-internal'', ExternalUnstable = ''external-unstable'',
     ExternalStable = ''external-stable'',
     CommonBashTrapFunctions = ''trap'', RemoveVectorShutdownFileCommand = ''rm'',
     InvokePrepareSignalHandlers = ''prepare'', InvokeWaitForTermination = ''wait'',
     CreateVectorShutdownFileCommand = ''touch'', VectorConfigFileName = ''vector.yaml'',
     DefaultLoggerLevel = ''INFO'', RootLoggerName = ''ROOT'',
     DefaultRotatingFileHandlerMaxBytes = 10485760,
     GetFullName = (\<lambda>i. ci_ClusterName (ri_ClusterInfo (rgi_RoleInfo i)) @ ''-'' @
                        ri_RoleName (rgi_RoleInfo i) @ ''-'' @ rgi_RoleGroupName i),
     GetLabels = (\<lambda>i. [(''app.kubernetes.io/component'', ri_RoleName (rgi_RoleInfo i))]),
     GetAnnotations = (\<lambda>_. []),
     GetClusterName = ci_ClusterName, GetRoleName = ri_RoleName,
     GetGroupName = rgi_RoleGroupName,
     ClusterGetLabels = (\<lambda>c. [(''app.kubernetes.io/instance'', ci_ClusterName c)]),
     ClusterGetAnnotations = (\<lambda>_. []),
     CalculateLogVolumeSizeLimit = (\<lambda>qs. case qs of [] \<Rightarrow> Quantity ''0'' | q # _ \<Rightarrow> q),
     LoggingContent = (\<lambda>t f p. (t, None)),
     MarshalAffinity = (\<lambda>a. (''{}'', None)),
     UnmarshalAffinity = (\<lambda>s. (zeroAffinity, None)),
     NewImage = (\<lambda>n k p opts. \<lparr>im_ProductName = n, im_KubedoopVersion = k, im_ProductVersion = p,
                              im_Options = opts\<rparr>)\<rparr>"

end
