(* ===== verification/Api_Types.thy ===== *)
theory Api_Types
  imports Platform
begin

text \<open>
  The custom resource of \<open>api/v1alpha1\<close>: the constants and struct types of
  \<open>dolphinschedulercluster_types.go\<close>, \<open>authentication.go\<close> and \<open>image.go\<close>.
\<close>

section \<open>Constants\<close>

definition DolphinCommonPropertiesName :: string where [const_simps]:
  "DolphinCommonPropertiesName = ''common.properties''"
definition DolphinConfigPath :: string where [const_simps]:
  "DolphinConfigPath = ''/opt/dolphinscheduler/conf''"
definition LogbackPropertiesFileName :: string where [const_simps]:
  "LogbackPropertiesFileName = ''logback-spring.xml''"
definition ApplicationServerConfigFileName :: string where [const_simps]:
  "ApplicationServerConfigFileName = ''application.yaml''"
definition DbInitImage :: string where [const_simps]:
  "DbInitImage = ''apache/dolphinscheduler-tools:3.2.1''"
definition MaxLogFileSize :: string where [const_simps]:
  "MaxLogFileSize = ''10Mi''"
definition ConsoleConversionPattern :: string where [const_simps]:
  "ConsoleConversionPattern = ''%d{ISO8601} - %-5p [%t:%C{1}@%L] - %m%n''"

definition ConfigVolumeName :: string where [const_simps]:
  "ConfigVolumeName = ''common-config''"
definition LogbackVolumeName :: string where [const_simps]:
  "LogbackVolumeName = ''logback''"
definition WorkerDataVolumeName :: string where [const_simps]:
  "WorkerDataVolumeName = ''worker-data''"
definition LoggingVolumeName :: string where [const_simps]:
  "LoggingVolumeName = ''log''"
definition LdapBindCredintialsVolumeName :: string where [const_simps]:
  "LdapBindCredintialsVolumeName = ''ldap-bind-credentials''"

text \<open>The port numbers are untyped constants of Go: they take the width of their use.\<close>

definition MasterPortName :: string where [const_simps]: "MasterPortName = ''port''"
definition MasterActualPortName :: string where [const_simps]:
  "MasterActualPortName = ''actual-port''"
definition MasterPort :: int where [const_simps]: "MasterPort = 5678"
definition MasterActualPort :: int where [const_simps]: "MasterActualPort = 5679"
definition WorkerPortName :: string where [const_simps]: "WorkerPortName = ''port''"
definition WorkerActualPortName :: string where [const_simps]:
  "WorkerActualPortName = ''actual-port''"
definition WorkerPort :: int where [const_simps]: "WorkerPort = 1234"
definition WorkerActualPort :: int where [const_simps]: "WorkerActualPort = 1235"
definition ApiPortName :: string where [const_simps]: "ApiPortName = ''port''"
definition ApiPythonPortName :: string where [const_simps]: "ApiPythonPortName = ''python-port''"
definition ApiPort :: int where [const_simps]: "ApiPort = 12345"
definition ApiPythonPort :: int where [const_simps]: "ApiPythonPort = 25333"
definition AlerterPortName :: string where [const_simps]: "AlerterPortName = ''port''"
definition AlerterActualPortName :: string where [const_simps]:
  "AlerterActualPortName = ''actual-port''"
definition AlerterPort :: int where [const_simps]: "AlerterPort = 50052"
definition AlerterActualPort :: int where [const_simps]: "AlerterActualPort = 50053"
definition MetricsPortName :: string where [const_simps]: "MetricsPortName = ''metrics''"

definition DefaultRepository :: string where [const_simps]:
  "DefaultRepository = ''quay.io/zncdatadev''"
definition DefaultProductVersion :: string where [const_simps]:
  "DefaultProductVersion = ''3.2.2''"
definition DefaultProductName :: string where [const_simps]:
  "DefaultProductName = ''dolphinscheduler''"

definition ZookeeperDiscoveryKey :: string where [const_simps]:
  "ZookeeperDiscoveryKey = ''ZOOKEEPER''"

section \<open>Authentication and image\<close>

record oidcCredentialSecretSpec =
  ocs_Secret :: string
  ocs_ExtraScopes :: "string list"

record authenticationSpec =
  as_AuthenticationClass :: string
  as_Oidc :: "oidcCredentialSecretSpec option"

record imageSpec =
  img_Custom :: string
  img_Repo :: string
  img_KubedoopVersion :: string
  img_ProductVersion :: string
  img_PullPolicy :: "string option"
  img_PullSecretName :: string

section \<open>Roles\<close>

record configSpec =
  cfg_RoleGroupConfigSpec :: "roleGroupConfigSpec option"

record roleGroupSpec =
  rg_Replicas :: "goint32 option"
  rg_Config :: "configSpec option"
  rg_OverridesSpec :: "overridesSpec option"

record roleSpec =
  role_Config :: "configSpec option"
  role_RoleGroups :: "roleGroupSpec go_map"
  role_RoleConfig :: "roleConfigSpec option"
  role_OverridesSpec :: "overridesSpec option"

section \<open>The cluster\<close>

record databaseSpec =
  db_ConnectionString :: string
  db_DatabaseType :: string
  db_CredentialsSecret :: string

record clusterConfigSpec =
  cc_ClusterDomain :: string
  cc_IngressHost :: string
  cc_VectorAggregatorConfigMapName :: string
  cc_ZookeeperConfigMapName :: string
  cc_S3 :: "s3BucketSpec option"
  cc_Database :: "databaseSpec option"
  cc_Authentication :: "authenticationSpec list option"

record dolphinschedulerClusterSpec =
  spec_Image :: "imageSpec option"
  spec_ClusterConfig :: "clusterConfigSpec option"
  spec_ClusterOperationSpec :: "clusterOperationSpec option"
  spec_Master :: "roleSpec option"
  spec_Worker :: "roleSpec option"
  spec_Alerter :: "roleSpec option"
  spec_Api :: "roleSpec option"

record dolphinschedulerCluster =
  dc_Name :: string
  dc_Namespace :: string
  dc_Spec :: dolphinschedulerClusterSpec

text \<open>
  \<open>cc_Authentication\<close> is optional because \<open>api/role.go\<close> compares the slice with \<open>nil\<close>. Of the
  object's metadata the operator reads the name and the namespace; the status is never read.
\<close>

section \<open>Registration\<close>

text \<open>
  \<open>groupversion_info.go\<close> and \<open>init\<close>: the group and version, and the builder of controller-runtime as
  the list of the types that are registered with it.
\<close>

definition GroupVersion :: "string \<times> string" where
  "GroupVersion = (''dolphinscheduler.kubedoop.dev'', ''v1alpha1'')"

record schemeBuilder =
  sb_GroupVersion :: "string \<times> string"
  sb_Registered :: "string list"

definition SchemeBuilder :: schemeBuilder where
  "SchemeBuilder = \<lparr>sb_GroupVersion = GroupVersion, sb_Registered = []\<rparr>"

definition types_init :: "schemeBuilder \<Rightarrow> schemeBuilder" where
  "types_init b = b\<lparr>sb_Registered := sb_Registered b @
     [''DolphinschedulerCluster'', ''DolphinschedulerClusterList'']\<rparr>"

text \<open>
  \<open>AddToScheme\<close> is the method of that name of the builder, bound to \<open>SchemeBuilder\<close>; \<open>init\<close> has run when
  it is called. The method itself is controller-runtime's and a parameter.
\<close>

definition AddToScheme :: "(schemeBuilder \<Rightarrow> 's \<Rightarrow> go_error option \<times> 's) \<Rightarrow> 's \<Rightarrow> go_error option \<times> 's" where
  "AddToScheme builder_AddToScheme = builder_AddToScheme (types_init SchemeBuilder)"

text \<open>Exactly the two kinds of the package reach the scheme, under its group and version.\<close>

lemma AddToScheme_kinds:
  "AddToScheme (\<lambda>b s. (None, s @ map (Pair (sb_GroupVersion b)) (sb_Registered b))) s =
   (None, s @ [((''dolphinscheduler.kubedoop.dev'', ''v1alpha1''), ''DolphinschedulerCluster''),
      ((''dolphinscheduler.kubedoop.dev'', ''v1alpha1''), ''DolphinschedulerClusterList'')])"
  by (simp add: AddToScheme_def types_init_def SchemeBuilder_def GroupVersion_def)

end
