(* ===== verification/Pkg_Util.thy ===== *)
theory Pkg_Util
  imports Api_Types
begin

text \<open>
  \<open>pkg/util\<close> without the extractors: \<open>sortedmap.go\<close>, \<open>property.go\<close>, \<open>listener.go\<close> and
  \<open>result.go\<close>. The lemmas show that iteration over a sorted map and the text of a properties file
  depend on the contents of the map alone, never on the order in which Go happens to range over
  it, and that a properties file can be read back.
\<close>

section \<open>sortedmap.go\<close>

type_synonym sortedMap = "iface go_map"

definition NewSortedMap :: "iface go_map \<Rightarrow> sortedMap" where
  "NewSortedMap mapVal = mapVal"

definition SortedKeys :: "sortedMap \<Rightarrow> string list" where
  "SortedKeys s = sorted_keys s"

text \<open>\<open>s[key]\<close>: a missing key gives the nil interface.\<close>

definition iface_at :: "sortedMap \<Rightarrow> string \<Rightarrow> iface" where
  "iface_at s k = (case gm_get s k of None \<Rightarrow> VNil | Some v \<Rightarrow> v)"

text \<open>
  The callback may update captured variables, the state \<open>'s\<close>, and returns whether to go on.
\<close>

fun Range_keys ::
  "(string \<Rightarrow> iface \<Rightarrow> 's \<Rightarrow> ('s \<times> bool) go) \<Rightarrow> sortedMap \<Rightarrow> string list \<Rightarrow> 's \<Rightarrow> 's go" where
  "Range_keys fn s [] st = Done st"
| "Range_keys fn s (key # keys) st =
     go_bind (fn key (iface_at s key) st)
       (\<lambda>(st', continue). if continue then Range_keys fn s keys st' else Done st')"

definition SortedMap_Range ::
  "(string \<Rightarrow> iface \<Rightarrow> 's \<Rightarrow> ('s \<times> bool) go) \<Rightarrow> sortedMap \<Rightarrow> 's \<Rightarrow> 's go" where
  "SortedMap_Range fn s st = Range_keys fn s (SortedKeys s) st"

section \<open>property.go\<close>

definition newline :: string where
  "newline = [CHR 0x0A]"

fun ToProperties_keys :: "string go_map \<Rightarrow> string list \<Rightarrow> string \<Rightarrow> string" where
  "ToProperties_keys properties [] sb = sb"
| "ToProperties_keys properties (key # keys) sb =
     ToProperties_keys properties keys (sb @ key @ ''='' @ gm_str properties key @ newline)"

definition ToProperties :: "string go_map \<Rightarrow> string" where
  "ToProperties properties = ToProperties_keys properties (sorted_keys properties) []"

section \<open>listener.go\<close>

fun ServiceTypeToListenerClass :: "opgo \<Rightarrow> serviceType \<Rightarrow> string res" where
  "ServiceTypeToListenerClass G ServiceTypeClusterIP = (ClusterInternal G, None)"
| "ServiceTypeToListenerClass G ServiceTypeNodePort = (ExternalUnstable G, None)"
| "ServiceTypeToListenerClass G ServiceTypeLoadBalancer = (ExternalStable G, None)"
| "ServiceTypeToListenerClass G (ServiceTypeOther t) =
     ([], Some (ErrNew (''unsupported service type to get listener class: '' @ t)))"

section \<open>result.go\<close>

record ctrlResult =
  cr_Requeue :: bool
  cr_RequeueAfter :: goint64

text \<open>\<open>IsZero\<close> is a method of controller-runtime and a parameter here.\<close>

definition RequeueOrError :: "(ctrlResult \<Rightarrow> bool) \<Rightarrow> ctrlResult \<Rightarrow> go_error option \<Rightarrow> bool" where
  "RequeueOrError isZero res err \<longleftrightarrow> \<not> isZero res \<or> err \<noteq> None"

section \<open>Iteration order\<close>

lemma iface_at_cong: "gm_get s = gm_get s' \<Longrightarrow> iface_at s = iface_at s'"
  by (simp add: iface_at_def fun_eq_iff)

lemma Range_keys_cong:
  "(\<And>k. iface_at s k = iface_at s' k) \<Longrightarrow> Range_keys fn s ks st = Range_keys fn s' ks st"
  by (induction fn s ks st rule: Range_keys.induct) (auto intro!: arg_cong2 [where f = go_bind])

text \<open>A callback that always goes on visits every entry in key order, and nothing else.\<close>

lemma Range_keys_fold:
  assumes "\<And>k v st. fn k v st = go_bind (g k v st) (\<lambda>st'. Done (st', True))"
  shows "Range_keys fn s ks st = go_fold (\<lambda>k. g k (iface_at s k)) ks st"
  by (induction ks arbitrary: st) (auto simp: assms go_bind_assoc)

lemma SortedMap_Range_fold:
  assumes "\<And>k v st. fn k v st = go_bind (g k v st) (\<lambda>st'. Done (st', True))"
  shows "SortedMap_Range fn s st = go_fold (\<lambda>k. g k (iface_at s k)) (SortedKeys s) st"
  by (simp add: SortedMap_Range_def Range_keys_fold [OF assms])

lemma ToProperties_keys_append:
  "ToProperties_keys m ks sb =
   sb @ concat (map (\<lambda>k. k @ ''='' @ gm_str m k @ newline) ks)"
  by (induction m ks sb rule: ToProperties_keys.induct) simp_all

text \<open>
  C21. Ranging over a sorted map is deterministic: two maps with the same entries, in whatever
  order Go stores them, drive the callback through the same calls to the same final state (or to
  the same panic), although \<open>for range\<close> over a Go map has no fixed order.
\<close>

theorem SortedMap_Range_deterministic:
  assumes "gm_ok s" and "gm_ok s'" and "gm_get s = gm_get s'"
  shows "SortedMap_Range fn s st = SortedMap_Range fn s' st"
proof -
  have "Range_keys fn s ks st = Range_keys fn s' ks st" for ks
    using assms(3) by (intro Range_keys_cong) (simp add: iface_at_def)
  then show ?thesis
    using sorted_keys_cong [OF assms] by (simp add: SortedMap_Range_def SortedKeys_def)
qed

theorem SortedMap_Range_deterministic_witness:
  "SortedMap_Range (\<lambda>k v st. Done (st @ k, v \<noteq> VNil)) [(''b'', VInt 2), (''a'', VInt 1)] [] =
   SortedMap_Range (\<lambda>k v st. Done (st @ k, v \<noteq> VNil)) [(''a'', VInt 1), (''b'', VInt 2)] []"
  by (rule SortedMap_Range_deterministic)
    (simp_all add: gm_ok_def gm_get_def fun_eq_iff)

section \<open>Reading a properties file back\<close>

definition parse_line :: "string \<Rightarrow> string \<times> string" where
  "parse_line l = (case strings_Cut ''='' l of None \<Rightarrow> (l, []) | Some kv \<Rightarrow> kv)"

definition parse_properties :: "string \<Rightarrow> string go_map" where
  "parse_properties s = map parse_line (filter (\<lambda>l. l \<noteq> []) (strings_Split s newline))"

text \<open>Keys without \<open>=\<close> and newline, values without newline: what the format can carry.\<close>

definition property_text :: "string go_map \<Rightarrow> bool" where
  "property_text m \<longleftrightarrow>
     (\<forall>(k, v) \<in> set m. CHR ''='' \<notin> set k \<and> CHR 0x0A \<notin> set k \<and> CHR 0x0A \<notin> set v)"

lemma parse_properties_lines:
  assumes "\<forall>k \<in> set ks. CHR ''='' \<notin> set k \<and> CHR 0x0A \<notin> set k \<and> CHR 0x0A \<notin> set (f k)"
  shows "parse_properties (concat (map (\<lambda>k. k @ ''='' @ f k @ newline) ks)) = map (\<lambda>k. (k, f k)) ks"
  using assms
proof (induction ks)
  case Nil
  then show ?case by (simp add: parse_properties_def newline_def split_simps)
next
  case (Cons k ks)
  let ?rest = "concat (map (\<lambda>k. k @ ''='' @ f k @ newline) ks)"
  have "strings_Split ((k @ ''='' @ f k) @ CHR 0x0A # ?rest) [CHR 0x0A]
      = (k @ ''='' @ f k) # strings_Split ?rest [CHR 0x0A]"
    using Cons.prems by (intro strings_Split_step) auto
  moreover have "parse_line (k @ ''='' @ f k) = (k, f k)"
    using Cons.prems by (simp add: parse_line_def split_simps)
  ultimately show ?case
    using Cons by (simp add: parse_properties_def newline_def)
qed

lemma gm_str_in: "gm_ok m \<Longrightarrow> (k, v) \<in> set m \<Longrightarrow> gm_str m k = v"
  by (simp add: gm_str_def flip: gm_get_Some_iff)

text \<open>
  C22. Round trip of the properties file that the operator writes into a config map: reading the
  text of \<open>ToProperties\<close> line by line gives back exactly the map, whenever the keys hold no
  \<open>=\<close> and nothing holds a newline.
\<close>

theorem ToProperties_roundtrip:
  assumes "gm_ok m" and "property_text m"
  shows "gm_get (parse_properties (ToProperties m)) = gm_get m"
proof -
  let ?ks = "sorted_keys m"
  have ks: "\<forall>k \<in> set ?ks. CHR ''='' \<notin> set k \<and> CHR 0x0A \<notin> set k \<and> CHR 0x0A \<notin> set (gm_str m k)"
    using assms by (fastforce simp: property_text_def gm_str_in)
  have parsed: "parse_properties (ToProperties m) = map (\<lambda>k. (k, gm_str m k)) ?ks"
    using parse_properties_lines [OF ks] by (simp add: ToProperties_def ToProperties_keys_append)
  show ?thesis
  proof
    fix k
    show "gm_get (parse_properties (ToProperties m)) k = gm_get m k"
    proof (cases "gm_get m k")
      case None
      then have "gm_get (map (\<lambda>k. (k, gm_str m k)) ?ks) k = None"
        by (simp add: gm_get_None_iff image_image)
      with None show ?thesis by (simp add: parsed)
    next
      case (Some v)
      then have "(k, v) \<in> set m" using assms(1) by (simp add: gm_get_Some_iff)
      then have "(k, v) \<in> set (map (\<lambda>k. (k, gm_str m k)) ?ks)"
        using assms(1) by (force simp: gm_str_in)
      moreover have "gm_ok (map (\<lambda>k. (k, gm_str m k)) ?ks)"
        using assms(1) by (simp add: gm_ok_def comp_def)
      ultimately show ?thesis using Some by (simp add: parsed gm_get_Some_iff)
    qed
  qed
qed

theorem ToProperties_roundtrip_witness:
  "gm_get (parse_properties (ToProperties [(''b'', ''x=1''), (''a.c'', [])])) =
   gm_get [(''b'', ''x=1''), (''a.c'', [])]"
  by (rule ToProperties_roundtrip) (simp_all add: gm_ok_def property_text_def)

text \<open>
  The properties file is a function of the map's contents: iteration order cannot change the
  text, so an unchanged configuration never rewrites the config map.
\<close>

theorem ToProperties_deterministic:
  assumes "gm_ok m" and "gm_ok m'" and "gm_get m = gm_get m'"
  shows "ToProperties m = ToProperties m'"
  using sorted_keys_cong [OF assms] assms(3)
  by (simp add: ToProperties_def ToProperties_keys_append gm_str_def)

theorem ToProperties_deterministic_witness:
  "ToProperties [(''b'', ''2''), (''a'', ''1'')] = ToProperties [(''a'', ''1''), (''b'', ''2'')]"
  by (rule ToProperties_deterministic) (simp_all add: gm_ok_def gm_get_def fun_eq_iff)

end
