(* ===== verification/Common_Util.thy ===== *)
theory Common_Util
  imports Pkg_Util
begin

text \<open>
  \<open>internal/common/util.go\<close>: the roles, the names of the resources, DNS names, paths inside the
  image, port conversion and the numbered contents of \<open>CreateKvContentByReplicas\<close>, with a model of
  \<open>Sprintf\<close> for the verbs that fit one integer.
\<close>

section \<open>Roles and names\<close>

type_synonym role = string

definition Master :: role where [const_simps]: "Master = ''master''"
definition Worker :: role where [const_simps]: "Worker = ''worker''"
definition Alerter :: role where [const_simps]: "Alerter = ''alert''"
definition Api :: role where [const_simps]: "Api = ''api''"

definition ClusterServiceName :: "string \<Rightarrow> string" where
  "ClusterServiceName instanceName = instanceName"
definition StatefulsetName :: "opgo \<Rightarrow> roleGroupInfo \<Rightarrow> string" where
  "StatefulsetName G roleGroupInfo = GetFullName G roleGroupInfo"
definition DeploymentName :: "opgo \<Rightarrow> roleGroupInfo \<Rightarrow> string" where
  "DeploymentName G roleGroupInfo = GetFullName G roleGroupInfo"
definition RoleGroupConfigMapName :: "opgo \<Rightarrow> roleGroupInfo \<Rightarrow> string" where
  "RoleGroupConfigMapName G roleGroupInfo = GetFullName G roleGroupInfo"
definition RoleGroupEnvsConfigMapName :: "string \<Rightarrow> string" where
  "RoleGroupEnvsConfigMapName instanceName = instanceName @ ''-envs''"
definition RoleGroupServiceName :: "opgo \<Rightarrow> roleGroupInfo \<Rightarrow> string" where
  "RoleGroupServiceName G roleGroupInfo = GetFullName G roleGroupInfo"
definition ServiceAccountName :: "string \<Rightarrow> string" where
  "ServiceAccountName instanceName = instanceName"
definition RoleName :: "string \<Rightarrow> string" where
  "RoleName instanceName = instanceName"
definition RoleBindName :: "string \<Rightarrow> string" where
  "RoleBindName instanceName = instanceName"
definition CreateServiceMetricsName :: "opgo \<Rightarrow> roleGroupInfo \<Rightarrow> string" where
  "CreateServiceMetricsName G roleGroupInfo = GetFullName G roleGroupInfo @ ''-metrics''"

section \<open>DNS names\<close>

definition PodFQDN :: "string \<Rightarrow> string \<Rightarrow> string \<Rightarrow> string" where
  "PodFQDN podName svcName namespace =
     podName @ ''.'' @ svcName @ ''.'' @ namespace @ ''.svc.cluster.local''"

definition CreateDomainHost :: "string \<Rightarrow> string \<Rightarrow> string \<Rightarrow> string" where
  "CreateDomainHost svcName namespace clusterDomain =
     svcName @ ''.'' @ namespace @ ''.svc.'' @ clusterDomain"

definition CreateDnsDomain :: "string \<Rightarrow> string \<Rightarrow> string \<Rightarrow> goint32 \<Rightarrow> string" where
  "CreateDnsDomain svcName namespace clusterDomain port =
     CreateDomainHost svcName namespace clusterDomain @ '':'' @ strconv_Itoa (sint port)"

definition CreateNetworkUrl ::
  "string \<Rightarrow> string \<Rightarrow> string \<Rightarrow> string \<Rightarrow> goint32 \<Rightarrow> string" where
  "CreateNetworkUrl podName svcName namespace clusterDomain port =
     podName @ ''.'' @ CreateDnsDomain svcName namespace clusterDomain port"

section \<open>Pod names\<close>

text \<open>
  The loop \<open>for i := int32(0); i < replicas; i++\<close>: the counter stays below \<open>replicas\<close>, an
  \<open>int32\<close>, so it cannot wrap; \<open>make\<close> panics on a negative length.
\<close>

function CreatePodNames_from :: "int \<Rightarrow> int \<Rightarrow> string \<Rightarrow> string list \<Rightarrow> string list" where
  "CreatePodNames_from i replicas name podNames =
     (if i < replicas then
        CreatePodNames_from (i + 1) replicas name
          (podNames[nat i := name @ ''-'' @ strconv_Itoa i])
      else podNames)"
  by pat_completeness auto
termination
  by (relation "measure (\<lambda>(i, replicas, name, podNames). nat (replicas - i))") auto

declare CreatePodNames_from.simps [simp del]

definition CreatePodNamesByReplicas :: "goint32 \<Rightarrow> string \<Rightarrow> string list go" where
  "CreatePodNamesByReplicas replicas statefulResourceName =
     (if sint replicas < 0 then Panic NegativeLength
      else Done (CreatePodNames_from 0 (sint replicas) statefulResourceName
                   (replicate (nat (sint replicas)) [])))"

text \<open>
  \<open>fmt.Sprintf\<close> of one \<open>int32\<close>: \<open>sprintf_int template (Some i)\<close>. The verbs \<open>%d\<close>, \<open>%v\<close> and \<open>%%\<close> are
  modelled, with what Go writes for missing, surplus and incomplete verbs; the result is \<open>None\<close> for a
  template with any other verb or a flag.
\<close>

fun sprintf_int :: "string \<Rightarrow> int option \<Rightarrow> string option" where
  "sprintf_int [] arg = Some (case arg of None \<Rightarrow> [] | Some i \<Rightarrow> ''%!(EXTRA int32='' @ strconv_Itoa i @ '')'')"
| "sprintf_int (c # s) arg =
     (if c \<noteq> CHR ''%'' then map_option (Cons c) (sprintf_int s arg)
      else case s of
        [] \<Rightarrow> map_option ((@) ''%!(NOVERB)'') (sprintf_int [] arg)
      | v # t \<Rightarrow>
          if v = CHR ''%'' then map_option (Cons v) (sprintf_int t arg)
          else if v = CHR ''d'' \<or> v = CHR ''v'' then
            (case arg of
               Some i \<Rightarrow> map_option ((@) (strconv_Itoa i)) (sprintf_int t None)
             | None \<Rightarrow> map_option ((@) (''%!'' @ [v] @ ''(MISSING)'')) (sprintf_int t None))
          else None)"

definition strings_Contains :: "string \<Rightarrow> string \<Rightarrow> bool" where
  "strings_Contains s sub \<longleftrightarrow> strings_Cut sub s \<noteq> None"

function CreateKv_from ::
  "int \<Rightarrow> int \<Rightarrow> string \<Rightarrow> string \<Rightarrow> (string \<times> string) list \<Rightarrow> (string \<times> string) list option" where
  "CreateKv_from i replicas keyTemplate valueTemplate res =
     (if i < replicas then
        (case sprintf_int keyTemplate (Some i) of
           None \<Rightarrow> None
         | Some key \<Rightarrow>
             (case (if strings_Contains valueTemplate ''%d'' then sprintf_int valueTemplate (Some i)
                    else Some valueTemplate) of
                None \<Rightarrow> None
              | Some value \<Rightarrow>
                  CreateKv_from (i + 1) replicas keyTemplate valueTemplate (res @ [(key, value)])))
      else Some res)"
  by pat_completeness auto
termination
  by (relation "measure (\<lambda>(i, replicas, _). nat (replicas - i))") auto

declare CreateKv_from.simps [simp del]

definition CreateKvContentByReplicas :: "goint32 \<Rightarrow> string \<Rightarrow> string \<Rightarrow> (string \<times> string) list option" where
  "CreateKvContentByReplicas replicas keyTemplate valueTemplate =
     CreateKv_from 0 (sint replicas) keyTemplate valueTemplate []"

section \<open>Paths and commands\<close>

definition RoleBinBaseDir :: "opgo \<Rightarrow> role \<Rightarrow> string" where
  "RoleBinBaseDir G role = path_Join [KubedoopRoot G, ''dolphinscheduler'']"

definition RoleServer :: "role \<Rightarrow> string" where
  "RoleServer role = role @ ''-server''"

definition RoleConfigPath :: "opgo \<Rightarrow> role \<Rightarrow> string \<Rightarrow> string" where
  "RoleConfigPath G role configFileName =
     path_Join [RoleBinBaseDir G role, RoleServer role, ''conf'', configFileName]"

definition RoleExecArgs :: "string \<Rightarrow> string" where
  "RoleExecArgs role = RoleServer role @ ''/bin/start.sh &''"

definition FixExecPermission :: "string \<Rightarrow> string" where
  "FixExecPermission role = ''chmod +x '' @ RoleServer role @ ''/bin/start.sh''"

section \<open>Ports\<close>

fun type_name :: "iface \<Rightarrow> string" where
  "type_name (VInt _) = ''int''"
| "type_name (VInt8 _) = ''int8''"
| "type_name (VInt16 _) = ''int16''"
| "type_name (VInt32 _) = ''int32''"
| "type_name (VInt64 _) = ''int64''"
| "type_name (VString _) = ''string''"
| "type_name (VEnvVarSource _) = ''v1.EnvVarSource''"
| "type_name (VStringMap _) = ''map[string]string''"
| "type_name VNil = ''<nil>''"
| "type_name (VOther t) = t"

text \<open>
  Only the \<open>int64\<close> branch checks the range: an \<open>int\<close>, which has 64 bits too, is truncated.
\<close>

fun ToContainerPortInt32 :: "iface \<Rightarrow> goint32 res" where
  "ToContainerPortInt32 (VInt v) = (scast v, None)"
| "ToContainerPortInt32 (VInt8 v) = (scast v, None)"
| "ToContainerPortInt32 (VInt16 v) = (scast v, None)"
| "ToContainerPortInt32 (VInt32 v) = (v, None)"
| "ToContainerPortInt32 (VInt64 v) =
     (if sint v > 2147483647 \<or> sint v < -2147483648 then
        (0, Some (ErrNew (''int64 value '' @ strconv_Itoa (sint v) @ '' is out of int32 range'')))
      else (scast v, None))"
| "ToContainerPortInt32 n =
     (0, Some (ErrNew (''unexpected type '' @ type_name n @ '' to convert to int32'')))"

definition GetMetricsPort :: "role \<Rightarrow> goint32 res" where
  "GetMetricsPort role =
     (if role = Master then (word_of_int MasterActualPort, None)
      else if role = Alerter then (word_of_int AlerterActualPort, None)
      else if role = Worker then (word_of_int WorkerActualPort, None)
      else if role = Api then (word_of_int ApiPort, None)
      else (0, Some (ErrNew (''unknown role for metrics port: '' @ role))))"

section \<open>Pod names are the ordinals\<close>

lemma CreatePodNames_from_eq:
  assumes "0 \<le> i" and "nat i \<le> length xs" and "length xs = nat r"
  shows "CreatePodNames_from i r name xs =
    take (nat i) xs @ map (\<lambda>j. name @ ''-'' @ strconv_Itoa (int j)) [nat i..<nat r]"
  using assms
proof (induction i r name xs rule: CreatePodNames_from.induct)
  case (1 i r name xs)
  show ?case
  proof (cases "i < r")
    case True
    have step: "nat (i + 1) = Suc (nat i)" using "1.prems" by simp
    have "CreatePodNames_from i r name xs =
        take (nat (i + 1)) (xs[nat i := name @ ''-'' @ strconv_Itoa i]) @
        map (\<lambda>j. name @ ''-'' @ strconv_Itoa (int j)) [nat (i + 1)..<nat r]"
      using True "1" by (simp add: CreatePodNames_from.simps [of i])
    then show ?thesis
      using True "1.prems" by (simp add: step take_Suc_conv_app_nth upt_conv_Cons)
  next
    case False
    with "1.prems" show ?thesis by (simp add: CreatePodNames_from.simps [of i])
  qed
qed

text \<open>
  C39. The pod names of a stateful set with \<open>n\<close> replicas are \<open>name-0\<close> to \<open>name-(n-1)\<close>, in order
  and without duplicates; only a negative replica count panics.
\<close>

theorem CreatePodNamesByReplicas_ordinals:
  assumes "0 \<le> sint n"
  shows "CreatePodNamesByReplicas n name =
           Done (map (\<lambda>j. name @ ''-'' @ strconv_Itoa (int j)) [0..<nat (sint n)]) \<and>
         distinct (map (\<lambda>j. name @ ''-'' @ strconv_Itoa (int j)) [0..<nat (sint n)])"
proof -
  have "inj_on (\<lambda>j. name @ ''-'' @ strconv_Itoa (int j)) A" for A
    by (auto simp: inj_on_def strconv_Itoa_inj)
  then show ?thesis
    using assms by (simp add: CreatePodNamesByReplicas_def CreatePodNames_from_eq distinct_map)
qed

theorem CreatePodNamesByReplicas_ordinals_witness:
  "CreatePodNamesByReplicas 3 ''ds'' =
     Done (map (\<lambda>j. ''ds'' @ ''-'' @ strconv_Itoa (int j)) [0..<nat (sint (3 :: goint32))]) \<and>
   distinct (map (\<lambda>j. ''ds'' @ ''-'' @ strconv_Itoa (int j)) [0..<nat (sint (3 :: goint32))])"
  by (rule CreatePodNamesByReplicas_ordinals) simp

section \<open>Numbered entries\<close>

lemma sprintf_int_plain: "CHR ''%'' \<notin> set s \<Longrightarrow> sprintf_int s None = Some s"
  by (induction s) auto

lemma sprintf_int_d:
  assumes "CHR ''%'' \<notin> set p" and "CHR ''%'' \<notin> set q"
  shows "sprintf_int (p @ ''%d'' @ q) (Some i) = Some (p @ strconv_Itoa i @ q)"
  using assms by (induction p) (auto simp: sprintf_int_plain)

lemma CreateKv_from_eq:
  assumes key: "\<And>j. sprintf_int kt (Some j) = Some (key j)"
    and val: "\<And>j. (if strings_Contains vt ''%d'' then sprintf_int vt (Some j) else Some vt) = Some (val j)"
    and "0 \<le> i"
  shows "CreateKv_from i r kt vt res = Some (res @ map (\<lambda>j. (key (int j), val (int j))) [nat i..<nat r])"
  using assms(3)
proof (induction "nat (r - i)" arbitrary: i res)
  case 0
  then show ?case by (simp add: CreateKv_from.simps [of i])
next
  case (Suc n)
  then have "i < r" by simp
  then have "CreateKv_from i r kt vt res = CreateKv_from (i + 1) r kt vt (res @ [(key i, val i)])"
    by (subst CreateKv_from.simps) (simp only: key val if_True option.case)
  also have "\<dots> = Some (res @ (key i, val i) # map (\<lambda>j. (key (int j), val (int j))) [nat (i + 1)..<nat r])"
    using Suc.hyps(1) [of "i + 1" "res @ [(key i, val i)]"] Suc.hyps(2) Suc.prems by simp
  finally show ?case
    using \<open>i < r\<close> Suc.prems by (simp add: upt_conv_Cons nat_add_distrib)
qed

text \<open>
  With a key template that holds one \<open>%d\<close> the entries are numbered from 0 to \<open>replicas - 1\<close>, with
  distinct keys; a value template without \<open>%d\<close> is copied as it is, and so keeps every \<open>%\<close> it has.
\<close>

lemma CreateKvContentByReplicas_numbered:
  assumes "CHR ''%'' \<notin> set p" and "CHR ''%'' \<notin> set q" and "\<not> strings_Contains vt ''%d''"
  shows "CreateKvContentByReplicas n (p @ ''%d'' @ q) vt =
      Some (map (\<lambda>j. (p @ strconv_Itoa (int j) @ q, vt)) [0..<nat (sint n)]) \<and>
    distinct (map (\<lambda>j. p @ strconv_Itoa (int j) @ q) [0..<nat (sint n)])"
proof
  show "CreateKvContentByReplicas n (p @ ''%d'' @ q) vt =
      Some (map (\<lambda>j. (p @ strconv_Itoa (int j) @ q, vt)) [0..<nat (sint n)])"
    unfolding CreateKvContentByReplicas_def
    by (subst CreateKv_from_eq [where key = "\<lambda>j. p @ strconv_Itoa j @ q" and val = "\<lambda>_. vt"])
      (use assms sprintf_int_d [OF assms(1,2)] in simp_all)
  show "distinct (map (\<lambda>j. p @ strconv_Itoa (int j) @ q) [0..<nat (sint n)])"
    by (simp add: distinct_map inj_on_def strconv_Itoa_inj)
qed

section \<open>Ports keep their value\<close>

definition iface_int :: "iface \<Rightarrow> int option" where
  "iface_int n = (case n of VInt v \<Rightarrow> Some (sint v) | VInt8 v \<Rightarrow> Some (sint v)
     | VInt16 v \<Rightarrow> Some (sint v) | VInt32 v \<Rightarrow> Some (sint v) | VInt64 v \<Rightarrow> Some (sint v)
     | _ \<Rightarrow> None)"

lemma sint_scast_in_range:
  fixes v :: "'a::len word"
  assumes "-2147483648 \<le> sint v" and "sint v \<le> 2147483647"
  shows "sint (scast v :: goint32) = sint v"
proof -
  have "sint (scast v :: goint32) = signed_take_bit 31 (sint v)"
    by (simp add: signed_scast_eq)
  also have "\<dots> = sint v"
    using assms by (intro signed_take_bit_int_eq_self) simp_all
  finally show ?thesis .
qed

lemma sint_small:
  fixes v :: "'a::len word"
  assumes "LENGTH('a) \<le> 32"
  shows "-2147483648 \<le> sint v" and "sint v \<le> 2147483647"
proof -
  have p: "(2 :: int) ^ (LENGTH('a) - 1) \<le> 2 ^ 31"
    using assms by (intro power_increasing) auto
  have b: "- (2 ^ (LENGTH('a) - 1)) \<le> sint v" "sint v < 2 ^ (LENGTH('a) - 1)"
    using sint_range_size [of v] by (simp_all add: word_size)
  show "-2147483648 \<le> sint v" using p b by simp
  show "sint v \<le> 2147483647" using p b by simp
qed

lemma scast_word_of_int: "scast (word_of_int p :: goint) = (word_of_int p :: goint32)"
  by (rule bit_word_eqI) (simp add: bit_signed_iff bit_word_of_int_iff min_def)

lemma port_conversion:
  assumes "iface_int n = Some i" and "-2147483648 \<le> i" and "i \<le> 2147483647"
  shows "\<exists>p. ToContainerPortInt32 n = (p, None) \<and> sint p = i"
  using assms by (cases n) (auto simp: iface_int_def sint_scast_in_range sint_small)

text \<open>
  C40. Port conversion is exact where it succeeds within range: for every integer value that fits
  into 32 bits the result is that value and there is no error; an \<open>int64\<close> outside the range is an
  error, and so is every value that is not an integer.
\<close>

theorem ToContainerPortInt32_exact:
  "(\<forall>i. iface_int n = Some i \<and> -2147483648 \<le> i \<and> i \<le> 2147483647 \<longrightarrow>
      (\<exists>p. ToContainerPortInt32 n = (p, None) \<and> sint p = i)) \<and>
   (\<forall>v. n = VInt64 v \<and> (sint v < -2147483648 \<or> 2147483647 < sint v) \<longrightarrow>
      snd (ToContainerPortInt32 n) \<noteq> None) \<and>
   (iface_int n = None \<longrightarrow> snd (ToContainerPortInt32 n) \<noteq> None)"
  using port_conversion [of n] by (cases n) (auto simp: iface_int_def)

theorem ToContainerPortInt32_exact_witness:
  "\<exists>p. ToContainerPortInt32 (VInt64 8080) = (p, None) \<and> sint p = 8080"
  using ToContainerPortInt32_exact [of "VInt64 8080"] by (simp add: iface_int_def)

text \<open>The unchecked branch: an \<open>int\<close> beyond 32 bits becomes another port without an error.\<close>

lemma ToContainerPortInt32_truncates_int: "ToContainerPortInt32 (VInt 4294967376) = (80, None)"
  by simp

section \<open>Paths inside the image\<close>

lemma RoleServer_plain: "CHR ''/'' \<notin> set role \<Longrightarrow> plain_elem (RoleServer role)"
  by (auto simp: plain_elem_def RoleServer_def append_eq_Cons_conv)

text \<open>
  Where a role's configuration file is mounted: below an absolute, clean installation root
  the path is \<open>root/dolphinscheduler/<role>-server/conf/<file>\<close>, so different roles or files get
  different paths and no element of a role name can leave the directory.
\<close>

theorem RoleConfigPath_layout:
  assumes root: "KubedoopRoot G = abs_path es" "es \<noteq> []" "\<forall>e \<in> set es. plain_elem e"
    and role: "CHR ''/'' \<notin> set role" and leaf: "plain_elem file"
  shows "RoleConfigPath G role file =
    abs_path (es @ [''dolphinscheduler'', role @ ''-server'', ''conf'', file])"
proof -
  have ds: "plain_elem ''dolphinscheduler''" "plain_elem ''conf''" by (simp_all add: plain_elem_def)
  have base: "RoleBinBaseDir G role = abs_path (es @ [''dolphinscheduler''])"
    using root ds by (simp add: RoleBinBaseDir_def path_Join_abs)
  show ?thesis
    using path_Join_abs [of "es @ [''dolphinscheduler'']" "[RoleServer role, ''conf'', file]"]
      root ds RoleServer_plain [OF role] leaf
    by (simp add: RoleConfigPath_def base) (simp add: RoleServer_def)
qed

theorem RoleConfigPath_layout_witness:
  "RoleConfigPath example_opgo Master DolphinCommonPropertiesName =
   ''/kubedoop/dolphinscheduler/master-server/conf/common.properties''"
  using RoleConfigPath_layout [of example_opgo "[''kubedoop'']" Master DolphinCommonPropertiesName]
  by (simp add: example_opgo_def abs_path_def plain_elem_def const_simps)

end
