(* ===== verification/Pkg_Config.thy ===== *)
theory Pkg_Config
  imports Pkg_Util
begin

text \<open>
  \<open>pkg/config/type.go\<close>: the generator interfaces and the two functions that run a list of
  generators into the data of a config map. A value of an interface type is the record of its
  methods. The logging calls leave no trace in the result and are not modelled.
\<close>

record configuration =
  conf_ComputeEnv :: "string go_map res"
  conf_ComputeFile :: "iface go_map res"
  conf_ComputeCli :: "string go_map res"

record fileContentGenerator =
  fg_Generate :: "string res go"
  fg_FileName :: string

record envGenerator =
  eg_Generate :: "string go_map res go"

text \<open>A generator that fails is skipped; one that panics ends the whole call.\<close>

fun GenerateAllFile_from ::
  "fileContentGenerator list \<Rightarrow> string go_map \<Rightarrow> string go_map go" where
  "GenerateAllFile_from [] data = Done data"
| "GenerateAllFile_from (generator # gs) data =
     go_bind (fg_Generate generator) (\<lambda>(content, err).
       if err \<noteq> None then GenerateAllFile_from gs data
       else GenerateAllFile_from gs (gm_put (fg_FileName generator) content data))"

definition GenerateAllFile :: "fileContentGenerator list \<Rightarrow> string go_map go" where
  "GenerateAllFile confGenerator = GenerateAllFile_from confGenerator []"

text \<open>The environment generators have no \<open>continue\<close>: what a failed one returned is copied too.\<close>

fun GenerateAllEnv_from :: "envGenerator list \<Rightarrow> string go_map \<Rightarrow> string go_map go" where
  "GenerateAllEnv_from [] data = Done data"
| "GenerateAllEnv_from (generator # gs) data =
     go_bind (eg_Generate generator) (\<lambda>(content, err).
       GenerateAllEnv_from gs (maps_Copy data content))"

definition GenerateAllEnv :: "envGenerator list \<Rightarrow> string go_map go" where
  "GenerateAllEnv confGenerator = GenerateAllEnv_from confGenerator []"

section \<open>What the generated data holds\<close>

text \<open>The files of the generators that returned without an error, in order.\<close>

fun generated :: "fileContentGenerator list \<Rightarrow> (string \<times> string) list" where
  "generated [] = []"
| "generated (g # gs) =
     (case fg_Generate g of
        Done (content, None) \<Rightarrow> (fg_FileName g, content) # generated gs
      | _ \<Rightarrow> generated gs)"

lemma GenerateAllFile_from_generated:
  "GenerateAllFile_from gs data = Done data' \<Longrightarrow>
   data' = fold (\<lambda>(k, v). gm_put k v) (generated gs) data"
proof (induction gs arbitrary: data)
  case (Cons g gs)
  then obtain c e where "fg_Generate g = Done (c, e)"
    by (auto simp: go_bind_Done_iff)
  with Cons show ?case by (cases e) auto
qed simp

lemma GenerateAllFile_returns:
  "(\<forall>g \<in> set gs. returns (fg_Generate g)) \<Longrightarrow> returns (GenerateAllFile_from gs data)"
proof (induction gs arbitrary: data)
  case (Cons g gs)
  then obtain c e where "fg_Generate g = Done (c, e)"
    by (auto simp: returns_iff)
  with Cons show ?case by simp
qed simp

text \<open>
  Generating the files of a config map never fails as a whole: if no generator panics the
  call returns, and its data is exactly the output of the generators that succeeded, a later file
  of the same name replacing an earlier one. A file whose generator failed is absent.
\<close>

theorem GenerateAllFile_data:
  assumes "\<forall>g \<in> set gs. returns (fg_Generate g)"
  shows "\<exists>data. GenerateAllFile gs = Done data \<and> gm_ok data \<and>
           gm_get data = map_of (rev (generated gs))"
proof -
  obtain data where data: "GenerateAllFile_from gs [] = Done data"
    using GenerateAllFile_returns [OF assms] by (auto simp: returns_iff)
  then have "data = fold (\<lambda>(k, v). gm_put k v) (generated gs) []"
    by (rule GenerateAllFile_from_generated)
  then show ?thesis
    using data gomap.get_writes [of "generated gs" "[]"] gomap.ok_writes [of "[]" "generated gs"]
    by (simp add: GenerateAllFile_def)
qed

theorem GenerateAllFile_data_witness:
  "\<exists>data. GenerateAllFile
      [\<lparr>fg_Generate = Done (''x'', None), fg_FileName = ''a''\<rparr>,
       \<lparr>fg_Generate = Done ([], Some (ErrNew ''e'')), fg_FileName = ''b''\<rparr>] = Done data \<and>
    gm_ok data \<and> gm_get data = map_of (rev (generated
      [\<lparr>fg_Generate = Done (''x'', None), fg_FileName = ''a''\<rparr>,
       \<lparr>fg_Generate = Done ([], Some (ErrNew ''e'')), fg_FileName = ''b''\<rparr>]))"
  by (rule GenerateAllFile_data) simp

section \<open>The contract of an environment generator\<close>

text \<open>
  What \<open>GenerateAllEnv\<close> relies on: a generator returns a proper map, and the map holds every
  setting of a base that the generator must not lose (for the operator: the overrides of the
  custom resource), even when it also returns an error.
\<close>

locale env_generator =
  fixes generate :: "'g \<Rightarrow> string go_map res go"
    and base :: "'g \<Rightarrow> string go_map"
  assumes generate_ok: "gm_ok (base g) \<Longrightarrow> generate g = Done (m, e) \<Longrightarrow> gm_ok m"
    and generate_base: "gm_ok (base g) \<Longrightarrow> generate g = Done (m, Some err) \<Longrightarrow>
          gm_get m = gm_get (base g)"
begin

lemma single_data:
  assumes "gm_ok (base g)" and "generate g = Done (m, e)"
  shows "\<exists>data. GenerateAllEnv [\<lparr>eg_Generate = generate g\<rparr>] = Done data \<and> gm_ok data \<and>
           gm_get data = gm_get m"
  using assms generate_ok [OF assms]
  by (simp add: GenerateAllEnv_def gm_get_Copy gm_ok_Copy)

text \<open>On an error the environment falls back to the base settings.\<close>

lemma single_data_error:
  assumes "gm_ok (base g)" and "generate g = Done (m, Some e)"
  shows "\<exists>data. GenerateAllEnv [\<lparr>eg_Generate = generate g\<rparr>] = Done data \<and> gm_ok data \<and>
           gm_get data = gm_get (base g)"
  using single_data [OF assms] generate_base [OF assms] by simp

end

end
