(* ===== verification/Common_Config.thy ===== *)
theory Common_Config
  imports Common_Util Pkg_Config
begin

text \<open>
  \<open>internal/common/config.go\<close>: the default configuration of a role and its merge into what the
  custom resource specifies. \<open>MergeDefaultConfig\<close> updates its two arguments in place; the model
  returns them, together with the error. A quantity is the literal that \<open>resource.MustParse\<close>
  is given.
\<close>

definition DefaultServerGrace :: int where [const_simps]: "DefaultServerGrace = 120"
definition defaultEnabled :: string where [const_simps]: "defaultEnabled = ''true''"
definition defaultDisabled :: string where [const_simps]: "defaultDisabled = ''false''"
definition defaultMinioCredential :: string where [const_simps]:
  "defaultMinioCredential = ''minioadmin''"

text \<open>A \<open>time.Duration\<close> counts nanoseconds.\<close>

definition time_Second :: int where [const_simps]: "time_Second = 1000000000"

record generalNodeConfig =
  gnc_Affinity :: "affinity option"
  gnc_gracefulShutdownTimeout :: int

record dolphinSchedulerConfig =
  dsc_role :: role
  dsc_resources :: "resourcesSpec option"
  dsc_common :: "generalNodeConfig option"

definition parseQuantity :: "string \<Rightarrow> quantity" where
  "parseQuantity q = Quantity q"

definition defaultAffinity :: "opgo \<Rightarrow> role \<Rightarrow> string \<Rightarrow> affinity" where
  "defaultAffinity G role crName = \<lparr>
     aff_PodAntiAffinityPreferred = Some [\<lparr>
       wt_Weight = 70, wt_TopologyKey = ''kubernetes.io/hostname'',
       wt_MatchLabels = gm_put (LabelKubernetesComponent G) role
                          (gm_put (LabelKubernetesInstance G) crName [])\<rparr>],
     aff_Other = []\<rparr>"

definition defaultResources :: "role \<Rightarrow> resourcesSpec go" where
  "defaultResources role =
     (let resources = (\<lambda>cpuMin cpuMax memoryLimit storage.
            \<lparr>res_CPU = Some \<lparr>cpu_Min = parseQuantity cpuMin, cpu_Max = parseQuantity cpuMax\<rparr>,
             res_Memory = Some (parseQuantity memoryLimit),
             res_Storage = Some (parseQuantity storage)\<rparr>)
      in if role = Master then Done (resources ''300m'' ''500m'' ''800Mi'' ''1Gi'')
         else if role = Worker then Done (resources ''400m'' ''600m'' ''1Gi'' ''2Gi'')
         else if role = Api then Done (resources ''400m'' ''700m'' ''1Gi'' ''1Gi'')
         else if role = Alerter then Done (resources ''300m'' ''400m'' ''800Mi'' ''1Gi'')
         else Panic (PanicValue ''invalid role''))"

text \<open>The composite literal of \<open>DefaultConfig\<close> leaves the field \<open>role\<close> at its zero value.\<close>

definition DefaultConfig :: "opgo \<Rightarrow> role \<Rightarrow> string \<Rightarrow> dolphinSchedulerConfig go" where
  "DefaultConfig G role crName =
     go_bind (defaultResources role) (\<lambda>resources.
       Done \<lparr>dsc_role = [],
             dsc_resources = Some resources,
             dsc_common = Some \<lparr>gnc_Affinity = Some (defaultAffinity G role crName),
                                gnc_gracefulShutdownTimeout = DefaultServerGrace * time_Second\<rparr>\<rparr>)"

text \<open>
  \<open>int(d.Seconds())\<close> truncates towards zero. The floating-point detour of \<open>Seconds\<close> is exact for
  durations below \<open>2^23\<close> seconds; the only one the operator builds is 120 seconds.
\<close>

definition GetgracefulShutdownTimeout :: "generalNodeConfig \<Rightarrow> string" where
  "GetgracefulShutdownTimeout g =
     (let d = gnc_gracefulShutdownTimeout g; seconds = sgn d * (\<bar>d\<bar> div time_Second)
      in strconv_Itoa seconds @ ''s'')"

definition ComputeCli :: "dolphinSchedulerConfig \<Rightarrow> string go_map res" where
  "ComputeCli c = ([], None)"

definition ComputeEnv :: "dolphinSchedulerConfig \<Rightarrow> string go_map res" where
  "ComputeEnv c =
     ([(''TZ'', ''Asia/Shanghai''), (''SPRING_JACKSON_TIME_ZONE'', ''Asia/Shanghai'')], None)"

definition commonPropertiesDefaults :: "string go_map" where
  "commonPropertiesDefaults =
    [(''alert.rpc.port'', ''50052''),
     (''appId.collect'', ''log''),
     (''conda.path'', ''/opt/anaconda3/etc/profile.d/conda.sh''),
     (''data.basedir.path'', ''/tmp/dolphinscheduler''),
     (''datasource.encryption.enable'', defaultDisabled),
     (''datasource.encryption.salt'', ''!@#$%^&*''),
     (''development.state'', defaultDisabled),
     (''hadoop.security.authentication.startup.state'', defaultDisabled),
     (''java.security.krb5.conf.path'', ''/opt/krb5.conf''),
     (''kerberos.expire.time'', ''2''),
     (''login.user.keytab.path'', ''/opt/hdfs.headless.keytab''),
     (''login.user.keytab.username'', ''hdfs-mycluster@ESZ.COM''),
     (''ml.mlflow.preset_repository'', ''https://github.com/apache/dolphinscheduler-mlflow''),
     (''ml.mlflow.preset_repository_version'', ''main''),
     (''resource.alibaba.cloud.access.key.id'', ''<your-access-key-id>''),
     (''resource.alibaba.cloud.access.key.secret'', ''<your-access-key-secret>''),
     (''resource.alibaba.cloud.oss.bucket.name'', ''dolphinscheduler''),
     (''resource.alibaba.cloud.oss.endpoint'', ''https://oss-cn-hangzhou.aliyuncs.com''),
     (''resource.alibaba.cloud.region'', ''cn-hangzhou''),
     (''resource.azure.client.id'', defaultMinioCredential),
     (''resource.azure.client.secret'', defaultMinioCredential),
     (''resource.azure.subId'', defaultMinioCredential),
     (''resource.azure.tenant.id'', defaultMinioCredential),
     (''resource.hdfs.fs.defaultFS'', ''hdfs://mycluster:8020''),
     (''resource.hdfs.root.user'', ''hdfs''),
     (''resource.manager.httpaddress.port'', ''8088''),
     (''resource.storage.type'', ''LOCAL''),
     (''resource.storage.upload.base.path'', ''/dolphinscheduler''),
     (''sudo.enable'', defaultEnabled),
     (''support.hive.oneSession'', defaultDisabled),
     (''task.resource.limit.state'', defaultDisabled),
     (''yarn.application.status.address'', ''http://ds1:%s/ws/v1/cluster/apps/%s''),
     (''yarn.job.history.status.address'', ''http://ds1:19888/ws/v1/history/mapreduce/jobs/%s''),
     (''yarn.resourcemanager.ha.rm.ids'', ''192.168.xx.xx,192.168.xx.xx'')]"

definition ApiServerDefaultaApplicationYaml :: string where
  "ApiServerDefaultaApplicationYaml =
     strings_Join [''security:'', ''  authentication:'', ''    type: PASSWORD'', ''    oauth2:'',
       ''      enable: false'', ''      provider:'', [CHR 0x09]] newline"

definition ComputeFile :: "dolphinSchedulerConfig \<Rightarrow> iface go_map res" where
  "ComputeFile c =
     (let configs = [(DolphinCommonPropertiesName, VStringMap commonPropertiesDefaults)] in
      (if dsc_role c = Api then
         maps_Copy configs
           [(ApplicationServerConfigFileName, VString ApiServerDefaultaApplicationYaml)]
       else configs, None))"

text \<open>\<open>toMap\<close> of anything but a \<open>map[string]string\<close> is the empty map (the error is logged).\<close>

fun toMap :: "iface \<Rightarrow> string go_map" where
  "toMap (VStringMap mapstring) = maps_Copy [] mapstring"
| "toMap _ = []"

section \<open>The merge\<close>

definition fillResource ::
  "resourcesSpec option \<Rightarrow> (resourcesSpec \<Rightarrow> 'a option) \<Rightarrow> 'a option \<Rightarrow> 'a option go" where
  "fillResource defaults part merged =
     (case merged of
        None \<Rightarrow> go_bind (go_deref defaults) (\<lambda>d. Done (part d))
      | Some x \<Rightarrow> Done (Some x))"

definition mergeResources ::
  "dolphinSchedulerConfig \<Rightarrow> roleGroupConfigSpec \<Rightarrow> roleGroupConfigSpec go" where
  "mergeResources c spec =
     (case rgc_Resources spec of
        None \<Rightarrow> Done (spec\<lparr>rgc_Resources := dsc_resources c\<rparr>)
      | Some merged \<Rightarrow>
          go_bind (fillResource (dsc_resources c) res_CPU (res_CPU merged)) (\<lambda>cpu.
          go_bind (fillResource (dsc_resources c) res_Memory (res_Memory merged)) (\<lambda>memory.
          go_bind (fillResource (dsc_resources c) res_Storage (res_Storage merged)) (\<lambda>storage.
          Done (spec\<lparr>rgc_Resources := Some \<lparr>res_CPU = cpu, res_Memory = memory,
                                          res_Storage = storage\<rparr>\<rparr>)))))"

definition mergeConfigOverrides ::
  "dolphinSchedulerConfig \<Rightarrow> string go_map go_map option \<Rightarrow> string go_map go_map" where
  "mergeConfigOverrides c configOverrides =
     (let configOverrides = (case configOverrides of None \<Rightarrow> [] | Some m \<Rightarrow> m);
          fileConfig = fst (ComputeFile c);
          defaults = toMap (iface_at fileConfig DolphinCommonPropertiesName)
      in case gm_get configOverrides DolphinCommonPropertiesName of
           None \<Rightarrow>
             (let dist = defaults; src = []
              in gm_put DolphinCommonPropertiesName (maps_Copy dist src) configOverrides)
         | Some commonPropertiesExists \<Rightarrow>
             gm_put DolphinCommonPropertiesName defaults configOverrides)"

definition mergeEnvOverrides ::
  "dolphinSchedulerConfig \<Rightarrow> string go_map option \<Rightarrow> string go_map" where
  "mergeEnvOverrides c envOverrides =
     (let envConfig = fst (ComputeEnv c) in
      case envOverrides of
        None \<Rightarrow> envConfig
      | Some dist \<Rightarrow> maps_Copy dist envConfig)"

definition zeroRoleGroupConfigSpec :: roleGroupConfigSpec where
  "zeroRoleGroupConfigSpec = \<lparr>rgc_Affinity = None, rgc_GracefulShutdownTimeout = [],
     rgc_Logging = None, rgc_Resources = None\<rparr>"

definition zeroOverridesSpec :: overridesSpec where
  "zeroOverridesSpec = \<lparr>ov_ConfigOverrides = None, ov_EnvOverrides = None\<rparr>"

text \<open>
  The result is the error and the two updated arguments. A nil \<open>overrides\<close> is replaced by a local
  value that the caller never sees. When the affinity cannot be encoded the call returns early:
  a \<open>RoleGroupConfigSpec\<close> that was there already has its resources filled in, nothing else is
  changed. \<open>json.Marshal\<close> of a nil pointer is \<open>null\<close>.
\<close>

definition MergeDefaultConfig ::
  "opgo \<Rightarrow> dolphinSchedulerConfig \<Rightarrow> overridesSpec option \<Rightarrow> configSpec \<Rightarrow>
   (go_error option \<times> overridesSpec option \<times> configSpec) go" where
  "MergeDefaultConfig G c overrides mergedCfg =
     (let spec0 = (case cfg_RoleGroupConfigSpec mergedCfg of
                     None \<Rightarrow> zeroRoleGroupConfigSpec | Some s \<Rightarrow> s) in
      go_bind (mergeResources c spec0) (\<lambda>spec1.
      go_bind (case rgc_Affinity spec1 of
                 None \<Rightarrow>
                   go_bind (go_deref (dsc_common c)) (\<lambda>common.
                   (case (case gnc_Affinity common of
                            None \<Rightarrow> (''null'', None) | Some aff \<Rightarrow> MarshalAffinity G aff) of
                      (_, Some err) \<Rightarrow> Done (spec1, Some err)
                    | (raw, None) \<Rightarrow>
                        Done (spec1\<lparr>rgc_Affinity := Some \<lparr>raw_Raw = Some raw\<rparr>\<rparr>, None)))
               | Some _ \<Rightarrow> Done (spec1, None)) (\<lambda>(spec2, err).
      case err of
        Some e \<Rightarrow>
          Done (Some e, overrides,
                (case cfg_RoleGroupConfigSpec mergedCfg of
                   None \<Rightarrow> mergedCfg
                 | Some _ \<Rightarrow> mergedCfg\<lparr>cfg_RoleGroupConfigSpec := Some spec2\<rparr>))
      | None \<Rightarrow>
          go_bind (if rgc_GracefulShutdownTimeout spec2 = [] then
                     go_bind (go_deref (dsc_common c)) (\<lambda>common.
                       Done (spec2\<lparr>rgc_GracefulShutdownTimeout :=
                                     GetgracefulShutdownTimeout common\<rparr>))
                   else Done spec2) (\<lambda>spec3.
          let ov = (case overrides of None \<Rightarrow> zeroOverridesSpec | Some ov \<Rightarrow> ov);
              ov' = ov\<lparr>ov_ConfigOverrides := Some (mergeConfigOverrides c (ov_ConfigOverrides ov)),
                       ov_EnvOverrides := Some (mergeEnvOverrides c (ov_EnvOverrides ov))\<rparr>
          in Done (None, map_option (\<lambda>_. ov') overrides,
                   mergedCfg\<lparr>cfg_RoleGroupConfigSpec := Some spec3\<rparr>)))))"

section \<open>The defaults\<close>

lemmas role_names = Master_def Worker_def Api_def Alerter_def

definition known_role :: "role \<Rightarrow> bool" where
  "known_role role \<longleftrightarrow> role = Master \<or> role = Worker \<or> role = Api \<or> role = Alerter"

definition full_resources :: "resourcesSpec \<Rightarrow> bool" where
  "full_resources r \<longleftrightarrow> res_CPU r \<noteq> None \<and> res_Memory r \<noteq> None \<and> res_Storage r \<noteq> None"

lemma defaultResources_Done:
  "defaultResources role = Done r \<Longrightarrow> known_role role \<and> full_resources r"
  by (auto simp: defaultResources_def known_role_def full_resources_def Let_def split: if_splits)

lemma defaultResources_known: "known_role role \<Longrightarrow> \<exists>r. defaultResources role = Done r"
  by (auto simp: defaultResources_def known_role_def Let_def)

lemma DefaultConfig_Done:
  assumes "DefaultConfig G role cr = Done c"
  obtains r where "defaultResources role = Done r" and "full_resources r"
    and "dsc_role c = []" and "dsc_resources c = Some r"
    and "dsc_common c = Some \<lparr>gnc_Affinity = Some (defaultAffinity G role cr),
                             gnc_gracefulShutdownTimeout = 120000000000\<rparr>"
  using assms defaultResources_Done
  by (auto simp: DefaultConfig_def go_bind_Done_iff const_simps)

lemma DefaultConfig_known: "known_role role \<Longrightarrow> \<exists>c. DefaultConfig G role cr = Done c"
  by (drule defaultResources_known) (auto simp: DefaultConfig_def)

lemma GetgracefulShutdownTimeout_default:
  "GetgracefulShutdownTimeout \<lparr>gnc_Affinity = a, gnc_gracefulShutdownTimeout = 120000000000\<rparr> = ''120s''"
  by (simp add: GetgracefulShutdownTimeout_def const_simps strconv_Itoa_def nat_digits.simps
      digit_char_def)

lemma commonPropertiesDefaults_ok: "gm_ok commonPropertiesDefaults"
  by (simp add: gm_ok_def commonPropertiesDefaults_def)

lemma toMap_get: "gm_ok m \<Longrightarrow> gm_get (toMap (VStringMap m)) = gm_get m"
  by (simp add: gomap_simps)

lemma ComputeFile_properties:
  "toMap (iface_at (fst (ComputeFile c)) DolphinCommonPropertiesName) =
   maps_Copy [] commonPropertiesDefaults"
  by (simp add: ComputeFile_def Let_def iface_at_def gm_get_def gm_put_def const_simps)

text \<open>
  \<open>DefaultConfig\<close> panics exactly on a role other than the four roles of the operator; for a
  known role every part of the default resources is present.
\<close>

theorem DefaultConfig_returns_iff:
  "returns (DefaultConfig G role cr) \<longleftrightarrow> role \<in> {Master, Worker, Api, Alerter}"
  using defaultResources_Done defaultResources_known
  by (fastforce simp: DefaultConfig_def go_simps returns_iff known_role_def)

text \<open>
  The default \<open>application.yaml\<close> of the API server is unreachable: \<open>ComputeFile\<close> adds it for
  the role \<open>api\<close> only, but no configuration that \<open>DefaultConfig\<close> returns carries its role.
\<close>

theorem DefaultConfig_no_application_yaml:
  assumes "DefaultConfig G role cr = Done c"
  shows "gm_get (fst (ComputeFile c)) ApplicationServerConfigFileName = None"
  using assms
  by (elim DefaultConfig_Done) (simp add: ComputeFile_def Let_def gm_get_def const_simps)

theorem DefaultConfig_no_application_yaml_witness:
  "\<exists>c. DefaultConfig example_opgo Api ''ds'' = Done c \<and>
     gm_get (fst (ComputeFile c)) ApplicationServerConfigFileName = None"
proof -
  obtain c where "DefaultConfig example_opgo Api ''ds'' = Done c"
    using DefaultConfig_known [of Api example_opgo "''ds''"] by (auto simp: known_role_def)
  with DefaultConfig_no_application_yaml [OF this] show ?thesis by blast
qed

section \<open>The merge, field by field\<close>

fun orElse :: "'a option \<Rightarrow> 'a option \<Rightarrow> 'a option" where
  "orElse (Some x) _ = Some x"
| "orElse None y = y"

definition mergedResources :: "resourcesSpec option \<Rightarrow> resourcesSpec \<Rightarrow> resourcesSpec" where
  "mergedResources user d =
     (case user of
        None \<Rightarrow> d
      | Some u \<Rightarrow> \<lparr>res_CPU = orElse (res_CPU u) (res_CPU d),
                   res_Memory = orElse (res_Memory u) (res_Memory d),
                   res_Storage = orElse (res_Storage u) (res_Storage d)\<rparr>)"

text \<open>The specification: what the user wrote, and the default for what is missing.\<close>

definition mergedConfig ::
  "roleGroupConfigSpec option \<Rightarrow> resourcesSpec \<Rightarrow> string \<Rightarrow> roleGroupConfigSpec" where
  "mergedConfig user d rawAffinity =
     (let u = (case user of None \<Rightarrow> zeroRoleGroupConfigSpec | Some s \<Rightarrow> s)
      in u\<lparr>rgc_Resources := Some (mergedResources (rgc_Resources u) d),
           rgc_Affinity := orElse (rgc_Affinity u) (Some \<lparr>raw_Raw = Some rawAffinity\<rparr>),
           rgc_GracefulShutdownTimeout :=
             (if rgc_GracefulShutdownTimeout u = [] then ''120s''
              else rgc_GracefulShutdownTimeout u)\<rparr>)"

lemma fillResource_orElse: "fillResource (Some d) part m = Done (orElse m (part d))"
  by (cases m) (simp_all add: fillResource_def)

lemma mergeResources_eq:
  "dsc_resources c = Some d \<Longrightarrow>
   mergeResources c spec = Done (spec\<lparr>rgc_Resources := Some (mergedResources (rgc_Resources spec) d)\<rparr>)"
  by (cases "rgc_Resources spec")
    (simp_all add: mergeResources_def mergedResources_def fillResource_orElse)

lemma mergedResources_full: "full_resources d \<Longrightarrow> full_resources (mergedResources user d)"
proof (cases user)
  case (Some u)
  then show "full_resources d \<Longrightarrow> ?thesis"
    by (cases "res_CPU u"; cases "res_Memory u"; cases "res_Storage u")
      (simp_all add: mergedResources_def full_resources_def)
qed (simp add: mergedResources_def)

definition mergedOverrides :: "dolphinSchedulerConfig \<Rightarrow> overridesSpec \<Rightarrow> overridesSpec" where
  "mergedOverrides c ov =
     ov\<lparr>ov_ConfigOverrides := Some (mergeConfigOverrides c (ov_ConfigOverrides ov)),
        ov_EnvOverrides := Some (mergeEnvOverrides c (ov_EnvOverrides ov))\<rparr>"

lemma MergeDefaultConfig_eq:
  assumes "DefaultConfig G role cr = Done c" and "defaultResources role = Done d"
    and "MarshalAffinity G (defaultAffinity G role cr) = (raw, None)"
  shows "MergeDefaultConfig G c overrides cfg =
    Done (None, map_option (mergedOverrides c) overrides,
          cfg\<lparr>cfg_RoleGroupConfigSpec := Some (mergedConfig (cfg_RoleGroupConfigSpec cfg) d raw)\<rparr>)"
proof -
  from assms(1) obtain r where r: "defaultResources role = Done r" "dsc_resources c = Some r"
    "dsc_common c = Some \<lparr>gnc_Affinity = Some (defaultAffinity G role cr),
                         gnc_gracefulShutdownTimeout = 120000000000\<rparr>"
    by (rule DefaultConfig_Done)
  define u where
    "u = (case cfg_RoleGroupConfigSpec cfg of None \<Rightarrow> zeroRoleGroupConfigSpec | Some s \<Rightarrow> s)"
  have "dsc_resources c = Some d" using r assms(2) by simp
  note m = mergeResources_eq [OF this, of u]
  show ?thesis
    by (cases "rgc_Affinity u"; cases overrides)
      (simp_all add: MergeDefaultConfig_def mergedConfig_def m r(3) assms(3) Let_def
        GetgracefulShutdownTimeout_default mergedOverrides_def zeroOverridesSpec_def
        flip: u_def)
qed

text \<open>
  C4. \<open>MergeDefaultConfig\<close> implements the field-by-field merge for every known role: whatever the
  user wrote for CPU, memory, storage, affinity, shutdown timeout and logging is kept, everything
  missing comes from the role's defaults, and the result always has complete resources, an
  affinity and a shutdown timeout.
\<close>

theorem MergeDefaultConfig_refines:
  assumes "DefaultConfig G role cr = Done c"
    and "MarshalAffinity G (defaultAffinity G role cr) = (raw, None)"
  shows "\<exists>d ov' spec.
    defaultResources role = Done d \<and>
    MergeDefaultConfig G c overrides cfg =
      Done (None, ov', cfg\<lparr>cfg_RoleGroupConfigSpec := Some spec\<rparr>) \<and>
    spec = mergedConfig (cfg_RoleGroupConfigSpec cfg) d raw \<and>
    (\<exists>r. rgc_Resources spec = Some r \<and> full_resources r) \<and>
    rgc_Affinity spec \<noteq> None \<and> rgc_GracefulShutdownTimeout spec \<noteq> []"
proof -
  obtain d where d: "defaultResources role = Done d" "full_resources d"
    using assms(1) by (rule DefaultConfig_Done)
  let ?spec = "mergedConfig (cfg_RoleGroupConfigSpec cfg) d raw"
  have "\<exists>r. rgc_Resources ?spec = Some r \<and> full_resources r"
    using d(2) by (simp add: mergedConfig_def Let_def mergedResources_full)
  moreover have "rgc_Affinity ?spec \<noteq> None"
    unfolding mergedConfig_def Let_def
    by (cases "cfg_RoleGroupConfigSpec cfg";
        cases "rgc_Affinity (the (cfg_RoleGroupConfigSpec cfg))")
      (simp_all add: zeroRoleGroupConfigSpec_def)
  moreover have "rgc_GracefulShutdownTimeout ?spec \<noteq> []"
    by (simp add: mergedConfig_def Let_def)
  ultimately show ?thesis
    using MergeDefaultConfig_eq [OF assms(1) d(1) assms(2)] d(1) by blast
qed

theorem MergeDefaultConfig_refines_witness:
  "\<exists>c d ov' spec.
    DefaultConfig example_opgo Worker ''ds'' = Done c \<and> defaultResources Worker = Done d \<and>
    MergeDefaultConfig example_opgo c None \<lparr>cfg_RoleGroupConfigSpec = None\<rparr> =
      Done (None, ov', \<lparr>cfg_RoleGroupConfigSpec = Some spec\<rparr>) \<and>
    (\<exists>r. rgc_Resources spec = Some r \<and> full_resources r)"
proof -
  obtain c where c: "DefaultConfig example_opgo Worker ''ds'' = Done c"
    using DefaultConfig_known [of Worker example_opgo "''ds''"] by (auto simp: known_role_def)
  have "MarshalAffinity example_opgo (defaultAffinity example_opgo Worker ''ds'') = (''{}'', None)"
    by (simp add: example_opgo_def)
  from MergeDefaultConfig_refines [OF c this, of None "\<lparr>cfg_RoleGroupConfigSpec = None\<rparr>"] c
  show ?thesis by auto
qed

section \<open>The overrides\<close>

lemma mergeConfigOverrides_eq:
  "mergeConfigOverrides c co =
   gm_put DolphinCommonPropertiesName (maps_Copy [] commonPropertiesDefaults)
     (case co of None \<Rightarrow> [] | Some m \<Rightarrow> m)"
  by (simp add: mergeConfigOverrides_def Let_def ComputeFile_properties split: option.split)

lemma defaults_get:
  "gm_get (maps_Copy [] commonPropertiesDefaults) = gm_get commonPropertiesDefaults"
  by (simp add: gomap_simps commonPropertiesDefaults_ok)

lemma ComputeEnv_ok: "gm_ok (fst (ComputeEnv c))"
  by (simp add: ComputeEnv_def gm_ok_def)

lemma mergeEnvOverrides_get:
  "gm_get (mergeEnvOverrides c eo) =
   gm_get (case eo of None \<Rightarrow> [] | Some m \<Rightarrow> m) ++ gm_get (fst (ComputeEnv c))"
  by (cases eo) (simp_all add: mergeEnvOverrides_def Let_def gm_get_Copy ComputeEnv_ok)

text \<open>
  C34. The configuration overrides after the merge: the entry for \<open>common.properties\<close> is exactly
  the built-in default map, whatever the custom resource said for that file, and the entries of
  all other files are untouched. A user's \<open>configOverrides\<close> for \<open>common.properties\<close> is lost (the
  comment in the source says that the custom resource overrides the default).
\<close>

theorem MergeDefaultConfig_config_overrides:
  assumes "DefaultConfig G role cr = Done c"
    and "MarshalAffinity G (defaultAffinity G role cr) = (raw, None)"
  shows "\<exists>ov' cfg' co. MergeDefaultConfig G c (Some ov) cfg = Done (None, Some ov', cfg') \<and>
    ov_ConfigOverrides ov' = Some co \<and>
    (\<exists>props. gm_get co DolphinCommonPropertiesName = Some props \<and>
       gm_get props = gm_get commonPropertiesDefaults) \<and>
    (\<forall>f. f \<noteq> DolphinCommonPropertiesName \<longrightarrow>
       gm_get co f = gm_get (case ov_ConfigOverrides ov of None \<Rightarrow> [] | Some m \<Rightarrow> m) f)"
proof -
  obtain d where "defaultResources role = Done d" using assms(1) by (rule DefaultConfig_Done)
  from MergeDefaultConfig_eq [OF assms(1) this assms(2), of "Some ov" cfg] show ?thesis
    by (simp add: mergedOverrides_def mergeConfigOverrides_eq gm_get_put defaults_get)
qed

theorem MergeDefaultConfig_config_overrides_witness:
  "\<exists>c ov' cfg' co props. DefaultConfig example_opgo Master ''ds'' = Done c \<and>
    MergeDefaultConfig example_opgo c
      (Some \<lparr>ov_ConfigOverrides = Some [(''common.properties'', [(''sudo.enable'', ''false'')])],
             ov_EnvOverrides = None\<rparr>) \<lparr>cfg_RoleGroupConfigSpec = None\<rparr> =
      Done (None, Some ov', cfg') \<and>
    ov_ConfigOverrides ov' = Some co \<and> gm_get co ''common.properties'' = Some props \<and>
    gm_get props ''sudo.enable'' = Some ''true''"
proof -
  obtain c where c: "DefaultConfig example_opgo Master ''ds'' = Done c"
    using DefaultConfig_known [of Master example_opgo "''ds''"] by (auto simp: known_role_def)
  have m: "MarshalAffinity example_opgo (defaultAffinity example_opgo Master ''ds'') = (''{}'', None)"
    by (simp add: example_opgo_def)
  have sudo: "gm_get commonPropertiesDefaults ''sudo.enable'' = Some ''true''"
    by (simp add: commonPropertiesDefaults_def gm_get_def const_simps)
  obtain ov' cfg' co props where f:
    "MergeDefaultConfig example_opgo c
      (Some \<lparr>ov_ConfigOverrides = Some [(''common.properties'', [(''sudo.enable'', ''false'')])],
             ov_EnvOverrides = None\<rparr>) \<lparr>cfg_RoleGroupConfigSpec = None\<rparr> =
      Done (None, Some ov', cfg')"
    "ov_ConfigOverrides ov' = Some co"
    "gm_get co DolphinCommonPropertiesName = Some props"
    "gm_get props = gm_get commonPropertiesDefaults"
    using MergeDefaultConfig_config_overrides [OF c m] by blast
  have "gm_get props ''sudo.enable'' = Some ''true''" by (simp only: f(4) sudo)
  note facts = c f(1,2) f(3) [unfolded DolphinCommonPropertiesName_def] this
  show ?thesis
    by (rule exI [of _ c], rule exI [of _ ov'], rule exI [of _ cfg'], rule exI [of _ co],
        rule exI [of _ props]) (intro conjI facts)
qed

text \<open>
  The environment after the merge: every variable of the custom resource is kept except the
  two that have a default, \<open>TZ\<close> and \<open>SPRING_JACKSON_TIME_ZONE\<close>, which are always set to the
  default, even when the user chose another value.
\<close>

theorem MergeDefaultConfig_env_overrides:
  assumes "DefaultConfig G role cr = Done c"
    and "MarshalAffinity G (defaultAffinity G role cr) = (raw, None)"
  shows "\<exists>ov' cfg' eo. MergeDefaultConfig G c (Some ov) cfg = Done (None, Some ov', cfg') \<and>
    ov_EnvOverrides ov' = Some eo \<and>
    gm_get eo ''TZ'' = Some ''Asia/Shanghai'' \<and>
    gm_get eo ''SPRING_JACKSON_TIME_ZONE'' = Some ''Asia/Shanghai'' \<and>
    (\<forall>k. k \<noteq> ''TZ'' \<and> k \<noteq> ''SPRING_JACKSON_TIME_ZONE'' \<longrightarrow>
       gm_get eo k = gm_get (case ov_EnvOverrides ov of None \<Rightarrow> [] | Some m \<Rightarrow> m) k)"
proof -
  obtain d where "defaultResources role = Done d" using assms(1) by (rule DefaultConfig_Done)
  from MergeDefaultConfig_eq [OF assms(1) this assms(2), of "Some ov" cfg] show ?thesis
    by (simp add: mergedOverrides_def mergeEnvOverrides_get ComputeEnv_def gm_get_Cons map_add_def)
qed

theorem MergeDefaultConfig_env_overrides_witness:
  "\<exists>c ov' cfg' eo. DefaultConfig example_opgo Master ''ds'' = Done c \<and>
    MergeDefaultConfig example_opgo c
      (Some \<lparr>ov_ConfigOverrides = None, ov_EnvOverrides = Some [(''TZ'', ''UTC'')]\<rparr>)
      \<lparr>cfg_RoleGroupConfigSpec = None\<rparr> = Done (None, Some ov', cfg') \<and>
    ov_EnvOverrides ov' = Some eo \<and> gm_get eo ''TZ'' = Some ''Asia/Shanghai''"
proof -
  obtain c where c: "DefaultConfig example_opgo Master ''ds'' = Done c"
    using DefaultConfig_known [of Master example_opgo "''ds''"] by (auto simp: known_role_def)
  have m: "MarshalAffinity example_opgo (defaultAffinity example_opgo Master ''ds'') = (''{}'', None)"
    by (simp add: example_opgo_def)
  obtain ov' cfg' eo where f:
    "MergeDefaultConfig example_opgo c
      (Some \<lparr>ov_ConfigOverrides = None, ov_EnvOverrides = Some [(''TZ'', ''UTC'')]\<rparr>)
      \<lparr>cfg_RoleGroupConfigSpec = None\<rparr> = Done (None, Some ov', cfg')"
    "ov_EnvOverrides ov' = Some eo" "gm_get eo ''TZ'' = Some ''Asia/Shanghai''"
    using MergeDefaultConfig_env_overrides [OF c m,
      of "\<lparr>ov_ConfigOverrides = None, ov_EnvOverrides = Some [(''TZ'', ''UTC'')]\<rparr>"
        "\<lparr>cfg_RoleGroupConfigSpec = None\<rparr>"]
    by (elim exE conjE) (rule that)
  show ?thesis
    by (rule exI [of _ c], rule exI [of _ ov'], rule exI [of _ cfg'], rule exI [of _ eo])
      (intro conjI c f)
qed

end
