(* ===== verification/Product_Logging.thy ===== *)
theory Product_Logging
  imports Common_Util
begin

text \<open>
  \<open>internal/common/productlogging.go\<close>: the logback configuration of a container. The template
  engine and the template values are operator-go's (\<open>LoggingContent\<close>); modelled here is what the
  operator puts into them: the template, the logger formatter and the levels taken from the custom
  resource.
\<close>

section \<open>Template and formatter\<close>

definition logbackTemplate :: string where
  \<open>logbackTemplate = strings_Join [
     ''<configuration>'',
     ''<appender name="CONSOLE" class="ch.qos.logback.core.ConsoleAppender">'',
     ''<encoder>'',
     ''  <pattern>{{ .ConsoleHandlerFormatter }}</pattern>'',
     ''</encoder>'',
     ''<filter class="ch.qos.logback.classic.filter.ThresholdFilter">'',
     ''  <level>{{ .ConsoleHandlerLevel }}</level>'',
     ''</filter>'',
     ''</appender>'',
     '''',
     ''<appender name="FILE" class="ch.qos.logback.core.rolling.RollingFileAppender">'',
     ''<File>{{ .RotatingFileHandlerFile }}</File>'',
     ''<encoder class="ch.qos.logback.core.encoder.LayoutWrappingEncoder">'',
     ''  <layout class="ch.qos.logback.classic.log4j.XMLLayout" />'',
     ''</encoder>'',
     ''<filter class="ch.qos.logback.classic.filter.ThresholdFilter">'',
     ''  <level>{{ .RotatingFileHandlerLevel }}</level>'',
     ''</filter>'',
     ''<rollingPolicy class="ch.qos.logback.core.rolling.FixedWindowRollingPolicy">'',
     ''  <minIndex>1</minIndex>'',
     ''  <maxIndex>{{ .RotatingFileHandlerBackupCount }}</maxIndex>'',
     ''  <FileNamePattern>{{ .RotatingFileHandlerFile }}.%i</FileNamePattern>'',
     ''</rollingPolicy>'',
     ''<triggeringPolicy class="ch.qos.logback.core.rolling.SizeBasedTriggeringPolicy">'',
     ''  <MaxFileSize>{{ .RotatingFileHandlerMaxSizeInMiB }}MB</MaxFileSize>'',
     ''</triggeringPolicy>'',
     ''</appender>'',
     '''',
     ''{{- .Loggers }}'',
     '''',
     ''<root level="{{ .RootLogLevel }}">'',
     ''  <appender-ref ref="CONSOLE" />'',
     ''  <appender-ref ref="FILE" />'',
     ''</root>'',
     ''</configuration>'',
     ''''] newline\<close>

record logbackConfig =
  lb_productLogging :: productLogging

definition LoggerFormatter :: "string \<Rightarrow> string \<Rightarrow> string" where
  \<open>LoggerFormatter name level = ''<logger name="'' @ name @ ''" level="'' @ level @ ''" />''\<close>

definition Template :: string where
  "Template = logbackTemplate"

definition Content :: "opgo \<Rightarrow> logbackConfig \<Rightarrow> string res" where
  "Content G l = LoggingContent G Template LoggerFormatter (lb_productLogging l)"

definition LogbackConfig_String :: "opgo \<Rightarrow> logbackConfig \<Rightarrow> string go" where
  "LogbackConfig_String G l =
     (case Content G l of (c, None) \<Rightarrow> Done c | (_, Some e) \<Rightarrow> Panic (PanicValue ''error''))"

section \<open>Levels\<close>

record configGeneratorOption =
  cgo_LogFileMaxBytes :: "goint64 option"
  cgo_ConsoleHandlerFormatter :: "string option"

definition initializeProductLogging ::
  "opgo \<Rightarrow> string \<Rightarrow> string \<Rightarrow> (configGeneratorOption \<Rightarrow> configGeneratorOption) list \<Rightarrow>
   productLogging go" where
  "initializeProductLogging G containerName logFileName opts =
     (let opt = fold (\<lambda>f x. f x) opts
            \<lparr>cgo_LogFileMaxBytes = None, cgo_ConsoleHandlerFormatter = None\<rparr>;
          rotatingFileHandlerMaxBytes =
            (case cgo_LogFileMaxBytes opt of
               None \<Rightarrow> DefaultRotatingFileHandlerMaxBytes G | Some b \<Rightarrow> b)
      in go_bind (go_deref (cgo_ConsoleHandlerFormatter opt)) (\<lambda>formatter.
         Done \<lparr>pl_RootLogLevel = DefaultLoggerLevel G,
               pl_ConsoleHandlerLevel = DefaultLoggerLevel G,
               pl_ConsoleHandlerFormatter = formatter,
               pl_RotatingFileHandlerLevel = DefaultLoggerLevel G,
               pl_RotatingFileHandlerFile =
                 path_Join [KubedoopLogDir G, strings_ToLower containerName, logFileName],
               pl_RotatingFileHandlerMaxBytes = rotatingFileHandlerMaxBytes,
               pl_RotatingFileHandlerBackupCount = 1,
               pl_Loggers = []\<rparr>))"

text \<open>\<open>spec != nil && spec.Level != ""\<close> selects the level.\<close>

definition levelOr :: "logLevelSpec option \<Rightarrow> string \<Rightarrow> string" where
  "levelOr spec old =
     (case spec of None \<Rightarrow> old | Some l \<Rightarrow> if ll_Level l \<noteq> [] then ll_Level l else old)"

definition applyHandlerLevels :: "loggingConfigSpec \<Rightarrow> productLogging \<Rightarrow> productLogging" where
  "applyHandlerLevels loggingConfigSpec p =
     p\<lparr>pl_ConsoleHandlerLevel :=
          levelOr (lc_Console loggingConfigSpec) (pl_ConsoleHandlerLevel p),
       pl_RotatingFileHandlerLevel :=
          levelOr (lc_File loggingConfigSpec) (pl_RotatingFileHandlerLevel p)\<rparr>"

definition applyLoggerLevel ::
  "opgo \<Rightarrow> string \<times> logLevelSpec option \<Rightarrow> productLogging \<Rightarrow> productLogging go" where
  "applyLoggerLevel G nl p =
     (case nl of (name, level) \<Rightarrow>
        go_bind (go_deref level) (\<lambda>l.
          if name = RootLoggerName G then Done (p\<lparr>pl_RootLogLevel := ll_Level l\<rparr>)
          else Done (p\<lparr>pl_Loggers := gm_put name l (pl_Loggers p)\<rparr>)))"

definition applyLoggerLevels ::
  "opgo \<Rightarrow> loggingConfigSpec \<Rightarrow> productLogging \<Rightarrow> productLogging go" where
  "applyLoggerLevels G loggingConfigSpec p =
     (case lc_Loggers loggingConfigSpec of
        None \<Rightarrow> Done p
      | Some loggers \<Rightarrow> go_fold (applyLoggerLevel G) loggers p)"

definition applyLoggingConfig ::
  "opgo \<Rightarrow> loggingConfigSpec \<Rightarrow> productLogging \<Rightarrow> productLogging go" where
  "applyLoggingConfig G loggingConfigSpec p =
     applyLoggerLevels G loggingConfigSpec (applyHandlerLevels loggingConfigSpec p)"

definition NewConfigGenerator ::
  "opgo \<Rightarrow> loggingConfigSpec option \<Rightarrow> string \<Rightarrow> string \<Rightarrow>
   (configGeneratorOption \<Rightarrow> configGeneratorOption) list \<Rightarrow> logbackConfig res go" where
  "NewConfigGenerator G loggingConfigSpec containerName logFileName opts =
     go_bind (initializeProductLogging G containerName logFileName opts) (\<lambda>p.
     go_bind (case loggingConfigSpec of None \<Rightarrow> Done p | Some s \<Rightarrow> applyLoggingConfig G s p) (\<lambda>p.
     Done (\<lparr>lb_productLogging = p\<rparr>, None)))"

section \<open>The loggers of a container\<close>

definition rootLevel :: "opgo \<Rightarrow> logLevelSpec option go_map \<Rightarrow> string \<Rightarrow> string" where
  "rootLevel G loggers old =
     (case gm_get loggers (RootLoggerName G) of Some (Some l) \<Rightarrow> ll_Level l | _ \<Rightarrow> old)"

definition namedLoggers ::
  "opgo \<Rightarrow> logLevelSpec option go_map \<Rightarrow> (string \<rightharpoonup> logLevelSpec)" where
  "namedLoggers G loggers n =
     (if n = RootLoggerName G then None
      else case gm_get loggers n of Some (Some l) \<Rightarrow> Some l | _ \<Rightarrow> None)"

lemma gm_ok_Cons: "gm_ok ((k, v) # m) \<longleftrightarrow> gm_get m k = None \<and> gm_ok m"
  by (auto simp: gm_ok_def gm_get_def map_of_eq_None_iff)

lemma applyLoggerLevel_Done:
  "applyLoggerLevel G (n, Some l) p =
   Done (if n = RootLoggerName G then p\<lparr>pl_RootLogLevel := ll_Level l\<rparr>
         else p\<lparr>pl_Loggers := gm_put n l (pl_Loggers p)\<rparr>)"
  by (simp add: applyLoggerLevel_def)

lemma applyLoggerLevels_fold:
  assumes "gm_ok loggers" and "\<forall>(n, l) \<in> set loggers. l \<noteq> None"
  shows "\<exists>ls. go_fold (applyLoggerLevel G) loggers p =
      Done (p\<lparr>pl_RootLogLevel := rootLevel G loggers (pl_RootLogLevel p), pl_Loggers := ls\<rparr>) \<and>
    gm_get ls = gm_get (pl_Loggers p) ++ namedLoggers G loggers"
  using assms
proof (induction loggers arbitrary: p)
  case Nil
  then show ?case
    by (intro exI [of _ "pl_Loggers p"])
      (auto simp: rootLevel_def namedLoggers_def map_add_def fun_eq_iff)
next
  case (Cons nl loggers)
  then obtain n l where nl: "nl = (n, Some l)" by (cases nl) auto
  have fresh: "gm_get loggers n = None" and ok: "gm_ok loggers"
    using Cons.prems(1) by (simp_all add: nl gm_ok_Cons)
  note IH = Cons.IH [OF ok]
  show ?case
  proof (cases "n = RootLoggerName G")
    case True
    obtain ls where "go_fold (applyLoggerLevel G) loggers (p\<lparr>pl_RootLogLevel := ll_Level l\<rparr>) =
        Done (p\<lparr>pl_RootLogLevel := ll_Level l, pl_Loggers := ls\<rparr>)"
      "gm_get ls = gm_get (pl_Loggers p) ++ namedLoggers G loggers"
      using IH [of "p\<lparr>pl_RootLogLevel := ll_Level l\<rparr>"] Cons.prems(2) True fresh
      by (auto simp: rootLevel_def)
    moreover have "namedLoggers G ((n, Some l) # loggers) = namedLoggers G loggers"
      using True by (auto simp: namedLoggers_def gm_get_Cons fun_eq_iff)
    ultimately show ?thesis
      using True by (auto simp: nl applyLoggerLevel_Done rootLevel_def gm_get_Cons)
  next
    case False
    let ?p = "p\<lparr>pl_Loggers := gm_put n l (pl_Loggers p)\<rparr>"
    have "\<exists>ls. go_fold (applyLoggerLevel G) loggers ?p =
        Done (p\<lparr>pl_RootLogLevel := rootLevel G loggers (pl_RootLogLevel p), pl_Loggers := ls\<rparr>) \<and>
      gm_get ls = (gm_get (pl_Loggers p))(n \<mapsto> l) ++ namedLoggers G loggers"
      using IH [of ?p] Cons.prems(2) by (simp add: gm_get_put fun_upd_def)
    then obtain ls where ls: "go_fold (applyLoggerLevel G) loggers ?p =
        Done (p\<lparr>pl_RootLogLevel := rootLevel G loggers (pl_RootLogLevel p), pl_Loggers := ls\<rparr>)"
      "gm_get ls = (gm_get (pl_Loggers p))(n \<mapsto> l) ++ namedLoggers G loggers" by blast
    have "gm_get ls = gm_get (pl_Loggers p) ++ namedLoggers G ((n, Some l) # loggers)"
      using False fresh
      by (auto simp: ls(2) namedLoggers_def gm_get_Cons map_add_def fun_eq_iff split: option.split)
    then show ?thesis
      using False ls(1) by (auto simp: nl applyLoggerLevel_Done rootLevel_def gm_get_Cons)
  qed
qed

text \<open>
  The levels of the loggers do not depend on the order in which Go ranges over the map of the
  custom resource: the root logger's level is the one given for the root logger (or the old one),
  every other logger has the level given for it, and nothing else of the logging values changes.
\<close>

theorem applyLoggerLevels_spec:
  assumes "lc_Loggers spec = Some loggers" and "gm_ok loggers"
    and "\<forall>(n, l) \<in> set loggers. l \<noteq> None"
  shows "\<exists>ls. applyLoggerLevels G spec p =
      Done (p\<lparr>pl_RootLogLevel := rootLevel G loggers (pl_RootLogLevel p), pl_Loggers := ls\<rparr>) \<and>
    gm_get ls = gm_get (pl_Loggers p) ++ namedLoggers G loggers"
  using applyLoggerLevels_fold [OF assms(2,3)] assms(1) by (simp add: applyLoggerLevels_def)

definition zeroProductLogging :: productLogging where
  "zeroProductLogging = \<lparr>pl_RootLogLevel = ''INFO'', pl_ConsoleHandlerLevel = [],
     pl_ConsoleHandlerFormatter = [], pl_RotatingFileHandlerLevel = [],
     pl_RotatingFileHandlerFile = [], pl_RotatingFileHandlerMaxBytes = 0,
     pl_RotatingFileHandlerBackupCount = 0, pl_Loggers = []\<rparr>"

definition exampleLoggers :: "logLevelSpec option go_map" where
  "exampleLoggers =
     [(''a'', Some \<lparr>ll_Level = ''WARN''\<rparr>), (''ROOT'', Some \<lparr>ll_Level = ''ERROR''\<rparr>)]"

theorem applyLoggerLevels_spec_witness:
  "\<exists>ls. applyLoggerLevels example_opgo
      \<lparr>lc_Loggers = Some exampleLoggers, lc_Console = None, lc_File = None\<rparr> zeroProductLogging =
      Done (zeroProductLogging\<lparr>pl_RootLogLevel := ''ERROR'', pl_Loggers := ls\<rparr>) \<and>
    gm_get ls ''a'' = Some \<lparr>ll_Level = ''WARN''\<rparr>"
proof -
  have "gm_ok exampleLoggers" "\<forall>(n, l) \<in> set exampleLoggers. l \<noteq> None"
    by (simp_all add: exampleLoggers_def gm_ok_def)
  moreover have "rootLevel example_opgo exampleLoggers (pl_RootLogLevel zeroProductLogging) = ''ERROR''"
    and "namedLoggers example_opgo exampleLoggers ''a'' = Some \<lparr>ll_Level = ''WARN''\<rparr>"
    by (simp_all add: rootLevel_def namedLoggers_def exampleLoggers_def example_opgo_def gm_get_def)
  ultimately show ?thesis
    using applyLoggerLevels_spec
      [of "\<lparr>lc_Loggers = Some exampleLoggers, lc_Console = None, lc_File = None\<rparr>" exampleLoggers
        example_opgo zeroProductLogging]
    by (auto simp: map_add_def)
qed

end
