(* ===== verification/Pkg_Database.thy ===== *)
theory Pkg_Database
  imports Pkg_Util
begin

text \<open>
  \<open>pkg/util/database.go\<close>: the extractor that reads the parts of a JDBC connection string and the
  credentials of the database, from a secret or from the query of the string.

  The model keeps the index expressions of the source: \<open>hostParts[2]\<close>, \<open>parts[3]\<close> and
  \<open>portParts[1]\<close> panic where the slice is too short.
\<close>

definition ConnectionStringAuthUser :: string where [const_simps]:
  "ConnectionStringAuthUser = ''username''"
definition ConnectionStringAuthPass :: string where [const_simps]:
  "ConnectionStringAuthPass = ''password''"

record databaseConfig =
  dbc_DbType :: string
  dbc_Driver :: string
  dbc_Username :: string
  dbc_Password :: string
  dbc_Host :: string
  dbc_Port :: string
  dbc_DbName :: string

definition zeroDatabaseConfig :: databaseConfig where
  "zeroDatabaseConfig = \<lparr>dbc_DbType = [], dbc_Driver = [], dbc_Username = [], dbc_Password = [],
     dbc_Host = [], dbc_Port = [], dbc_DbName = []\<rparr>"

record dataBaseExtractor =
  dbe_ConnectionString :: "string option"
  dbe_SecretReferenceName :: "string option"
  dbe_Namespace :: "string option"

definition NewDataBaseExtractor :: "string option \<Rightarrow> dataBaseExtractor" where
  "NewDataBaseExtractor connectionString =
     \<lparr>dbe_ConnectionString = connectionString, dbe_SecretReferenceName = None,
      dbe_Namespace = None\<rparr>"

definition CredentialsInSecret ::
  "dataBaseExtractor \<Rightarrow> string \<Rightarrow> string \<Rightarrow> dataBaseExtractor" where
  "CredentialsInSecret d secretRefName namespace =
     d\<lparr>dbe_SecretReferenceName := Some secretRefName, dbe_Namespace := Some namespace\<rparr>"

definition GetDatabaseDriver :: "string \<Rightarrow> string res" where
  "GetDatabaseDriver dbType =
     (if dbType = ''mysql'' then (''com.mysql.cj.jdbc.Driver'', None)
      else if dbType = ''postgresql'' then (''org.postgresql.Driver'', None)
      else ([], Some (ErrNew ''unsupported database type to get driver class'')))"

definition parseConnectionString :: "dataBaseExtractor \<Rightarrow> databaseConfig option res go" where
  "parseConnectionString d =
     go_bind (go_deref (dbe_ConnectionString d)) (\<lambda>conn.
     let parts = strings_Split conn '':'' in
     if length parts < 3 then Done (None, Some (ErrNew ''invalid connection string''))
     else
       go_bind (go_index parts 1) (\<lambda>dbType.
       case GetDatabaseDriver dbType of
         (_, Some err) \<Rightarrow> Done (None, Some (ErrWrap err ''failed to get database driver''))
       | (driver, None) \<Rightarrow>
           go_bind (go_index parts 2) (\<lambda>p2.
           let hostParts = strings_Split p2 ''/'' in
           if length hostParts < 2 then Done (None, Some (ErrNew ''invalid connection string''))
           else
             go_bind (go_index hostParts 2) (\<lambda>host.
             go_bind (go_index parts 3) (\<lambda>p3.
             let portParts = strings_Split p3 ''/'' in
             go_bind (go_index portParts 0) (\<lambda>port.
             go_bind (go_index portParts 1) (\<lambda>pp1.
             let dbParts = strings_Split pp1 ''?'' in
             go_bind (go_index dbParts 0) (\<lambda>dbName.
             Done (Some (zeroDatabaseConfig\<lparr>dbc_DbType := dbType, dbc_Driver := driver,
                           dbc_Host := host, dbc_Port := port, dbc_DbName := dbName\<rparr>),
                   None)))))))))"

definition setCredentialsFromSecret ::
  "client \<Rightarrow> dataBaseExtractor \<Rightarrow> databaseConfig \<Rightarrow> (databaseConfig \<times> go_error option) go" where
  "setCredentialsFromSecret C d dbInfo =
     go_bind (go_deref (dbe_Namespace d)) (\<lambda>namespace.
     go_bind (go_deref (dbe_SecretReferenceName d)) (\<lambda>name.
     case GetSecret C namespace name of
       (_, Some err) \<Rightarrow> Done (dbInfo, Some (ErrWrap err ''failed to get database secret''))
     | (secretData, None) \<Rightarrow>
         (case gm_get secretData ConnectionStringAuthUser of
            None \<Rightarrow> Done (dbInfo, Some (ErrNew ''database username is empty''))
          | Some username \<Rightarrow>
              (let dbInfo = dbInfo\<lparr>dbc_Username := username\<rparr> in
               case gm_get secretData ConnectionStringAuthPass of
                 None \<Rightarrow> Done (dbInfo, Some (ErrNew ''database password is empty''))
               | Some password \<Rightarrow> Done (dbInfo\<lparr>dbc_Password := password\<rparr>, None)))))"

definition setCredential :: "string \<Rightarrow> databaseConfig \<Rightarrow> databaseConfig" where
  "setCredential q dbInfo =
     (case strings_Split q ''='' of
        [k, v] \<Rightarrow>
          (let dbInfo = (if k = ''user'' \<or> k = ''username'' then dbInfo\<lparr>dbc_Username := v\<rparr>
                         else dbInfo)
           in if k = ConnectionStringAuthPass then dbInfo\<lparr>dbc_Password := v\<rparr> else dbInfo)
      | _ \<Rightarrow> dbInfo)"

definition setCredentialsFromConnectionString ::
  "dataBaseExtractor \<Rightarrow> databaseConfig \<Rightarrow> (databaseConfig \<times> go_error option) go" where
  "setCredentialsFromConnectionString d dbInfo =
     go_bind (go_deref (dbe_ConnectionString d)) (\<lambda>conn.
     let parts = strings_Split conn ''?'' in
     if length parts < 2 then Done (dbInfo, Some (ErrNew ''database credential is empty''))
     else go_bind (go_index parts 1) (\<lambda>p1.
       Done (fold setCredential (strings_Split p1 ''&'') dbInfo, None)))"

definition setCredentials ::
  "client \<Rightarrow> dataBaseExtractor \<Rightarrow> databaseConfig \<Rightarrow> (databaseConfig \<times> go_error option) go" where
  "setCredentials C d dbInfo =
     (if dbe_SecretReferenceName d \<noteq> None then setCredentialsFromSecret C d dbInfo
      else setCredentialsFromConnectionString d dbInfo)"

definition ExtractDatabaseInfo :: "client \<Rightarrow> dataBaseExtractor \<Rightarrow> databaseConfig option res go" where
  "ExtractDatabaseInfo C d =
     (if dbe_ConnectionString d = None then
        Done (None, Some (ErrNew ''connection string is empty''))
      else go_bind (parseConnectionString d) (\<lambda>(dbInfo, err).
        case err of
          Some e \<Rightarrow> Done (None, Some e)
        | None \<Rightarrow>
            go_bind (go_deref dbInfo) (\<lambda>dbInfo.
            go_bind (setCredentials C d dbInfo) (\<lambda>(dbInfo, err).
            case err of
              Some e \<Rightarrow> Done (None, Some e)
            | None \<Rightarrow> Done (Some dbInfo, None)))))"

definition GetDatabaseHost :: "string \<Rightarrow> (string \<times> string) go" where
  "GetDatabaseHost connectionString =
     go_bind (go_index (strings_Split connectionString ''//'') 1) (\<lambda>hostPort.
     go_bind (go_index (strings_Split hostPort ''/'') 0) (\<lambda>hostPort.
     case strings_Split hostPort '':'' of
       [h, p] \<Rightarrow> Done (h, p)
     | _ \<Rightarrow> Done ([], [])))"

section \<open>Well-formed connection strings\<close>

text \<open>
  \<open>jdbc:type://host:port/name\<close> and a query: the shape that the comment in \<open>GetDatabaseHost\<close>
  shows. No part holds a separator of its own.
\<close>

definition jdbc_url :: "string \<Rightarrow> string \<Rightarrow> string \<Rightarrow> string \<Rightarrow> string" where
  "jdbc_url t h p n = ''jdbc:'' @ t @ ''://'' @ h @ '':'' @ p @ ''/'' @ n"

definition url_part :: "string \<Rightarrow> bool" where
  "url_part s \<longleftrightarrow> CHR '':'' \<notin> set s \<and> CHR ''/'' \<notin> set s \<and> CHR ''?'' \<notin> set s"

definition jdbc_conn :: "string \<Rightarrow> string \<Rightarrow> string \<Rightarrow> string \<Rightarrow> string \<Rightarrow> string" where
  "jdbc_conn t h p n q = jdbc_url t h p n @ (if q = [] then [] else ''?'' @ q)"

lemma parts_of_conn:
  assumes "url_part t" "url_part h" "url_part p" "url_part n" "CHR '':'' \<notin> set q"
  shows "strings_Split (jdbc_conn t h p n q) '':'' =
         [''jdbc'', t, ''//'' @ h, p @ ''/'' @ n @ (if q = [] then [] else ''?'' @ q)]"
proof -
  let ?tail = "p @ ''/'' @ n @ (if q = [] then [] else ''?'' @ q)"
  have "strings_Split (jdbc_conn t h p n q) '':'' =
        strings_Split (strings_Join [''jdbc'', t, ''//'' @ h, ?tail] '':'') '':''"
    by (simp add: jdbc_conn_def jdbc_url_def)
  also have "\<dots> = [''jdbc'', t, ''//'' @ h, ?tail]"
    using assms by (intro strings_Split_Join) (auto simp: url_part_def)
  finally show ?thesis .
qed

lemma host_parts: "url_part h \<Longrightarrow> strings_Split (''//'' @ h) ''/'' = [[], [], h]"
  by (simp add: url_part_def split_simps)

lemma port_parts:
  assumes "url_part p" "url_part n"
  shows "strings_Split (p @ ''/'' @ n @ s) ''/'' = p # strings_Split (n @ s) ''/''"
  using assms strings_Split_step [of "CHR ''/''" p "n @ s"] by (simp add: url_part_def)

text \<open>The name in front of the query, also when the query itself holds slashes.\<close>

lemma db_name_part:
  assumes "url_part n"
  obtains r rest where
    "strings_Split (n @ (if q = [] then [] else ''?'' @ q)) ''/'' = r # rest"
    and "hd (strings_Split r ''?'') = n" and "strings_Split r ''?'' \<noteq> []"
proof (cases "q = []")
  case True
  with assms that [of n "[]"] show ?thesis by (simp add: url_part_def split_simps)
next
  case False
  let ?s = "n @ ''?'' @ q"
  have n: "strings_Split (n @ CHR ''?'' # x) ''?'' = n # strings_Split x ''?''" for x
    using assms by (intro strings_Split_step) (simp add: url_part_def)
  show ?thesis
  proof (cases "CHR ''/'' \<in> set q")
    case True
    then obtain a b where q: "q = a @ CHR ''/'' # b" "CHR ''/'' \<notin> set a"
      by (meson split_list_first)
    have "strings_Split ((n @ ''?'' @ a) @ CHR ''/'' # b) ''/'' = (n @ ''?'' @ a) # strings_Split b ''/''"
      using q assms by (intro strings_Split_step) (auto simp: url_part_def)
    then show ?thesis using that [of "n @ ''?'' @ a" "strings_Split b ''/''"] q n [of a] by simp
  next
    case no: False
    have "strings_Split ?s ''/'' = [?s]"
      using no assms by (intro strings_Split_no_sep) (auto simp: url_part_def)
    then show ?thesis using that [of ?s "[]"] False n [of q] by simp
  qed
qed

lemma parse_conn:
  assumes "url_part t" "url_part h" "url_part p" "url_part n" "CHR '':'' \<notin> set q"
    and driver: "GetDatabaseDriver t = (drv, None)"
    and conn: "dbe_ConnectionString d = Some (jdbc_conn t h p n q)"
  shows "parseConnectionString d =
    Done (Some (zeroDatabaseConfig\<lparr>dbc_DbType := t, dbc_Driver := drv, dbc_Host := h,
                  dbc_Port := p, dbc_DbName := n\<rparr>), None)"
proof -
  obtain r rest where r: "strings_Split (n @ (if q = [] then [] else ''?'' @ q)) ''/'' = r # rest"
    "hd (strings_Split r ''?'') = n" "strings_Split r ''?'' \<noteq> []"
    using db_name_part [OF assms(4)] by blast
  then obtain ns where ns: "strings_Split r ''?'' = n # ns"
    by (cases "strings_Split r ''?''") auto
  show ?thesis
    using parts_of_conn [OF assms(1-5)] host_parts [OF assms(2)] port_parts [OF assms(3,4)] r(1) ns driver conn
    by (simp add: parseConnectionString_def Let_def del: append_Cons append_Nil)
qed

section \<open>Extraction\<close>

text \<open>Which credentials the query \<open>user=u&password=w\<close> sets.\<close>

definition user_query :: "string \<Rightarrow> string \<Rightarrow> string" where
  "user_query u w = ''user='' @ u @ ''&password='' @ w"

definition query_part :: "string \<Rightarrow> bool" where
  "query_part s \<longleftrightarrow>
     CHR ''='' \<notin> set s \<and> CHR ''&'' \<notin> set s \<and> CHR ''?'' \<notin> set s \<and> CHR '':'' \<notin> set s"

lemma setCredential_user: "query_part u \<Longrightarrow> setCredential (''user='' @ u) x = x\<lparr>dbc_Username := u\<rparr>"
  using strings_Split_step [of "CHR ''=''" "''user''" u]
  by (simp add: setCredential_def query_part_def split_simps const_simps)

lemma setCredential_password:
  "query_part w \<Longrightarrow> setCredential (''password='' @ w) x = x\<lparr>dbc_Password := w\<rparr>"
  using strings_Split_step [of "CHR ''=''" "''password''" w]
  by (simp add: setCredential_def query_part_def split_simps const_simps)

lemma user_query_parts:
  assumes "query_part u" "query_part w"
  shows "strings_Split (user_query u w) ''&'' = [''user='' @ u, ''password='' @ w]"
  using assms strings_Split_step [of "CHR ''&''" "''user='' @ u" "''password='' @ w"]
  by (simp add: user_query_def query_part_def split_simps)

lemma conn_query_parts:
  assumes "url_part t" "url_part h" "url_part p" "url_part n" "q \<noteq> []" "CHR ''?'' \<notin> set q"
  shows "strings_Split (jdbc_conn t h p n q) ''?'' = [jdbc_url t h p n, q]"
proof -
  have "CHR ''?'' \<notin> set (jdbc_url t h p n)"
    using assms by (auto simp: jdbc_url_def url_part_def)
  then show ?thesis
    using assms strings_Split_step [of "CHR ''?''" "jdbc_url t h p n" q]
    by (simp add: jdbc_conn_def split_simps)
qed

text \<open>
  C9. Without a secret the extractor recovers every part of a well-formed JDBC connection string:
  printing \<open>jdbc:type://host:port/name?user=u&password=w\<close> and extracting it gives back the type,
  its driver, host, port, database, user and password.
\<close>

theorem ExtractDatabaseInfo_roundtrip:
  assumes "url_part t" "url_part h" "url_part p" "url_part n" "query_part u" "query_part w"
    and driver: "GetDatabaseDriver t = (drv, None)"
  shows "ExtractDatabaseInfo C (NewDataBaseExtractor (Some (jdbc_conn t h p n (user_query u w)))) =
    Done (Some \<lparr>dbc_DbType = t, dbc_Driver = drv, dbc_Username = u, dbc_Password = w,
                dbc_Host = h, dbc_Port = p, dbc_DbName = n\<rparr>, None)"
proof -
  let ?q = "user_query u w"
  have q: "CHR '':'' \<notin> set ?q" "CHR ''?'' \<notin> set ?q" "?q \<noteq> []"
    using assms by (auto simp: user_query_def query_part_def)
  show ?thesis
    using parse_conn [OF assms(1-4) q(1) driver] conn_query_parts [OF assms(1-4) q(3,2)]
      user_query_parts [OF assms(5,6)] setCredential_user [OF assms(5)]
      setCredential_password [OF assms(6)]
    by (simp add: ExtractDatabaseInfo_def NewDataBaseExtractor_def setCredentials_def
        setCredentialsFromConnectionString_def zeroDatabaseConfig_def Let_def del: append_Cons append_Nil)
qed

definition example_client :: client where
  "example_client = \<lparr>GetSecret = (\<lambda>_ _. ([], Some (ErrExt ''not found''))),
     GetS3Connection = (\<lambda>_ _. (\<lparr>s3c_Host = [], s3c_Port = 0, s3c_PathStyle = False,
        s3c_Credentials = None\<rparr>, Some (ErrExt ''not found''))),
     GetAuthenticationClass = (\<lambda>_. (\<lparr>ac_AuthenticationProvider = None\<rparr>, Some (ErrExt ''not found''))),
     MakeVectorYaml = (\<lambda>_ _ _ _ _. ([], Some (ErrExt ''not found''))),
     GetOwnerName = ''ds'', GetOwnerNamespace = ''default''\<rparr>"

theorem ExtractDatabaseInfo_roundtrip_witness:
  "ExtractDatabaseInfo example_client (NewDataBaseExtractor
     (Some (jdbc_conn ''postgresql'' ''127.0.0.1'' ''5432'' ''dolphinscheduler''
              (user_query ''root'' ''root'')))) =
   Done (Some \<lparr>dbc_DbType = ''postgresql'', dbc_Driver = ''org.postgresql.Driver'',
               dbc_Username = ''root'', dbc_Password = ''root'', dbc_Host = ''127.0.0.1'',
               dbc_Port = ''5432'', dbc_DbName = ''dolphinscheduler''\<rparr>, None)"
  by (rule ExtractDatabaseInfo_roundtrip)
    (simp_all add: url_part_def query_part_def GetDatabaseDriver_def)

text \<open>
  C35. When parsing panics, exactly: the string has three or more parts, a supported type and a
  slash after it, but fewer than two slashes before the host, or no port part, or no slash after
  the port. (The length guard of the source is \<open>len(hostParts) < 2\<close> although it then reads
  \<open>hostParts[2]\<close>.)
\<close>

theorem parseConnectionString_panics_iff:
  assumes conn: "dbe_ConnectionString d = Some s"
    and parts: "strings_Split s '':'' = parts"
  shows "(\<not> returns (parseConnectionString d)) \<longleftrightarrow>
    3 \<le> length parts \<and> snd (GetDatabaseDriver (parts ! 1)) = None \<and>
    2 \<le> length (strings_Split (parts ! 2) ''/'') \<and>
    (length (strings_Split (parts ! 2) ''/'') < 3 \<or> length parts < 4 \<or>
     length (strings_Split (parts ! 3) ''/'') < 2)"
proof -
  have ne: "0 < length (strings_Split x [c])" for x :: string and c by simp
  show ?thesis
    using ne
    by (cases "GetDatabaseDriver (parts ! 1)")
      (auto simp: parseConnectionString_def conn parts Let_def go_index_def split: option.split)
qed

theorem parseConnectionString_panics_iff_witness:
  "\<not> returns (parseConnectionString (NewDataBaseExtractor (Some ''jdbc:mysql://db/ds'')))"
proof -
  have split: "strings_Split ''jdbc:mysql://db/ds'' '':'' = [''jdbc'', ''mysql'', ''//db/ds'']"
    by code_simp
  have "strings_Split ''//db/ds'' ''/'' = [[], [], ''db'', ''ds'']" by code_simp
  with parseConnectionString_panics_iff
    [of "NewDataBaseExtractor (Some ''jdbc:mysql://db/ds'')" "''jdbc:mysql://db/ds''", OF _ split]
  show ?thesis by (simp add: NewDataBaseExtractor_def GetDatabaseDriver_def)
qed

lemma strings_Cut_prefix_free:
  assumes "c \<notin> set a"
  shows "strings_Cut [c, d] (a @ s) =
    map_option (\<lambda>(x, y). (a @ x, y)) (strings_Cut [c, d] s)"
  using assms
proof (induction a)
  case Nil
  then show ?case by (cases "strings_Cut [c, d] s") auto
next
  case (Cons b a)
  then show ?case by (cases "strings_Cut [c, d] s") auto
qed

text \<open>The first piece between double slashes starts with everything up to the next slash.\<close>

lemma first_piece_of_tail:
  assumes "url_part h" "url_part p"
    and x: "strings_Split (h @ CHR '':'' # p @ CHR ''/'' # s) ''//'' = x # xs"
  shows "\<exists>y. x = h @ CHR '':'' # p @ y \<and> (y = [] \<or> (\<exists>z. y = CHR ''/'' # z))"
proof -
  let ?a = "h @ CHR '':'' # p"
  have a: "CHR ''/'' \<notin> set ?a" using assms by (auto simp: url_part_def)
  have cut: "strings_Cut ''//'' (?a @ CHR ''/'' # s) =
        map_option (\<lambda>(x, y). (?a @ x, y)) (strings_Cut ''//'' (CHR ''/'' # s))"
    using strings_Cut_prefix_free [OF a] .
  show ?thesis
  proof (cases "strings_Cut ''//'' (CHR ''/'' # s)")
    case None
    then have "x = ?a @ CHR ''/'' # s"
      using x cut by (simp add: strings_Split.simps [of "h @ CHR '':'' # p @ CHR ''/'' # s"])
    then show ?thesis by simp
  next
    case (Some uv)
    then obtain u v where uv: "strings_Cut ''//'' (CHR ''/'' # s) = Some (u, v)" by (cases uv) auto
    then have "x = ?a @ u"
      using x cut by (simp add: strings_Split.simps [of "h @ CHR '':'' # p @ CHR ''/'' # s"])
    moreover have "u = [] \<or> (\<exists>z. u = CHR ''/'' # z)"
      using uv by (auto split: if_splits)
    ultimately show ?thesis by auto
  qed
qed

text \<open>
  The init job's host lookup indexes the second piece of \<open>Split(s, "//")\<close>: it returns exactly
  when the connection string contains a double slash and panics on every other string, such as
  the \<open>xxx\<close> of the sample manifest.
\<close>

theorem GetDatabaseHost_returns_iff:
  "returns (GetDatabaseHost s) \<longleftrightarrow> strings_Cut ''//'' s \<noteq> None"
proof (cases "strings_Cut ''//'' s")
  case None
  then show ?thesis
    by (simp add: GetDatabaseHost_def strings_Split.simps [of s "''//''"])
next
  case (Some ab)
  then obtain a b where "strings_Cut ''//'' s = Some (a, b)" by (cases ab) auto
  then obtain x xs where "strings_Split s ''//'' = a # x # xs"
    using strings_Split_nonempty [of "''//''" b]
    by (cases "strings_Split b ''//''") (simp_all add: strings_Split.simps [of s "''//''"])
  then show ?thesis
    using Some strings_Split_nonempty [of "''/''" x]
    by (cases "strings_Split x ''/''")
      (auto simp: GetDatabaseHost_def split: list.split)
qed

lemma GetDatabaseHost_conn:
  assumes "url_part t" "url_part h" "url_part p" "url_part n"
  shows "GetDatabaseHost (jdbc_conn t h p n q) = Done (h, p)"
proof -
  let ?tail = "h @ CHR '':'' # p @ CHR ''/'' # n @ (if q = [] then [] else ''?'' @ q)"
  have slashes: "strings_Split (jdbc_conn t h p n q) ''//'' =
        (''jdbc:'' @ t @ '':'') # strings_Split ?tail ''//''"
    using assms strings_Split_pair [of "CHR ''/''" "''jdbc:'' @ t @ '':''" "CHR ''/''" ?tail]
    by (simp add: jdbc_conn_def jdbc_url_def url_part_def)
  obtain x xs where x: "strings_Split ?tail ''//'' = x # xs"
    using strings_Split_nonempty [of "''//''" ?tail] by (cases "strings_Split ?tail ''//''") auto
  obtain y where y: "x = h @ CHR '':'' # p @ y" "y = [] \<or> (\<exists>z. y = CHR ''/'' # z)"
    using first_piece_of_tail [OF assms(2,3) x] by blast
  have "\<exists>r. strings_Split x ''/'' = (h @ CHR '':'' # p) # r"
  proof (cases "y = []")
    case True
    then show ?thesis using y assms by (auto simp: url_part_def split_simps)
  next
    case False
    then obtain z where "x = (h @ CHR '':'' # p) @ CHR ''/'' # z" using y by auto
    then show ?thesis
      using strings_Split_step [of "CHR ''/''" "h @ CHR '':'' # p" z] assms by (auto simp: url_part_def)
  qed
  then show ?thesis
    using assms strings_Split_step [of "CHR '':''" h p]
    by (auto simp: GetDatabaseHost_def slashes x url_part_def split_simps)
qed

text \<open>
  The host that the init job waits for is the host that the environment config map uses: on a
  well-formed connection string \<open>GetDatabaseHost\<close> returns the host and port that
  \<open>parseConnectionString\<close> extracts.
\<close>

theorem GetDatabaseHost_agrees:
  assumes "url_part t" "url_part h" "url_part p" "url_part n" "CHR '':'' \<notin> set q"
    and driver: "GetDatabaseDriver t = (drv, None)"
  shows "\<exists>cfg. parseConnectionString (NewDataBaseExtractor (Some (jdbc_conn t h p n q))) =
           Done (Some cfg, None) \<and>
         GetDatabaseHost (jdbc_conn t h p n q) = Done (dbc_Host cfg, dbc_Port cfg)"
  using parse_conn [OF assms(1-5) driver, of "NewDataBaseExtractor (Some (jdbc_conn t h p n q))"]
    GetDatabaseHost_conn [OF assms(1-4), of q]
  by (simp add: NewDataBaseExtractor_def)

theorem GetDatabaseHost_agrees_witness:
  "\<exists>cfg. parseConnectionString
           (NewDataBaseExtractor (Some (jdbc_conn ''mysql'' ''db'' ''3306'' ''ds'' ''ssl=on''))) =
         Done (Some cfg, None) \<and>
       GetDatabaseHost (jdbc_conn ''mysql'' ''db'' ''3306'' ''ds'' ''ssl=on'') =
         Done (dbc_Host cfg, dbc_Port cfg)"
  by (rule GetDatabaseHost_agrees [where drv = "''com.mysql.cj.jdbc.Driver''"])
    (simp_all add: url_part_def GetDatabaseDriver_def)

end
