(* ===== verification/Pkg_S3.thy ===== *)
theory Pkg_S3
  imports Pkg_Util
begin

text \<open>
  \<open>pkg/util/s3.go\<close>: the extractor that turns the bucket of the custom resource into the settings
  of an S3 client. A result \<open>(*S3Config, error)\<close> with a nil pointer is \<open>None\<close>. Named results
  keep the value they have when \<open>return\<close> is reached.
\<close>

definition S3AccessKeyName :: string where [const_simps]: "S3AccessKeyName = ''ACCESS_KEY''"
definition S3SecretKeyName :: string where [const_simps]: "S3SecretKeyName = ''SECRET_KEY''"

record s3Config =
  s3cfg_BucketName :: string
  s3cfg_Endpoint :: string
  s3cfg_Region :: string
  s3cfg_AccessKeyID :: string
  s3cfg_SecretAccessKey :: string
  s3cfg_ForcePathStyle :: bool

record s3ConfigExtractor =
  s3e_Namespace :: string
  s3e_S3Spec :: "s3BucketSpec option"

definition NewS3ConfigExtractor :: "s3BucketSpec option \<Rightarrow> string \<Rightarrow> s3ConfigExtractor" where
  "NewS3ConfigExtractor s3Spec namespace = \<lparr>s3e_Namespace = namespace, s3e_S3Spec = s3Spec\<rparr>"

definition GetS3SecretData ::
  "client \<Rightarrow> s3ConfigExtractor \<Rightarrow> credentials option \<Rightarrow> (string \<times> string) res" where
  "GetS3SecretData C s creditial =
     (case creditial of
        None \<Rightarrow> (([], []), Some (ErrNew ''S3 credentials cannot be nil''))
      | Some c \<Rightarrow>
          (let name = cred_SecretClass c in
           if name = [] then (([], []), Some (ErrNew ''S3 secret class cannot be empty''))
           else case GetSecret C (s3e_Namespace s) name of
                  (_, Some err) \<Rightarrow> (([], []), Some err)
                | (secretData, None) \<Rightarrow>
                    ((gm_str secretData S3AccessKeyName, gm_str secretData S3SecretKeyName), None)))"

definition GetS3ConnectionInlineEndpoint :: "s3ConfigExtractor \<Rightarrow> string go" where
  "GetS3ConnectionInlineEndpoint s =
     go_bind (go_deref (s3e_S3Spec s)) (\<lambda>spec.
     go_bind (go_deref (s3_Connection spec)) (\<lambda>conn.
     go_bind (go_deref (s3b_Inline conn)) (\<lambda>inl.
       let port = s3c_Port inl in
       if port = 0 then Done (s3c_Host inl)
       else Done (s3c_Host inl @ '':'' @ strconv_Itoa (sint port)))))"

definition GetS3ConfigFromConnectionSpec ::
  "client \<Rightarrow> s3ConfigExtractor \<Rightarrow> s3ConnectionSpec \<Rightarrow> s3Config option res go" where
  "GetS3ConfigFromConnectionSpec C s connSpec =
     (case GetS3SecretData C s (s3c_Credentials connSpec) of
        (_, Some err) \<Rightarrow> Done (None, Some (ErrWrap err ''failed to get s3 secret data''))
      | ((accessKey, secretKey), None) \<Rightarrow>
          go_bind (go_deref (s3e_S3Spec s)) (\<lambda>spec.
          go_bind (GetS3ConnectionInlineEndpoint s) (\<lambda>endpoint.
          Done (Some \<lparr>s3cfg_BucketName = s3_BucketName spec, s3cfg_Endpoint = endpoint,
                      s3cfg_Region = [], s3cfg_AccessKeyID = accessKey,
                      s3cfg_SecretAccessKey = secretKey,
                      s3cfg_ForcePathStyle = s3c_PathStyle connSpec\<rparr>, None))))"

definition GetS3ConfigFromConnectionInline ::
  "client \<Rightarrow> s3ConfigExtractor \<Rightarrow> s3BucketConnectionSpec \<Rightarrow> s3Config option res go" where
  "GetS3ConfigFromConnectionInline C s connRef =
     (case s3b_Inline connRef of
        None \<Rightarrow>
          Done (None, Some (ErrNew ''S3 connection inline and reference name cannot be both nil''))
      | Some connInline \<Rightarrow> GetS3ConfigFromConnectionSpec C s connInline)"

definition GetS3ConfigFromConnectionReferenceName ::
  "client \<Rightarrow> s3ConfigExtractor \<Rightarrow> string \<Rightarrow> s3Config option res go" where
  "GetS3ConfigFromConnectionReferenceName C s connRefName =
     (if connRefName = [] then
        Done (None, Some (ErrNew ''S3 connection reference name cannot be empty''))
      else case GetS3Connection C (s3e_Namespace s) connRefName of
             (_, Some err) \<Rightarrow>
               Done (None, Some (ErrWrap err
                 ''failed to get s3 connection with connection reference name''))
           | (s3Conn, None) \<Rightarrow> GetS3ConfigFromConnectionSpec C s s3Conn)"

definition GetS3Config :: "client \<Rightarrow> s3ConfigExtractor \<Rightarrow> s3Config option res go" where
  "GetS3Config C s =
     (case s3e_S3Spec s of
        None \<Rightarrow> Done (None, None)
      | Some spec \<Rightarrow>
          (case s3_Connection spec of
             None \<Rightarrow> Done (None, Some (ErrNew ''S3 connection reference is nil''))
           | Some connRef \<Rightarrow>
               if s3b_Reference connRef \<noteq> [] then
                 GetS3ConfigFromConnectionReferenceName C s (s3b_Reference connRef)
               else GetS3ConfigFromConnectionInline C s connRef))"

section \<open>Properties\<close>

lemmas s3_defs = GetS3Config_def GetS3ConfigFromConnectionInline_def
  GetS3ConfigFromConnectionReferenceName_def GetS3ConfigFromConnectionSpec_def
  GetS3ConnectionInlineEndpoint_def

text \<open>What one endpoint looks like: the host, and the port unless it is zero.\<close>

definition endpoint_of :: "s3ConnectionSpec \<Rightarrow> string" where
  "endpoint_of c =
     (if s3c_Port c = 0 then s3c_Host c else s3c_Host c @ '':'' @ strconv_Itoa (sint (s3c_Port c)))"

lemma inline_endpoint:
  "s3e_S3Spec s = Some spec \<Longrightarrow> s3_Connection spec = Some conn \<Longrightarrow> s3b_Inline conn = Some c \<Longrightarrow>
   GetS3ConnectionInlineEndpoint s = Done (endpoint_of c)"
  by (simp add: GetS3ConnectionInlineEndpoint_def endpoint_of_def Let_def)

text \<open>
  An inline connection is translated completely: whenever the credentials can be read, the
  S3 settings carry the bucket, the endpoint of the inline connection, its path style and the two
  keys of the secret; otherwise the call returns an error and never panics.
\<close>

theorem GetS3Config_inline:
  assumes "s3_Connection spec = Some conn" and "s3b_Reference conn = []"
    and "s3b_Inline conn = Some c"
  shows "GetS3Config C (NewS3ConfigExtractor (Some spec) ns) =
    (case GetS3SecretData C (NewS3ConfigExtractor (Some spec) ns) (s3c_Credentials c) of
       (_, Some err) \<Rightarrow> Done (None, Some (ErrWrap err ''failed to get s3 secret data''))
     | ((ak, sk), None) \<Rightarrow>
         Done (Some \<lparr>s3cfg_BucketName = s3_BucketName spec, s3cfg_Endpoint = endpoint_of c,
                     s3cfg_Region = [], s3cfg_AccessKeyID = ak, s3cfg_SecretAccessKey = sk,
                     s3cfg_ForcePathStyle = s3c_PathStyle c\<rparr>, None))"
  using assms
  by (simp add: GetS3Config_def GetS3ConfigFromConnectionInline_def GetS3ConfigFromConnectionSpec_def
      inline_endpoint NewS3ConfigExtractor_def split: prod.split option.split)

definition example_s3_inline :: s3ConnectionSpec where
  "example_s3_inline = \<lparr>s3c_Host = ''minio'', s3c_Port = 9000, s3c_PathStyle = True,
     s3c_Credentials = Some \<lparr>cred_SecretClass = ''s3-secret'', cred_Scope = None\<rparr>\<rparr>"

definition example_s3_spec :: s3BucketSpec where
  "example_s3_spec = \<lparr>s3_BucketName = ''bucket'',
     s3_Connection = Some \<lparr>s3b_Reference = [], s3b_Inline = Some example_s3_inline\<rparr>\<rparr>"

definition s3_client :: client where
  "s3_client = \<lparr>GetSecret = (\<lambda>_ _. ([(''ACCESS_KEY'', ''ak''), (''SECRET_KEY'', ''sk'')], None)),
     GetS3Connection = (\<lambda>_ _. (\<lparr>s3c_Host = ''s3'', s3c_Port = 443, s3c_PathStyle = False,
        s3c_Credentials = Some \<lparr>cred_SecretClass = ''s3-secret'', cred_Scope = None\<rparr>\<rparr>, None)),
     GetAuthenticationClass = (\<lambda>_. (\<lparr>ac_AuthenticationProvider = None\<rparr>, Some (ErrExt ''not found''))),
     MakeVectorYaml = (\<lambda>_ _ _ _ _. ([], Some (ErrExt ''not found''))),
     GetOwnerName = ''ds'', GetOwnerNamespace = ''default''\<rparr>"

theorem GetS3Config_inline_witness:
  "GetS3Config s3_client (NewS3ConfigExtractor (Some example_s3_spec) ''default'') =
   Done (Some \<lparr>s3cfg_BucketName = ''bucket'', s3cfg_Endpoint = ''minio:9000'', s3cfg_Region = [],
               s3cfg_AccessKeyID = ''ak'', s3cfg_SecretAccessKey = ''sk'',
               s3cfg_ForcePathStyle = True\<rparr>, None)"
proof -
  have port: "strconv_Itoa 9000 = ''9000''"
    by (simp add: strconv_Itoa_def nat_digits.simps digit_char_def)
  have secret: "GetS3SecretData s3_client (NewS3ConfigExtractor (Some example_s3_spec) ''default'')
      (s3c_Credentials example_s3_inline) = ((''ak'', ''sk''), None)"
    by (simp add: example_s3_inline_def s3_client_def GetS3SecretData_def gm_str_def gm_get_def
        const_simps)
  have "GetS3Config s3_client (NewS3ConfigExtractor (Some example_s3_spec) ''default'') =
    Done (Some \<lparr>s3cfg_BucketName = s3_BucketName example_s3_spec,
      s3cfg_Endpoint = endpoint_of example_s3_inline, s3cfg_Region = [],
      s3cfg_AccessKeyID = ''ak'', s3cfg_SecretAccessKey = ''sk'',
      s3cfg_ForcePathStyle = s3c_PathStyle example_s3_inline\<rparr>, None)"
    using GetS3Config_inline [of example_s3_spec
        "\<lparr>s3b_Reference = [], s3b_Inline = Some example_s3_inline\<rparr>" example_s3_inline
        s3_client "''default''"] secret
    by (simp add: example_s3_spec_def)
  with port show ?thesis by (simp add: example_s3_spec_def example_s3_inline_def endpoint_of_def)
qed

text \<open>
  C36. A bucket that is given by reference only, the very case references are for, is never usable,
  whatever the client can read: the endpoint is still taken from the inline connection of the custom
  resource. If the connection or its secret cannot be read, the call returns an error and no
  settings; it panics exactly if both can be read.
\<close>

theorem GetS3Config_reference_unusable:
  assumes "s3_Connection spec = Some conn" and "s3b_Reference conn \<noteq> []" and "s3b_Inline conn = None"
  shows "(GetS3Config C (NewS3ConfigExtractor (Some spec) ns) = Panic NilDeref \<longleftrightarrow>
      (\<exists>s3Conn keys. GetS3Connection C ns (s3b_Reference conn) = (s3Conn, None) \<and>
         GetS3SecretData C (NewS3ConfigExtractor (Some spec) ns) (s3c_Credentials s3Conn) = (keys, None))) \<and>
    (GetS3Config C (NewS3ConfigExtractor (Some spec) ns) = Panic NilDeref \<or>
     (\<exists>err. GetS3Config C (NewS3ConfigExtractor (Some spec) ns) = Done (None, Some err)))"
  using assms
  by (auto simp: s3_defs NewS3ConfigExtractor_def split: prod.splits option.splits)

theorem GetS3Config_reference_unusable_witness:
  "GetS3Config s3_client (NewS3ConfigExtractor (Some \<lparr>s3_BucketName = ''bucket'',
     s3_Connection = Some \<lparr>s3b_Reference = ''my-s3'', s3b_Inline = None\<rparr>\<rparr>) ''default'') =
   Panic NilDeref"
proof -
  let ?conn = "\<lparr>s3b_Reference = ''my-s3'', s3b_Inline = None\<rparr>"
  let ?spec = "\<lparr>s3_BucketName = ''bucket'', s3_Connection = Some ?conn\<rparr>"
  have "s3_Connection ?spec = Some ?conn" "s3b_Reference ?conn \<noteq> []" "s3b_Inline ?conn = None" by simp_all
  note unusable = GetS3Config_reference_unusable [OF this, of s3_client "''default''"]
  have "\<exists>s3Conn keys. GetS3Connection s3_client ''default'' (s3b_Reference ?conn) = (s3Conn, None) \<and>
      GetS3SecretData s3_client (NewS3ConfigExtractor (Some ?spec) ''default'') (s3c_Credentials s3Conn) = (keys, None)"
    by (simp add: s3_client_def GetS3SecretData_def NewS3ConfigExtractor_def)
  then show ?thesis by (rule unusable [THEN conjunct1, THEN iffD2])
qed

text \<open>
  The extractor panics in no other situation: without a reference, or with an inline
  connection beside it, every call returns, and a nil pointer without an error is returned only
  when no bucket was configured, so callers may dereference an error-free result.
\<close>

theorem GetS3Config_returns:
  assumes "\<And>conn. s3_Connection spec = Some conn \<Longrightarrow> s3b_Reference conn \<noteq> [] \<Longrightarrow>
             s3b_Inline conn \<noteq> None"
  shows "\<exists>cfg err. GetS3Config C (NewS3ConfigExtractor (Some spec) ns) = Done (cfg, err) \<and>
           (err = None \<longleftrightarrow> cfg \<noteq> None)"
proof (cases "s3_Connection spec")
  case None
  then show ?thesis by (simp add: GetS3Config_def NewS3ConfigExtractor_def)
next
  case (Some conn)
  show ?thesis
  proof (cases "s3b_Inline conn")
    case None
    with Some assms show ?thesis
      by (auto simp: GetS3Config_def NewS3ConfigExtractor_def GetS3ConfigFromConnectionInline_def)
  next
    case (Some c)
    with \<open>s3_Connection spec = Some conn\<close> show ?thesis
      by (auto simp: GetS3Config_def NewS3ConfigExtractor_def GetS3ConfigFromConnectionInline_def
          GetS3ConfigFromConnectionReferenceName_def GetS3ConfigFromConnectionSpec_def
          inline_endpoint split: prod.split option.split)
  qed
qed

theorem GetS3Config_returns_witness:
  "\<exists>cfg err. GetS3Config s3_client (NewS3ConfigExtractor (Some example_s3_spec) ''default'') =
     Done (cfg, err) \<and> (err = None \<longleftrightarrow> cfg \<noteq> None)"
  by (rule GetS3Config_returns) (simp add: example_s3_spec_def)

end
