(* ===== verification/Config_Map.thy ===== *)
theory Config_Map
  imports Common_Config Product_Logging Pkg_Database Pkg_S3
begin

text \<open>
  \<open>internal/common/configmap.go\<close> and the config map part of \<open>internal/common/vector.go\<close>: the
  generators of \<open>common.properties\<close>, of \<open>logback-spring.xml\<close> and of the environment config map, and
  the two config maps that are built from them. A config map reconciler is the record of what the
  operator passes to operator-go's builder.
\<close>

section \<open>Generators\<close>

record commonPropertiesGenerator =
  cpg_s3 :: "s3BucketSpec option"
  cpg_namespace :: string
  cpg_overrides :: "overridesSpec option"

definition CommonPropertiesGenerator_FileName :: string where
  "CommonPropertiesGenerator_FileName = DolphinCommonPropertiesName"

definition s3Args :: "s3Config \<Rightarrow> string go_map" where
  "s3Args s3Config =
     [(''resource.storage.type'', ''S3''),
      (''resource.aws.access.key.id'', s3cfg_AccessKeyID s3Config),
      (''resource.aws.region'', s3cfg_Region s3Config),
      (''resource.aws.s3.bucket.name'', s3cfg_BucketName s3Config),
      (''resource.aws.s3.endpoint'', s3cfg_Endpoint s3Config),
      (''resource.aws.secret.access.key'', s3cfg_SecretAccessKey s3Config)]"

definition overriddenProperties :: "overridesSpec option \<Rightarrow> string go_map" where
  "overriddenProperties overrides =
     (case overrides of
        None \<Rightarrow> []
      | Some ov \<Rightarrow>
          (case ov_ConfigOverrides ov of
             None \<Rightarrow> []
           | Some co \<Rightarrow>
               (case gm_get co CommonPropertiesGenerator_FileName of
                  None \<Rightarrow> []
                | Some commonPropertiesOverride \<Rightarrow> maps_Copy [] commonPropertiesOverride)))"

definition CommonPropertiesGenerator_Generate ::
  "client \<Rightarrow> commonPropertiesGenerator \<Rightarrow> string res go" where
  "CommonPropertiesGenerator_Generate C c =
     (let commonProperties = overriddenProperties (cpg_overrides c) in
      case cpg_s3 c of
        None \<Rightarrow> Done (ToProperties commonProperties, None)
      | Some s3 \<Rightarrow>
          go_bind (GetS3Config C (NewS3ConfigExtractor (Some s3) (cpg_namespace c)))
            (\<lambda>(s3Config, err).
             case err of
               Some e \<Rightarrow> Done ([], Some (ErrWrap e ''failed to get s3 config''))
             | None \<Rightarrow>
                 go_bind (go_deref s3Config) (\<lambda>cfg.
                   Done (ToProperties (maps_Copy commonProperties (s3Args cfg)), None))))"

record logbackXmlGenerator =
  lxg_loggingSpec :: "loggingSpec option"
  lxg_container :: string

definition LogbackXmlGenerator_FileName :: string where
  "LogbackXmlGenerator_FileName = LogbackPropertiesFileName"

definition LogbackXmlGenerator_Generate :: "opgo \<Rightarrow> logbackXmlGenerator \<Rightarrow> string res go" where
  "LogbackXmlGenerator_Generate G l =
     (let roleLoggingConfig =
            (case lxg_loggingSpec l of
               None \<Rightarrow> None
             | Some spec \<Rightarrow>
                 (case lg_Containers spec of
                    None \<Rightarrow> None
                  | Some containers \<Rightarrow> gm_get containers (lxg_container l)))
      in go_bind (NewConfigGenerator G roleLoggingConfig (lxg_container l)
                    (lxg_container l @ ''.log4j.xml'')
                    [\<lambda>cgo. cgo\<lparr>cgo_ConsoleHandlerFormatter := Some ConsoleConversionPattern\<rparr>])
           (\<lambda>(logGenerator, err).
            case err of Some e \<Rightarrow> Done ([], Some e) | None \<Rightarrow> Done (Content G logGenerator)))"

record envConfigmapDataGenerator =
  ecg_namespace :: string
  ecg_databaseSpec :: "databaseSpec option"
  ecg_overrides :: "overridesSpec option"

definition databaseEnvs :: "databaseConfig \<Rightarrow> string go_map" where
  "databaseEnvs dbConfig =
     [(''DATABASE'', dbc_DbType dbConfig),
      (''SPRING_DATASOURCE_URL'',
         ''jdbc:'' @ dbc_DbType dbConfig @ ''://'' @ dbc_Host dbConfig @ '':'' @ dbc_Port dbConfig @
         ''/'' @ dbc_DbName dbConfig),
      (''SPRING_DATASOURCE_USERNAME'', dbc_Username dbConfig),
      (''SPRING_DATASOURCE_PASSWORD'', dbc_Password dbConfig),
      (''SPRING_DATASOURCE_DRIVER-CLASS-NAME'', dbc_Driver dbConfig)]"

definition EnvConfigmapDataGenerator_Generate ::
  "client \<Rightarrow> envConfigmapDataGenerator \<Rightarrow> string go_map res go" where
  "EnvConfigmapDataGenerator_Generate C e =
     go_bind (go_deref (ecg_overrides e)) (\<lambda>ov.
     let envs = maps_Copy [] (case ov_EnvOverrides ov of None \<Rightarrow> [] | Some m \<Rightarrow> m) in
     case ecg_databaseSpec e of
       None \<Rightarrow> Done (envs, None)
     | Some db \<Rightarrow>
         go_bind (ExtractDatabaseInfo C
                    (CredentialsInSecret (NewDataBaseExtractor (Some (db_ConnectionString db)))
                       (db_CredentialsSecret db) (ecg_namespace e)))
           (\<lambda>(dbConfig, err).
            case err of
              Some e \<Rightarrow> Done (envs, Some (ErrWrap e ''failed to get database info''))
            | None \<Rightarrow>
                go_bind (go_deref dbConfig) (\<lambda>cfg.
                  Done (maps_Copy envs (databaseEnvs cfg), None))))"

section \<open>Vector\<close>

definition ContainerVector :: string where [const_simps]: "ContainerVector = ''vector''"

definition IsVectorEnable :: "loggingSpec option \<Rightarrow> bool go" where
  "IsVectorEnable loggingConfig =
     (case loggingConfig of
        Some l \<Rightarrow> go_deref (lg_EnableVectorAgent l)
      | None \<Rightarrow> Done False)"

record vectorConfigParams =
  vcp_ClusterConfig :: "clusterConfigSpec option"
  vcp_Namespace :: string
  vcp_InstanceName :: string
  vcp_Role :: string
  vcp_GroupName :: string

definition generateVectorYAML :: "client \<Rightarrow> vectorConfigParams \<Rightarrow> string res go" where
  "generateVectorYAML C params =
     go_bind (go_deref (vcp_ClusterConfig params)) (\<lambda>cc.
     let aggregatorConfigMapName = cc_VectorAggregatorConfigMapName cc in
     if aggregatorConfigMapName = [] then
       Done ([], Some (ErrNew ''vectorAggregatorConfigMapName is not set''))
     else Done (MakeVectorYaml C (vcp_Namespace params) (vcp_InstanceName params)
                  (vcp_Role params) (vcp_GroupName params) aggregatorConfigMapName))"

definition ExtendConfigMapDataByVector ::
  "opgo \<Rightarrow> client \<Rightarrow> vectorConfigParams \<Rightarrow> string go_map \<Rightarrow> string go_map go" where
  "ExtendConfigMapDataByVector G C params data =
     go_bind (generateVectorYAML C params) (\<lambda>(vectorYaml, err).
       if err \<noteq> None then Done data
       else Done (gm_put (VectorConfigFileName G) vectorYaml data))"

section \<open>Config maps\<close>

record configMapResource =
  cm_Name :: string
  cm_Labels :: "string go_map"
  cm_Annotations :: "string go_map"
  cm_Data :: "string go_map"

text \<open>\<open>cr\<close> is the owner reference of the client, cast to the custom resource.\<close>

definition NewConfigMapReconciler ::
  "opgo \<Rightarrow> client \<Rightarrow> dolphinschedulerCluster \<Rightarrow> roleGroupInfo \<Rightarrow> string \<Rightarrow>
   overridesSpec option \<Rightarrow> roleGroupConfigSpec option \<Rightarrow> configMapResource go" where
  "NewConfigMapReconciler G C cr roleGroupInf container overrides roleGroupConfig =
     (let s3Spec = (case spec_ClusterConfig (dc_Spec cr) of
                      None \<Rightarrow> None | Some clusterSpec \<Rightarrow> cc_S3 clusterSpec) in
      go_bind (go_deref roleGroupConfig) (\<lambda>rgc.
      go_bind (GenerateAllFile
        [\<lparr>fg_Generate = CommonPropertiesGenerator_Generate C
            \<lparr>cpg_s3 = s3Spec, cpg_namespace = GetOwnerNamespace C, cpg_overrides = overrides\<rparr>,
          fg_FileName = CommonPropertiesGenerator_FileName\<rparr>,
         \<lparr>fg_Generate = LogbackXmlGenerator_Generate G
            \<lparr>lxg_loggingSpec = rgc_Logging rgc, lxg_container = container\<rparr>,
          fg_FileName = LogbackXmlGenerator_FileName\<rparr>]) (\<lambda>data.
      go_bind (IsVectorEnable (rgc_Logging rgc)) (\<lambda>vector.
      go_bind (if vector then
                 ExtendConfigMapDataByVector G C
                   \<lparr>vcp_ClusterConfig = spec_ClusterConfig (dc_Spec cr),
                    vcp_Namespace = GetOwnerNamespace C, vcp_InstanceName = GetOwnerName C,
                    vcp_Role = GetRoleName G (rgi_RoleInfo roleGroupInf),
                    vcp_GroupName = GetGroupName G roleGroupInf\<rparr> data
               else Done data) (\<lambda>data.
      Done \<lparr>cm_Name = RoleGroupConfigMapName G roleGroupInf,
            cm_Labels = GetLabels G roleGroupInf,
            cm_Annotations = GetAnnotations G roleGroupInf,
            cm_Data = data\<rparr>)))))"

definition NewEnvConfigMapReconciler ::
  "opgo \<Rightarrow> client \<Rightarrow> dolphinschedulerCluster \<Rightarrow> overridesSpec option \<Rightarrow> roleGroupInfo \<Rightarrow>
   configMapResource go" where
  "NewEnvConfigMapReconciler G C cr overrides roleGroupInfo =
     (let dbSpec = (case spec_ClusterConfig (dc_Spec cr) of
                      None \<Rightarrow> None | Some clusterSpec \<Rightarrow> cc_Database clusterSpec) in
      go_bind (GenerateAllEnv
        [\<lparr>eg_Generate = EnvConfigmapDataGenerator_Generate C
            \<lparr>ecg_namespace = GetOwnerNamespace C, ecg_databaseSpec = dbSpec,
             ecg_overrides = overrides\<rparr>\<rparr>]) (\<lambda>data.
      Done \<lparr>cm_Name = RoleGroupEnvsConfigMapName (GetOwnerName C),
            cm_Labels = GetLabels G roleGroupInfo,
            cm_Annotations = GetAnnotations G roleGroupInfo,
            cm_Data = data\<rparr>))"

section \<open>common.properties\<close>

lemma s3Args_ok: "gm_ok (s3Args cfg)"
  by (simp add: gm_ok_def s3Args_def)

lemma overriddenProperties_ok: "gm_ok (overriddenProperties ov)"
  by (simp add: overriddenProperties_def gm_ok_Copy split: option.split)

text \<open>
  With an S3 bucket, \<open>common.properties\<close> is the text of the overrides of the custom resource
  with the S3 settings written over them: the storage type is \<open>S3\<close> and bucket, endpoint and keys
  are those of the extracted connection, whatever the overrides say.
\<close>

theorem CommonProperties_s3:
  assumes "GetS3Config C (NewS3ConfigExtractor (Some s3) ns) = Done (Some cfg, None)"
  shows "\<exists>m. CommonPropertiesGenerator_Generate C
      \<lparr>cpg_s3 = Some s3, cpg_namespace = ns, cpg_overrides = ov\<rparr> = Done (ToProperties m, None) \<and>
    gm_ok m \<and> gm_get m = gm_get (overriddenProperties ov) ++ gm_get (s3Args cfg)"
  using assms
  by (auto simp: CommonPropertiesGenerator_Generate_def Let_def gm_get_Copy gm_ok_Copy s3Args_ok
      overriddenProperties_ok intro!: exI [of _ "maps_Copy (overriddenProperties ov) (s3Args cfg)"])

theorem CommonProperties_s3_witness:
  "\<exists>m. CommonPropertiesGenerator_Generate s3_client
      \<lparr>cpg_s3 = Some example_s3_spec, cpg_namespace = ''default'', cpg_overrides = None\<rparr> =
      Done (ToProperties m, None) \<and> gm_get m ''resource.storage.type'' = Some ''S3''"
proof -
  obtain cfg where
    "GetS3Config s3_client (NewS3ConfigExtractor (Some example_s3_spec) ''default'') = Done (Some cfg, None)"
    by (simp add: s3_defs NewS3ConfigExtractor_def example_s3_spec_def example_s3_inline_def s3_client_def
        GetS3SecretData_def Let_def)
  from CommonProperties_s3 [OF this, of None] obtain m where m:
    "CommonPropertiesGenerator_Generate s3_client
      \<lparr>cpg_s3 = Some example_s3_spec, cpg_namespace = ''default'', cpg_overrides = None\<rparr> =
      Done (ToProperties m, None)"
    "gm_get m = gm_get (overriddenProperties None) ++ gm_get (s3Args cfg)" by blast
  have "gm_get m ''resource.storage.type'' = Some ''S3''"
    by (simp add: m(2) s3Args_def gm_get_Cons map_add_def)
  with m(1) show ?thesis by (intro exI conjI)
qed

section \<open>The environment config map\<close>

definition envBase :: "envConfigmapDataGenerator \<Rightarrow> string go_map" where
  "envBase e = (case ecg_overrides e of
      None \<Rightarrow> [] | Some ov \<Rightarrow> (case ov_EnvOverrides ov of None \<Rightarrow> [] | Some m \<Rightarrow> m))"

lemma databaseEnvs_ok: "gm_ok (databaseEnvs cfg)"
  by (simp add: gm_ok_def databaseEnvs_def)

lemma EnvGenerate_cases:
  assumes "EnvConfigmapDataGenerator_Generate C e = Done (m, err)"
  shows "gm_ok m \<and> (err \<noteq> None \<longrightarrow> m = maps_Copy [] (envBase e))"
  using assms
  by (auto simp: EnvConfigmapDataGenerator_Generate_def envBase_def go_bind_Done_iff Let_def
      gm_ok_Copy split: option.splits prod.splits)

interpretation envgen: env_generator "EnvConfigmapDataGenerator_Generate C" envBase for C
proof
  fix g m e
  assume "EnvConfigmapDataGenerator_Generate C g = Done (m, e)"
  then show "gm_ok m" using EnvGenerate_cases by blast
next
  fix g m err
  assume "gm_ok (envBase g)" and "EnvConfigmapDataGenerator_Generate C g = Done (m, Some err)"
  then show "gm_get m = gm_get (envBase g)"
    using EnvGenerate_cases [of C g m "Some err"] by (simp add: gm_get_Copy)
qed

text \<open>The database of the custom resource, as the environment config map sees it.\<close>

definition cr_database :: "dolphinschedulerCluster \<Rightarrow> databaseSpec option" where
  "cr_database cr = (case spec_ClusterConfig (dc_Spec cr) of
      None \<Rightarrow> None | Some cc \<Rightarrow> cc_Database cc)"

definition env_generator_of ::
  "client \<Rightarrow> dolphinschedulerCluster \<Rightarrow> overridesSpec option \<Rightarrow> envConfigmapDataGenerator" where
  "env_generator_of C cr overrides =
     \<lparr>ecg_namespace = GetOwnerNamespace C, ecg_databaseSpec = cr_database cr,
      ecg_overrides = overrides\<rparr>"

lemma NewEnvConfigMapReconciler_eq:
  "NewEnvConfigMapReconciler G C cr overrides info =
   go_bind (GenerateAllEnv
     [\<lparr>eg_Generate = EnvConfigmapDataGenerator_Generate C (env_generator_of C cr overrides)\<rparr>])
     (\<lambda>data. Done \<lparr>cm_Name = RoleGroupEnvsConfigMapName (GetOwnerName C),
            cm_Labels = GetLabels G info, cm_Annotations = GetAnnotations G info, cm_Data = data\<rparr>)"
  by (simp add: NewEnvConfigMapReconciler_def env_generator_of_def cr_database_def Let_def
      split: option.split)

lemma setCredentialsFromSecret_Done:
  assumes "GetSecret C ns name = (data, None)"
    and "gm_get data ''username'' = Some u" and "gm_get data ''password'' = Some w"
  shows "setCredentials C (CredentialsInSecret d name ns) cfg =
    Done (cfg\<lparr>dbc_Username := u, dbc_Password := w\<rparr>, None)"
  using assms
  by (simp add: setCredentials_def setCredentialsFromSecret_def CredentialsInSecret_def const_simps)

lemma ExtractDatabaseInfo_secret:
  assumes "url_part t" "url_part h" "url_part p" "url_part n" "CHR '':'' \<notin> set q"
    and "GetDatabaseDriver t = (drv, None)"
    and "GetSecret C ns name = (data, None)"
    and "gm_get data ''username'' = Some u" and "gm_get data ''password'' = Some w"
  shows "ExtractDatabaseInfo C
      (CredentialsInSecret (NewDataBaseExtractor (Some (jdbc_conn t h p n q))) name ns) =
    Done (Some \<lparr>dbc_DbType = t, dbc_Driver = drv, dbc_Username = u, dbc_Password = w,
                dbc_Host = h, dbc_Port = p, dbc_DbName = n\<rparr>, None)"
proof -
  let ?d = "CredentialsInSecret (NewDataBaseExtractor (Some (jdbc_conn t h p n q))) name ns"
  have "dbe_ConnectionString ?d = Some (jdbc_conn t h p n q)"
    by (simp add: CredentialsInSecret_def NewDataBaseExtractor_def)
  with parse_conn [OF assms(1-6) this] setCredentialsFromSecret_Done [OF assms(7-9)]
  show ?thesis by (simp add: ExtractDatabaseInfo_def zeroDatabaseConfig_def)
qed

text \<open>
  C10. The environment config map for a well-formed connection string and a readable credentials
  secret: the variables of the custom resource with the database variables written over them,
  where the data source URL is the connection string without its query, the driver fits the type,
  and user and password come from the secret, never from the query.
\<close>

theorem EnvConfigMap_database:
  assumes "url_part t" "url_part h" "url_part p" "url_part n" "CHR '':'' \<notin> set q"
    and "GetDatabaseDriver t = (drv, None)"
    and "cr_database cr = Some db" and "db_ConnectionString db = jdbc_conn t h p n q"
    and "GetSecret C (GetOwnerNamespace C) (db_CredentialsSecret db) = (data, None)"
    and "gm_get data ''username'' = Some u" and "gm_get data ''password'' = Some w"
    and "ov_EnvOverrides ov = Some eo" and "gm_ok eo"
  shows "\<exists>cm. NewEnvConfigMapReconciler G C cr (Some ov) info = Done cm \<and>
    cm_Name cm = GetOwnerName C @ ''-envs'' \<and>
    gm_get (cm_Data cm) = gm_get eo ++
      [''DATABASE'' \<mapsto> t, ''SPRING_DATASOURCE_URL'' \<mapsto> jdbc_url t h p n,
       ''SPRING_DATASOURCE_USERNAME'' \<mapsto> u, ''SPRING_DATASOURCE_PASSWORD'' \<mapsto> w,
       ''SPRING_DATASOURCE_DRIVER-CLASS-NAME'' \<mapsto> drv]"
proof -
  let ?e = "env_generator_of C cr (Some ov)"
  let ?cfg = "\<lparr>dbc_DbType = t, dbc_Driver = drv, dbc_Username = u, dbc_Password = w,
                dbc_Host = h, dbc_Port = p, dbc_DbName = n\<rparr>"
  have base: "envBase ?e = eo" using assms(12) by (simp add: envBase_def env_generator_of_def)
  have gen: "EnvConfigmapDataGenerator_Generate C ?e =
      Done (maps_Copy (maps_Copy [] eo) (databaseEnvs ?cfg), None)"
    using ExtractDatabaseInfo_secret [OF assms(1-6,9-11)] assms(7,8,12)
    by (simp add: EnvConfigmapDataGenerator_Generate_def env_generator_of_def Let_def)
  obtain env where env: "GenerateAllEnv [\<lparr>eg_Generate = EnvConfigmapDataGenerator_Generate C ?e\<rparr>] = Done env"
    "gm_get env = gm_get (maps_Copy (maps_Copy [] eo) (databaseEnvs ?cfg))"
    using envgen.single_data [of ?e C] gen base assms(13) by auto
  have "gm_get (databaseEnvs ?cfg) =
      [''DATABASE'' \<mapsto> t, ''SPRING_DATASOURCE_URL'' \<mapsto> jdbc_url t h p n,
       ''SPRING_DATASOURCE_USERNAME'' \<mapsto> u, ''SPRING_DATASOURCE_PASSWORD'' \<mapsto> w,
       ''SPRING_DATASOURCE_DRIVER-CLASS-NAME'' \<mapsto> drv]"
    by (simp add: databaseEnvs_def gm_get_Cons jdbc_url_def fun_eq_iff)
  with env assms(13) show ?thesis
    by (simp add: NewEnvConfigMapReconciler_eq RoleGroupEnvsConfigMapName_def gm_get_Copy
        databaseEnvs_ok)
qed

definition example_db :: databaseSpec where
  "example_db = \<lparr>db_ConnectionString = jdbc_conn ''mysql'' ''db'' ''3306'' ''ds'' ''user=x'',
     db_DatabaseType = ''mysql'', db_CredentialsSecret = ''db-secret''\<rparr>"

definition example_cluster_config :: clusterConfigSpec where
  "example_cluster_config = \<lparr>cc_ClusterDomain = ''cluster.local'', cc_IngressHost = ''example.com'',
     cc_VectorAggregatorConfigMapName = [], cc_ZookeeperConfigMapName = ''znode'',
     cc_S3 = None, cc_Database = Some example_db, cc_Authentication = None\<rparr>"

definition example_role :: roleSpec where
  "example_role = \<lparr>role_Config = None,
     role_RoleGroups = [(''default'', \<lparr>rg_Replicas = Some 1, rg_Config = None, rg_OverridesSpec = None\<rparr>)],
     role_RoleConfig = None, role_OverridesSpec = None\<rparr>"

definition example_cr :: dolphinschedulerCluster where
  "example_cr = \<lparr>dc_Name = ''ds'', dc_Namespace = ''default'',
     dc_Spec = \<lparr>spec_Image = Some \<lparr>img_Custom = [], img_Repo = ''quay.io/zncdatadev'',
                  img_KubedoopVersion = [], img_ProductVersion = [],
                  img_PullPolicy = Some ''IfNotPresent'', img_PullSecretName = []\<rparr>,
                spec_ClusterConfig = Some example_cluster_config,
                spec_ClusterOperationSpec = None,
                spec_Master = Some example_role, spec_Worker = Some example_role,
                spec_Alerter = Some example_role, spec_Api = Some example_role\<rparr>\<rparr>"

definition db_client :: client where
  "db_client = example_client
     \<lparr>GetSecret := (\<lambda>_ _. ([(''username'', ''root''), (''password'', ''pw'')], None))\<rparr>"

definition example_info :: roleGroupInfo where
  "example_info = \<lparr>rgi_RoleInfo = \<lparr>ri_ClusterInfo = \<lparr>ci_Group = ''dolphinscheduler.kubedoop.dev'',
       ci_Version = ''v1alpha1'', ci_Kind = ''DolphinschedulerCluster'', ci_ClusterName = ''ds''\<rparr>,
       ri_RoleName = ''master''\<rparr>, rgi_RoleGroupName = ''default''\<rparr>"

lemma example_db_parts:
  "url_part ''mysql''" "url_part ''db''" "url_part ''3306''" "url_part ''ds''"
  "CHR '':'' \<notin> set ''user=x''" "GetDatabaseDriver ''mysql'' = (''com.mysql.cj.jdbc.Driver'', None)"
  "cr_database example_cr = Some example_db"
  "db_ConnectionString example_db = jdbc_conn ''mysql'' ''db'' ''3306'' ''ds'' ''user=x''"
  by (simp_all add: url_part_def GetDatabaseDriver_def cr_database_def example_cr_def
      example_cluster_config_def example_db_def)

theorem EnvConfigMap_database_witness:
  "\<exists>cm. NewEnvConfigMapReconciler example_opgo db_client example_cr
      (Some \<lparr>ov_ConfigOverrides = None, ov_EnvOverrides = Some [(''TZ'', ''UTC'')]\<rparr>) example_info = Done cm \<and>
    cm_Name cm = ''ds-envs'' \<and> gm_get (cm_Data cm) ''TZ'' = Some ''UTC'' \<and>
    gm_get (cm_Data cm) ''SPRING_DATASOURCE_URL'' = Some ''jdbc:mysql://db:3306/ds''"
proof -
  have secret: "GetSecret db_client (GetOwnerNamespace db_client) (db_CredentialsSecret example_db) =
      ([(''username'', ''root''), (''password'', ''pw'')], None)"
    by (simp add: db_client_def)
  have up: "gm_get [(''username'', ''root''), (''password'', ''pw'')] ''username'' = Some ''root''"
    "gm_get [(''username'', ''root''), (''password'', ''pw'')] ''password'' = Some ''pw''"
    by (simp_all add: gm_get_def)
  have ov: "ov_EnvOverrides \<lparr>ov_ConfigOverrides = None, ov_EnvOverrides = Some [(''TZ'', ''UTC'')]\<rparr> =
      Some [(''TZ'', ''UTC'')]" and ok: "gm_ok [(''TZ'', ''UTC'')]"
    by (simp_all add: gm_ok_def)
  show ?thesis
    using EnvConfigMap_database [OF example_db_parts secret up ov ok, of example_opgo example_info]
    by (elim exE conjE, intro exI conjI)
      (assumption | simp add: db_client_def example_client_def gm_get_Cons jdbc_url_def map_add_def)+
qed

text \<open>
  When the credentials secret cannot be read, the environment config map is still produced,
  with the variables of the custom resource and without any database setting, and no error is
  reported to the reconciler, even if the connection string itself carries user and password.
\<close>

theorem EnvConfigMap_secret_unreadable:
  assumes "url_part t" "url_part h" "url_part p" "url_part n" "CHR '':'' \<notin> set q"
    and "GetDatabaseDriver t = (drv, None)"
    and "cr_database cr = Some db" and "db_ConnectionString db = jdbc_conn t h p n q"
    and "GetSecret C (GetOwnerNamespace C) (db_CredentialsSecret db) = (data, Some err)"
    and "ov_EnvOverrides ov = Some eo" and "gm_ok eo"
  shows "\<exists>cm. NewEnvConfigMapReconciler G C cr (Some ov) info = Done cm \<and>
    gm_get (cm_Data cm) = gm_get eo"
proof -
  let ?e = "env_generator_of C cr (Some ov)"
  let ?d = "CredentialsInSecret (NewDataBaseExtractor (Some (jdbc_conn t h p n q)))
              (db_CredentialsSecret db) (GetOwnerNamespace C)"
  have base: "envBase ?e = eo" using assms(10) by (simp add: envBase_def env_generator_of_def)
  have conn: "dbe_ConnectionString ?d = Some (jdbc_conn t h p n q)"
    by (simp add: CredentialsInSecret_def NewDataBaseExtractor_def)
  have "setCredentials C ?d x = Done (x, Some (ErrWrap err ''failed to get database secret''))" for x
    using assms(9)
    by (simp add: setCredentials_def setCredentialsFromSecret_def CredentialsInSecret_def)
  then have "\<exists>m err. EnvConfigmapDataGenerator_Generate C ?e = Done (m, Some err)"
    using parse_conn [OF assms(1-6) conn] assms(7,8,10) conn
    by (simp add: EnvConfigmapDataGenerator_Generate_def env_generator_of_def ExtractDatabaseInfo_def
        Let_def)
  then show ?thesis
    using envgen.single_data_error [of ?e C] base assms(11)
    by (auto simp: NewEnvConfigMapReconciler_eq)
qed

theorem EnvConfigMap_secret_unreadable_witness:
  "\<exists>cm. NewEnvConfigMapReconciler example_opgo example_client example_cr
      (Some \<lparr>ov_ConfigOverrides = None, ov_EnvOverrides = Some [(''TZ'', ''UTC'')]\<rparr>) example_info = Done cm \<and>
    gm_get (cm_Data cm) = gm_get [(''TZ'', ''UTC'')]"
proof -
  have secret: "GetSecret example_client (GetOwnerNamespace example_client)
      (db_CredentialsSecret example_db) = ([], Some (ErrExt ''not found''))"
    by (simp add: example_client_def)
  show ?thesis
    by (rule EnvConfigMap_secret_unreadable [OF example_db_parts secret]) (simp_all add: gm_ok_def)
qed

section \<open>The config map of a role group\<close>

lemma LogbackXmlGenerator_Generate_default:
  "LogbackXmlGenerator_Generate G \<lparr>lxg_loggingSpec = None, lxg_container = container\<rparr> =
   Done (Content G \<lparr>lb_productLogging = \<lparr>pl_RootLogLevel = DefaultLoggerLevel G,
     pl_ConsoleHandlerLevel = DefaultLoggerLevel G,
     pl_ConsoleHandlerFormatter = ConsoleConversionPattern,
     pl_RotatingFileHandlerLevel = DefaultLoggerLevel G,
     pl_RotatingFileHandlerFile =
       path_Join [KubedoopLogDir G, strings_ToLower container, container @ ''.log4j.xml''],
     pl_RotatingFileHandlerMaxBytes = DefaultRotatingFileHandlerMaxBytes G,
     pl_RotatingFileHandlerBackupCount = 1, pl_Loggers = []\<rparr>\<rparr>)"
  by (simp add: LogbackXmlGenerator_Generate_def NewConfigGenerator_def initializeProductLogging_def
      Let_def)

definition cr_s3 :: "dolphinschedulerCluster \<Rightarrow> s3BucketSpec option" where
  "cr_s3 cr = (case spec_ClusterConfig (dc_Spec cr) of None \<Rightarrow> None | Some cc \<Rightarrow> cc_S3 cc)"

lemma distinct_files: "CommonPropertiesGenerator_FileName \<noteq> LogbackXmlGenerator_FileName"
  by (simp add: CommonPropertiesGenerator_FileName_def LogbackXmlGenerator_FileName_def const_simps)

text \<open>With an S3 error only the logback file is left, and the vector file if it is enabled.\<close>

lemma GenerateAllFile_s3_error:
  assumes "GetS3Config C (NewS3ConfigExtractor (Some bucket) ns) = Done (cfg, Some e)"
  shows "GenerateAllFile
      [\<lparr>fg_Generate = CommonPropertiesGenerator_Generate C
          \<lparr>cpg_s3 = Some bucket, cpg_namespace = ns, cpg_overrides = overrides\<rparr>,
        fg_FileName = CommonPropertiesGenerator_FileName\<rparr>,
       \<lparr>fg_Generate = logback, fg_FileName = LogbackXmlGenerator_FileName\<rparr>] =
    go_bind logback (\<lambda>(text, err). Done (if err = None then [(LogbackXmlGenerator_FileName, text)] else []))"
  using assms
  by (auto simp: GenerateAllFile_def CommonPropertiesGenerator_Generate_def gm_put_def
      split: option.split intro!: arg_cong [where f = "go_bind logback"])

text \<open>
  C37. A failing S3 lookup is not fatal and not reported: whether the config map of the role group is
  registered depends on the logging section alone (the logback file and the vector switch must not
  hit a nil pointer), and whenever it is registered, it has no key \<open>common.properties\<close>, the very key
  that the containers mount by sub-path. The hypothesis on the name of the vector file is a fact of
  operator-go's constants.
\<close>

theorem ConfigMap_drops_common_properties:
  assumes "cr_s3 cr = Some bucket"
    and "GetS3Config C (NewS3ConfigExtractor (Some bucket) (GetOwnerNamespace C)) = Done (cfg, Some e)"
    and "VectorConfigFileName G \<noteq> DolphinCommonPropertiesName"
  shows "(returns (NewConfigMapReconciler G C cr info container overrides (Some rgc)) \<longleftrightarrow>
      returns (LogbackXmlGenerator_Generate G \<lparr>lxg_loggingSpec = rgc_Logging rgc, lxg_container = container\<rparr>) \<and>
      returns (IsVectorEnable (rgc_Logging rgc))) \<and>
    (\<forall>cm. NewConfigMapReconciler G C cr info container overrides (Some rgc) = Done cm \<longrightarrow>
      cm_Name cm = GetFullName G info \<and> gm_get (cm_Data cm) DolphinCommonPropertiesName = None)"
proof -
  obtain cc where cc: "spec_ClusterConfig (dc_Spec cr) = Some cc" "cc_S3 cc = Some bucket"
    using assms(1) by (auto simp: cr_s3_def split: option.splits)
  have other: "LogbackXmlGenerator_FileName \<noteq> DolphinCommonPropertiesName"
    using distinct_files by (simp add: CommonPropertiesGenerator_FileName_def)
  show ?thesis
    by (cases "LogbackXmlGenerator_Generate G \<lparr>lxg_loggingSpec = rgc_Logging rgc, lxg_container = container\<rparr>";
        cases "IsVectorEnable (rgc_Logging rgc)")
      (auto simp: NewConfigMapReconciler_def cc GenerateAllFile_s3_error [OF assms(2)] not_sym [OF assms(3)] not_sym [OF other]
        ExtendConfigMapDataByVector_def generateVectorYAML_def RoleGroupConfigMapName_def gm_get_put
        gm_get_Cons Let_def split: prod.splits)
qed

theorem ConfigMap_drops_common_properties_witness:
  "\<exists>cm. NewConfigMapReconciler example_opgo example_client
      (example_cr\<lparr>dc_Spec := (dc_Spec example_cr)\<lparr>spec_ClusterConfig :=
         Some (example_cluster_config\<lparr>cc_S3 := Some example_s3_spec\<rparr>)\<rparr>\<rparr>)
      example_info ''master-server'' None (Some zeroRoleGroupConfigSpec) = Done cm \<and>
    cm_Name cm = GetFullName example_opgo example_info \<and>
    gm_get (cm_Data cm) DolphinCommonPropertiesName = None"
proof -
  let ?cr = "example_cr\<lparr>dc_Spec := (dc_Spec example_cr)\<lparr>spec_ClusterConfig :=
         Some (example_cluster_config\<lparr>cc_S3 := Some example_s3_spec\<rparr>)\<rparr>\<rparr>"
  have "cr_s3 ?cr = Some example_s3_spec" by (simp add: cr_s3_def)
  moreover have "GetS3Config example_client (NewS3ConfigExtractor (Some example_s3_spec)
      (GetOwnerNamespace example_client)) =
      Done (None, Some (ErrWrap (ErrExt ''not found'') ''failed to get s3 secret data''))"
    by (simp add: s3_defs NewS3ConfigExtractor_def example_s3_spec_def example_s3_inline_def
        example_client_def GetS3SecretData_def Let_def)
  moreover have "VectorConfigFileName example_opgo \<noteq> DolphinCommonPropertiesName"
    by (simp add: example_opgo_def const_simps)
  ultimately have drops: "(returns (NewConfigMapReconciler example_opgo example_client ?cr example_info
      ''master-server'' None (Some zeroRoleGroupConfigSpec)) \<longleftrightarrow>
      returns (LogbackXmlGenerator_Generate example_opgo
        \<lparr>lxg_loggingSpec = rgc_Logging zeroRoleGroupConfigSpec, lxg_container = ''master-server''\<rparr>) \<and>
      returns (IsVectorEnable (rgc_Logging zeroRoleGroupConfigSpec))) \<and>
    (\<forall>cm. NewConfigMapReconciler example_opgo example_client ?cr example_info ''master-server'' None
        (Some zeroRoleGroupConfigSpec) = Done cm \<longrightarrow>
      cm_Name cm = GetFullName example_opgo example_info \<and>
      gm_get (cm_Data cm) DolphinCommonPropertiesName = None)"
    by (rule ConfigMap_drops_common_properties)
  moreover have "rgc_Logging zeroRoleGroupConfigSpec = None" by (simp add: zeroRoleGroupConfigSpec_def)
  ultimately have "returns (NewConfigMapReconciler example_opgo example_client ?cr example_info
      ''master-server'' None (Some zeroRoleGroupConfigSpec))"
    by (simp add: LogbackXmlGenerator_Generate_default IsVectorEnable_def)
  with drops show ?thesis by (auto simp: returns_iff)
qed

section \<open>When the config maps can be built\<close>

definition well_formed_conn :: "string \<Rightarrow> bool" where
  "well_formed_conn s \<longleftrightarrow>
     (\<exists>t h p n q drv. url_part t \<and> url_part h \<and> url_part p \<and> url_part n \<and> CHR '':'' \<notin> set q \<and>
        GetDatabaseDriver t = (drv, None) \<and> s = jdbc_conn t h p n q)"

lemma setCredentials_secret_returns:
  "\<exists>x. setCredentials C (CredentialsInSecret d name ns) cfg = Done x"
  by (simp add: setCredentials_def setCredentialsFromSecret_def CredentialsInSecret_def Let_def
      split: prod.split option.split)

lemma ExtractDatabaseInfo_returns:
  assumes "well_formed_conn s"
  shows "\<exists>x e. ExtractDatabaseInfo C (CredentialsInSecret (NewDataBaseExtractor (Some s)) name ns) =
      Done (x, e) \<and> (e = None \<longrightarrow> x \<noteq> None)"
proof -
  let ?d = "CredentialsInSecret (NewDataBaseExtractor (Some s)) name ns"
  have "dbe_ConnectionString ?d = Some s"
    by (simp add: CredentialsInSecret_def NewDataBaseExtractor_def)
  moreover obtain cfg where p: "parseConnectionString ?d = Done (Some cfg, None)"
    using assms parse_conn [of _ _ _ _ _ _ ?d] calculation by (auto simp: well_formed_conn_def)
  moreover obtain cfg' e where "setCredentials C ?d cfg = Done (cfg', e)"
    using setCredentials_secret_returns by (metis surj_pair)
  ultimately show ?thesis by (cases e) (simp_all add: ExtractDatabaseInfo_def)
qed

lemma NewEnvConfigMapReconciler_returns:
  assumes "cr_database cr = Some db" and "well_formed_conn (db_ConnectionString db)"
  shows "\<exists>cm. NewEnvConfigMapReconciler G C cr (Some ov) info = Done cm"
proof -
  obtain x e where "ExtractDatabaseInfo C (CredentialsInSecret
      (NewDataBaseExtractor (Some (db_ConnectionString db))) (db_CredentialsSecret db)
      (GetOwnerNamespace C)) = Done (x, e)" and "e = None \<longrightarrow> x \<noteq> None"
    using ExtractDatabaseInfo_returns [OF assms(2)] by blast
  then have "\<exists>m e. EnvConfigmapDataGenerator_Generate C (env_generator_of C cr (Some ov)) = Done (m, e)"
    using assms(1)
    by (cases e) (auto simp: EnvConfigmapDataGenerator_Generate_def env_generator_of_def Let_def)
  then show ?thesis by (auto simp: NewEnvConfigMapReconciler_eq GenerateAllEnv_def)
qed

lemma NewConfigMapReconciler_plain:
  assumes "cr_s3 cr = None" and "rgc_Logging rgc = None"
  shows "\<exists>cm. NewConfigMapReconciler G C cr info container ov (Some rgc) = Done cm"
  using assms
  by (auto simp: NewConfigMapReconciler_def cr_s3_def GenerateAllFile_def IsVectorEnable_def
      CommonPropertiesGenerator_Generate_def LogbackXmlGenerator_Generate_default Let_def
      split: option.splits prod.split)

end
