(* ===== verification/Container_Builder.thy ===== *)
theory Container_Builder
  imports Common_Util
begin

text \<open>
  \<open>internal/common/container.go\<close>: the fluent builder of a role's container. The embedded builder of
  operator-go is the container's name, its image and the list of calls made on it; the methods of
  the operator fill the private fields, and \<open>Build\<close> turns them into calls.
\<close>

section \<open>The embedded builder\<close>

datatype container_call =
    SetLivenessProbe "probe option"
  | SetReadinessProbe "probe option"
  | AddEnvVars "envVar list"
  | AddEnvFromConfigMap string
  | AddPorts "containerPort list"
  | SetCommand "string list"
  | AddVolumeMounts "volumeMount list"
  | SetArgs "string list"
  | SetResources "resourcesSpec option"

record baseContainer =
  bc_Name :: string
  bc_Image :: image
  bc_Calls :: "container_call list"

text \<open>A container: what \<open>Build\<close> of operator-go makes of the calls, or a plain struct literal.\<close>

datatype container =
    BuiltContainer baseContainer
  | PlainContainer string string "string list"

record containerBuilder =
  cb_Container :: baseContainer
  cb_ZookeeperConfigMapName :: string
  cb_RoleGroupInfo :: roleGroupInfo
  cb_RoleGroupConfig :: "roleGroupConfigSpec option"
  cb_secretEnvfrom :: string
  cb_envs :: "envVar list"
  cb_ports :: "containerPort list"
  cb_readiness :: "probe option"
  cb_liveness :: "probe option"
  cb_volumeMounts :: "volumeMount list"
  cb_args :: "string list"
  cb_argsScript :: string

section \<open>Methods\<close>

definition commonVolumeMounts :: "opgo \<Rightarrow> roleGroupInfo \<Rightarrow> volumeMount list" where
  "commonVolumeMounts G info =
     (let role = ri_RoleName (rgi_RoleInfo info) in
      [\<lparr>vm_Name = ConfigVolumeName,
        vm_MountPath = RoleConfigPath G role DolphinCommonPropertiesName,
        vm_SubPath = DolphinCommonPropertiesName, vm_ReadOnly = False\<rparr>,
       \<lparr>vm_Name = LogbackVolumeName,
        vm_MountPath = RoleConfigPath G role LogbackPropertiesFileName,
        vm_SubPath = LogbackPropertiesFileName, vm_ReadOnly = False\<rparr>])"

definition NewContainerBuilder ::
  "opgo \<Rightarrow> string \<Rightarrow> image \<Rightarrow> string \<Rightarrow> roleGroupInfo \<Rightarrow> roleGroupConfigSpec option \<Rightarrow>
   containerBuilder" where
  "NewContainerBuilder G container img zookeeperConfigMapName info roleGroupConfig =
     \<lparr>cb_Container = \<lparr>bc_Name = container, bc_Image = img, bc_Calls = []\<rparr>,
      cb_ZookeeperConfigMapName = zookeeperConfigMapName,
      cb_RoleGroupInfo = info, cb_RoleGroupConfig = roleGroupConfig,
      cb_secretEnvfrom = [], cb_envs = [], cb_ports = [],
      cb_readiness = None, cb_liveness = None,
      cb_volumeMounts = commonVolumeMounts G info,
      cb_args = [], cb_argsScript = []\<rparr>"

text \<open>The callback of \<open>WithEnvs\<close>: strings and sources become variables, other values nothing.\<close>

definition appendEnv :: "string \<Rightarrow> iface \<Rightarrow> envVar list \<Rightarrow> (envVar list \<times> bool) go" where
  "appendEnv k v envs =
     Done (case v of
             VString envVal \<Rightarrow> envs @ [\<lparr>ev_Name = k, ev_Value = envVal, ev_ValueFrom = None\<rparr>]
           | VEnvVarSource src \<Rightarrow> envs @ [\<lparr>ev_Name = k, ev_Value = [], ev_ValueFrom = Some src\<rparr>]
           | _ \<Rightarrow> envs, True)"

definition zookeeperEnv :: "containerBuilder \<Rightarrow> envVar" where
  "zookeeperEnv c =
     \<lparr>ev_Name = ''REGISTRY_ZOOKEEPER_CONNECT_STRING'', ev_Value = [],
      ev_ValueFrom = Some (ConfigMapKeyRef (cb_ZookeeperConfigMapName c) ZookeeperDiscoveryKey)\<rparr>"

definition WithEnvs :: "sortedMap \<Rightarrow> containerBuilder \<Rightarrow> containerBuilder go" where
  "WithEnvs envMap c =
     go_bind (SortedMap_Range appendEnv envMap []) (\<lambda>envs.
       Done (c\<lparr>cb_envs := cb_envs c @ envs @ [zookeeperEnv c]\<rparr>))"

definition WithSecretEnvFrom :: "string \<Rightarrow> containerBuilder \<Rightarrow> containerBuilder" where
  "WithSecretEnvFrom secretName c = c\<lparr>cb_secretEnvfrom := secretName\<rparr>"

definition AddEnvFromSecret ::
  "string \<Rightarrow> string go_map \<Rightarrow> containerBuilder \<Rightarrow> containerBuilder" where
  "AddEnvFromSecret secretName envToSecretKeymap c =
     c\<lparr>cb_envs := cb_envs c @
        map (\<lambda>(envKey, secretKey).
               \<lparr>ev_Name = envKey, ev_Value = [],
                ev_ValueFrom = Some (SecretKeyRef secretName secretKey)\<rparr>) envToSecretKeymap\<rparr>"

definition GetCommandArgs :: "containerBuilder \<Rightarrow> string list" where
  "GetCommandArgs c = cb_args c"

definition commandArgs :: "opgo \<Rightarrow> roleGroupInfo \<Rightarrow> string list" where
  "commandArgs G info =
     [CommonBashTrapFunctions G, RemoveVectorShutdownFileCommand G, InvokePrepareSignalHandlers G,
      RoleExecArgs (ri_RoleName (rgi_RoleInfo info)), InvokeWaitForTermination G,
      CreateVectorShutdownFileCommand G]"

definition CommonCommandArgs :: "opgo \<Rightarrow> containerBuilder \<Rightarrow> containerBuilder" where
  "CommonCommandArgs G c =
     (let args = commandArgs G (cb_RoleGroupInfo c)
      in c\<lparr>cb_argsScript := strings_Join args newline, cb_args := cb_args c @ args\<rparr>)"

definition ResetCommandArgs :: "string \<Rightarrow> containerBuilder \<Rightarrow> containerBuilder" where
  "ResetCommandArgs script c = c\<lparr>cb_argsScript := script\<rparr>"

definition appendPort ::
  "string \<Rightarrow> iface \<Rightarrow> containerPort list \<Rightarrow> (containerPort list \<times> bool) go" where
  "appendPort k v ports =
     Done (case ToContainerPortInt32 v of
             (_, Some err) \<Rightarrow> (ports, False)
           | (port, None) \<Rightarrow>
               (ports @ [\<lparr>cp_Name = k, cp_ContainerPort = port, cp_Protocol = ''TCP''\<rparr>], True))"

definition WithPorts :: "sortedMap \<Rightarrow> containerBuilder \<Rightarrow> containerBuilder go" where
  "WithPorts portMap c =
     go_bind (SortedMap_Range appendPort portMap []) (\<lambda>ports.
       Done (c\<lparr>cb_ports := cb_ports c @ ports\<rparr>))"

definition healthProbe :: "int \<Rightarrow> string \<Rightarrow> probe" where
  "healthProbe port endpoint =
     \<lparr>pr_ExecCommand = [''curl'',
        ''http://localhost:'' @ strconv_Itoa port @ ''/actuator/health/'' @ endpoint],
      pr_InitialDelaySeconds = 30, pr_SuccessThreshold = 1, pr_FailureThreshold = 3,
      pr_PeriodSeconds = 30, pr_TimeoutSeconds = 5\<rparr>"

definition WithReadinessAndLivenessProbe :: "int \<Rightarrow> containerBuilder \<Rightarrow> containerBuilder" where
  "WithReadinessAndLivenessProbe port c =
     c\<lparr>cb_readiness := Some (healthProbe port ''readiness''),
       cb_liveness := Some (healthProbe port ''liveness'')\<rparr>"

text \<open>\<open>v.(string)\<close> panics on a value of another type.\<close>

definition appendMount ::
  "string \<Rightarrow> iface \<Rightarrow> volumeMount list \<Rightarrow> (volumeMount list \<times> bool) go" where
  "appendMount k v mounts =
     (case v of
        VString p \<Rightarrow> Done (mounts @ [\<lparr>vm_Name = k, vm_MountPath = p, vm_SubPath = [],
                                     vm_ReadOnly = False\<rparr>], True)
      | _ \<Rightarrow> Panic TypeAssertionFailed)"

definition WithVolumeMounts :: "sortedMap \<Rightarrow> containerBuilder \<Rightarrow> containerBuilder go" where
  "WithVolumeMounts vmMap c =
     (if length vmMap \<noteq> 0 then
        go_bind (SortedMap_Range appendMount vmMap (cb_volumeMounts c)) (\<lambda>mounts.
          Done (c\<lparr>cb_volumeMounts := mounts\<rparr>))
      else Done c)"

definition ResetVolumeMounts :: "containerBuilder \<Rightarrow> containerBuilder" where
  "ResetVolumeMounts c = c\<lparr>cb_volumeMounts := []\<rparr>"

definition call :: "container_call \<Rightarrow> containerBuilder \<Rightarrow> containerBuilder" where
  "call f c = c\<lparr>cb_Container := (cb_Container c)\<lparr>bc_Calls := bc_Calls (cb_Container c) @ [f]\<rparr>\<rparr>"

text \<open>
  The condition on \<open>secretEnvfrom\<close> calls \<open>WithSecretEnvFrom\<close>, a method of this builder, again; no
  call reaches the embedded builder.
\<close>

definition Build :: "opgo \<Rightarrow> containerBuilder \<Rightarrow> container \<times> containerBuilder" where
  "Build G c =
     (let c1 = fold call
            [SetLivenessProbe (cb_liveness c), SetReadinessProbe (cb_readiness c),
             AddEnvVars (cb_envs c),
             AddEnvFromConfigMap (RoleGroupEnvsConfigMapName
               (GetClusterName G (ri_ClusterInfo (rgi_RoleInfo (cb_RoleGroupInfo c))))),
             AddPorts (cb_ports c),
             SetCommand [''/bin/bash'', ''-x'', ''-euo'', ''pipefail'', ''-c''],
             AddVolumeMounts (cb_volumeMounts c), SetArgs [cb_argsScript c]] c;
          c2 = (if cb_secretEnvfrom c1 \<noteq> [] then WithSecretEnvFrom (cb_secretEnvfrom c1) c1 else c1);
          c3 = (case cb_RoleGroupConfig c2 of
                  None \<Rightarrow> c2 | Some rgc \<Rightarrow> call (SetResources (rgc_Resources rgc)) c2)
      in (BuiltContainer (cb_Container c3), c3))"

section \<open>What the methods append\<close>

fun envVars_of :: "string \<times> iface \<Rightarrow> envVar list" where
  "envVars_of (k, VString s) = [\<lparr>ev_Name = k, ev_Value = s, ev_ValueFrom = None\<rparr>]"
| "envVars_of (k, VEnvVarSource src) = [\<lparr>ev_Name = k, ev_Value = [], ev_ValueFrom = Some src\<rparr>]"
| "envVars_of (k, _) = []"

lemma appendEnv_eq: "appendEnv k v envs = Done (envs @ envVars_of (k, v), True)"
  by (cases v) (simp_all add: appendEnv_def)

definition sorted_entries :: "sortedMap \<Rightarrow> (string \<times> iface) list" where
  "sorted_entries m = map (\<lambda>k. (k, iface_at m k)) (SortedKeys m)"

lemma Range_appendEnv:
  "Range_keys appendEnv m ks envs = Done (envs @ concat (map (\<lambda>k. envVars_of (k, iface_at m k)) ks))"
  by (induction ks arbitrary: envs) (simp_all add: appendEnv_eq)

lemma WithEnvs_eq:
  "WithEnvs m c =
   Done (c\<lparr>cb_envs := cb_envs c @ concat (map envVars_of (sorted_entries m)) @ [zookeeperEnv c]\<rparr>)"
  by (simp add: WithEnvs_def SortedMap_Range_def Range_appendEnv sorted_entries_def comp_def)

text \<open>The ports before the first value that is no port.\<close>

fun ports_of :: "(string \<times> iface) list \<Rightarrow> containerPort list" where
  "ports_of [] = []"
| "ports_of ((k, v) # kvs) =
     (case ToContainerPortInt32 v of
        (port, None) \<Rightarrow> \<lparr>cp_Name = k, cp_ContainerPort = port, cp_Protocol = ''TCP''\<rparr> # ports_of kvs
      | (_, Some _) \<Rightarrow> [])"

lemma Range_appendPort:
  "Range_keys appendPort m ks ports = Done (ports @ ports_of (map (\<lambda>k. (k, iface_at m k)) ks))"
proof (induction ks arbitrary: ports)
  case (Cons k ks)
  obtain port e where "ToContainerPortInt32 (iface_at m k) = (port, e)"
    by (cases "ToContainerPortInt32 (iface_at m k)")
  then have "appendPort k (iface_at m k) ps =
      Done (case e of None \<Rightarrow> (ps @ [\<lparr>cp_Name = k, cp_ContainerPort = port, cp_Protocol = ''TCP''\<rparr>], True)
            | Some _ \<Rightarrow> (ps, False))" for ps
    by (cases e) (simp_all add: appendPort_def)
  with \<open>ToContainerPortInt32 (iface_at m k) = (port, e)\<close> show ?case
    by (cases e) (simp_all add: Cons)
qed simp

lemma WithPorts_eq: "WithPorts m c = Done (c\<lparr>cb_ports := cb_ports c @ ports_of (sorted_entries m)\<rparr>)"
  by (simp add: WithPorts_def SortedMap_Range_def Range_appendPort sorted_entries_def)

lemma ports_of_valid:
  "\<forall>(k, v) \<in> set kvs. snd (ToContainerPortInt32 v) = None \<Longrightarrow>
   ports_of kvs = map (\<lambda>(k, v). \<lparr>cp_Name = k, cp_ContainerPort = fst (ToContainerPortInt32 v),
                                  cp_Protocol = ''TCP''\<rparr>) kvs"
proof (induction kvs)
  case (Cons kv kvs)
  then show ?case by (cases kv; cases "ToContainerPortInt32 (snd kv)") auto
qed simp

lemma WithVolumeMounts_Nil [simp]: "WithVolumeMounts [] c = Done c"
  by (simp add: WithVolumeMounts_def)

lemma WithVolumeMounts_single:
  "WithVolumeMounts [(k, VString p)] c =
   Done (c\<lparr>cb_volumeMounts := cb_volumeMounts c @
     [\<lparr>vm_Name = k, vm_MountPath = p, vm_SubPath = [], vm_ReadOnly = False\<rparr>]\<rparr>)"
  by (simp add: WithVolumeMounts_def SortedMap_Range_def SortedKeys_def sorted_keys_def
      iface_at_def gm_get_def appendMount_def)

section \<open>The contract of the fluent methods\<close>

text \<open>
  Every fluent method keeps the identity of the container it configures: its name and image, the
  calls already made, the role group and the ZooKeeper config map. Chains of methods inherit it.
\<close>

definition identity_of ::
  "containerBuilder \<Rightarrow> baseContainer \<times> string \<times> roleGroupInfo \<times> roleGroupConfigSpec option" where
  "identity_of c = (cb_Container c, cb_ZookeeperConfigMapName c, cb_RoleGroupInfo c, cb_RoleGroupConfig c)"

locale fluent_method =
  fixes meth :: "containerBuilder \<Rightarrow> containerBuilder go"
  assumes keeps_identity: "meth c = Done c' \<Longrightarrow> identity_of c' = identity_of c"
begin

lemma before:
  assumes "\<And>c c'. next c = Done c' \<Longrightarrow> identity_of c' = identity_of c"
    and "go_bind (meth c) next = Done c'"
  shows "identity_of c' = identity_of c"
  using assms keeps_identity by (auto simp: go_bind_Done_iff)

lemma repeated: "go_fold (\<lambda>_. meth) xs c = Done c' \<Longrightarrow> identity_of c' = identity_of c"
  by (rule go_fold_invariant [where P = "\<lambda>x. identity_of x = identity_of c"])
    (auto simp: keeps_identity)

end

interpretation with_envs: fluent_method "WithEnvs m" for m
  by unfold_locales (auto simp: WithEnvs_eq identity_of_def)

interpretation with_ports: fluent_method "WithPorts m" for m
  by unfold_locales (auto simp: WithPorts_eq identity_of_def)

interpretation with_mounts: fluent_method "WithVolumeMounts m" for m
  by unfold_locales
    (auto simp: WithVolumeMounts_def identity_of_def go_bind_Done_iff split: if_splits)

interpretation with_args: fluent_method "\<lambda>c. Done (CommonCommandArgs G c)" for G
  by unfold_locales (auto simp: CommonCommandArgs_def Let_def identity_of_def)

interpretation with_script: fluent_method "\<lambda>c. Done (ResetCommandArgs script c)" for script
  by unfold_locales (auto simp: ResetCommandArgs_def identity_of_def)

interpretation with_probes: fluent_method "\<lambda>c. Done (WithReadinessAndLivenessProbe port c)" for port
  by unfold_locales (auto simp: WithReadinessAndLivenessProbe_def identity_of_def)

section \<open>Properties\<close>

lemma sorted_entries_set:
  assumes "gm_ok m"
  shows "set (sorted_entries m) = set m"
proof -
  have "iface_at m k = v" if "(k, v) \<in> set m" for k v
    using that assms by (simp add: iface_at_def flip: gm_get_Some_iff)
  then show ?thesis by (force simp: sorted_entries_def SortedKeys_def)
qed

lemma sorted_entries_keys: "map fst (sorted_entries m) = sorted_keys m"
  by (simp add: sorted_entries_def SortedKeys_def comp_def)

text \<open>
  The ports of a container: when every value of the map is an integer that fits into 32 bits,
  \<open>WithPorts\<close> appends one TCP port per entry, in the order of the names, each with exactly the
  number that the map holds.
\<close>

theorem WithPorts_exact:
  assumes "gm_ok m"
    and "\<forall>(k, v) \<in> set m. \<exists>i. iface_int v = Some i \<and> -2147483648 \<le> i \<and> i \<le> 2147483647"
  shows "\<exists>ports. WithPorts m c = Done (c\<lparr>cb_ports := cb_ports c @ ports\<rparr>) \<and>
    map cp_Name ports = sorted_keys m \<and>
    (\<forall>p \<in> set ports. cp_Protocol p = ''TCP'' \<and>
       (\<exists>v. (cp_Name p, v) \<in> set m \<and> iface_int v = Some (sint (cp_ContainerPort p))))"
proof -
  let ?es = "sorted_entries m"
  have conv: "\<exists>p. ToContainerPortInt32 v = (p, None) \<and> iface_int v = Some (sint p)"
    if "(k, v) \<in> set ?es" for k v
    using that assms port_conversion [of v] by (fastforce simp: sorted_entries_set)
  have "\<forall>(k, v) \<in> set ?es. snd (ToContainerPortInt32 v) = None" using conv by fastforce
  note ports = ports_of_valid [OF this]
  have "map cp_Name (ports_of ?es) = sorted_keys m"
    by (simp add: ports sorted_entries_keys [symmetric] comp_def case_prod_beta)
  moreover have "\<forall>p \<in> set (ports_of ?es). cp_Protocol p = ''TCP'' \<and>
       (\<exists>v. (cp_Name p, v) \<in> set m \<and> iface_int v = Some (sint (cp_ContainerPort p)))"
    using conv sorted_entries_set [OF assms(1)] by (fastforce simp: ports)
  ultimately show ?thesis by (auto simp: WithPorts_eq)
qed

definition example_builder :: containerBuilder where
  "example_builder = NewContainerBuilder example_opgo ''master-server''
     \<lparr>im_ProductName = ''dolphinscheduler'', im_KubedoopVersion = ''0.0.0'',
      im_ProductVersion = ''3.2.2'', im_Options = \<lparr>io_Custom = [], io_Repo = ''quay.io'',
      io_PullPolicy = ''IfNotPresent''\<rparr>\<rparr> ''znode''
     \<lparr>rgi_RoleInfo = \<lparr>ri_ClusterInfo = \<lparr>ci_Group = ''g'', ci_Version = ''v1alpha1'', ci_Kind = ''k'',
        ci_ClusterName = ''ds''\<rparr>, ri_RoleName = ''master''\<rparr>, rgi_RoleGroupName = ''default''\<rparr> None"

theorem WithPorts_exact_witness:
  "\<exists>ports. WithPorts [(''port'', VInt 5678), (''actual-port'', VInt 5679)] example_builder =
      Done (example_builder\<lparr>cb_ports := cb_ports example_builder @ ports\<rparr>) \<and>
    map cp_Name ports = sorted_keys [(''port'', VInt 5678), (''actual-port'', VInt 5679)] \<and>
    (\<forall>p \<in> set ports. cp_Protocol p = ''TCP'' \<and>
       (\<exists>v. (cp_Name p, v) \<in> set [(''port'', VInt 5678), (''actual-port'', VInt 5679)] \<and>
            iface_int v = Some (sint (cp_ContainerPort p))))"
  by (rule WithPorts_exact) (simp_all add: gm_ok_def iface_int_def)

text \<open>What \<open>Build\<close> asks of the embedded builder.\<close>

definition build_calls :: "opgo \<Rightarrow> containerBuilder \<Rightarrow> container_call list" where
  "build_calls G c =
     [SetLivenessProbe (cb_liveness c), SetReadinessProbe (cb_readiness c), AddEnvVars (cb_envs c),
      AddEnvFromConfigMap (GetClusterName G (ri_ClusterInfo (rgi_RoleInfo (cb_RoleGroupInfo c))) @ ''-envs''),
      AddPorts (cb_ports c), SetCommand [''/bin/bash'', ''-x'', ''-euo'', ''pipefail'', ''-c''],
      AddVolumeMounts (cb_volumeMounts c), SetArgs [cb_argsScript c]] @
     (case cb_RoleGroupConfig c of None \<Rightarrow> [] | Some rgc \<Rightarrow> [SetResources (rgc_Resources rgc)])"

lemma Build_container:
  "fst (Build G c) = BuiltContainer ((cb_Container c)
     \<lparr>bc_Calls := bc_Calls (cb_Container c) @ build_calls G c\<rparr>)"
  by (simp add: Build_def build_calls_def call_def WithSecretEnvFrom_def RoleGroupEnvsConfigMapName_def
      Let_def split: option.split)

text \<open>
  A secret passed to \<open>WithSecretEnvFrom\<close> has no effect: the container that \<open>Build\<close> returns is
  the same with and without it.
\<close>

theorem Build_ignores_secretEnvFrom:
  "fst (Build G (WithSecretEnvFrom secretName c)) = fst (Build G c)"
  by (simp add: Build_container build_calls_def WithSecretEnvFrom_def)

text \<open>Calling \<open>CommonCommandArgs\<close> twice keeps the script but doubles the argument list.\<close>

lemma CommonCommandArgs_twice:
  "CommonCommandArgs G (CommonCommandArgs G c) =
   c\<lparr>cb_argsScript := strings_Join (commandArgs G (cb_RoleGroupInfo c)) newline,
     cb_args := cb_args c @ commandArgs G (cb_RoleGroupInfo c) @ commandArgs G (cb_RoleGroupInfo c)\<rparr>"
  by (simp add: CommonCommandArgs_def Let_def)

end
