(* ===== verification/Workload.thy ===== *)
theory Workload
  imports Config_Map Container_Builder
begin

text \<open>
  \<open>internal/common/workload.go\<close>, \<open>internal/common/resource.go\<close> and the workload part of
  \<open>internal/common/vector.go\<close>: the deployment and stateful set builders and the functions that
  create their reconcilers.

  The builder of operator-go is a \<open>workloadProg\<close>: the arguments of its constructor and the calls
  made on it. What its \<open>GetObject\<close> and \<open>GetImage\<close> return, and the container and volumes of the
  vector factory, are the parameter \<open>workloadApi\<close>. Of a Kubernetes object the model has the fields
  that the operator changes; the rest is one opaque text.
\<close>

datatype workloadKind = DeploymentKind | StatefulSetKind

datatype workload_call =
    SetAffinity affinity
  | AddContainers "container list"
  | AddVolumes "volume list"

record workloadProg =
  wp_Kind :: workloadKind
  wp_Name :: string
  wp_Replicas :: "goint32 option"
  wp_Image :: image
  wp_Overrides :: "overridesSpec option"
  wp_RoleGroupConfig :: "roleGroupConfigSpec option"
  wp_ClusterName :: string
  wp_RoleGroupName :: string
  wp_RoleName :: string
  wp_Annotations :: "string go_map"
  wp_Labels :: "string go_map"
  wp_Calls :: "workload_call list"

record workloadObject =
  wo_Containers :: "container list"
  wo_Volumes :: "volume list"
  wo_ServiceAccountName :: string
  wo_VolumeClaimTemplates :: "persistentVolumeClaim list"
  wo_Rest :: string

text \<open>The factory of operator-go's \<open>NewVector\<close>: its volume names and its image.\<close>

record vectorFactory =
  vf_ConfigVolume :: string
  vf_LogVolume :: string
  vf_Image :: image

definition GetVecctorFactory :: "image \<Rightarrow> vectorFactory" where
  "GetVecctorFactory img =
     \<lparr>vf_ConfigVolume = ConfigVolumeName, vf_LogVolume = LoggingVolumeName, vf_Image = img\<rparr>"

record workloadApi =
  GetObject :: "workloadProg \<Rightarrow> workloadObject res"
  GetImage :: "workloadProg \<Rightarrow> image"
  VectorContainer :: "vectorFactory \<Rightarrow> container"
  VectorVolumes :: "vectorFactory \<Rightarrow> volume list"

record workloadBuilder =
  wb_RoleGroupInf :: roleGroupInfo
  wb_Containers :: "container list"
  wb_RoleGroupConfig :: "roleGroupConfigSpec option"
  wb_pvcs :: "persistentVolumeClaim list"
  wb_volumes :: "volume list"

text \<open>\<open>DeploymentBuilder\<close> and \<open>StatefulSetBuilder\<close>: the two embedded structs.\<close>

record builtWorkload =
  bw_Prog :: workloadProg
  bw_Workload :: workloadBuilder

section \<open>The workload builder\<close>

definition commonVolumes :: "opgo \<Rightarrow> roleGroupInfo \<Rightarrow> volume list" where
  "commonVolumes G info =
     [\<lparr>vol_Name = LoggingVolumeName,
       vol_Source = EmptyDir (Some (CalculateLogVolumeSizeLimit G [Quantity MaxLogFileSize]))\<rparr>,
      \<lparr>vol_Name = ConfigVolumeName,
       vol_Source = ConfigMapVolume (RoleGroupConfigMapName G info) []\<rparr>,
      \<lparr>vol_Name = LogbackVolumeName,
       vol_Source = ConfigMapVolume (RoleGroupConfigMapName G info)
                      [(LogbackPropertiesFileName, LogbackPropertiesFileName)]\<rparr>]"

definition NewWorkloadBuilder ::
  "opgo \<Rightarrow> roleGroupConfigSpec option \<Rightarrow> roleGroupInfo \<Rightarrow> container list \<Rightarrow> workloadBuilder" where
  "NewWorkloadBuilder G roleGroupConfig info containers =
     \<lparr>wb_RoleGroupInf = info, wb_Containers = containers, wb_RoleGroupConfig = roleGroupConfig,
      wb_pvcs = [], wb_volumes = commonVolumes G info\<rparr>"

definition WithVolumes :: "volume list \<Rightarrow> workloadBuilder \<Rightarrow> workloadBuilder" where
  "WithVolumes volumes w = w\<lparr>wb_volumes := wb_volumes w @ volumes\<rparr>"

definition serviceAccount :: "workloadBuilder \<Rightarrow> string" where
  "serviceAccount w = ServiceAccountName DefaultProductName"

definition WithPvcTemplates :: "string \<Rightarrow> quantity \<Rightarrow> workloadBuilder \<Rightarrow> workloadBuilder" where
  "WithPvcTemplates pvcName storageSize w =
     w\<lparr>wb_pvcs := [\<lparr>pvc_Name = pvcName, pvc_Annotations = [],
        pvc_Spec = \<lparr>pvc_AccessModes = [''ReadWriteOnce''], pvc_StorageClassName = None,
                    pvc_VolumeMode = Some ''Filesystem'',
                    pvc_StorageRequest = storageSize\<rparr>\<rparr>]\<rparr>"

definition GetPvcTemplates :: "workloadBuilder \<Rightarrow> persistentVolumeClaim list" where
  "GetPvcTemplates w = wb_pvcs w"

text \<open>\<open>convertRawExtension\<close> at the type \<open>corev1.Affinity\<close>, its only instance.\<close>

definition convertRawExtension :: "opgo \<Rightarrow> rawExtension option \<Rightarrow> affinity res" where
  "convertRawExtension G raw =
     (case raw of
        None \<Rightarrow> (zeroAffinity, None)
      | Some r \<Rightarrow> (case raw_Raw r of
                     None \<Rightarrow> (zeroAffinity, None)
                   | Some bytes \<Rightarrow> UnmarshalAffinity G bytes))"

definition ExtractAffinity :: "opgo \<Rightarrow> workloadBuilder \<Rightarrow> affinity option res" where
  "ExtractAffinity G w =
     (case wb_RoleGroupConfig w of
        None \<Rightarrow> (None, None)
      | Some rgc \<Rightarrow>
          (case rgc_Affinity rgc of
             None \<Rightarrow> (None, None)
           | Some raw \<Rightarrow>
               (case convertRawExtension G (Some raw) of
                  (_, Some err) \<Rightarrow> (None, Some err)
                | (aff, None) \<Rightarrow> (Some aff, None))))"

text \<open>Both cases of the type switch of \<open>VectorDecorator\<close> append the same things.\<close>

definition VectorDecorator ::
  "workloadApi \<Rightarrow> workloadBuilder \<Rightarrow> image \<Rightarrow> workloadObject \<Rightarrow> workloadObject go" where
  "VectorDecorator W w img obj =
     go_bind (go_deref (wb_RoleGroupConfig w)) (\<lambda>rgc.
     go_bind (IsVectorEnable (rgc_Logging rgc)) (\<lambda>enabled.
       if enabled then
         Done (obj\<lparr>wo_Containers := wo_Containers obj @
                     [VectorContainer W (GetVecctorFactory img)],
                   wo_Volumes := wo_Volumes obj @
                     VectorVolumes W (GetVecctorFactory img)\<rparr>)
       else Done obj))"

section \<open>Build\<close>

definition wcall :: "workload_call \<Rightarrow> builtWorkload \<Rightarrow> builtWorkload" where
  "wcall f b = b\<lparr>bw_Prog := (bw_Prog b)\<lparr>wp_Calls := wp_Calls (bw_Prog b) @ [f]\<rparr>\<rparr>"

definition DeploymentBuilder_Build ::
  "opgo \<Rightarrow> workloadApi \<Rightarrow> builtWorkload \<Rightarrow> (workloadObject option res \<times> builtWorkload) go" where
  "DeploymentBuilder_Build G W b =
     (case ExtractAffinity G (bw_Workload b) of
        (_, Some err) \<Rightarrow> Done ((None, Some err), b)
      | (aff, None) \<Rightarrow>
          (let b1 = (case aff of None \<Rightarrow> b | Some a \<Rightarrow> wcall (SetAffinity a) b);
               b2 = wcall (AddContainers (wb_Containers (bw_Workload b1))) b1;
               b3 = wcall (AddVolumes (wb_volumes (bw_Workload b2))) b2
           in case GetObject W (bw_Prog b3) of
                (_, Some err) \<Rightarrow> Done ((None, Some err), b3)
              | (obj, None) \<Rightarrow>
                  go_bind (VectorDecorator W (bw_Workload b3) (GetImage W (bw_Prog b3)) obj) (\<lambda>obj.
                    Done ((Some (obj\<lparr>wo_ServiceAccountName := serviceAccount (bw_Workload b3)\<rparr>), None),
                          b3))))"

definition StatefulSetBuilder_Build ::
  "opgo \<Rightarrow> workloadApi \<Rightarrow> builtWorkload \<Rightarrow> (workloadObject option res \<times> builtWorkload) go" where
  "StatefulSetBuilder_Build G W b =
     (case ExtractAffinity G (bw_Workload b) of
        (_, Some err) \<Rightarrow> Done ((None, Some err), b)
      | (aff, None) \<Rightarrow>
          (let b1 = (case aff of None \<Rightarrow> b | Some a \<Rightarrow> wcall (SetAffinity a) b);
               b2 = wcall (AddContainers (wb_Containers (bw_Workload b1))) b1;
               b3 = wcall (AddVolumes (wb_volumes (bw_Workload b2))) b2
           in case GetObject W (bw_Prog b3) of
                (_, Some err) \<Rightarrow> Done ((None, Some err), b3)
              | (obj, None) \<Rightarrow>
                  (let obj1 = obj\<lparr>wo_ServiceAccountName := serviceAccount (bw_Workload b3)\<rparr>;
                       obj2 = (if length (wb_pvcs (bw_Workload b3)) > 0
                               then obj1\<lparr>wo_VolumeClaimTemplates := wb_pvcs (bw_Workload b3)\<rparr>
                               else obj1)
                   in go_bind (VectorDecorator W (bw_Workload b3) (GetImage W (bw_Prog b3)) obj2)
                        (\<lambda>obj. Done ((Some obj, None), b3)))))"

section \<open>Reconcilers\<close>

record workloadReconciler =
  wr_Builder :: builtWorkload
  wr_Stopped :: bool

definition newProg ::
  "opgo \<Rightarrow> workloadKind \<Rightarrow> string \<Rightarrow> goint32 option \<Rightarrow> image \<Rightarrow> overridesSpec option \<Rightarrow>
   roleGroupConfigSpec option \<Rightarrow> roleGroupInfo \<Rightarrow> workloadProg" where
  "newProg G kind name replicas img overrides roleGroupConfig info =
     \<lparr>wp_Kind = kind, wp_Name = name, wp_Replicas = replicas, wp_Image = img,
      wp_Overrides = overrides, wp_RoleGroupConfig = roleGroupConfig,
      wp_ClusterName = GetClusterName G (ri_ClusterInfo (rgi_RoleInfo info)),
      wp_RoleGroupName = GetGroupName G info,
      wp_RoleName = GetRoleName G (rgi_RoleInfo info),
      wp_Annotations = GetAnnotations G info, wp_Labels = GetLabels G info, wp_Calls = []\<rparr>"

definition NewDeploymentReconciler ::
  "opgo \<Rightarrow> bool \<Rightarrow> image \<Rightarrow> goint32 option \<Rightarrow> roleGroupInfo \<Rightarrow> overridesSpec option \<Rightarrow>
   roleGroupConfigSpec option \<Rightarrow> container list \<Rightarrow> volume list \<Rightarrow> workloadReconciler" where
  "NewDeploymentReconciler G stopped img replicas info overrides roleGroupConfig containers volumes =
     (let w = NewWorkloadBuilder G roleGroupConfig info containers;
          w' = (if length volumes > 0 then WithVolumes volumes w else w)
      in \<lparr>wr_Builder = \<lparr>bw_Prog = newProg G DeploymentKind (DeploymentName G info) replicas img
                                    overrides roleGroupConfig info,
                        bw_Workload = w'\<rparr>,
          wr_Stopped = stopped\<rparr>)"

definition NewStatefulSetReconciler ::
  "opgo \<Rightarrow> bool \<Rightarrow> image \<Rightarrow> goint32 option \<Rightarrow> roleGroupInfo \<Rightarrow> overridesSpec option \<Rightarrow>
   roleGroupConfigSpec option \<Rightarrow> container list \<Rightarrow> string \<Rightarrow> quantity option \<Rightarrow>
   workloadReconciler go" where
  "NewStatefulSetReconciler G stopped img replicas info overrides roleGroupConfig containers
     pvcName storageSize =
     (let w = NewWorkloadBuilder G roleGroupConfig info containers in
      go_bind (if pvcName \<noteq> [] then
                 go_bind (go_deref storageSize) (\<lambda>size. Done (WithPvcTemplates pvcName size w))
               else Done w) (\<lambda>w'.
      Done \<lparr>wr_Builder = \<lparr>bw_Prog = newProg G StatefulSetKind (StatefulsetName G info) replicas img
                                      overrides roleGroupConfig info,
                          bw_Workload = w'\<rparr>,
            wr_Stopped = stopped\<rparr>))"

definition isStopped :: "clusterOperationSpec option \<Rightarrow> bool" where
  "isStopped clusterOperation =
     (case clusterOperation of None \<Rightarrow> False | Some op \<Rightarrow> co_Stopped op)"

definition CreateDeploymentReconciler ::
  "opgo \<Rightarrow> containerBuilder \<Rightarrow> image \<Rightarrow> goint32 option \<Rightarrow> clusterOperationSpec option \<Rightarrow>
   roleGroupInfo \<Rightarrow> overridesSpec option \<Rightarrow> roleGroupConfigSpec option \<Rightarrow> volume list \<Rightarrow>
   workloadReconciler" where
  "CreateDeploymentReconciler G containerBuilder img replicas clusterOperation info overrides
     roleGroupConfig volumes =
     (let c = fst (Build G containerBuilder)
      in NewDeploymentReconciler G (isStopped clusterOperation) img replicas info overrides
           roleGroupConfig [c] volumes)"

definition CreateStatefulSetReconciler ::
  "opgo \<Rightarrow> containerBuilder \<Rightarrow> image \<Rightarrow> goint32 option \<Rightarrow> clusterOperationSpec option \<Rightarrow>
   roleGroupInfo \<Rightarrow> overridesSpec option \<Rightarrow> roleGroupConfigSpec option \<Rightarrow> string \<Rightarrow>
   workloadReconciler go" where
  "CreateStatefulSetReconciler G containerBuilder img replicas clusterOperation info overrides
     roleGroupConfig pvcName =
     (let c = fst (Build G containerBuilder) in
      go_bind (go_deref roleGroupConfig) (\<lambda>rgc.
      let storageSize = (case rgc_Resources rgc of None \<Rightarrow> None | Some r \<Rightarrow> res_Storage r)
      in NewStatefulSetReconciler G (isStopped clusterOperation) img replicas info overrides
           roleGroupConfig [c] pvcName storageSize))"

section \<open>One build for both kinds\<close>

definition with_claims :: "persistentVolumeClaim list \<Rightarrow> workloadObject \<Rightarrow> workloadObject" where
  "with_claims pvcs obj = (if pvcs = [] then obj else obj\<lparr>wo_VolumeClaimTemplates := pvcs\<rparr>)"

text \<open>The decorator appends containers and volumes, whatever the other fields are.\<close>

definition vector_part :: "workloadApi \<Rightarrow> image \<Rightarrow> bool \<Rightarrow> workloadObject \<Rightarrow> workloadObject" where
  "vector_part W img enabled obj =
     (if enabled then
        obj\<lparr>wo_Containers := wo_Containers obj @
              [VectorContainer W (GetVecctorFactory img)],
            wo_Volumes := wo_Volumes obj @ VectorVolumes W (GetVecctorFactory img)\<rparr>
      else obj)"

definition vector_enabled :: "workloadBuilder \<Rightarrow> bool go" where
  "vector_enabled w =
     go_bind (go_deref (wb_RoleGroupConfig w)) (\<lambda>rgc. IsVectorEnable (rgc_Logging rgc))"

lemma VectorDecorator_eq:
  "VectorDecorator W w img obj =
   go_bind (vector_enabled w) (\<lambda>enabled. Done (vector_part W img enabled obj))"
proof -
  have "VectorDecorator W w img obj =
      go_bind (go_deref (wb_RoleGroupConfig w)) (\<lambda>rgc.
      go_bind (IsVectorEnable (rgc_Logging rgc)) (\<lambda>enabled. Done (vector_part W img enabled obj)))"
    unfolding VectorDecorator_def vector_part_def by (simp add: if_distrib [of Done])
  then show ?thesis by (simp add: vector_enabled_def go_bind_assoc)
qed

lemma vector_part_commutes:
  "vector_part W img e (obj\<lparr>wo_ServiceAccountName := sa\<rparr>) =
   (vector_part W img e obj)\<lparr>wo_ServiceAccountName := sa\<rparr>"
  "vector_part W img e (obj\<lparr>wo_VolumeClaimTemplates := pvcs\<rparr>) =
   (vector_part W img e obj)\<lparr>wo_VolumeClaimTemplates := pvcs\<rparr>"
  by (simp_all add: vector_part_def)

lemma wcall_workload [simp]: "bw_Workload (wcall f b) = bw_Workload b"
  by (simp add: wcall_def)

text \<open>
  The two methods begin alike: what they hand to operator-go before they ask for the object. The
  contract of a workload builder and the lemmas on both methods are stated with it.
\<close>

definition prepareWorkload :: "opgo \<Rightarrow> builtWorkload \<Rightarrow> builtWorkload res" where
  "prepareWorkload G b =
     (case ExtractAffinity G (bw_Workload b) of
        (_, Some err) \<Rightarrow> (b, Some err)
      | (aff, None) \<Rightarrow>
          (let b1 = (case aff of None \<Rightarrow> b | Some a \<Rightarrow> wcall (SetAffinity a) b);
               b2 = wcall (AddContainers (wb_Containers (bw_Workload b))) b1
           in (wcall (AddVolumes (wb_volumes (bw_Workload b))) b2, None)))"

lemma DeploymentBuilder_Build_prepared:
  "DeploymentBuilder_Build G W b =
     (case prepareWorkload G b of
        (b', Some err) \<Rightarrow> Done ((None, Some err), b')
      | (b', None) \<Rightarrow>
          (case GetObject W (bw_Prog b') of
             (_, Some err) \<Rightarrow> Done ((None, Some err), b')
           | (obj, None) \<Rightarrow>
               go_bind (VectorDecorator W (bw_Workload b') (GetImage W (bw_Prog b')) obj) (\<lambda>obj.
                 Done ((Some (obj\<lparr>wo_ServiceAccountName := serviceAccount (bw_Workload b')\<rparr>), None), b'))))"
  by (simp add: DeploymentBuilder_Build_def prepareWorkload_def Let_def split: prod.split option.split)

lemma StatefulSetBuilder_Build_prepared:
  "StatefulSetBuilder_Build G W b =
     (case prepareWorkload G b of
        (b', Some err) \<Rightarrow> Done ((None, Some err), b')
      | (b', None) \<Rightarrow>
          (case GetObject W (bw_Prog b') of
             (_, Some err) \<Rightarrow> Done ((None, Some err), b')
           | (obj, None) \<Rightarrow>
               go_bind (VectorDecorator W (bw_Workload b') (GetImage W (bw_Prog b'))
                 (with_claims (wb_pvcs (bw_Workload b'))
                   (obj\<lparr>wo_ServiceAccountName := serviceAccount (bw_Workload b')\<rparr>)))
                 (\<lambda>obj. Done ((Some obj, None), b'))))"
  by (simp add: StatefulSetBuilder_Build_def prepareWorkload_def with_claims_def Let_def
      split: prod.split option.split)

lemma prepareWorkload_workload: "prepareWorkload G b = (b', e) \<Longrightarrow> bw_Workload b' = bw_Workload b"
  by (auto simp: prepareWorkload_def Let_def split: prod.splits option.splits)

lemma statefulset_as_deployment:
  "StatefulSetBuilder_Build G W b =
   go_bind (DeploymentBuilder_Build G W b) (\<lambda>((obj, err), b').
     Done ((map_option (with_claims (GetPvcTemplates (bw_Workload b))) obj, err), b'))"
proof -
  obtain b1 e1 where p: "prepareWorkload G b = (b1, e1)" by (cases "prepareWorkload G b")
  note w = prepareWorkload_workload [OF p]
  obtain obj e2 where q: "GetObject W (bw_Prog b1) = (obj, e2)" by (cases "GetObject W (bw_Prog b1)")
  show ?thesis
    by (cases e1; cases e2; cases "vector_enabled (bw_Workload b)")
      (simp_all add: StatefulSetBuilder_Build_prepared DeploymentBuilder_Build_prepared p q w VectorDecorator_eq
        vector_part_commutes with_claims_def GetPvcTemplates_def Let_def)
qed

text \<open>
  C17. The two builders agree: a stateful set is what the deployment builder makes of the same
  inputs, with the volume claim templates added, and with the same errors and the same panics,
  although the two methods write the service account and call the vector decorator in different
  order.
\<close>

theorem StatefulSetBuilder_Build_eq:
  "StatefulSetBuilder_Build G W b =
   go_bind (DeploymentBuilder_Build G W b) (\<lambda>((obj, err), b').
     Done ((map_option (with_claims (GetPvcTemplates (bw_Workload b))) obj, err), b'))"
  by (rule statefulset_as_deployment)

section \<open>The contract of a workload builder\<close>

text \<open>
  What the reconcilers rely on, for a deployment and a stateful set alike: an object is only
  returned when operator-go produced one from the calls of \<open>prepareWorkload\<close>, it runs under the
  operator's service account, and the vector side car comes after the containers of the role.
\<close>

locale pod_workload =
  fixes G :: opgo
    and build :: "workloadApi \<Rightarrow> builtWorkload \<Rightarrow> (workloadObject option res \<times> builtWorkload) go"
  assumes built: "build W b = Done ((Some obj, err), b') \<Longrightarrow>
      err = None \<and> prepareWorkload G b = (b', None) \<and>
      (\<exists>obj0 e. GetObject W (bw_Prog b') = (obj0, None) \<and> vector_enabled (bw_Workload b) = Done e \<and>
         wo_Containers obj = wo_Containers (vector_part W (GetImage W (bw_Prog b')) e obj0) \<and>
         wo_Volumes obj = wo_Volumes (vector_part W (GetImage W (bw_Prog b')) e obj0) \<and>
         wo_ServiceAccountName obj = DefaultProductName)"
begin

lemma service_account:
  "build W b = Done ((Some obj, err), b') \<Longrightarrow> wo_ServiceAccountName obj = DefaultProductName"
  using built by blast

lemma containers:
  assumes "build W b = Done ((Some obj, err), b')"
  obtains obj0 where "GetObject W (bw_Prog b') = (obj0, None)"
    and "wo_Containers obj = wo_Containers obj0 @
      (if vector_enabled (bw_Workload b) = Done True
       then [VectorContainer W (GetVecctorFactory (GetImage W (bw_Prog b')))] else [])"
  using built [OF assms] by (fastforce simp: vector_part_def split: if_splits)

lemma calls:
  assumes "build W b = Done ((Some obj, err), b')"
  shows "\<exists>aff. ExtractAffinity G (bw_Workload b) = (aff, None) \<and>
    wp_Calls (bw_Prog b') = wp_Calls (bw_Prog b) @
      (case aff of None \<Rightarrow> [] | Some a \<Rightarrow> [SetAffinity a]) @
      [AddContainers (wb_Containers (bw_Workload b)), AddVolumes (wb_volumes (bw_Workload b))]"
proof -
  have "prepareWorkload G b = (b', None)" using built [OF assms] by blast
  then show ?thesis
    by (auto simp: prepareWorkload_def wcall_def Let_def split: prod.splits option.splits)
qed

end

lemma DeploymentBuilder_Build_Done:
  assumes "DeploymentBuilder_Build G W b = Done ((Some obj, err), b')"
  shows "err = None \<and> prepareWorkload G b = (b', None) \<and>
    (\<exists>obj0 e. GetObject W (bw_Prog b') = (obj0, None) \<and> vector_enabled (bw_Workload b) = Done e \<and>
       obj = (vector_part W (GetImage W (bw_Prog b')) e obj0)\<lparr>wo_ServiceAccountName := DefaultProductName\<rparr>)"
proof -
  obtain b1 e1 where p: "prepareWorkload G b = (b1, e1)" by (cases "prepareWorkload G b")
  obtain obj1 e2 where q: "GetObject W (bw_Prog b1) = (obj1, e2)" by (cases "GetObject W (bw_Prog b1)")
  show ?thesis
    using assms prepareWorkload_workload [OF p] q
    by (cases e1; cases e2)
      (auto simp: DeploymentBuilder_Build_prepared p VectorDecorator_eq go_bind_Done_iff
        serviceAccount_def ServiceAccountName_def)
qed

interpretation deployment: pod_workload G "DeploymentBuilder_Build G" for G
proof
  fix W b obj err b'
  assume "DeploymentBuilder_Build G W b = Done ((Some obj, err), b')"
  from DeploymentBuilder_Build_Done [OF this]
  show "err = None \<and> prepareWorkload G b = (b', None) \<and>
      (\<exists>obj0 e. GetObject W (bw_Prog b') = (obj0, None) \<and> vector_enabled (bw_Workload b) = Done e \<and>
         wo_Containers obj = wo_Containers (vector_part W (GetImage W (bw_Prog b')) e obj0) \<and>
         wo_Volumes obj = wo_Volumes (vector_part W (GetImage W (bw_Prog b')) e obj0) \<and>
         wo_ServiceAccountName obj = DefaultProductName)"
    by auto
qed

interpretation statefulset: pod_workload G "StatefulSetBuilder_Build G" for G
proof
  fix W b obj err b'
  assume "StatefulSetBuilder_Build G W b = Done ((Some obj, err), b')"
  then obtain d where "DeploymentBuilder_Build G W b = Done ((Some d, err), b')"
    and "obj = with_claims (GetPvcTemplates (bw_Workload b)) d"
    by (auto simp: statefulset_as_deployment go_bind_Done_iff)
  with deployment.built [of G W b d err b']
  show "err = None \<and> prepareWorkload G b = (b', None) \<and>
      (\<exists>obj0 e. GetObject W (bw_Prog b') = (obj0, None) \<and> vector_enabled (bw_Workload b) = Done e \<and>
         wo_Containers obj = wo_Containers (vector_part W (GetImage W (bw_Prog b')) e obj0) \<and>
         wo_Volumes obj = wo_Volumes (vector_part W (GetImage W (bw_Prog b')) e obj0) \<and>
         wo_ServiceAccountName obj = DefaultProductName)"
    by (simp add: with_claims_def)
qed

section \<open>Properties of the built workloads\<close>

lemma merged_affinity_default:
  assumes "(case user of None \<Rightarrow> None | Some s \<Rightarrow> rgc_Affinity s) = None"
  shows "rgc_Affinity (mergedConfig user d raw) = Some \<lparr>raw_Raw = Some raw\<rparr>"
  using assms by (cases user) (simp_all add: mergedConfig_def zeroRoleGroupConfigSpec_def Let_def)

text \<open>
  C23. A role group without an affinity of its own is spread over the nodes: if decoding gives back
  what was encoded, every workload that is built from the merged configuration, a deployment or a
  stateful set, has the default anti-affinity of its role set before its containers are added.
\<close>

theorem workload_default_affinity:
  assumes "DefaultConfig G role cr = Done c"
    and "MarshalAffinity G (defaultAffinity G role cr) = (raw, None)"
    and "UnmarshalAffinity G raw = (defaultAffinity G role cr, None)"
    and "(case cfg_RoleGroupConfigSpec cfg of None \<Rightarrow> None | Some s \<Rightarrow> rgc_Affinity s) = None"
    and "MergeDefaultConfig G c overrides cfg = Done (None, ov', cfg')"
    and "wb_RoleGroupConfig (bw_Workload b) = cfg_RoleGroupConfigSpec cfg'"
    and "DeploymentBuilder_Build G W b = Done ((Some obj, err), b') \<or>
         StatefulSetBuilder_Build G W b = Done ((Some obj, err), b')"
  shows "wp_Calls (bw_Prog b') = wp_Calls (bw_Prog b) @
    [SetAffinity (defaultAffinity G role cr), AddContainers (wb_Containers (bw_Workload b)),
     AddVolumes (wb_volumes (bw_Workload b))]"
proof -
  obtain d where d: "defaultResources role = Done d" using assms(1) by (rule DefaultConfig_Done)
  have "wb_RoleGroupConfig (bw_Workload b) =
      Some (mergedConfig (cfg_RoleGroupConfigSpec cfg) d raw)"
    using MergeDefaultConfig_eq [OF assms(1) d assms(2), of overrides cfg] assms(5,6) by auto
  then have "ExtractAffinity G (bw_Workload b) = (Some (defaultAffinity G role cr), None)"
    using merged_affinity_default [OF assms(4)] assms(3)
    by (simp add: ExtractAffinity_def convertRawExtension_def)
  with assms(7) deployment.calls [of G W b obj err b'] statefulset.calls [of G W b obj err b']
  show ?thesis by auto
qed

definition example_workloadApi :: workloadApi where
  "example_workloadApi = \<lparr>
     GetObject = (\<lambda>p. (\<lparr>wo_Containers = concat (map (\<lambda>x. case x of AddContainers cs \<Rightarrow> cs | _ \<Rightarrow> []) (wp_Calls p)),
        wo_Volumes = concat (map (\<lambda>x. case x of AddVolumes vs \<Rightarrow> vs | _ \<Rightarrow> []) (wp_Calls p)),
        wo_ServiceAccountName = [], wo_VolumeClaimTemplates = [], wo_Rest = []\<rparr>, None)),
     GetImage = wp_Image,
     VectorContainer = (\<lambda>_. PlainContainer ''vector'' ''vector'' []),
     VectorVolumes = (\<lambda>_. [])\<rparr>"

definition affinity_opgo :: opgo where
  "affinity_opgo = example_opgo
     \<lparr>UnmarshalAffinity := (\<lambda>_. (defaultAffinity example_opgo Master ''ds'', None))\<rparr>"

definition example_image :: image where
  "example_image = \<lparr>im_ProductName = ''dolphinscheduler'', im_KubedoopVersion = ''0.0.0'',
     im_ProductVersion = ''3.2.2'', im_Options = \<lparr>io_Custom = [], io_Repo = ''quay.io'',
     io_PullPolicy = ''IfNotPresent''\<rparr>\<rparr>"

theorem workload_default_affinity_witness:
  "\<exists>d obj err b'. defaultResources Master = Done d \<and>
    DeploymentBuilder_Build affinity_opgo example_workloadApi
      (wr_Builder (NewDeploymentReconciler affinity_opgo False example_image (Some 1) example_info None
        (Some (mergedConfig None d ''{}'')) [] [])) = Done ((Some obj, err), b') \<and>
    wp_Calls (bw_Prog b') = [SetAffinity (defaultAffinity affinity_opgo Master ''ds''),
      AddContainers [], AddVolumes (commonVolumes affinity_opgo example_info)]"
proof -
  let ?G = affinity_opgo
  have known: "known_role Master" by (simp add: known_role_def)
  obtain c where c: "DefaultConfig ?G Master ''ds'' = Done c" using DefaultConfig_known [OF known] ..
  obtain d where d: "defaultResources Master = Done d" using defaultResources_known [OF known] ..
  let ?b = "wr_Builder (NewDeploymentReconciler ?G False example_image (Some 1) example_info None
        (Some (mergedConfig None d ''{}'')) [] [])"
  have m: "MarshalAffinity ?G (defaultAffinity ?G Master ''ds'') = (''{}'', None)"
    and u: "UnmarshalAffinity ?G ''{}'' = (defaultAffinity ?G Master ''ds'', None)"
    by (simp_all add: affinity_opgo_def example_opgo_def defaultAffinity_def)
  note merge = MergeDefaultConfig_eq [OF c d m, of None "\<lparr>cfg_RoleGroupConfigSpec = None\<rparr>"]
  have "ExtractAffinity ?G (bw_Workload ?b) = (Some (defaultAffinity ?G Master ''ds''), None)"
    using merged_affinity_default [of None d "''{}''"] u
    by (simp add: ExtractAffinity_def convertRawExtension_def NewDeploymentReconciler_def
        NewWorkloadBuilder_def Let_def)
  moreover have "vector_enabled (bw_Workload ?b) = Done False"
    by (simp add: vector_enabled_def NewDeploymentReconciler_def NewWorkloadBuilder_def Let_def
        mergedConfig_def zeroRoleGroupConfigSpec_def IsVectorEnable_def)
  ultimately obtain obj b' where b: "DeploymentBuilder_Build ?G example_workloadApi ?b = Done ((Some obj, None), b')"
    by (simp add: DeploymentBuilder_Build_prepared prepareWorkload_def VectorDecorator_eq Let_def
        example_workloadApi_def)
  have "wp_Calls (bw_Prog b') = wp_Calls (bw_Prog ?b) @
    [SetAffinity (defaultAffinity ?G Master ''ds''), AddContainers (wb_Containers (bw_Workload ?b)),
     AddVolumes (wb_volumes (bw_Workload ?b))]"
    by (rule workload_default_affinity [OF c m u _ merge _ disjI1 [OF b]])
      (simp_all add: NewDeploymentReconciler_def NewWorkloadBuilder_def Let_def)
  then have calls: "wp_Calls (bw_Prog b') = [SetAffinity (defaultAffinity ?G Master ''ds''),
      AddContainers [], AddVolumes (commonVolumes ?G example_info)]"
    by (simp add: NewDeploymentReconciler_def NewWorkloadBuilder_def newProg_def Let_def)
  show ?thesis
    by (rule exI [of _ d], rule exI [of _ obj], rule exI [of _ None], rule exI [of _ b'])
      (intro conjI d b calls)
qed

text \<open>The storage that a user asked for.\<close>

definition user_storage :: "configSpec \<Rightarrow> quantity option" where
  "user_storage cfg =
     Option.bind (cfg_RoleGroupConfigSpec cfg) (\<lambda>s. Option.bind (rgc_Resources s) res_Storage)"

lemma merged_storage:
  "rgc_Resources (mergedConfig (cfg_RoleGroupConfigSpec cfg) d raw) = Some r \<Longrightarrow>
   res_Storage r = orElse (user_storage cfg) (res_Storage d)"
  by (auto simp: mergedConfig_def mergedResources_def user_storage_def zeroRoleGroupConfigSpec_def Let_def
      split: option.splits)

text \<open>
  C11. After the default merge, creating a stateful set never dereferences a missing storage size:
  with a claim name there is exactly one claim template, under that name, read-write-once, and of
  the size that the user asked for or else of the default size of the role; without a claim name
  there is none.
\<close>

theorem statefulset_storage:
  assumes "DefaultConfig G role cr = Done c"
    and "MarshalAffinity G (defaultAffinity G role cr) = (raw, None)"
    and "MergeDefaultConfig G c overrides cfg = Done (None, ov', cfg')"
  shows "\<exists>r d size. CreateStatefulSetReconciler G containerBuilder img replicas op info ov'
      (cfg_RoleGroupConfigSpec cfg') pvcName = Done r \<and>
    defaultResources role = Done d \<and> orElse (user_storage cfg) (res_Storage d) = Some size \<and>
    map (\<lambda>p. (pvc_Name p, pvc_AccessModes (pvc_Spec p), pvc_StorageRequest (pvc_Spec p)))
      (GetPvcTemplates (bw_Workload (wr_Builder r))) =
      (if pvcName = [] then [] else [(pvcName, [''ReadWriteOnce''], size)])"
proof -
  obtain d where d: "defaultResources role = Done d" "full_resources d"
    using assms(1) by (rule DefaultConfig_Done)
  let ?spec = "mergedConfig (cfg_RoleGroupConfigSpec cfg) d raw"
  have cfg': "cfg_RoleGroupConfigSpec cfg' = Some ?spec"
    using MergeDefaultConfig_eq [OF assms(1) d(1) assms(2), of overrides cfg] assms(3) by auto
  obtain r where r: "rgc_Resources ?spec = Some r" "full_resources r"
    using mergedResources_full [OF d(2)] by (auto simp: mergedConfig_def Let_def)
  then obtain size where size: "res_Storage r = Some size" by (auto simp: full_resources_def)
  have st: "orElse (user_storage cfg) (res_Storage d) = Some size"
    using merged_storage [OF r(1)] size by simp
  show ?thesis
    using d(1) size r(1) cfg'
    by (cases "pvcName = []")
      (simp_all add: CreateStatefulSetReconciler_def NewStatefulSetReconciler_def GetPvcTemplates_def
        NewWorkloadBuilder_def WithPvcTemplates_def Let_def st)
qed

theorem statefulset_storage_witness:
  "\<exists>c ov' cfg' r. DefaultConfig example_opgo Worker ''ds'' = Done c \<and>
    MergeDefaultConfig example_opgo c None \<lparr>cfg_RoleGroupConfigSpec = None\<rparr> = Done (None, ov', cfg') \<and>
    CreateStatefulSetReconciler example_opgo example_builder example_image (Some 3) None example_info ov'
      (cfg_RoleGroupConfigSpec cfg') WorkerDataVolumeName = Done r \<and>
    map (\<lambda>p. pvc_StorageRequest (pvc_Spec p)) (GetPvcTemplates (bw_Workload (wr_Builder r))) =
      [Quantity ''2Gi'']"
proof -
  have known: "known_role Worker" by (simp add: known_role_def)
  obtain c where c: "DefaultConfig example_opgo Worker ''ds'' = Done c"
    using DefaultConfig_known [OF known] ..
  obtain d where d: "defaultResources Worker = Done d" using defaultResources_known [OF known] ..
  have m: "MarshalAffinity example_opgo (defaultAffinity example_opgo Worker ''ds'') = (''{}'', None)"
    by (simp add: example_opgo_def)
  note merge = MergeDefaultConfig_eq [OF c d m, of None "\<lparr>cfg_RoleGroupConfigSpec = None\<rparr>"]
  have two: "res_Storage d = Some (Quantity ''2Gi'')"
    using d by (auto simp: defaultResources_def parseQuantity_def role_names Let_def)
  obtain r where r: "CreateStatefulSetReconciler example_opgo example_builder example_image (Some 3)
      None example_info (map_option (mergedOverrides c) None)
      (Some (mergedConfig None d ''{}'')) WorkerDataVolumeName = Done r"
    "map (\<lambda>p. pvc_StorageRequest (pvc_Spec p)) (GetPvcTemplates (bw_Workload (wr_Builder r))) =
      [Quantity ''2Gi'']"
    using statefulset_storage [OF c m merge, of example_builder example_image "Some 3" None
        example_info WorkerDataVolumeName] d two
    by (auto simp: user_storage_def WorkerDataVolumeName_def)
  show ?thesis using c merge r by auto
qed

end
