(* ===== verification/Common_Service.thy ===== *)
theory Common_Service
  imports Common_Config
begin

text \<open>
  \<open>internal/common/service.go\<close>: the service of a role group and its metrics service. A service
  reconciler is the record of what the operator passes to operator-go's service builder; a builder
  that could not be made is \<open>None\<close>, the \<open>nil\<close> of the source.
\<close>

definition prometheusScrapeEnabled :: string where [const_simps]:
  "prometheusScrapeEnabled = ''true''"

record serviceProg =
  svc_Name :: string
  svc_Ports :: "containerPort list"
  svc_Labels :: "string go_map"
  svc_Annotations :: "string go_map"
  svc_Headless :: bool
  svc_MatchingLabels :: "string go_map"
  svc_ListenerClass :: string

definition appendServicePort ::
  "string \<Rightarrow> iface \<Rightarrow> containerPort list \<Rightarrow> (containerPort list \<times> bool) go" where
  "appendServicePort k v ports =
     Done (case ToContainerPortInt32 v of
             (_, Some err) \<Rightarrow> (ports, False)
           | (port, None) \<Rightarrow>
               (ports @ [\<lparr>cp_Name = k, cp_ContainerPort = port, cp_Protocol = []\<rparr>], True))"

definition toSortedPortMap :: "goint32 go_map \<Rightarrow> sortedMap" where
  "toSortedPortMap portMap = fold (\<lambda>(k, v). gm_put k (VInt32 v)) portMap []"

definition NewServiceBuilder ::
  "opgo \<Rightarrow> string \<Rightarrow> bool \<Rightarrow> serviceType option \<Rightarrow> goint32 go_map \<Rightarrow> string go_map \<Rightarrow>
   string go_map \<Rightarrow> serviceProg option go" where
  "NewServiceBuilder G name headless serviceType portMap labels annotations =
     go_bind (SortedMap_Range appendServicePort (toSortedPortMap portMap) []) (\<lambda>ports.
     let serviceType = (case serviceType of None \<Rightarrow> ServiceTypeClusterIP | Some t \<Rightarrow> t) in
     case ServiceTypeToListenerClass G serviceType of
       (_, Some err) \<Rightarrow> Done None
     | (listenerClass, None) \<Rightarrow>
         Done (Some \<lparr>svc_Name = name, svc_Ports = ports, svc_Labels = labels,
                     svc_Annotations = annotations, svc_Headless = headless,
                     svc_MatchingLabels = labels, svc_ListenerClass = listenerClass\<rparr>))"

text \<open>The service reconciler wraps the builder.\<close>

definition NewServiceReconciler ::
  "opgo \<Rightarrow> string \<Rightarrow> bool \<Rightarrow> serviceType option \<Rightarrow> goint32 go_map \<Rightarrow> string go_map \<Rightarrow>
   string go_map \<Rightarrow> serviceProg option go" where
  "NewServiceReconciler G name headless serviceType ports labels annotations =
     NewServiceBuilder G name headless serviceType ports labels annotations"

definition NewRoleGroupMetricsService :: "opgo \<Rightarrow> roleGroupInfo \<Rightarrow> serviceProg option" where
  "NewRoleGroupMetricsService G info =
     (case GetMetricsPort (GetRoleName G (rgi_RoleInfo info)) of
        (_, Some err) \<Rightarrow> None
      | (metricsPort, None) \<Rightarrow>
          (let servicePorts = [\<lparr>cp_Name = MetricsPortName, cp_ContainerPort = metricsPort,
                                cp_Protocol = ''TCP''\<rparr>];
               labels = gm_put ''prometheus.io/scrape'' prometheusScrapeEnabled
                          (maps_Copy [] (GetLabels G info));
               annotations =
                 gm_put ''prometheus.io/scheme'' ''http''
                  (gm_put ''prometheus.io/port'' (strconv_Itoa (sint metricsPort))
                   (gm_put ''prometheus.io/path'' ''/actuator/prometheus''
                    (gm_put ''prometheus.io/scrape'' prometheusScrapeEnabled
                      (maps_Copy [] (GetAnnotations G info)))))
           in Some \<lparr>svc_Name = CreateServiceMetricsName G info, svc_Ports = servicePorts,
                    svc_Labels = labels, svc_Annotations = annotations, svc_Headless = True,
                    svc_MatchingLabels = GetLabels G info,
                    svc_ListenerClass = ClusterInternal G\<rparr>))"

section \<open>The ports of a service\<close>

lemma toSortedPortMap_get:
  assumes "gm_ok m"
  shows "gm_get (toSortedPortMap m) = map_option VInt32 \<circ> gm_get m"
proof -
  have writes: "toSortedPortMap m = fold (\<lambda>(k, v). gm_put k v) (map (\<lambda>(k, v). (k, VInt32 v)) m) []"
    by (simp add: toSortedPortMap_def fold_map comp_def) (simp add: case_prod_unfold)
  have "gm_ok (map (\<lambda>(k, v). (k, VInt32 v)) m)"
    using assms by (simp add: gm_ok_def comp_def case_prod_beta)
  then have "gm_get (toSortedPortMap m) = gm_get (map (\<lambda>(k, v). (k, VInt32 v)) m)"
    by (simp add: writes gomap.get_writes map_of_rev_ok)
  then show ?thesis by (simp add: gm_get_def fun_eq_iff map_of_map)
qed

lemma toSortedPortMap_ok: "gm_ok (toSortedPortMap m)"
proof -
  have "gm_ok s \<Longrightarrow> gm_ok (fold (\<lambda>(k, v). gm_put k (VInt32 v)) m s)" for s
    by (induction m arbitrary: s) (auto simp: gm_ok_put)
  then show ?thesis by (simp add: toSortedPortMap_def)
qed

lemma toSortedPortMap_keys:
  assumes "gm_ok m"
  shows "sorted_keys (toSortedPortMap m) = sorted_keys m"
proof (rule sorted_distinct_set_unique)
  have "dom (gm_get (toSortedPortMap m)) = dom (gm_get m)"
    by (auto simp: toSortedPortMap_get [OF assms])
  then show "set (sorted_keys (toSortedPortMap m)) = set (sorted_keys m)" by (simp add: gm_dom)
qed (use assms toSortedPortMap_ok in simp_all)

lemma Range_appendServicePort:
  assumes "\<forall>k \<in> set ks. iface_at m k = VInt32 (port k)"
  shows "Range_keys appendServicePort m ks ports =
    Done (ports @ map (\<lambda>k. \<lparr>cp_Name = k, cp_ContainerPort = port k, cp_Protocol = []\<rparr>) ks)"
  using assms by (induction ks arbitrary: ports) (simp_all add: appendServicePort_def)

lemma gm_get_key: "k \<in> set (sorted_keys m) \<Longrightarrow> gm_get m k = Some (the (gm_get m k))"
  by (simp flip: gm_dom) (metis domIff option.collapse)

lemma service_ports_Range:
  assumes "gm_ok portMap"
  shows "SortedMap_Range appendServicePort (toSortedPortMap portMap) [] =
    Done (map (\<lambda>k. \<lparr>cp_Name = k, cp_ContainerPort = the (gm_get portMap k), cp_Protocol = []\<rparr>)
            (sorted_keys portMap))"
proof -
  let ?port = "\<lambda>k. the (gm_get portMap k)"
  have "iface_at (toSortedPortMap portMap) k = VInt32 (?port k)" if "k \<in> set (sorted_keys portMap)" for k
    using gm_get_key [OF that]
    by (auto simp: iface_at_def toSortedPortMap_get [OF assms] split: option.split)
  then show ?thesis
    using Range_appendServicePort [of "sorted_keys portMap" "toSortedPortMap portMap" ?port "[]"]
    by (simp add: SortedMap_Range_def SortedKeys_def toSortedPortMap_keys [OF assms])
qed

text \<open>
  The service of a role group publishes exactly the given ports: one port per entry, in the
  order of the names and with the number of the entry, it selects the pods by the labels it is
  given, and without a service type it is internal to the cluster. Only a service type other than
  the three of Kubernetes yields no builder.
\<close>

theorem NewServiceReconciler_exact:
  assumes "gm_ok portMap"
  shows "\<exists>ports. map cp_Name ports = sorted_keys portMap \<and>
    (\<forall>p \<in> set ports. gm_get portMap (cp_Name p) = Some (cp_ContainerPort p)) \<and>
    NewServiceReconciler G name headless st portMap labels annotations =
      (let service = (\<lambda>class. \<lparr>svc_Name = name, svc_Ports = ports, svc_Labels = labels,
             svc_Annotations = annotations, svc_Headless = headless,
             svc_MatchingLabels = labels, svc_ListenerClass = class\<rparr>)
       in Done (case st of
           None \<Rightarrow> Some (service (ClusterInternal G))
         | Some ServiceTypeClusterIP \<Rightarrow> Some (service (ClusterInternal G))
         | Some ServiceTypeNodePort \<Rightarrow> Some (service (ExternalUnstable G))
         | Some ServiceTypeLoadBalancer \<Rightarrow> Some (service (ExternalStable G))
         | Some (ServiceTypeOther _) \<Rightarrow> None))"
proof -
  let ?port = "\<lambda>k. the (gm_get portMap k)"
  let ?ports = "map (\<lambda>k. \<lparr>cp_Name = k, cp_ContainerPort = ?port k, cp_Protocol = []\<rparr>)
                  (sorted_keys portMap)"
  have "SortedMap_Range appendServicePort (toSortedPortMap portMap) [] = Done ?ports"
    by (rule service_ports_Range [OF assms])
  then have "NewServiceReconciler G name headless st portMap labels annotations =
      (let service = (\<lambda>class. \<lparr>svc_Name = name, svc_Ports = ?ports, svc_Labels = labels,
             svc_Annotations = annotations, svc_Headless = headless,
             svc_MatchingLabels = labels, svc_ListenerClass = class\<rparr>)
       in Done (case st of
           None \<Rightarrow> Some (service (ClusterInternal G))
         | Some ServiceTypeClusterIP \<Rightarrow> Some (service (ClusterInternal G))
         | Some ServiceTypeNodePort \<Rightarrow> Some (service (ExternalUnstable G))
         | Some ServiceTypeLoadBalancer \<Rightarrow> Some (service (ExternalStable G))
         | Some (ServiceTypeOther _) \<Rightarrow> None))"
    by (simp add: NewServiceReconciler_def NewServiceBuilder_def Let_def
        split: option.split serviceType.split)
  moreover have "map cp_Name ?ports = sorted_keys portMap" by (simp add: comp_def)
  moreover have "\<forall>p \<in> set ?ports. gm_get portMap (cp_Name p) = Some (cp_ContainerPort p)"
    using gm_get_key [of _ portMap] by auto
  ultimately show ?thesis by blast
qed

theorem NewServiceReconciler_exact_witness:
  "\<exists>ports s. map cp_Name ports = sorted_keys [(''port'', 12345 :: goint32), (''python-port'', 25333)] \<and>
    NewServiceReconciler example_opgo ''ds-api'' False None
      [(''port'', 12345), (''python-port'', 25333)] [] [] = Done (Some s) \<and>
    svc_Ports s = ports \<and> svc_ListenerClass s = ''cluster-internal''"
  using NewServiceReconciler_exact [of "[(''port'', 12345), (''python-port'', 25333)]" example_opgo
      "''ds-api''" False None "[]" "[]"]
  by (auto simp: gm_ok_def example_opgo_def Let_def)

section \<open>The metrics service\<close>

lemma GetMetricsPort_known: "known_role role \<Longrightarrow> \<exists>p. GetMetricsPort role = (p, None)"
  by (auto simp: known_role_def GetMetricsPort_def role_names)

text \<open>
  Every role group of a known role gets a headless metrics service whose single port is the
  port that its annotations advertise to Prometheus. It selects the pods by the labels of the role
  group without the additional scrape label, and keeps every label and annotation of the role
  group outside the \<open>prometheus.io\<close> keys it sets.
\<close>

theorem metrics_service_scrapes:
  assumes "known_role (GetRoleName G (rgi_RoleInfo info))"
    and "gm_ok (GetLabels G info)" and "gm_ok (GetAnnotations G info)"
  shows "\<exists>s p. NewRoleGroupMetricsService G info = Some s \<and>
    GetMetricsPort (GetRoleName G (rgi_RoleInfo info)) = (p, None) \<and>
    svc_Name s = GetFullName G info @ ''-metrics'' \<and> svc_Headless s \<and>
    map cp_ContainerPort (svc_Ports s) = [p] \<and>
    svc_MatchingLabels s = GetLabels G info \<and>
    gm_get (svc_Labels s) = (gm_get (GetLabels G info))(''prometheus.io/scrape'' \<mapsto> ''true'') \<and>
    gm_get (svc_Annotations s) = gm_get (GetAnnotations G info) ++
      [''prometheus.io/scrape'' \<mapsto> ''true'', ''prometheus.io/path'' \<mapsto> ''/actuator/prometheus'',
       ''prometheus.io/port'' \<mapsto> strconv_Itoa (sint p), ''prometheus.io/scheme'' \<mapsto> ''http'']"
proof -
  obtain p where "GetMetricsPort (GetRoleName G (rgi_RoleInfo info)) = (p, None)"
    using GetMetricsPort_known [OF assms(1)] ..
  with assms(2,3) show ?thesis
    by (simp add: NewRoleGroupMetricsService_def CreateServiceMetricsName_def const_simps
        gm_get_put gm_get_Copy Let_def)
qed

theorem metrics_service_scrapes_witness:
  "\<exists>s. NewRoleGroupMetricsService example_opgo
      \<lparr>rgi_RoleInfo = \<lparr>ri_ClusterInfo = \<lparr>ci_Group = ''g'', ci_Version = ''v1alpha1'', ci_Kind = ''k'',
         ci_ClusterName = ''ds''\<rparr>, ri_RoleName = ''master''\<rparr>, rgi_RoleGroupName = ''default''\<rparr> = Some s \<and>
    svc_Name s = ''ds-master-default-metrics'' \<and> map cp_ContainerPort (svc_Ports s) = [5679]"
  using metrics_service_scrapes [of example_opgo
      "\<lparr>rgi_RoleInfo = \<lparr>ri_ClusterInfo = \<lparr>ci_Group = ''g'', ci_Version = ''v1alpha1'', ci_Kind = ''k'',
         ci_ClusterName = ''ds''\<rparr>, ri_RoleName = ''master''\<rparr>, rgi_RoleGroupName = ''default''\<rparr>"]
  by (auto simp: example_opgo_def known_role_def role_names gm_ok_def GetMetricsPort_def const_simps)

end
