(* ===== verification/Role_Reconciler.thy ===== *)
theory Role_Reconciler
  imports Workload Common_Service "HOL-Library.Multiset"
begin

text \<open>
  \<open>internal/common/role.go\<close>: the reconciler of a role and the registration of the resources of its
  role groups. The interface \<open>RoleResourceReconcilersBuilder\<close> is the field \<open>rr_Builder\<close>, a function;
  its contract is a locale that the four roles interpret (see \<open>Role_Builders\<close>). \<open>util.MergeObject\<close> of
  operator-go, at the two types it is used at, is the parameter \<open>mergeApi\<close>; its result is taken to
  be an object of its own, as \<open>MergeDefaultConfig\<close> then updates it.
\<close>

section \<open>Resources\<close>

text \<open>What the operator hands to operator-go to be reconciled.\<close>

datatype resource =
    ConfigMapResource configMapResource
  | WorkloadResource workloadReconciler
  | ServiceResource "serviceProg option"

record mergeApi =
  MergeConfig :: "configSpec option \<Rightarrow> configSpec option \<Rightarrow> configSpec option res"
  MergeOverrides :: "overridesSpec option \<Rightarrow> overridesSpec option \<Rightarrow> overridesSpec option res"

type_synonym resourceReconcilersBuilder =
  "goint32 option \<Rightarrow> roleGroupInfo \<Rightarrow> overridesSpec option \<Rightarrow> roleGroupConfigSpec option \<Rightarrow>
   resource list go"

record roleReconciler =
  rr_Stopped :: bool
  rr_RoleInfo :: roleInfo
  rr_Spec :: roleSpec
  rr_ClusterConfig :: "clusterConfigSpec option"
  rr_Image :: image
  rr_Builder :: resourceReconcilersBuilder
  rr_Resources :: "resource list"

definition NewRoleReconciler ::
  "roleInfo \<Rightarrow> clusterOperationSpec option \<Rightarrow> clusterConfigSpec option \<Rightarrow> image \<Rightarrow> roleSpec \<Rightarrow>
   resourceReconcilersBuilder \<Rightarrow> roleReconciler" where
  "NewRoleReconciler roleInfo clusterOperation clusterConfig img spec builder =
     \<lparr>rr_Stopped = isStopped clusterOperation, rr_RoleInfo = roleInfo, rr_Spec = spec,
      rr_ClusterConfig = clusterConfig, rr_Image = img, rr_Builder = builder, rr_Resources = []\<rparr>"

definition AddResource :: "resource \<Rightarrow> roleReconciler \<Rightarrow> roleReconciler" where
  "AddResource x r = r\<lparr>rr_Resources := rr_Resources r @ [x]\<rparr>"

definition RegisterResourceWithRoleGroup ::
  "roleReconciler \<Rightarrow> goint32 option \<Rightarrow> roleGroupInfo \<Rightarrow> overridesSpec option \<Rightarrow>
   roleGroupConfigSpec option \<Rightarrow> resource list res go" where
  "RegisterResourceWithRoleGroup r replicas info overrides roleGroupConfig =
     go_bind (rr_Builder r replicas info overrides roleGroupConfig) (\<lambda>rs. Done (rs, None))"

section \<open>RegisterResources\<close>

definition orZero :: "'a \<Rightarrow> 'a option \<Rightarrow> 'a" where
  "orZero z x = (case x of None \<Rightarrow> z | Some y \<Rightarrow> y)"

text \<open>One turn of the loop over \<open>r.Spec.RoleGroups\<close>.\<close>

definition registerGroup ::
  "opgo \<Rightarrow> client \<Rightarrow> mergeApi \<Rightarrow> string \<times> roleGroupSpec \<Rightarrow> roleReconciler \<Rightarrow>
   (go_error option \<times> roleReconciler) go" where
  "registerGroup G C M rg r =
     (let (name, roleGroup) = rg in
      case MergeConfig M (role_Config (rr_Spec r)) (rg_Config roleGroup) of
        (_, Some err) \<Rightarrow> Done (Some err, r)
      | (merged, None) \<Rightarrow>
      case MergeOverrides M (role_OverridesSpec (rr_Spec r)) (rg_OverridesSpec roleGroup) of
        (_, Some err) \<Rightarrow> Done (Some err, r)
      | (overrides, None) \<Rightarrow>
      go_bind (DefaultConfig G (ri_RoleName (rr_RoleInfo r)) (GetOwnerName C)) (\<lambda>defaultConfig.
      go_bind (MergeDefaultConfig G defaultConfig
                 (Some (orZero zeroOverridesSpec overrides))
                 (orZero \<lparr>cfg_RoleGroupConfigSpec = None\<rparr> merged))
        (\<lambda>(err, overrides, merged).
      case err of
        Some e \<Rightarrow> Done (Some e, r)
      | None \<Rightarrow>
          (let roleGroupInfo = \<lparr>rgi_RoleInfo = rr_RoleInfo r, rgi_RoleGroupName = name\<rparr> in
           go_bind (RegisterResourceWithRoleGroup r (rg_Replicas roleGroup) roleGroupInfo overrides
                      (cfg_RoleGroupConfigSpec merged)) (\<lambda>(reconcilers, err).
           case err of
             Some e \<Rightarrow> Done (Some e, r)
           | None \<Rightarrow>
               (let metricsService = NewRoleGroupMetricsService G roleGroupInfo;
                    reconcilers = (case metricsService of
                                     None \<Rightarrow> reconcilers
                                   | Some s \<Rightarrow> reconcilers @ [ServiceResource (Some s)])
                in Done (None, fold AddResource reconcilers r)))))))"

fun registerGroups ::
  "opgo \<Rightarrow> client \<Rightarrow> mergeApi \<Rightarrow> roleGroupSpec go_map \<Rightarrow> roleReconciler \<Rightarrow>
   (go_error option \<times> roleReconciler) go" where
  "registerGroups G C M [] r = Done (None, r)"
| "registerGroups G C M (rg # groups) r =
     go_bind (registerGroup G C M rg r) (\<lambda>(err, r').
       case err of
         Some e \<Rightarrow> Done (Some e, r')
       | None \<Rightarrow> registerGroups G C M groups r')"

definition RegisterResources ::
  "opgo \<Rightarrow> client \<Rightarrow> mergeApi \<Rightarrow> roleReconciler \<Rightarrow> (go_error option \<times> roleReconciler) go" where
  "RegisterResources G C M r = registerGroups G C M (role_RoleGroups (rr_Spec r)) r"

section \<open>What one role group adds\<close>

lemma fold_AddResource: "fold AddResource xs r = r\<lparr>rr_Resources := rr_Resources r @ xs\<rparr>"
  by (induction xs arbitrary: r) (simp_all add: AddResource_def)

definition group_info :: "roleReconciler \<Rightarrow> string \<Rightarrow> roleGroupInfo" where
  "group_info r name = \<lparr>rgi_RoleInfo = rr_RoleInfo r, rgi_RoleGroupName = name\<rparr>"

definition metrics_resources :: "opgo \<Rightarrow> roleGroupInfo \<Rightarrow> resource list" where
  "metrics_resources G info =
     (case NewRoleGroupMetricsService G info of None \<Rightarrow> [] | Some s \<Rightarrow> [ServiceResource (Some s)])"

text \<open>The resources that the builder of the role makes of the merged group.\<close>

definition group_builds ::
  "opgo \<Rightarrow> client \<Rightarrow> mergeApi \<Rightarrow> roleReconciler \<Rightarrow> string \<Rightarrow> roleGroupSpec \<Rightarrow> resource list \<Rightarrow> bool" where
  "group_builds G C M r name rg rs \<longleftrightarrow>
     (\<exists>mc mo d ov cfg. MergeConfig M (role_Config (rr_Spec r)) (rg_Config rg) = (mc, None) \<and>
        MergeOverrides M (role_OverridesSpec (rr_Spec r)) (rg_OverridesSpec rg) = (mo, None) \<and>
        DefaultConfig G (ri_RoleName (rr_RoleInfo r)) (GetOwnerName C) = Done d \<and>
        MergeDefaultConfig G d (Some (orZero zeroOverridesSpec mo))
          (orZero \<lparr>cfg_RoleGroupConfigSpec = None\<rparr> mc) = Done (None, ov, cfg) \<and>
        rr_Builder r (rg_Replicas rg) (group_info r name) ov (cfg_RoleGroupConfigSpec cfg) = Done rs)"

lemma registerGroup_ok_iff:
  "registerGroup G C M (name, rg) r = Done (None, r') \<longleftrightarrow>
   (\<exists>rs. group_builds G C M r name rg rs \<and>
      r' = r\<lparr>rr_Resources := rr_Resources r @ rs @ metrics_resources G (group_info r name)\<rparr>)"
proof -
  have metrics: "fold AddResource
      (case NewRoleGroupMetricsService G i of None \<Rightarrow> rs | Some s \<Rightarrow> rs @ [ServiceResource (Some s)]) r =
      r\<lparr>rr_Resources := rr_Resources r @ rs @ metrics_resources G i\<rparr>" for i rs
    by (simp add: fold_AddResource metrics_resources_def split: option.split)
  show ?thesis
    by (auto simp: registerGroup_def RegisterResourceWithRoleGroup_def go_bind_Done_iff metrics
        group_builds_def group_info_def Let_def split: prod.splits option.splits)
qed

lemma registerGroup_error:
  "registerGroup G C M rg r = Done (Some e, r') \<Longrightarrow> r' = r"
  by (auto simp: registerGroup_def RegisterResourceWithRoleGroup_def go_bind_Done_iff Let_def
      split: prod.splits option.splits)

text \<open>
  The builder and the specification stay the same while the groups are registered, so every group
  is built by the same function.
\<close>

lemma group_builds_resources [simp]:
  "group_builds G C M (r\<lparr>rr_Resources := xs\<rparr>) name rg rs = group_builds G C M r name rg rs"
  by (simp add: group_builds_def group_info_def)

lemma group_info_resources [simp]: "group_info (r\<lparr>rr_Resources := xs\<rparr>) name = group_info r name"
  by (simp add: group_info_def)

text \<open>What a role group contributes, if its registration succeeds.\<close>

definition group_resources ::
  "opgo \<Rightarrow> client \<Rightarrow> mergeApi \<Rightarrow> roleReconciler \<Rightarrow> string \<times> roleGroupSpec \<Rightarrow> resource list option" where
  "group_resources G C M r g =
     (case registerGroup G C M g (r\<lparr>rr_Resources := []\<rparr>) of
        Done (None, r') \<Rightarrow> Some (rr_Resources r') | _ \<Rightarrow> None)"

lemma group_resources_iff:
  "group_resources G C M r (name, rg) = Some xs \<longleftrightarrow>
   (\<exists>rs. group_builds G C M r name rg rs \<and> xs = rs @ metrics_resources G (group_info r name))"
proof -
  have "group_resources G C M r (name, rg) = Some xs \<longleftrightarrow>
      (\<exists>r'. registerGroup G C M (name, rg) (r\<lparr>rr_Resources := []\<rparr>) = Done (None, r') \<and> xs = rr_Resources r')"
    by (auto simp: group_resources_def split: go.splits option.splits)
  then show ?thesis by (auto simp: registerGroup_ok_iff)
qed

lemma registerGroup_adds:
  "registerGroup G C M g r = Done (None, r') \<longleftrightarrow>
   (\<exists>xs. group_resources G C M r g = Some xs \<and> r' = r\<lparr>rr_Resources := rr_Resources r @ xs\<rparr>)"
  by (cases g) (auto simp: registerGroup_ok_iff group_resources_iff)

lemma group_resources_resources [simp]:
  "group_resources G C M (r\<lparr>rr_Resources := xs\<rparr>) g = group_resources G C M r g"
  by (simp add: group_resources_def)

lemma registerGroups_ok_iff:
  "registerGroups G C M groups r = Done (None, r') \<longleftrightarrow>
   list_all (\<lambda>g. group_resources G C M r g \<noteq> None) groups \<and>
   r' = r\<lparr>rr_Resources := rr_Resources r @ concat (map (the \<circ> group_resources G C M r) groups)\<rparr>"
proof (induction groups arbitrary: r)
  case (Cons g groups)
  have "registerGroups G C M (g # groups) r = Done (None, r') \<longleftrightarrow>
      (\<exists>r1. registerGroup G C M g r = Done (None, r1) \<and> registerGroups G C M groups r1 = Done (None, r'))"
    by (auto simp: go_bind_Done_iff split: option.splits)
  also have "\<dots> \<longleftrightarrow> (\<exists>xs. group_resources G C M r g = Some xs \<and>
      registerGroups G C M groups (r\<lparr>rr_Resources := rr_Resources r @ xs\<rparr>) = Done (None, r'))"
    by (auto simp: registerGroup_adds)
  finally show ?case
    by (cases "group_resources G C M r g") (simp_all add: Cons.IH)
qed auto

lemma group_builds_spec:
  "group_builds G C M (r\<lparr>rr_Spec := (rr_Spec r)\<lparr>role_RoleGroups := groups\<rparr>\<rparr>) name rg rs =
   group_builds G C M r name rg rs"
  by (simp add: group_builds_def group_info_def)

lemma group_resources_spec [simp]:
  "group_resources G C M (r\<lparr>rr_Spec := (rr_Spec r)\<lparr>role_RoleGroups := groups\<rparr>\<rparr>) =
   group_resources G C M r"
proof
  fix g
  have "group_resources G C M (r\<lparr>rr_Spec := (rr_Spec r)\<lparr>role_RoleGroups := groups\<rparr>\<rparr>) g = Some xs \<longleftrightarrow>
      group_resources G C M r g = Some xs" for xs
    by (cases g) (simp add: group_resources_iff group_builds_spec group_info_def)
  then show "group_resources G C M (r\<lparr>rr_Spec := (rr_Spec r)\<lparr>role_RoleGroups := groups\<rparr>\<rparr>) g =
      group_resources G C M r g"
    by (metis option.exhaust)
qed

text \<open>
  For a known role the configuration handed to the builder is the merged one, so a group registers
  whenever the builder accepts that.
\<close>

lemma group_builds_known:
  assumes "known_role (ri_RoleName (rr_RoleInfo r))"
    and "MarshalAffinity G (defaultAffinity G (ri_RoleName (rr_RoleInfo r)) (GetOwnerName C)) = (raw, None)"
    and "MergeConfig M (role_Config (rr_Spec r)) (rg_Config rg) = (mc, None)"
    and "MergeOverrides M (role_OverridesSpec (rr_Spec r)) (rg_OverridesSpec rg) = (mo, None)"
    and "\<And>ov d. full_resources d \<Longrightarrow> \<exists>rs. rr_Builder r (rg_Replicas rg) (group_info r name) (Some ov)
        (Some (mergedConfig (cfg_RoleGroupConfigSpec (orZero \<lparr>cfg_RoleGroupConfigSpec = None\<rparr> mc)) d raw)) =
      Done rs \<and> P rs"
  shows "\<exists>rs. group_builds G C M r name rg rs \<and> P rs"
proof -
  obtain c where c: "DefaultConfig G (ri_RoleName (rr_RoleInfo r)) (GetOwnerName C) = Done c"
    using DefaultConfig_known [OF assms(1)] ..
  then obtain d where d: "defaultResources (ri_RoleName (rr_RoleInfo r)) = Done d" "full_resources d"
    by (rule DefaultConfig_Done)
  obtain rs where rs: "rr_Builder r (rg_Replicas rg) (group_info r name)
      (Some (mergedOverrides c (orZero zeroOverridesSpec mo)))
      (Some (mergedConfig (cfg_RoleGroupConfigSpec (orZero \<lparr>cfg_RoleGroupConfigSpec = None\<rparr> mc)) d raw)) =
    Done rs" "P rs"
    using assms(5) [OF d(2)] by blast
  with MergeDefaultConfig_eq [OF c d(1) assms(2)] assms(3,4) c
  have "group_builds G C M r name rg rs" by (simp add: group_builds_def)
  with rs(2) show ?thesis by blast
qed

section \<open>Properties\<close>

text \<open>
  C8. The registration of a role does not depend on the order in which Go ranges over the map of
  role groups: if it succeeds in one order it succeeds in every order, and the same resources are
  registered, each as often.
\<close>

theorem RegisterResources_order_independent:
  assumes "gm_ok (role_RoleGroups (rr_Spec r))" and "gm_ok groups"
    and "gm_get groups = gm_get (role_RoleGroups (rr_Spec r))"
    and "RegisterResources G C M r = Done (None, r')"
  shows "\<exists>r''. RegisterResources G C M (r\<lparr>rr_Spec := (rr_Spec r)\<lparr>role_RoleGroups := groups\<rparr>\<rparr>) =
      Done (None, r'') \<and> mset (rr_Resources r'') = mset (rr_Resources r')"
proof -
  let ?gs = "role_RoleGroups (rr_Spec r)"
  have "set groups = set ?gs" using gm_get_eq_set [OF assms(2,1,3)] .
  moreover have "distinct groups" "distinct ?gs"
    using assms(1,2) by (simp_all add: gm_ok_def distinct_map)
  ultimately have perm: "mset groups = mset ?gs" by (simp add: set_eq_iff_mset_eq_distinct)
  then have all: "list_all P groups \<longleftrightarrow> list_all P ?gs" for P
    by (metis list.pred_set mset_eq_setD)
  have "mset (concat (map f groups)) = mset (concat (map f ?gs))" for f :: "_ \<Rightarrow> resource list"
    using perm by (simp add: mset_concat sum_mset_sum_list [symmetric])
  with assms(4) all show ?thesis by (auto simp: RegisterResources_def registerGroups_ok_iff)
qed

definition example_merge :: mergeApi where
  "example_merge = \<lparr>MergeConfig = (\<lambda>l r. (if r = None then l else r, None)),
                    MergeOverrides = (\<lambda>l r. (if r = None then l else r, None))\<rparr>"

definition example_group :: roleGroupSpec where
  "example_group = \<lparr>rg_Replicas = Some 1, rg_Config = None, rg_OverridesSpec = None\<rparr>"

text \<open>A role with two groups; its builder registers the service of the group.\<close>

definition two_groups :: roleReconciler where
  "two_groups = NewRoleReconciler (rgi_RoleInfo example_info) None None example_image
     (example_role\<lparr>role_RoleGroups := [(''a'', example_group), (''b'', example_group)]\<rparr>)
     (\<lambda>replicas info ov rgc. Done [ServiceResource None])"

lemma two_groups_registers: "\<exists>r'. RegisterResources example_opgo db_client example_merge two_groups = Done (None, r')"
proof -
  have "\<exists>rs. group_builds example_opgo db_client example_merge two_groups name example_group rs \<and> True" for name
    by (rule group_builds_known [where raw = "''{}''" and mc = None and mo = None])
      (simp_all add: two_groups_def NewRoleReconciler_def example_info_def known_role_def role_names
        example_opgo_def example_merge_def example_role_def example_group_def)
  then have "group_resources example_opgo db_client example_merge two_groups (name, example_group) \<noteq> None"
    for name
    using group_resources_iff by (metis not_None_eq)
  moreover have "role_RoleGroups (rr_Spec two_groups) = [(''a'', example_group), (''b'', example_group)]"
    by (simp add: two_groups_def NewRoleReconciler_def)
  ultimately show ?thesis
    by (simp add: RegisterResources_def registerGroups_ok_iff del: registerGroups.simps)
qed

theorem RegisterResources_order_independent_witness:
  "\<exists>r' r''. RegisterResources example_opgo db_client example_merge two_groups = Done (None, r') \<and>
    RegisterResources example_opgo db_client example_merge (two_groups\<lparr>rr_Spec :=
      (rr_Spec two_groups)\<lparr>role_RoleGroups := [(''b'', example_group), (''a'', example_group)]\<rparr>\<rparr>) =
      Done (None, r'') \<and>
    mset (rr_Resources r'') = mset (rr_Resources r')"
proof -
  obtain r' where r': "RegisterResources example_opgo db_client example_merge two_groups = Done (None, r')"
    using two_groups_registers ..
  have "gm_ok (role_RoleGroups (rr_Spec two_groups))" "gm_ok [(''b'', example_group), (''a'', example_group)]"
    "gm_get [(''b'', example_group), (''a'', example_group)] = gm_get (role_RoleGroups (rr_Spec two_groups))"
    by (auto simp: two_groups_def NewRoleReconciler_def gm_ok_def gm_get_Cons)
  from RegisterResources_order_independent [OF this r'] r' show ?thesis by blast
qed

end
