(* ===== verification/Security.thy ===== *)
theory Security
  imports Container_Builder
begin

text \<open>
  \<open>internal/security\<close>: which identity provider an authentication class names, and the environment
  variables, volume and mount that configure the API server for it. The two implementations of
  \<open>AuthenticationConfigGenerator\<close> satisfy one contract, stated as a locale; so do the two of
  \<open>OidcProviderMetadataExtractor\<close>.
\<close>

section \<open>type.go\<close>

definition LDAP :: string where [const_simps]: "LDAP = ''LDAP''"
definition OIDC :: string where [const_simps]: "OIDC = ''OIDC''"
definition TLS :: string where [const_simps]: "TLS = ''TLS''"
definition Static :: string where [const_simps]: "Static = ''STATIC''"

lemma auth_types_distinct [simp]: "LDAP \<noteq> OIDC" "OIDC \<noteq> LDAP"
  by (simp_all add: LDAP_def OIDC_def)

record authenticationProvider =
  ap_AuthType :: string
  ap_IdentityProviderHint :: string
  ap_OidcCredentialSecret :: "oidcCredentialSecretSpec option"
  ap_Provider :: "providerSpec option"

definition NewOidcProvider ::
  "string \<Rightarrow> string \<Rightarrow> oidcCredentialSecretSpec option \<Rightarrow> providerSpec option \<Rightarrow>
   authenticationProvider" where
  "NewOidcProvider authType providerHint oidcCredentialSecret provider =
     \<lparr>ap_AuthType = authType, ap_IdentityProviderHint = providerHint,
      ap_OidcCredentialSecret = oidcCredentialSecret, ap_Provider = provider\<rparr>"

definition NewLdapProvider :: "string \<Rightarrow> providerSpec option \<Rightarrow> authenticationProvider" where
  "NewLdapProvider authType provider =
     \<lparr>ap_AuthType = authType, ap_IdentityProviderHint = [],
      ap_OidcCredentialSecret = None, ap_Provider = provider\<rparr>"

section \<open>ldap.go\<close>

definition SecurityAuthenticationType :: string where [const_simps]:
  "SecurityAuthenticationType = ''SECURITY_AUTHENTICATION_TYPE''"
definition LdapBindCredintialsUser :: string where [const_simps]:
  "LdapBindCredintialsUser = ''SECURITY_AUTHENTICATION_LDAP_USERNAME''"
definition LdapBindCredintialsPass :: string where [const_simps]:
  "LdapBindCredintialsPass = ''SECURITY_AUTHENTICATION_LDAP_PASSWORD''"
definition LdapUserAdmin :: string where [const_simps]:
  "LdapUserAdmin = ''SECURITY_AUTHENTICATION_LDAP_USER_ADMIN''"
definition LdapSecretUserKey :: string where [const_simps]: "LdapSecretUserKey = ''user''"
definition LdapSecretPassKey :: string where [const_simps]: "LdapSecretPassKey = ''password''"

definition NewLDAPAuthenticationConfigGenerator :: "ldapProvider option \<Rightarrow> ldapProvider go" where
  "NewLDAPAuthenticationConfigGenerator ldap = go_deref ldap"

definition ldapAttr :: "(ldapFieldNames \<Rightarrow> string) \<Rightarrow> string \<Rightarrow> ldapProvider \<Rightarrow> string" where
  "ldapAttr field dflt l =
     (case ldap_LDAPFieldNames l of
        None \<Rightarrow> dflt
      | Some names \<Rightarrow> if field names \<noteq> [] then field names else dflt)"

definition LDAPGenerator_Generate :: "opgo \<Rightarrow> ldapProvider \<Rightarrow> iface go_map res" where
  "LDAPGenerator_Generate G l =
     (let uidAttr = ldapAttr lf_Uid ''uid'' l;
          mailAttr = ldapAttr lf_Email ''mail'' l;
          ldapUrls = ''ldap://'' @ ldap_Hostname l @ '':'' @ strconv_Itoa (sint (ldap_Port l));
          envKeyPrefix = ''SECURITY_AUTHENTICATION_LDAP_'';
          evns = [(SecurityAuthenticationType, VString LDAP),
                  (envKeyPrefix @ ''URLS'', VString ldapUrls),
                  (envKeyPrefix @ ''BASE-DN'', VString (ldap_SearchBase l)),
                  (envKeyPrefix @ ''USER_IDENTITY-ATTRIBUTE'', VString uidAttr),
                  (envKeyPrefix @ ''USER_EMAIL-ATTRIBUTE'', VString mailAttr),
                  (envKeyPrefix @ ''USER_NOT-EXIST-ACTION'', VString ''CREATE'')]
      in (if ldap_TLS l \<noteq> None then
            gm_put (envKeyPrefix @ ''SSL_TRUST_STORE_PASSWORD'') (VString [])
             (gm_put (envKeyPrefix @ ''SSL_TRUST_STORE'')
                (VString (path_Join [KubedoopTlsDir G, ''truststore.p12'']))
              (gm_put (envKeyPrefix @ ''SSL_ENABLE'') (VString ''true'') evns))
          else evns, None))"

text \<open>Quotes and the backslash of the shell command.\<close>

definition dquote :: string where "dquote = [CHR 0x22]"
definition squote :: string where "squote = [CHR 0x27]"
definition backslash :: string where "backslash = [CHR 0x5C]"

definition ExtractLdapCredintialsAndExportCommand :: "opgo \<Rightarrow> string" where
  "ExtractLdapCredintialsAndExportCommand G =
     (let userCredentialsSecret =
            path_Join [KubedoopSecretDir G, LdapBindCredintialsVolumeName, LdapSecretUserKey];
          passCredentialsSecret =
            path_Join [KubedoopSecretDir G, LdapBindCredintialsVolumeName, LdapSecretPassKey]
      in ''export SECURITY_AUTHENTICATION_LDAP_USERNAME='' @ dquote @ ''$(cat '' @
         userCredentialsSecret @ '')'' @ dquote @ '';'' @ newline @
         ''export SECURITY_AUTHENTICATION_LDAP_PASSWORD='' @ dquote @ ''$(cat '' @
         passCredentialsSecret @ '')'' @ dquote @ '';'' @ newline @
         ''export SECURITY_AUTHENTICATION_LDAP_USER_ADMIN='' @ dquote @ ''$(cat '' @
         userCredentialsSecret @ '' | grep -oP '' @ squote @ ''uid='' @ backslash @ ''K[^,]+'' @
         squote @ '')'' @ dquote @ '';'' @ newline @
         ''echo '' @ dquote @ ''show ldap useranme and admin user: ldap-username: $SECURITY_AUTHENTICATION_LDAP_USERNAME, ldap-user-admin: $SECURITY_AUTHENTICATION_LDAP_USER_ADMIN '' @
         dquote)"

definition credentialScopes :: "credentials \<Rightarrow> string list" where
  "credentialScopes bindCredentials =
     (case cred_Scope bindCredentials of
        None \<Rightarrow> []
      | Some scope \<Rightarrow>
          (if scope_Node scope then [''node''] else []) @
          (if scope_Pod scope then [''pod''] else []) @
          (if length (scope_Services scope) > 0 then scope_Services scope else []))"

definition AddLdapCredintialsVolumesAndVolumeMounts ::
  "opgo \<Rightarrow> credentials \<Rightarrow> volume \<times> volumeMount" where
  "AddLdapCredintialsVolumesAndVolumeMounts G bindCredentials =
     (let scopes = credentialScopes bindCredentials;
          annotations = [(AnnotationSecretsClass G, cred_SecretClass bindCredentials)];
          annotations = (if length scopes > 0 then
                           gm_put (AnnotationSecretsScope G)
                             (strings_Join scopes (CommonDelimiter G)) annotations
                         else annotations)
      in (\<lparr>vol_Name = LdapBindCredintialsVolumeName,
           vol_Source = Ephemeral \<lparr>pvc_Name = [], pvc_Annotations = annotations,
             pvc_Spec = \<lparr>pvc_AccessModes = [''ReadWriteOnce''],
                         pvc_StorageClassName = Some (SecretStorageClass G),
                         pvc_VolumeMode = None, pvc_StorageRequest = Quantity ''1Mi''\<rparr>\<rparr>\<rparr>,
          \<lparr>vm_Name = LdapBindCredintialsVolumeName,
           vm_MountPath = path_Join [KubedoopSecretDir G, LdapBindCredintialsVolumeName],
           vm_SubPath = [], vm_ReadOnly = True\<rparr>))"

section \<open>oidc.go\<close>

definition Keycloak :: string where [const_simps]: "Keycloak = ''keycloak''"
definition Github :: string where [const_simps]: "Github = ''github''"

definition IsTls :: "oidcProvider \<Rightarrow> bool" where
  "IsTls oidcProvider \<longleftrightarrow> oidc_TLS oidcProvider \<noteq> None"

definition GetScheme :: "oidcProvider \<Rightarrow> string" where
  "GetScheme oidcProvider = (if IsTls oidcProvider then ''https'' else ''http'')"

definition getIssuer :: "oidcProvider option \<Rightarrow> string go" where
  "getIssuer oidcProvider =
     go_bind (go_deref oidcProvider) (\<lambda>p.
       Done (GetScheme p @ ''://'' @ oidc_Hostname p @ '':'' @ strconv_Itoa (sint (oidc_Port p)) @
             oidc_RootPath p))"

text \<open>The implementations of \<open>OidcProviderMetadataExtractor\<close>: the issuer, and nothing.\<close>

datatype oidcMetadata = KeycloakMetadata string | GithubMetadata

definition NewKeycloakMetadata :: "providerSpec option \<Rightarrow> oidcMetadata go" where
  "NewKeycloakMetadata providerSpec =
     go_bind (go_deref providerSpec) (\<lambda>p.
     go_bind (getIssuer (ps_OIDC p)) (\<lambda>issuer. Done (KeycloakMetadata issuer)))"

definition NewGithubMetadata :: "providerSpec option \<Rightarrow> oidcMetadata" where
  "NewGithubMetadata providerSpec = GithubMetadata"

text \<open>The methods of the two types, and the interface \<open>OidcProviderMetadataExtractor\<close> over them.\<close>

definition KeycloakMetadata_ProviderHint :: "string \<Rightarrow> string" where [simp]:
  "KeycloakMetadata_ProviderHint issuer = Keycloak"
definition KeycloakMetadata_AuthorizationUri :: "string \<Rightarrow> string" where [simp]:
  "KeycloakMetadata_AuthorizationUri issuer = issuer @ ''/protocol/openid-connect/auth''"
definition KeycloakMetadata_TokenUri :: "string \<Rightarrow> string" where [simp]:
  "KeycloakMetadata_TokenUri issuer = issuer @ ''/protocol/openid-connect/token''"
definition KeycloakMetadata_UserInfoUri :: "string \<Rightarrow> string" where [simp]:
  "KeycloakMetadata_UserInfoUri issuer = issuer @ ''/protocol/openid-connect/userinfo''"

definition GithubMetadata_ProviderHint :: string where [simp]:
  "GithubMetadata_ProviderHint = Github"
definition GithubMetadata_AuthorizationUri :: string where [simp]:
  "GithubMetadata_AuthorizationUri = ''https://github.com/login/oauth/authorize''"
definition GithubMetadata_TokenUri :: string where [simp]:
  "GithubMetadata_TokenUri = ''https://github.com/login/oauth/access_token''"
definition GithubMetadata_UserInfoUri :: string where [simp]:
  "GithubMetadata_UserInfoUri = ''https://api.github.com/user''"

fun ProviderHint :: "oidcMetadata \<Rightarrow> string" where
  "ProviderHint (KeycloakMetadata issuer) = KeycloakMetadata_ProviderHint issuer"
| "ProviderHint GithubMetadata = GithubMetadata_ProviderHint"

fun AuthorizationUri :: "oidcMetadata \<Rightarrow> string" where
  "AuthorizationUri (KeycloakMetadata issuer) = KeycloakMetadata_AuthorizationUri issuer"
| "AuthorizationUri GithubMetadata = GithubMetadata_AuthorizationUri"

fun TokenUri :: "oidcMetadata \<Rightarrow> string" where
  "TokenUri (KeycloakMetadata issuer) = KeycloakMetadata_TokenUri issuer"
| "TokenUri GithubMetadata = GithubMetadata_TokenUri"

fun UserInfoUri :: "oidcMetadata \<Rightarrow> string" where
  "UserInfoUri (KeycloakMetadata issuer) = KeycloakMetadata_UserInfoUri issuer"
| "UserInfoUri GithubMetadata = GithubMetadata_UserInfoUri"

definition CreateOidcProviderHintSecurityEnvKey :: "string \<Rightarrow> string \<Rightarrow> string" where
  "CreateOidcProviderHintSecurityEnvKey providerHint metadataItem =
     ''SECURITY_AUTHENTICATION_OAUTH2_PROVIDER_'' @ strings_ToUpper providerHint @ ''_'' @
     metadataItem"

definition RedirectUri :: string where [const_simps]:
  "RedirectUri = ''http://127.0.0.1:12345/dolphinscheduler/redirect/login/oauth2''"
definition CallbackUri :: string where [const_simps]:
  "CallbackUri = ''http://127.0.0.1:12345/dolphinscheduler/ui/login''"
definition OidcClientIdKey :: string where [const_simps]: "OidcClientIdKey = ''CLIENT_ID''"
definition OidcSecretKey :: string where [const_simps]: "OidcSecretKey = ''CLIENT_SECRET''"

definition NewOidcAuthenticationConfigGenerator ::
  "authenticationProvider \<Rightarrow> authenticationProvider" where
  "NewOidcAuthenticationConfigGenerator oidcProvider = oidcProvider"

definition secretToEnv :: "authenticationProvider \<Rightarrow> string \<Rightarrow> iface go" where
  "secretToEnv p secretKey =
     go_bind (go_deref (ap_OidcCredentialSecret p)) (\<lambda>s.
       Done (VEnvVarSource (SecretKeyRef (ocs_Secret s) secretKey)))"

definition OidcGenerator_Generate :: "authenticationProvider \<Rightarrow> iface go_map res go" where
  "OidcGenerator_Generate p =
     (if ap_AuthType p \<noteq> OIDC then Done ([], Some (ErrNew ''authentication type is not OIDC''))
      else if ap_IdentityProviderHint p \<noteq> Keycloak \<and> ap_IdentityProviderHint p \<noteq> Github then
        Done ([], Some (ErrNew ''oidc provider hint is not supported''))
      else
        go_bind (if ap_IdentityProviderHint p = Keycloak then NewKeycloakMetadata (ap_Provider p)
                 else Done (NewGithubMetadata (ap_Provider p))) (\<lambda>extractor.
        let key = CreateOidcProviderHintSecurityEnvKey (ProviderHint extractor) in
        go_bind (secretToEnv p OidcClientIdKey) (\<lambda>clientId.
        go_bind (secretToEnv p OidcSecretKey) (\<lambda>clientSecret.
        Done ([(''SECURITY_AUTHENTICATION_OAUTH2_ENABLE'', VString ''true''),
               (key ''AUTHORIZATION-URI'', VString (AuthorizationUri extractor)),
               (key ''REDIRECT-URI'', VString RedirectUri),
               (key ''CLIENT-ID'', clientId),
               (key ''CLIENT-SECRET'', clientSecret),
               (key ''TOKEN-URI'', VString (TokenUri extractor)),
               (key ''USER-INFO-URI'', VString (UserInfoUri extractor)),
               (key ''CALLBACK-URL'', VString CallbackUri),
               (key ''ICON-URI'', VString []),
               (key ''PROVIDER'', VString (ProviderHint extractor))], None)))))"

section \<open>authentication.go\<close>

definition SUPPORTED_AUTHENTICATION_CLASS_PROVIDERS :: "string list" where
  "SUPPORTED_AUTHENTICATION_CLASS_PROVIDERS = [LDAP, OIDC]"

record authenticationResult =
  ar_Config :: "iface go_map"
  ar_CredintialsSecrets :: "string list"
  ar_LdapVolume :: "volume option"
  ar_LdapVolumeMount :: "volumeMount option"
  ar_LdapBindCredintialsName :: string

definition zeroAuthenticationResult :: authenticationResult where
  "zeroAuthenticationResult = \<lparr>ar_Config = [], ar_CredintialsSecrets = [], ar_LdapVolume = None,
     ar_LdapVolumeMount = None, ar_LdapBindCredintialsName = []\<rparr>"

text \<open>Two settings that no code reads.\<close>

definition DEFAULT_OIDC_PROVIDER :: string where
  "DEFAULT_OIDC_PROVIDER = Keycloak"

definition SUPPORTED_OIDC_PROVIDERS :: "string list" where
  "SUPPORTED_OIDC_PROVIDERS = [Github]"

definition isAuthenticationSupported :: "string \<Rightarrow> bool" where
  "isAuthenticationSupported authType \<longleftrightarrow> authType \<in> set SUPPORTED_AUTHENTICATION_CLASS_PROVIDERS"

definition getOidcProviderHint :: "oidcProvider \<Rightarrow> string res" where
  "getOidcProviderHint oidcProvider =
     (if oidc_ProviderHint oidcProvider = ''keycloak'' then (Keycloak, None)
      else if oidc_ProviderHint oidcProvider = ''github'' then (Github, None)
      else if oidc_ProviderHint oidcProvider = ''oidc'' then (Github, None)
      else ([], Some (ErrNew ''oidc provider hint is not supported'')))"

definition getAuthenticationProvider ::
  "authenticationClass option \<Rightarrow> oidcCredentialSecretSpec option \<Rightarrow>
   authenticationProvider option res go" where
  "getAuthenticationProvider authClass oidcSecretSpec =
     (case authClass of
        None \<Rightarrow> Done (None, Some (ErrNew ''AuthenticationClass cannot be nil''))
      | Some ac \<Rightarrow>
          (case ac_AuthenticationProvider ac of
             None \<Rightarrow> Done (None, Some (ErrNew ''AuthenticationProvider cannot be nil''))
           | Some provider \<Rightarrow>
               (case ps_OIDC provider of
                  Some oidc \<Rightarrow>
                    (case getOidcProviderHint oidc of
                       (_, Some err) \<Rightarrow> Done (None, Some err)
                     | (providerHint, None) \<Rightarrow>
                         Done (Some (NewOidcProvider OIDC providerHint oidcSecretSpec
                                       (Some provider)), None))
                | None \<Rightarrow>
                    if ps_TLS provider \<noteq> None then Panic (PanicValue ''unimplemented'')
                    else if ps_Static provider \<noteq> None then Panic (PanicValue ''unimplemented'')
                    else if ps_LDAP provider \<noteq> None then
                      Done (Some (NewLdapProvider LDAP (Some provider)), None)
                    else Done (None, None))))"

definition resolveAuthenticationClass :: "client \<Rightarrow> string \<Rightarrow> authenticationClass option res" where
  "resolveAuthenticationClass C authClassRef =
     (case GetAuthenticationClass C authClassRef of
        (_, Some err) \<Rightarrow> (None, Some err)
      | (authClassObject, None) \<Rightarrow> (Some authClassObject, None))"

text \<open>The loop, with the named results \<open>providers\<close> and \<open>err\<close>: every turn overwrites \<open>err\<close>.\<close>

fun resolveAuthentications_from ::
  "client \<Rightarrow> authenticationSpec list \<Rightarrow> authenticationProvider list \<Rightarrow> go_error option \<Rightarrow>
   authenticationProvider list res go" where
  "resolveAuthentications_from C [] providers err = Done (providers, err)"
| "resolveAuthentications_from C (dolphinAuth # rest) providers err =
     (case resolveAuthenticationClass C (as_AuthenticationClass dolphinAuth) of
        (_, Some e) \<Rightarrow> resolveAuthentications_from C rest providers (Some e)
      | (authclass, None) \<Rightarrow>
          go_bind (getAuthenticationProvider authclass (as_Oidc dolphinAuth)) (\<lambda>(authprovider, err).
          go_bind (go_deref authprovider) (\<lambda>p.
            if isAuthenticationSupported (ap_AuthType p) then
              resolveAuthentications_from C rest (providers @ [p]) err
            else Done (providers, Some (ErrNew ''auth type is not supported'')))))"

definition resolveAuthentications ::
  "client \<Rightarrow> authenticationSpec list \<Rightarrow> authenticationProvider list res go" where
  "resolveAuthentications C authentications = resolveAuthentications_from C authentications [] None"

definition providerLDAP :: "authenticationProvider \<Rightarrow> ldapProvider option go" where
  "providerLDAP p = go_bind (go_deref (ap_Provider p)) (\<lambda>spec. Done (ps_LDAP spec))"

fun createAuthenticationConfig_from ::
  "opgo \<Rightarrow> authenticationProvider list \<Rightarrow> iface go_map \<Rightarrow> bool \<Rightarrow> iface go_map res go" where
  "createAuthenticationConfig_from G [] config ldapExists = Done (config, None)"
| "createAuthenticationConfig_from G (provider # rest) config ldapExists =
     (let merge = (\<lambda>exists (conf, err).
            case err of
              Some e \<Rightarrow> Done (config, Some e)
            | None \<Rightarrow> createAuthenticationConfig_from G rest (maps_Copy config conf) exists)
      in if ap_AuthType provider = OIDC then
           go_bind (OidcGenerator_Generate (NewOidcAuthenticationConfigGenerator provider))
             (merge ldapExists)
         else if ap_AuthType provider = LDAP then
           (if \<not> ldapExists then
              go_bind (providerLDAP provider) (\<lambda>ldap.
              go_bind (NewLDAPAuthenticationConfigGenerator ldap) (\<lambda>l.
                merge True (LDAPGenerator_Generate G l)))
            else createAuthenticationConfig_from G rest config ldapExists)
         else Done (config, Some (ErrNew ''auth type is not supported'')))"

definition createAuthenticationConfig ::
  "opgo \<Rightarrow> authenticationProvider list \<Rightarrow> iface go_map res go" where
  "createAuthenticationConfig G providers = createAuthenticationConfig_from G providers [] False"

text \<open>The loop over the providers stops at the first LDAP provider.\<close>

fun ldapMounts ::
  "opgo \<Rightarrow> authenticationProvider list \<Rightarrow> ((volume \<times> volumeMount \<times> string) option) res go" where
  "ldapMounts G [] = Done (None, None)"
| "ldapMounts G (provider # rest) =
     (if ap_AuthType provider = LDAP then
        go_bind (providerLDAP provider) (\<lambda>ldap.
          case Option.bind ldap ldap_BindCredentials of
            None \<Rightarrow> Done (None, Some (ErrNew ''ldap provider or bind credentials cannot be nil''))
          | Some bindCredentials \<Rightarrow>
              (let (vol, mount) = AddLdapCredintialsVolumesAndVolumeMounts G bindCredentials
               in Done (Some (vol, mount, cred_SecretClass bindCredentials), None)))
      else ldapMounts G rest)"

definition Authentication ::
  "opgo \<Rightarrow> client \<Rightarrow> authenticationSpec list \<Rightarrow> authenticationResult res go" where
  "Authentication G C authSpec =
     go_bind (resolveAuthentications C authSpec) (\<lambda>(providers, _).
     go_bind (createAuthenticationConfig G providers) (\<lambda>(config, err).
     case err of
       Some e \<Rightarrow> Done (zeroAuthenticationResult, Some e)
     | None \<Rightarrow>
         go_bind (ldapMounts G providers) (\<lambda>(mounts, err).
         case err of
           Some e \<Rightarrow> Done (zeroAuthenticationResult, Some e)
         | None \<Rightarrow>
             Done (\<lparr>ar_Config = config, ar_CredintialsSecrets = [],
                    ar_LdapVolume = map_option fst mounts,
                    ar_LdapVolumeMount = map_option (fst \<circ> snd) mounts,
                    ar_LdapBindCredintialsName = (case mounts of None \<Rightarrow> [] | Some (_, _, n) \<Rightarrow> n)\<rparr>,
                   None))))"

section \<open>The contract of the config generators\<close>

text \<open>
  A value that \<open>WithEnvs\<close> turns into a variable, and a map of such values under a common prefix.
\<close>

fun renderable :: "iface \<Rightarrow> bool" where
  "renderable (VString _) = True"
| "renderable (VEnvVarSource _) = True"
| "renderable _ = False"

definition env_config :: "string \<Rightarrow> iface go_map \<Rightarrow> bool" where
  "env_config pre m \<longleftrightarrow>
     gm_ok m \<and> list_all (\<lambda>(k, v). take (length pre) k = pre \<and> renderable v) m"

definition auth_prefix :: string where
  "auth_prefix = ''SECURITY_AUTHENTICATION_''"

lemma env_config_get:
  "env_config pre m \<Longrightarrow> gm_get m k = Some v \<Longrightarrow> take (length pre) k = pre \<and> renderable v"
  by (auto simp: env_config_def list_all_iff gm_get_Some_iff)

lemma env_config_intro:
  assumes "gm_ok m"
    and "\<And>k v. gm_get m k = Some v \<Longrightarrow> take (length pre) k = pre \<and> renderable v"
  shows "env_config pre m"
  using assms by (auto simp: env_config_def list_all_iff gm_get_Some_iff)

lemma env_config_put:
  assumes "env_config pre m" and "take (length pre) k = pre" and "renderable v"
  shows "env_config pre (gm_put k v m)"
proof (rule env_config_intro)
  show "gm_ok (gm_put k v m)" using assms(1) by (simp add: env_config_def gm_ok_put)
next
  fix k' v'
  assume "gm_get (gm_put k v m) k' = Some v'"
  then show "take (length pre) k' = pre \<and> renderable v'"
    using assms env_config_get by (auto simp: gm_get_put split: if_splits)
qed

lemma env_config_Copy:
  assumes "env_config pre m" and "env_config pre m'"
  shows "env_config pre (maps_Copy m m')"
proof (rule env_config_intro)
  show "gm_ok (maps_Copy m m')" using assms(1) by (simp add: env_config_def gm_ok_Copy)
next
  fix k v
  assume "gm_get (maps_Copy m m') k = Some v"
  moreover have "gm_ok m'" using assms(2) by (simp add: env_config_def)
  ultimately show "take (length pre) k = pre \<and> renderable v"
    using assms env_config_get by (fastforce simp: gm_get_Copy map_add_Some_iff)
qed

lemma env_config_weaken:
  assumes "env_config pre m" and "take (length pre') pre = pre'"
  shows "env_config pre' m"
proof -
  have "take (length pre') k = pre'" if "take (length pre) k = pre" for k
  proof -
    have "take (length pre') (take (length pre) k) = pre'" using that assms(2) by simp
    moreover have "length pre' \<le> length pre" using assms(2) by (metis length_take min.cobounded1)
    ultimately show ?thesis by (simp add: min_def)
  qed
  then show ?thesis using assms(1) by (auto simp: env_config_def list_all_iff)
qed

lemma envVars_of_renderable: "renderable v \<Longrightarrow> \<exists>e. envVars_of (k, v) = [e] \<and> ev_Name e = k"
  by (cases v) simp_all

lemma WithEnvs_config:
  assumes "env_config pre m"
  shows "\<exists>c'. WithEnvs m c = Done c' \<and>
    map ev_Name (cb_envs c') = map ev_Name (cb_envs c) @ sorted_keys m @
      [''REGISTRY_ZOOKEEPER_CONNECT_STRING'']"
proof -
  have "map ev_Name (concat (map envVars_of (map (\<lambda>k. (k, iface_at m k)) ks))) = ks"
    if "set ks \<subseteq> fst ` set m" for ks
    using that
  proof (induction ks)
    case (Cons k ks)
    then obtain v where "gm_get m k = Some v" by (metis gm_get_None_iff insert_subset list.set(2) not_Some_eq)
    then obtain e where "envVars_of (k, iface_at m k) = [e]" "ev_Name e = k"
      using env_config_get [OF assms] envVars_of_renderable [of v k] by (auto simp: iface_at_def)
    with Cons show ?case by simp
  qed simp
  from this [of "sorted_keys m"] show ?thesis
    by (simp add: WithEnvs_eq zookeeperEnv_def sorted_entries_def SortedKeys_def)
qed

text \<open>
  \<open>AuthenticationConfigGenerator\<close>: a generator that succeeds produces variables under its prefix,
  each under a different name and each of a kind that the container builder renders.
\<close>

locale auth_config_generator =
  fixes pre :: string
    and generate :: "'p \<Rightarrow> iface go_map res go"
  assumes generates: "generate p = Done (m, None) \<Longrightarrow> env_config pre m"
begin

lemma merged:
  assumes "env_config pre' config" and "take (length pre') pre = pre'"
    and "generate p = Done (m, None)"
  shows "env_config pre' (maps_Copy config m)"
  by (rule env_config_Copy [OF assms(1) env_config_weaken [OF generates [OF assms(3)] assms(2)]])

lemma untouched:
  assumes "generate p = Done (m, None)" and "take (length pre) k \<noteq> pre"
  shows "gm_get (maps_Copy config m) k = gm_get config k"
proof -
  have "gm_get m k = None" using env_config_get [OF generates [OF assms(1)], of k] assms(2)
    by (cases "gm_get m k") auto
  moreover have "gm_ok m" using generates [OF assms(1)] by (simp add: env_config_def)
  ultimately show ?thesis by (simp add: gm_get_Copy map_add_def)
qed

end

lemma LDAPGenerator_ok [simp]: "snd (LDAPGenerator_Generate G l) = None"
  by (simp add: LDAPGenerator_Generate_def Let_def)

lemma LDAPGenerator_env_config:
  "env_config auth_prefix (fst (LDAPGenerator_Generate G l))"
  by (auto simp: LDAPGenerator_Generate_def Let_def intro!: env_config_put)
    (simp_all add: env_config_def gm_ok_def auth_prefix_def const_simps)

interpretation ldap: auth_config_generator
    auth_prefix "\<lambda>l. Done (LDAPGenerator_Generate G l)" for G
proof
  fix l m
  assume "Done (LDAPGenerator_Generate G l) = Done (m, None)"
  then show "env_config auth_prefix m" using LDAPGenerator_env_config [of G l] by simp
qed

lemma OidcGenerator_Done:
  assumes "OidcGenerator_Generate p = Done (m, None)"
  obtains x sec where "ap_AuthType p = OIDC" and "ap_OidcCredentialSecret p = Some sec"
    and "if ap_IdentityProviderHint p = Keycloak then NewKeycloakMetadata (ap_Provider p) = Done x
         else ap_IdentityProviderHint p = Github \<and> x = GithubMetadata"
    and "m = (let key = CreateOidcProviderHintSecurityEnvKey (ProviderHint x) in
              [(''SECURITY_AUTHENTICATION_OAUTH2_ENABLE'', VString ''true''),
               (key ''AUTHORIZATION-URI'', VString (AuthorizationUri x)),
               (key ''REDIRECT-URI'', VString RedirectUri),
               (key ''CLIENT-ID'', VEnvVarSource (SecretKeyRef (ocs_Secret sec) OidcClientIdKey)),
               (key ''CLIENT-SECRET'', VEnvVarSource (SecretKeyRef (ocs_Secret sec) OidcSecretKey)),
               (key ''TOKEN-URI'', VString (TokenUri x)),
               (key ''USER-INFO-URI'', VString (UserInfoUri x)),
               (key ''CALLBACK-URL'', VString CallbackUri),
               (key ''ICON-URI'', VString []),
               (key ''PROVIDER'', VString (ProviderHint x))])"
  using assms
  by (auto simp: OidcGenerator_Generate_def go_bind_Done_iff go_deref_Done_iff secretToEnv_def
      NewGithubMetadata_def Let_def split: if_splits)

lemma CreateOidcKey_inj:
  "CreateOidcProviderHintSecurityEnvKey h a = CreateOidcProviderHintSecurityEnvKey h b \<longleftrightarrow> a = b"
  by (simp add: CreateOidcProviderHintSecurityEnvKey_def)

lemma CreateOidcKey_not_enable:
  "CreateOidcProviderHintSecurityEnvKey h a \<noteq> ''SECURITY_AUTHENTICATION_OAUTH2_ENABLE''"
  by (simp add: CreateOidcProviderHintSecurityEnvKey_def)

interpretation oidc: auth_config_generator "''SECURITY_AUTHENTICATION_OAUTH2_''" OidcGenerator_Generate
proof
  fix p m
  assume "OidcGenerator_Generate p = Done (m, None)"
  then show "env_config ''SECURITY_AUTHENTICATION_OAUTH2_'' m"
    by (rule OidcGenerator_Done)
      (simp add: env_config_def gm_ok_def Let_def CreateOidcKey_inj CreateOidcKey_not_enable [symmetric],
       simp add: CreateOidcProviderHintSecurityEnvKey_def)
qed

section \<open>Resolution of the authentication classes\<close>

text \<open>
  What a class has to look like for the resolution to return: it cannot be fetched at all, or it
  names a known OIDC provider, or only LDAP.
\<close>

definition resolvable :: "client \<Rightarrow> authenticationSpec \<Rightarrow> bool" where
  "resolvable C s \<longleftrightarrow>
     (case GetAuthenticationClass C (as_AuthenticationClass s) of
        (_, Some _) \<Rightarrow> True
      | (ac, None) \<Rightarrow>
          (case ac_AuthenticationProvider ac of
             None \<Rightarrow> False
           | Some p \<Rightarrow>
               (case ps_OIDC p of
                  Some oidc \<Rightarrow> oidc_ProviderHint oidc \<in> {''keycloak'', ''github'', ''oidc''}
                | None \<Rightarrow> ps_TLS p = None \<and> ps_Static p = None \<and> ps_LDAP p \<noteq> None)))"

text \<open>
  The default provider is not assumed when the class gives no hint: the hint is then an error; and
  the accepted hints are not those listed as supported.
\<close>

lemma oidc_defaults_unused:
  "oidc_ProviderHint x = [] \<Longrightarrow> getOidcProviderHint x \<noteq> (DEFAULT_OIDC_PROVIDER, None)"
  "oidc_ProviderHint x = ''keycloak'' \<Longrightarrow> getOidcProviderHint x = (h, e) \<Longrightarrow>
     e = None \<and> h \<notin> set SUPPORTED_OIDC_PROVIDERS"
  by (auto simp: getOidcProviderHint_def DEFAULT_OIDC_PROVIDER_def SUPPORTED_OIDC_PROVIDERS_def
      Keycloak_def Github_def)

lemma getOidcProviderHint_None_iff:
  "snd (getOidcProviderHint x) = None \<longleftrightarrow> oidc_ProviderHint x \<in> {''keycloak'', ''github'', ''oidc''}"
  by (simp add: getOidcProviderHint_def)

lemma supported_types: "isAuthenticationSupported OIDC" "isAuthenticationSupported LDAP"
  by (simp_all add: isAuthenticationSupported_def SUPPORTED_AUTHENTICATION_CLASS_PROVIDERS_def)

text \<open>One turn of the loop: a fetched class either yields a supported provider or a panic.\<close>

definition class_provider ::
  "authenticationClass \<Rightarrow> oidcCredentialSecretSpec option \<Rightarrow> authenticationProvider option" where
  "class_provider ac oidcSecret =
     (case getAuthenticationProvider (Some ac) oidcSecret of
        Done (Some p, None) \<Rightarrow> Some p | _ \<Rightarrow> None)"

lemma getAuthenticationProvider_cases:
  "getAuthenticationProvider (Some ac) x = Done (Some p, e) \<Longrightarrow>
   e = None \<and> isAuthenticationSupported (ap_AuthType p) \<and> ap_Provider p = ac_AuthenticationProvider ac"
  by (auto simp: getAuthenticationProvider_def supported_types NewOidcProvider_def NewLdapProvider_def
      split: option.splits if_splits prod.splits)

lemma class_provider_iff:
  "class_provider ac x \<noteq> None \<longleftrightarrow>
   (case ac_AuthenticationProvider ac of
      None \<Rightarrow> False
    | Some p \<Rightarrow>
        (case ps_OIDC p of
           Some oidc \<Rightarrow> oidc_ProviderHint oidc \<in> {''keycloak'', ''github'', ''oidc''}
         | None \<Rightarrow> ps_TLS p = None \<and> ps_Static p = None \<and> ps_LDAP p \<noteq> None))"
proof (cases "ac_AuthenticationProvider ac")
  case (Some p)
  then show ?thesis
  proof (cases "ps_OIDC p")
    case (Some oidc)
    obtain h e where h: "getOidcProviderHint oidc = (h, e)" by (cases "getOidcProviderHint oidc")
    with getOidcProviderHint_None_iff [of oidc] Some \<open>ac_AuthenticationProvider ac = Some p\<close>
    show ?thesis
      by (cases e) (simp_all add: class_provider_def getAuthenticationProvider_def)
  qed (cases "ps_TLS p"; cases "ps_Static p";
       simp add: class_provider_def getAuthenticationProvider_def)
qed (simp add: class_provider_def getAuthenticationProvider_def)

lemma resolve_step:
  assumes "GetAuthenticationClass C (as_AuthenticationClass a) = (ac, None)"
  shows "(class_provider ac (as_Oidc a) = None \<longrightarrow>
            \<not> returns (resolveAuthentications_from C (a # rest) providers err)) \<and>
    (\<forall>p. class_provider ac (as_Oidc a) = Some p \<longrightarrow>
       resolveAuthentications_from C (a # rest) providers err =
       resolveAuthentications_from C rest (providers @ [p]) None)"
proof (cases "getAuthenticationProvider (Some ac) (as_Oidc a)")
  case (Done r)
  obtain q e where r: "r = (q, e)" by (cases r)
  show ?thesis
  proof (cases q)
    case None
    with Done r assms show ?thesis by (simp add: class_provider_def resolveAuthenticationClass_def)
  next
    case (Some p)
    with getAuthenticationProvider_cases [of ac "as_Oidc a" p e] Done r assms show ?thesis
      by (simp add: class_provider_def resolveAuthenticationClass_def)
  qed
next
  case (Panic x)
  with assms show ?thesis by (simp add: class_provider_def resolveAuthenticationClass_def)
qed

lemma resolve_from_returns:
  "returns (resolveAuthentications_from C specs providers err) \<longleftrightarrow> list_all (resolvable C) specs"
proof (induction specs arbitrary: providers err)
  case (Cons a rest)
  obtain ac e where g: "GetAuthenticationClass C (as_AuthenticationClass a) = (ac, e)"
    by (cases "GetAuthenticationClass C (as_AuthenticationClass a)")
  show ?case
  proof (cases e)
    case None
    have "resolvable C a \<longleftrightarrow> class_provider ac (as_Oidc a) \<noteq> None"
      using g None by (simp only: resolvable_def class_provider_iff) simp
    then show ?thesis
      using resolve_step [of C a ac rest providers err] g None Cons
      by (cases "class_provider ac (as_Oidc a)") simp_all
  next
    case (Some x)
    with g Cons show ?thesis by (simp add: resolvable_def resolveAuthenticationClass_def)
  qed
qed simp

text \<open>
  C30. When resolving the authentication classes panics: the resolution returns exactly if every
  class that can be fetched has a provider that is OIDC with a known hint, or LDAP alone. A class
  without provider or with an unknown hint is not reported as an error; it dereferences \<open>nil\<close>.
\<close>

theorem resolveAuthentications_returns_iff:
  "returns (resolveAuthentications C specs) \<longleftrightarrow> list_all (resolvable C) specs"
  by (simp add: resolveAuthentications_def resolve_from_returns)

lemma resolve_from_unavailable:
  assumes "\<forall>s \<in> set specs. snd (GetAuthenticationClass C (as_AuthenticationClass s)) \<noteq> None"
  shows "\<exists>e. resolveAuthentications_from C specs providers err = Done (providers, e)"
  using assms
  by (induction specs arbitrary: err) (auto simp: resolveAuthenticationClass_def split: prod.split)

text \<open>
  C33. Authentication fails open: when none of the requested authentication classes can be fetched,
  \<open>Authentication\<close> still succeeds, with an empty configuration and no error, so the API server is
  deployed with its default password login.
\<close>

theorem Authentication_fails_open:
  assumes "\<forall>s \<in> set specs. snd (GetAuthenticationClass C (as_AuthenticationClass s)) \<noteq> None"
  shows "Authentication G C specs = Done (zeroAuthenticationResult, None)"
  using resolve_from_unavailable [OF assms, of "[]" None]
  by (auto simp: Authentication_def resolveAuthentications_def createAuthenticationConfig_def
      zeroAuthenticationResult_def)

definition no_auth_client :: client where
  "no_auth_client = \<lparr>GetSecret = (\<lambda>_ _. ([], Some (ErrExt ''not found''))),
     GetS3Connection = (\<lambda>_ _. (\<lparr>s3c_Host = [], s3c_Port = 0, s3c_PathStyle = False,
                                 s3c_Credentials = None\<rparr>, Some (ErrExt ''not found''))),
     GetAuthenticationClass = (\<lambda>_. (\<lparr>ac_AuthenticationProvider = None\<rparr>, Some (ErrExt ''not found''))),
     MakeVectorYaml = (\<lambda>_ _ _ _ _. ([], None)), GetOwnerName = ''ds'', GetOwnerNamespace = ''default''\<rparr>"

theorem Authentication_fails_open_witness:
  "Authentication example_opgo no_auth_client
     [\<lparr>as_AuthenticationClass = ''ldap'', as_Oidc = None\<rparr>] = Done (zeroAuthenticationResult, None)"
  by (rule Authentication_fails_open) (simp add: no_auth_client_def)

section \<open>The configuration\<close>

lemma oidc_under_auth_prefix:
  "take (length auth_prefix) ''SECURITY_AUTHENTICATION_OAUTH2_'' = auth_prefix"
  by (simp add: auth_prefix_def)

lemma createAuthenticationConfig_env_config:
  assumes "createAuthenticationConfig_from G ps config ex = Done (m, None)"
    and "env_config auth_prefix config"
  shows "env_config auth_prefix m"
  using assms
proof (induction ps arbitrary: config ex)
  case (Cons p ps)
  show ?case
  proof (cases "ap_AuthType p = OIDC")
    case True
    with Cons.prems(1) obtain conf where "OidcGenerator_Generate p = Done (conf, None)"
      and "createAuthenticationConfig_from G ps (maps_Copy config conf) ex = Done (m, None)"
      by (auto simp: go_bind_Done_iff NewOidcAuthenticationConfigGenerator_def Let_def
          split: option.splits)
    with oidc.merged [OF Cons.prems(2) oidc_under_auth_prefix] show ?thesis by (auto intro: Cons.IH)
  next
    case False
    have "env_config auth_prefix (maps_Copy config (fst (LDAPGenerator_Generate G l)))" for l
      using ldap.merged [OF Cons.prems(2), of G l "fst (LDAPGenerator_Generate G l)"]
      by (simp add: prod_eq_iff)
    with False show ?thesis
      using Cons.prems
      by (auto simp: go_bind_Done_iff Let_def case_prod_beta intro: Cons.IH split: if_splits)
  qed
qed simp

text \<open>
  C15. Nothing of the authentication configuration is lost on its way into the container: when
  \<open>Authentication\<close> succeeds, giving its result to \<open>WithEnvs\<close> appends one variable per entry, in the
  order of the names, and the ZooKeeper variable after them; all names start with
  \<open>SECURITY_AUTHENTICATION_\<close>.
\<close>

theorem Authentication_envs_complete:
  assumes "Authentication G C specs = Done (r, None)"
  shows "\<exists>c'. WithEnvs (ar_Config r) c = Done c' \<and>
    map ev_Name (cb_envs c') = map ev_Name (cb_envs c) @ sorted_keys (ar_Config r) @
      [''REGISTRY_ZOOKEEPER_CONNECT_STRING''] \<and>
    list_all (\<lambda>k. take (length auth_prefix) k = auth_prefix) (sorted_keys (ar_Config r))"
proof -
  obtain ps where "createAuthenticationConfig_from G ps [] False = Done (ar_Config r, None)"
    using assms
    by (auto simp: Authentication_def createAuthenticationConfig_def go_bind_Done_iff
        split: prod.splits option.splits)
  from createAuthenticationConfig_env_config [OF this]
  have e: "env_config auth_prefix (ar_Config r)" by (simp add: env_config_def)
  then have "list_all (\<lambda>k. take (length auth_prefix) k = auth_prefix) (sorted_keys (ar_Config r))"
    by (auto simp: env_config_def list_all_iff)
  with WithEnvs_config [OF e, of c] show ?thesis by blast
qed

section \<open>LDAP\<close>

definition ldap_url :: "ldapProvider \<Rightarrow> string" where
  "ldap_url l = ''ldap://'' @ ldap_Hostname l @ '':'' @ strconv_Itoa (sint (ldap_Port l))"

lemma LDAPGenerator_url:
  "gm_get (fst (LDAPGenerator_Generate G l)) ''SECURITY_AUTHENTICATION_LDAP_URLS'' =
   Some (VString (ldap_url l))"
  by (simp add: LDAPGenerator_Generate_def ldap_url_def Let_def gm_get_put gm_get_Cons const_simps)

lemma oidc_keeps_ldap_url:
  assumes "OidcGenerator_Generate p = Done (m, None)"
  shows "gm_get (maps_Copy config m) ''SECURITY_AUTHENTICATION_LDAP_URLS'' =
    gm_get config ''SECURITY_AUTHENTICATION_LDAP_URLS''"
  by (rule oidc.untouched [OF assms]) simp

lemma oidc_turn:
  assumes "ap_AuthType p = OIDC"
    and "createAuthenticationConfig_from G (p # ps) config ex = Done (m, None)"
  obtains conf where "OidcGenerator_Generate p = Done (conf, None)"
    and "createAuthenticationConfig_from G ps (maps_Copy config conf) ex = Done (m, None)"
  using assms
  by (auto simp: go_bind_Done_iff NewOidcAuthenticationConfigGenerator_def Let_def split: option.splits)

lemma ldap_url_kept:
  assumes "createAuthenticationConfig_from G ps config True = Done (m, None)"
  shows "gm_get m ''SECURITY_AUTHENTICATION_LDAP_URLS'' =
    gm_get config ''SECURITY_AUTHENTICATION_LDAP_URLS''"
  using assms
proof (induction ps arbitrary: config)
  case (Cons p ps)
  show ?case
  proof (cases "ap_AuthType p = OIDC")
    case True
    then obtain conf where "OidcGenerator_Generate p = Done (conf, None)"
      and "createAuthenticationConfig_from G ps (maps_Copy config conf) True = Done (m, None)"
      using Cons.prems by (rule oidc_turn)
    then show ?thesis using Cons.IH oidc_keeps_ldap_url by simp
  next
    case False
    with Cons show ?thesis by (simp add: Let_def split: if_splits)
  qed
qed simp

definition is_ldap :: "authenticationProvider \<Rightarrow> bool" where
  "is_ldap p \<longleftrightarrow> ap_AuthType p = LDAP"

definition ldap_of :: "authenticationProvider \<Rightarrow> ldapProvider option" where
  "ldap_of p = Option.bind (ap_Provider p) ps_LDAP"

lemma providerLDAP_Done: "ldap_of p = Some l \<Longrightarrow> providerLDAP p = Done (Some l)"
  by (auto simp: ldap_of_def providerLDAP_def split: bind_splits)

lemma first_ldap_config:
  assumes "createAuthenticationConfig_from G ps config False = Done (m, None)"
    and "find is_ldap ps = Some p" and "ldap_of p = Some l"
  shows "gm_get m ''SECURITY_AUTHENTICATION_LDAP_URLS'' = Some (VString (ldap_url l))"
  using assms
proof (induction ps arbitrary: config)
  case (Cons q ps)
  show ?case
  proof (cases "is_ldap q")
    case True
    then have q: "q = p" "ap_AuthType p = LDAP" using Cons.prems(2) by (simp_all add: is_ldap_def)
    then have "createAuthenticationConfig_from G ps
        (maps_Copy config (fst (LDAPGenerator_Generate G l))) True = Done (m, None)"
      using Cons.prems(1) providerLDAP_Done [OF Cons.prems(3)]
      by (simp add: const_simps NewLDAPAuthenticationConfigGenerator_def Let_def case_prod_beta)
    moreover have "gm_ok (fst (LDAPGenerator_Generate G l))"
      using LDAPGenerator_env_config [of G l] by (simp add: env_config_def)
    ultimately show ?thesis
      using LDAPGenerator_url [of G l] by (auto simp: ldap_url_kept gm_get_Copy map_add_def)
  next
    case False
    then have rest: "find is_ldap ps = Some p" using Cons.prems(2) by simp
    show ?thesis
    proof (cases "ap_AuthType q = OIDC")
      case True
      then show ?thesis using Cons.prems(1) by (rule oidc_turn) (use Cons.IH rest Cons.prems(3) in simp)
    next
      case other: False
      with False Cons.prems(1) show ?thesis by (simp add: is_ldap_def Let_def)
    qed
  qed
qed simp

lemma first_ldap_mounts:
  assumes "find is_ldap ps = Some p" and "ldap_of p = Some l" and "ldap_BindCredentials l = Some cred"
  shows "ldapMounts G ps = Done (Some (fst (AddLdapCredintialsVolumesAndVolumeMounts G cred),
    snd (AddLdapCredintialsVolumesAndVolumeMounts G cred), cred_SecretClass cred), None)"
  using assms providerLDAP_Done [OF assms(2)]
  by (induction ps) (auto simp: is_ldap_def case_prod_beta Let_def split: if_splits)

text \<open>
  C16. With several LDAP providers the first one wins, in every part of the result: the server URL
  in the variables, the volume that mounts the bind credentials and their secret class all belong
  to the first LDAP provider, however many OIDC providers come before or after it.
\<close>

theorem Authentication_first_ldap:
  assumes "resolveAuthentications C specs = Done (ps, e)"
    and "find is_ldap ps = Some p" and "ldap_of p = Some l" and "ldap_BindCredentials l = Some cred"
    and "Authentication G C specs = Done (r, None)"
  shows "gm_get (ar_Config r) ''SECURITY_AUTHENTICATION_LDAP_URLS'' = Some (VString (ldap_url l)) \<and>
    ar_LdapBindCredintialsName r = cred_SecretClass cred \<and>
    ar_LdapVolume r = Some (fst (AddLdapCredintialsVolumesAndVolumeMounts G cred)) \<and>
    ar_LdapVolumeMount r = Some (snd (AddLdapCredintialsVolumesAndVolumeMounts G cred))"
proof -
  from assms(1,5) first_ldap_mounts [OF assms(2-4), of G]
  have "createAuthenticationConfig G ps = Done (ar_Config r, None)"
    and r: "ar_LdapBindCredintialsName r = cred_SecretClass cred"
      "ar_LdapVolume r = Some (fst (AddLdapCredintialsVolumesAndVolumeMounts G cred))"
      "ar_LdapVolumeMount r = Some (snd (AddLdapCredintialsVolumesAndVolumeMounts G cred))"
    by (auto simp: Authentication_def go_bind_Done_iff split: prod.splits option.splits)
  then show ?thesis
    using first_ldap_config [of G ps "[]" "ar_Config r" p l] assms(2,3)
    by (simp add: createAuthenticationConfig_def)
qed

definition example_ldap :: ldapProvider where
  "example_ldap = \<lparr>ldap_BindCredentials = Some \<lparr>cred_SecretClass = ''ldap-creds'', cred_Scope = None\<rparr>,
     ldap_Hostname = ''openldap'', ldap_Port = 389, ldap_SearchBase = ''dc=example'',
     ldap_LDAPFieldNames = None, ldap_TLS = None\<rparr>"

definition ldap_client :: client where
  "ldap_client = no_auth_client\<lparr>GetAuthenticationClass := (\<lambda>_. (\<lparr>ac_AuthenticationProvider =
     Some \<lparr>ps_OIDC = None, ps_TLS = None, ps_Static = None, ps_LDAP = Some example_ldap\<rparr>\<rparr>, None))\<rparr>"

lemma ldap_client_resolves:
  "resolveAuthentications ldap_client [\<lparr>as_AuthenticationClass = ''ldap'', as_Oidc = None\<rparr>] =
   Done ([NewLdapProvider LDAP (Some \<lparr>ps_OIDC = None, ps_TLS = None, ps_Static = None,
            ps_LDAP = Some example_ldap\<rparr>)], None)"
  by (simp add: resolveAuthentications_def resolveAuthenticationClass_def ldap_client_def
      getAuthenticationProvider_def NewLdapProvider_def supported_types)

lemma ldap_client_Authentication_volume:
  "\<exists>r. Authentication example_opgo ldap_client
     [\<lparr>as_AuthenticationClass = ''ldap'', as_Oidc = None\<rparr>] = Done (r, None) \<and>
     ar_LdapVolume r \<noteq> None \<and> ar_LdapVolumeMount r \<noteq> None"
  by (simp add: Authentication_def ldap_client_resolves createAuthenticationConfig_def NewLdapProvider_def
      providerLDAP_def NewLDAPAuthenticationConfigGenerator_def const_simps Let_def case_prod_beta
      example_ldap_def)

lemma ldap_client_Authentication:
  "\<exists>r. Authentication example_opgo ldap_client
     [\<lparr>as_AuthenticationClass = ''ldap'', as_Oidc = None\<rparr>] = Done (r, None)"
  using ldap_client_Authentication_volume by (elim exE conjE) (rule exI)

theorem Authentication_envs_complete_witness:
  "\<exists>r c'. Authentication example_opgo ldap_client
      [\<lparr>as_AuthenticationClass = ''ldap'', as_Oidc = None\<rparr>] = Done (r, None) \<and>
    WithEnvs (ar_Config r) example_builder = Done c' \<and>
    map ev_Name (cb_envs c') = sorted_keys (ar_Config r) @ [''REGISTRY_ZOOKEEPER_CONNECT_STRING'']"
proof -
  obtain r where r: "Authentication example_opgo ldap_client
      [\<lparr>as_AuthenticationClass = ''ldap'', as_Oidc = None\<rparr>] = Done (r, None)"
    using ldap_client_Authentication ..
  have none: "cb_envs example_builder = []" by (simp add: example_builder_def NewContainerBuilder_def)
  obtain c' where "WithEnvs (ar_Config r) example_builder = Done c'"
    "map ev_Name (cb_envs c') = sorted_keys (ar_Config r) @ [''REGISTRY_ZOOKEEPER_CONNECT_STRING'']"
    using Authentication_envs_complete [OF r, of example_builder] none by auto
  note facts = r this
  show ?thesis by (rule exI [of _ r], rule exI [of _ c']) (intro conjI facts)
qed

theorem Authentication_first_ldap_witness:
  "\<exists>r. Authentication example_opgo ldap_client
      [\<lparr>as_AuthenticationClass = ''ldap'', as_Oidc = None\<rparr>] = Done (r, None) \<and>
    gm_get (ar_Config r) ''SECURITY_AUTHENTICATION_LDAP_URLS'' = Some (VString (ldap_url example_ldap)) \<and>
    ar_LdapBindCredintialsName r = ''ldap-creds''"
proof -
  obtain r where r: "Authentication example_opgo ldap_client
      [\<lparr>as_AuthenticationClass = ''ldap'', as_Oidc = None\<rparr>] = Done (r, None)"
    using ldap_client_Authentication ..
  have "find is_ldap [NewLdapProvider LDAP x] = Some (NewLdapProvider LDAP x)" for x
    by (simp add: is_ldap_def NewLdapProvider_def)
  note w = Authentication_first_ldap [OF ldap_client_resolves this _ _ r, of example_ldap]
  have "gm_get (ar_Config r) ''SECURITY_AUTHENTICATION_LDAP_URLS'' = Some (VString (ldap_url example_ldap))"
    "ar_LdapBindCredintialsName r = ''ldap-creds''"
    using w by (simp_all add: ldap_of_def NewLdapProvider_def example_ldap_def)
  note facts = r this
  show ?thesis by (rule exI [of _ r]) (intro conjI facts)
qed

section \<open>OIDC\<close>

text \<open>
  \<open>OidcProviderMetadataExtractor\<close>: the three endpoints of a provider are different URIs, so that no
  setting of the API server can be taken for another.
\<close>

locale oidc_endpoints =
  fixes auth token userinfo :: "'m \<Rightarrow> string"
  assumes auth_token: "auth m \<noteq> token m"
    and token_userinfo: "token m \<noteq> userinfo m"
    and auth_userinfo: "auth m \<noteq> userinfo m"
begin

lemma distinct_endpoints: "distinct [auth m, token m, userinfo m]"
  using auth_token token_userinfo auth_userinfo by simp

end

interpretation metadata: oidc_endpoints AuthorizationUri TokenUri UserInfoUri
proof
  fix m
  show "AuthorizationUri m \<noteq> TokenUri m" by (cases m) simp_all
  show "TokenUri m \<noteq> UserInfoUri m" by (cases m) simp_all
  show "AuthorizationUri m \<noteq> UserInfoUri m" by (cases m) simp_all
qed

definition issuer_of :: "oidcProvider \<Rightarrow> string" where
  "issuer_of x = (if oidc_TLS x = None then ''http'' else ''https'') @ ''://'' @ oidc_Hostname x @
     '':'' @ strconv_Itoa (sint (oidc_Port x)) @ oidc_RootPath x"

lemma getIssuer_Some: "getIssuer (Some x) = Done (issuer_of x)"
  by (simp add: getIssuer_def issuer_of_def GetScheme_def IsTls_def)

definition metadata_of :: "oidcProvider \<Rightarrow> oidcMetadata" where
  "metadata_of x =
     (if oidc_ProviderHint x = ''keycloak'' then KeycloakMetadata (issuer_of x) else GithubMetadata)"

lemma getAuthenticationProvider_oidc:
  assumes "ac_AuthenticationProvider ac = Some ps" and "ps_OIDC ps = Some x"
    and "oidc_ProviderHint x \<in> {''keycloak'', ''github'', ''oidc''}"
  shows "getAuthenticationProvider (Some ac) sec =
    Done (Some (NewOidcProvider OIDC (ProviderHint (metadata_of x)) sec (Some ps)), None)"
  using assms by (auto simp: getAuthenticationProvider_def getOidcProviderHint_def metadata_of_def)

lemma OidcGenerator_provider:
  assumes "ps_OIDC ps = Some x"
  shows "OidcGenerator_Generate
      (NewOidcProvider OIDC (ProviderHint (metadata_of x)) (Some sec) (Some ps)) =
    Done (let key = CreateOidcProviderHintSecurityEnvKey (ProviderHint (metadata_of x)) in
       [(''SECURITY_AUTHENTICATION_OAUTH2_ENABLE'', VString ''true''),
        (key ''AUTHORIZATION-URI'', VString (AuthorizationUri (metadata_of x))),
        (key ''REDIRECT-URI'', VString RedirectUri),
        (key ''CLIENT-ID'', VEnvVarSource (SecretKeyRef (ocs_Secret sec) OidcClientIdKey)),
        (key ''CLIENT-SECRET'', VEnvVarSource (SecretKeyRef (ocs_Secret sec) OidcSecretKey)),
        (key ''TOKEN-URI'', VString (TokenUri (metadata_of x))),
        (key ''USER-INFO-URI'', VString (UserInfoUri (metadata_of x))),
        (key ''CALLBACK-URL'', VString CallbackUri),
        (key ''ICON-URI'', VString []),
        (key ''PROVIDER'', VString (ProviderHint (metadata_of x)))], None)"
  using assms
  by (simp add: OidcGenerator_Generate_def NewOidcProvider_def secretToEnv_def NewKeycloakMetadata_def
      NewGithubMetadata_def getIssuer_Some metadata_of_def const_simps Let_def)

text \<open>
  C29. The endpoints that the API server is given follow the provider hint: for \<open>keycloak\<close> all three
  are below the issuer built from scheme, host, port and root path of the authentication class; for
  \<open>github\<close>, and for the generic hint \<open>oidc\<close> as well, they are GitHub's, whatever host the class names.
  The three endpoints are always different, and the client credentials are references to the
  secret, never literal values.
\<close>

theorem oidc_endpoints_follow_hint:
  assumes "ac_AuthenticationProvider ac = Some ps" and "ps_OIDC ps = Some x"
    and "oidc_ProviderHint x \<in> {''keycloak'', ''github'', ''oidc''}"
  shows "\<exists>p m key. getAuthenticationProvider (Some ac) (Some sec) = Done (Some p, None) \<and>
    OidcGenerator_Generate p = Done (m, None) \<and>
    key = CreateOidcProviderHintSecurityEnvKey (ap_IdentityProviderHint p) \<and>
    map (gm_get m \<circ> key) [''AUTHORIZATION-URI'', ''TOKEN-URI'', ''USER-INFO-URI''] =
      map (Some \<circ> VString)
       (if oidc_ProviderHint x = ''keycloak''
        then map (\<lambda>e. issuer_of x @ ''/protocol/openid-connect/'' @ e) [''auth'', ''token'', ''userinfo'']
        else [''https://github.com/login/oauth/authorize'',
              ''https://github.com/login/oauth/access_token'', ''https://api.github.com/user'']) \<and>
    distinct (map (gm_get m \<circ> key) [''AUTHORIZATION-URI'', ''TOKEN-URI'', ''USER-INFO-URI'']) \<and>
    gm_get m (key ''CLIENT-ID'') = Some (VEnvVarSource (SecretKeyRef (ocs_Secret sec) ''CLIENT_ID'')) \<and>
    gm_get m (key ''CLIENT-SECRET'') =
      Some (VEnvVarSource (SecretKeyRef (ocs_Secret sec) ''CLIENT_SECRET''))"
proof -
  let ?d = "metadata_of x"
  let ?p = "NewOidcProvider OIDC (ProviderHint ?d) (Some sec) (Some ps)"
  let ?key = "CreateOidcProviderHintSecurityEnvKey (ap_IdentityProviderHint ?p)"
  have hint: "ap_IdentityProviderHint ?p = ProviderHint ?d" by (simp add: NewOidcProvider_def)
  obtain m where m: "OidcGenerator_Generate ?p = Done (m, None)"
    and uris: "map (gm_get m \<circ> ?key) [''AUTHORIZATION-URI'', ''TOKEN-URI'', ''USER-INFO-URI''] =
      map (Some \<circ> VString) [AuthorizationUri ?d, TokenUri ?d, UserInfoUri ?d]"
    and creds: "gm_get m (?key ''CLIENT-ID'') =
        Some (VEnvVarSource (SecretKeyRef (ocs_Secret sec) ''CLIENT_ID''))"
      "gm_get m (?key ''CLIENT-SECRET'') =
        Some (VEnvVarSource (SecretKeyRef (ocs_Secret sec) ''CLIENT_SECRET''))"
    using OidcGenerator_provider [OF assms(2), of sec]
    by (simp add: Let_def gm_get_Cons CreateOidcKey_inj CreateOidcKey_not_enable hint
        OidcClientIdKey_def OidcSecretKey_def)
  have "[AuthorizationUri ?d, TokenUri ?d, UserInfoUri ?d] =
      (if oidc_ProviderHint x = ''keycloak''
       then map (\<lambda>e. issuer_of x @ ''/protocol/openid-connect/'' @ e) [''auth'', ''token'', ''userinfo'']
       else [''https://github.com/login/oauth/authorize'',
             ''https://github.com/login/oauth/access_token'', ''https://api.github.com/user''])"
    by (simp add: metadata_of_def)
  note ends = uris [unfolded this]
  have dist: "distinct (map (gm_get m \<circ> ?key) [''AUTHORIZATION-URI'', ''TOKEN-URI'', ''USER-INFO-URI''])"
    unfolding uris distinct_map using metadata.distinct_endpoints by (simp add: inj_on_def)
  show ?thesis
    by (rule exI [of _ ?p], rule exI [of _ m], rule exI [of _ ?key])
      (intro conjI getAuthenticationProvider_oidc [OF assms] m refl ends dist creds)
qed

theorem oidc_endpoints_follow_hint_witness:
  "\<exists>p m. getAuthenticationProvider
      (Some \<lparr>ac_AuthenticationProvider = Some \<lparr>ps_OIDC = Some \<lparr>oidc_Hostname = ''sso.example.com'',
         oidc_Port = 8443, oidc_RootPath = ''/realms/ds'', oidc_ProviderHint = ''oidc'',
         oidc_TLS = Some ()\<rparr>, ps_TLS = None, ps_Static = None, ps_LDAP = None\<rparr>\<rparr>)
      (Some \<lparr>ocs_Secret = ''oidc-secret'', ocs_ExtraScopes = []\<rparr>) = Done (Some p, None) \<and>
    OidcGenerator_Generate p = Done (m, None) \<and>
    gm_get m (CreateOidcProviderHintSecurityEnvKey (ap_IdentityProviderHint p) ''TOKEN-URI'') =
      Some (VString ''https://github.com/login/oauth/access_token'')"
  using oidc_endpoints_follow_hint [of
      "\<lparr>ac_AuthenticationProvider = Some \<lparr>ps_OIDC = Some \<lparr>oidc_Hostname = ''sso.example.com'',
         oidc_Port = 8443, oidc_RootPath = ''/realms/ds'', oidc_ProviderHint = ''oidc'',
         oidc_TLS = Some ()\<rparr>, ps_TLS = None, ps_Static = None, ps_LDAP = None\<rparr>\<rparr>"
      "\<lparr>ps_OIDC = Some \<lparr>oidc_Hostname = ''sso.example.com'',
         oidc_Port = 8443, oidc_RootPath = ''/realms/ds'', oidc_ProviderHint = ''oidc'',
         oidc_TLS = Some ()\<rparr>, ps_TLS = None, ps_Static = None, ps_LDAP = None\<rparr>"
      "\<lparr>oidc_Hostname = ''sso.example.com'',
         oidc_Port = 8443, oidc_RootPath = ''/realms/ds'', oidc_ProviderHint = ''oidc'',
         oidc_TLS = Some ()\<rparr>" "\<lparr>ocs_Secret = ''oidc-secret'', ocs_ExtraScopes = []\<rparr>"]
  by auto

section \<open>The LDAP script and the credentials volume\<close>

text \<open>
  The script of the API server reads the bind credentials where they are mounted: below an
  absolute, clean secret directory it exports the user name from the file \<open>user\<close> and the password
  from the file \<open>password\<close> of the directory at which the credentials volume is mounted, under the
  names that \<open>ldap.go\<close> declares for them.
\<close>

theorem ldap_script_reads_volume:
  assumes "KubedoopSecretDir G = abs_path es" and "es \<noteq> []" and "\<forall>e \<in> set es. plain_elem e"
    and "AddLdapCredintialsVolumesAndVolumeMounts G cred = (vol, mount)"
  shows "vol_Name vol = vm_Name mount \<and>
    (\<exists>rest. ExtractLdapCredintialsAndExportCommand G =
       ''export '' @ LdapBindCredintialsUser @ ''='' @ dquote @ ''$(cat '' @ vm_MountPath mount @ ''/user)'' @
         dquote @ '';'' @ newline @
       ''export '' @ LdapBindCredintialsPass @ ''='' @ dquote @ ''$(cat '' @ vm_MountPath mount @ ''/password)'' @
         dquote @ '';'' @ newline @
       ''export '' @ LdapUserAdmin @ ''='' @ dquote @ ''$(cat '' @ vm_MountPath mount @ ''/user | grep'' @ rest)"
proof -
  have plain: "plain_elem LdapBindCredintialsVolumeName" "plain_elem ''user''" "plain_elem ''password''"
    by (simp_all add: plain_elem_def const_simps)
  have mount: "vm_MountPath mount = abs_path (es @ [LdapBindCredintialsVolumeName])"
    using assms path_Join_abs [of es "[LdapBindCredintialsVolumeName]"] plain
    by (auto simp: AddLdapCredintialsVolumesAndVolumeMounts_def Let_def)
  have key: "path_Join [KubedoopSecretDir G, LdapBindCredintialsVolumeName, k] = vm_MountPath mount @ ''/'' @ k"
    if "plain_elem k" for k
    using assms(1-3) plain(1) that path_Join_abs [of es "[LdapBindCredintialsVolumeName, k]"]
    by (simp add: mount abs_path_def strings_Join_append)
  have "vol_Name vol = vm_Name mount"
    using assms(4) by (auto simp: AddLdapCredintialsVolumesAndVolumeMounts_def Let_def)
  then show ?thesis
    by (simp add: ExtractLdapCredintialsAndExportCommand_def LdapSecretUserKey_def LdapSecretPassKey_def
        key plain LdapBindCredintialsUser_def LdapBindCredintialsPass_def LdapUserAdmin_def Let_def)
qed

theorem ldap_script_reads_volume_witness:
  "\<exists>vol mount. AddLdapCredintialsVolumesAndVolumeMounts example_opgo
      \<lparr>cred_SecretClass = ''ldap-bind'', cred_Scope = None\<rparr> = (vol, mount) \<and> vol_Name vol = vm_Name mount"
proof -
  obtain vol mount where a: "AddLdapCredintialsVolumesAndVolumeMounts example_opgo
      \<lparr>cred_SecretClass = ''ldap-bind'', cred_Scope = None\<rparr> = (vol, mount)" by (cases rule: prod.exhaust)
  have "KubedoopSecretDir example_opgo = abs_path [''kubedoop'', ''secret'']"
    by (simp add: example_opgo_def abs_path_def)
  from ldap_script_reads_volume [OF this _ _ a] a show ?thesis by (simp add: plain_elem_def)
qed

end
