(* ===== verification/Role_Builders.thy ===== *)
theory Role_Builders
  imports Role_Reconciler Security
begin

text \<open>
  \<open>internal/controller/{master,worker,alerter,api}\<close>: the resources of the four roles. Every builder
  makes a config map, a workload and a service for a role group; the master also makes the
  environment config map of the cluster, and the API server adds its authentication. The four
  builders satisfy one contract, the locale \<open>role_builder\<close>.
\<close>

section \<open>Constants\<close>

definition MasterContainerName :: string where [const_simps]: "MasterContainerName = ''master-server''"
definition WorkerContainerName :: string where [const_simps]: "WorkerContainerName = ''worker-server''"
definition AlerterContainerName :: string where [const_simps]:
  "AlerterContainerName = ''alerter-server''"
definition ApiContainerName :: string where [const_simps]: "ApiContainerName = ''api-server''"

definition defaultLoadProtectionThreshold :: string where [const_simps]:
  "defaultLoadProtectionThreshold = ''0.7''"
definition defaultWorkerLoadProtectionEnabled :: string where [const_simps]:
  "defaultWorkerLoadProtectionEnabled = ''false''"
definition defaultWorkerLoadProtectionThreshold :: string where [const_simps]:
  "defaultWorkerLoadProtectionThreshold = ''0.7''"

section \<open>The builder structs\<close>

text \<open>
  The builder structs of the master, the worker and the alerter have the same fields; the client is
  a parameter of the model. The API server's has the authentication of the cluster in addition.
\<close>

record roleResourceReconcilerBuilder =
  rb_clusterOperation :: "clusterOperationSpec option"
  rb_image :: image
  rb_zkConfigMapName :: string

record apierRoleResourceReconcilerBuilder = roleResourceReconcilerBuilder +
  rb_authenticationSpec :: "authenticationSpec list option"

text \<open>
  An untyped constant that is stored in an \<open>interface{}\<close> is an \<open>int\<close>: the ports in the sorted maps
  of all four roles.
\<close>

definition port_value :: "int \<Rightarrow> iface" where
  "port_value p = VInt (word_of_int p)"

section \<open>Master\<close>

definition masterPorts :: sortedMap where
  "masterPorts = [(MasterPortName, port_value MasterPort),
                  (MasterActualPortName, port_value MasterActualPort)]"

definition masterEnvs :: sortedMap where
  "masterEnvs =
    [(''JAVA_OPTS'', VString ''-Xms512m -Xmx512m -Xmn256m''),
     (''MASTER_DISPATCH_TASK_NUM'', VString ''3''),
     (''MASTER_EXEC_TASK_NUM'', VString ''20''),
     (''MASTER_EXEC_THREADS'', VString ''100''),
     (''MASTER_FAILOVER_INTERVAL'', VString ''10m''),
     (''MASTER_HEARTBEAT_ERROR_THRESHOLD'', VString ''5''),
     (''MASTER_HOST_SELECTOR'', VString ''LowerWeight''),
     (''MASTER_KILL_APPLICATION_WHEN_HANDLE_FAILOVER'', VString ''true''),
     (''MASTER_MAX_HEARTBEAT_INTERVAL'', VString ''10s''),
     (''MASTER_SERVER_LOAD_PROTECTION_ENABLED'', VString ''false''),
     (''MASTER_SERVER_LOAD_PROTECTION_MAX_DISK_USAGE_PERCENTAGE_THRESHOLDS'',
        VString defaultLoadProtectionThreshold),
     (''MASTER_SERVER_LOAD_PROTECTION_MAX_JVM_CPU_USAGE_PERCENTAGE_THRESHOLDS'',
        VString defaultLoadProtectionThreshold),
     (''MASTER_SERVER_LOAD_PROTECTION_MAX_SYSTEM_CPU_USAGE_PERCENTAGE_THRESHOLDS'',
        VString defaultLoadProtectionThreshold),
     (''MASTER_SERVER_LOAD_PROTECTION_MAX_SYSTEM_MEMORY_USAGE_PERCENTAGE_THRESHOLDS'',
        VString defaultLoadProtectionThreshold),
     (''MASTER_STATE_WHEEL_INTERVAL'', VString ''5s''),
     (''MASTER_TASK_COMMIT_INTERVAL'', VString ''1s''),
     (''MASTER_TASK_COMMIT_RETRYTIMES'', VString ''5'')]"

definition masterServicePorts :: "goint32 go_map" where
  "masterServicePorts = [(MasterPortName, word_of_int MasterPort),
                         (MasterActualPortName, word_of_int MasterActualPort)]"

definition masterContainer ::
  "opgo \<Rightarrow> roleResourceReconcilerBuilder \<Rightarrow> roleGroupInfo \<Rightarrow> roleGroupConfigSpec option \<Rightarrow>
   containerBuilder go" where
  "masterContainer G a info roleGroupConfig =
     go_bind (WithPorts masterPorts (CommonCommandArgs G
       (NewContainerBuilder G MasterContainerName (rb_image a) (rb_zkConfigMapName a) info roleGroupConfig))) (\<lambda>c.
     go_bind (WithEnvs masterEnvs c) (\<lambda>c.
     WithVolumeMounts [] (CommonCommandArgs G (WithReadinessAndLivenessProbe MasterActualPort c))))"

definition Master_ResourceReconcilers ::
  "opgo \<Rightarrow> client \<Rightarrow> dolphinschedulerCluster \<Rightarrow> roleResourceReconcilerBuilder \<Rightarrow>
   resourceReconcilersBuilder" where
  "Master_ResourceReconcilers G C cr a replicas info overrides roleGroupConfig =
     go_bind (NewConfigMapReconciler G C cr info MasterContainerName overrides roleGroupConfig)
       (\<lambda>masterConfigMap.
     go_bind (NewEnvConfigMapReconciler G C cr overrides info) (\<lambda>envFromConfigMap.
     go_bind (masterContainer G a info roleGroupConfig) (\<lambda>containerBuilder.
     go_bind (CreateStatefulSetReconciler G containerBuilder (rb_image a) replicas
                (rb_clusterOperation a) info overrides roleGroupConfig []) (\<lambda>sts.
     go_bind (NewServiceReconciler G (RoleGroupServiceName G info) True None masterServicePorts
                (GetLabels G info) (GetAnnotations G info)) (\<lambda>svc.
     Done [ConfigMapResource masterConfigMap, ConfigMapResource envFromConfigMap,
           WorkloadResource sts, ServiceResource svc])))))"

definition NewMasterRole ::
  "opgo \<Rightarrow> client \<Rightarrow> dolphinschedulerCluster \<Rightarrow> image \<Rightarrow> clusterConfigSpec option \<Rightarrow>
   clusterOperationSpec option \<Rightarrow> roleSpec option \<Rightarrow> roleInfo \<Rightarrow> roleReconciler go" where
  "NewMasterRole G C cr img clusterConfigSpec clusterOperation roleSpec info =
     go_bind (go_deref clusterConfigSpec) (\<lambda>cc.
     go_bind (go_deref roleSpec) (\<lambda>spec.
     Done (NewRoleReconciler info clusterOperation clusterConfigSpec img spec
             (Master_ResourceReconcilers G C cr
                \<lparr>rb_clusterOperation = clusterOperation, rb_image = img,
                 rb_zkConfigMapName = cc_ZookeeperConfigMapName cc\<rparr>))))"

section \<open>Worker\<close>

definition workerPorts :: sortedMap where
  "workerPorts = [(WorkerPortName, port_value WorkerPort),
                  (WorkerActualPortName, port_value WorkerActualPort)]"

definition workerEnvs :: sortedMap where
  "workerEnvs =
    [(''DEFAULT_TENANT_ENABLED'', VString defaultWorkerLoadProtectionEnabled),
     (''WORKER_EXEC_THREADS'', VString ''100''),
     (''WORKER_HOST_WEIGHT'', VString ''100''),
     (''WORKER_MAX_HEARTBEAT_INTERVAL'', VString ''10s''),
     (''WORKER_SERVER_LOAD_PROTECTION_ENABLED'', VString defaultWorkerLoadProtectionEnabled),
     (''WORKER_SERVER_LOAD_PROTECTION_MAX_DISK_USAGE_PERCENTAGE_THRESHOLDS'',
        VString defaultWorkerLoadProtectionThreshold),
     (''WORKER_SERVER_LOAD_PROTECTION_MAX_JVM_CPU_USAGE_PERCENTAGE_THRESHOLDS'',
        VString defaultWorkerLoadProtectionThreshold),
     (''WORKER_SERVER_LOAD_PROTECTION_MAX_SYSTEM_CPU_USAGE_PERCENTAGE_THRESHOLDS'',
        VString defaultWorkerLoadProtectionThreshold),
     (''WORKER_SERVER_LOAD_PROTECTION_MAX_SYSTEM_MEMORY_USAGE_PERCENTAGE_THRESHOLDS'',
        VString defaultWorkerLoadProtectionThreshold),
     (''WORKER_TENANT_CONFIG_AUTO_CREATE_TENANT_ENABLED'', VString ''true''),
     (''WORKER_TENANT_CONFIG_DISTRIBUTED_TENANT'', VString ''false'')]"

definition workerServicePorts :: "goint32 go_map" where
  "workerServicePorts = [(WorkerPortName, word_of_int WorkerPort),
                         (WorkerActualPortName, word_of_int WorkerActualPort)]"

definition workerContainer ::
  "opgo \<Rightarrow> roleResourceReconcilerBuilder \<Rightarrow> roleGroupInfo \<Rightarrow> roleGroupConfigSpec option \<Rightarrow>
   containerBuilder go" where
  "workerContainer G a info roleGroupConfig =
     go_bind (WithPorts workerPorts (CommonCommandArgs G
       (NewContainerBuilder G WorkerContainerName (rb_image a) (rb_zkConfigMapName a) info roleGroupConfig))) (\<lambda>c.
     go_bind (WithEnvs workerEnvs c) (\<lambda>c.
     WithVolumeMounts [] (CommonCommandArgs G (WithReadinessAndLivenessProbe WorkerActualPort c))))"

definition Worker_ResourceReconcilers ::
  "opgo \<Rightarrow> client \<Rightarrow> dolphinschedulerCluster \<Rightarrow> roleResourceReconcilerBuilder \<Rightarrow>
   resourceReconcilersBuilder" where
  "Worker_ResourceReconcilers G C cr a replicas info overrides roleGroupConfig =
     go_bind (NewConfigMapReconciler G C cr info WorkerContainerName overrides roleGroupConfig)
       (\<lambda>workerConfigMap.
     go_bind (workerContainer G a info roleGroupConfig) (\<lambda>containerBuilder.
     go_bind (CreateStatefulSetReconciler G containerBuilder (rb_image a) replicas
                (rb_clusterOperation a) info overrides roleGroupConfig WorkerDataVolumeName) (\<lambda>dep.
     go_bind (NewServiceReconciler G (RoleGroupServiceName G info) True None workerServicePorts
                (GetLabels G info) (GetAnnotations G info)) (\<lambda>svc.
     Done [ConfigMapResource workerConfigMap, WorkloadResource dep, ServiceResource svc]))))"

definition NewWorkerRole ::
  "opgo \<Rightarrow> client \<Rightarrow> dolphinschedulerCluster \<Rightarrow> image \<Rightarrow> clusterConfigSpec option \<Rightarrow>
   clusterOperationSpec option \<Rightarrow> roleSpec option \<Rightarrow> roleInfo \<Rightarrow> roleReconciler go" where
  "NewWorkerRole G C cr img clusterConfigSpec clusterOperation roleSpec info =
     go_bind (go_deref clusterConfigSpec) (\<lambda>cc.
     go_bind (go_deref roleSpec) (\<lambda>spec.
     Done (NewRoleReconciler info clusterOperation clusterConfigSpec img spec
             (Worker_ResourceReconcilers G C cr
                \<lparr>rb_clusterOperation = clusterOperation, rb_image = img,
                 rb_zkConfigMapName = cc_ZookeeperConfigMapName cc\<rparr>))))"

section \<open>Alerter\<close>

definition alerterPorts :: sortedMap where
  "alerterPorts = [(AlerterPortName, port_value AlerterPort),
                   (AlerterActualPortName, port_value AlerterActualPort)]"

definition javaOptsEnvs :: sortedMap where
  "javaOptsEnvs = [(''JAVA_OPTS'', VString ''-Xms512m -Xmx512m -Xmn256m'')]"

definition alerterServicePorts :: "goint32 go_map" where
  "alerterServicePorts = [(AlerterPortName, word_of_int AlerterPort),
                          (AlerterActualPortName, word_of_int AlerterActualPort)]"

definition alerterContainer ::
  "opgo \<Rightarrow> roleResourceReconcilerBuilder \<Rightarrow> roleGroupInfo \<Rightarrow> roleGroupConfigSpec option \<Rightarrow>
   containerBuilder go" where
  "alerterContainer G a info roleGroupConfig =
     go_bind (WithPorts alerterPorts (CommonCommandArgs G
       (NewContainerBuilder G AlerterContainerName (rb_image a) (rb_zkConfigMapName a) info roleGroupConfig))) (\<lambda>c.
     go_bind (WithEnvs javaOptsEnvs c) (\<lambda>c.
     WithVolumeMounts [] (CommonCommandArgs G (WithReadinessAndLivenessProbe AlerterActualPort c))))"

definition Alerter_ResourceReconcilers ::
  "opgo \<Rightarrow> client \<Rightarrow> dolphinschedulerCluster \<Rightarrow> roleResourceReconcilerBuilder \<Rightarrow>
   resourceReconcilersBuilder" where
  "Alerter_ResourceReconcilers G C cr a replicas info overrides roleGroupConfig =
     go_bind (NewConfigMapReconciler G C cr info AlerterContainerName overrides roleGroupConfig)
       (\<lambda>workerConfigMap.
     go_bind (alerterContainer G a info roleGroupConfig) (\<lambda>containerBuilder.
     let dep = CreateDeploymentReconciler G containerBuilder (rb_image a) replicas
                 (rb_clusterOperation a) info overrides roleGroupConfig [] in
     go_bind (NewServiceReconciler G (RoleGroupServiceName G info) False None alerterServicePorts
                (GetLabels G info) (GetAnnotations G info)) (\<lambda>svc.
     Done [ConfigMapResource workerConfigMap, WorkloadResource dep, ServiceResource svc])))"

definition NewAlerterRole ::
  "opgo \<Rightarrow> client \<Rightarrow> dolphinschedulerCluster \<Rightarrow> image \<Rightarrow> clusterConfigSpec option \<Rightarrow>
   clusterOperationSpec option \<Rightarrow> roleSpec option \<Rightarrow> roleInfo \<Rightarrow> roleReconciler go" where
  "NewAlerterRole G C cr img clusterConfigSpec clusterOperation roleSpec info =
     go_bind (go_deref clusterConfigSpec) (\<lambda>cc.
     go_bind (go_deref roleSpec) (\<lambda>spec.
     Done (NewRoleReconciler info clusterOperation clusterConfigSpec img spec
             (Alerter_ResourceReconcilers G C cr
                \<lparr>rb_clusterOperation = clusterOperation, rb_image = img,
                 rb_zkConfigMapName = cc_ZookeeperConfigMapName cc\<rparr>))))"

section \<open>API server\<close>

definition apiPorts :: sortedMap where
  "apiPorts = [(ApiPortName, port_value ApiPort), (ApiPythonPortName, port_value ApiPythonPort)]"

definition apiServicePorts :: "goint32 go_map" where
  "apiServicePorts = [(ApiPortName, word_of_int ApiPort),
                      (ApiPythonPortName, word_of_int ApiPythonPort)]"

definition apiServerCommandArgs :: "opgo \<Rightarrow> containerBuilder \<Rightarrow> string" where
  "apiServerCommandArgs G containerbuilder =
     (let args = GetCommandArgs containerbuilder
      in strings_Join (ExtractLdapCredintialsAndExportCommand G # args) newline)"

text \<open>
  \<open>authentication\<close> updates the container builder it is given; the result is the volumes, the error
  and the builder. The mount of the LDAP volume keeps its name and path only: \<open>WithVolumeMounts\<close>
  makes a new mount, which is not read-only.
\<close>

definition authentication ::
  "opgo \<Rightarrow> client \<Rightarrow> apierRoleResourceReconcilerBuilder \<Rightarrow> containerBuilder \<Rightarrow>
   (volume list res \<times> containerBuilder) go" where
  "authentication G C a containerBuilder =
     (case rb_authenticationSpec a of
        None \<Rightarrow> Done (([], None), containerBuilder)
      | Some authSpec \<Rightarrow>
          go_bind (Authentication G C authSpec) (\<lambda>(authResult, err).
          case err of
            Some e \<Rightarrow> Done (([], Some e), containerBuilder)
          | None \<Rightarrow>
              go_bind (WithEnvs (maps_Copy [] (ar_Config authResult)) containerBuilder) (\<lambda>c1.
              let c2 = fold WithSecretEnvFrom (ar_CredintialsSecrets authResult) c1 in
              case (ar_LdapVolume authResult, ar_LdapVolumeMount authResult) of
                (Some vol, Some mount) \<Rightarrow>
                  go_bind (WithVolumeMounts [(vol_Name vol, VString (vm_MountPath mount))] c2)
                    (\<lambda>c3. Done (([vol], None), ResetCommandArgs (apiServerCommandArgs G c3) c3))
              | _ \<Rightarrow> Done (([], None), c2))))"

definition apiContainer ::
  "opgo \<Rightarrow> apierRoleResourceReconcilerBuilder \<Rightarrow> roleGroupInfo \<Rightarrow> roleGroupConfigSpec option \<Rightarrow>
   containerBuilder go" where
  "apiContainer G a info roleGroupConfig =
     go_bind (WithPorts apiPorts (CommonCommandArgs G
       (NewContainerBuilder G ApiContainerName (rb_image a) (rb_zkConfigMapName a) info roleGroupConfig))) (\<lambda>c.
     go_bind (WithEnvs javaOptsEnvs c) (\<lambda>c.
     WithVolumeMounts [] (CommonCommandArgs G (WithReadinessAndLivenessProbe ApiPort c))))"

definition Api_ResourceReconcilers ::
  "opgo \<Rightarrow> client \<Rightarrow> dolphinschedulerCluster \<Rightarrow> apierRoleResourceReconcilerBuilder \<Rightarrow>
   resourceReconcilersBuilder" where
  "Api_ResourceReconcilers G C cr a replicas info overrides roleGroupConfig =
     go_bind (NewConfigMapReconciler G C cr info ApiContainerName overrides roleGroupConfig)
       (\<lambda>apiServerConfigMap.
     go_bind (apiContainer G a info roleGroupConfig)
       (\<lambda>containerBuilder.
     go_bind (authentication G C a containerBuilder) (\<lambda>((volumes, err), containerBuilder).
     case err of
       Some e \<Rightarrow> Done []
     | None \<Rightarrow>
         (let dep = CreateDeploymentReconciler G containerBuilder (rb_image a) replicas
                      (rb_clusterOperation a) info overrides roleGroupConfig volumes in
          go_bind (NewServiceReconciler G (RoleGroupServiceName G info) False None apiServicePorts
                     (GetLabels G info) (GetAnnotations G info)) (\<lambda>svc.
          Done [ConfigMapResource apiServerConfigMap, WorkloadResource dep, ServiceResource svc])))))"

definition NewApierRole ::
  "opgo \<Rightarrow> client \<Rightarrow> dolphinschedulerCluster \<Rightarrow> image \<Rightarrow> clusterConfigSpec option \<Rightarrow>
   clusterOperationSpec option \<Rightarrow> roleSpec option \<Rightarrow> roleInfo \<Rightarrow> roleReconciler go" where
  "NewApierRole G C cr img clusterConfigSpec clusterOperation roleSpec info =
     go_bind (go_deref clusterConfigSpec) (\<lambda>cc.
     go_bind (go_deref roleSpec) (\<lambda>spec.
     Done (NewRoleReconciler info clusterOperation clusterConfigSpec img spec
             (Api_ResourceReconcilers G C cr
                \<lparr>rb_clusterOperation = clusterOperation, rb_image = img,
                 rb_zkConfigMapName = cc_ZookeeperConfigMapName cc,
                 rb_authenticationSpec = cc_Authentication cc\<rparr>))))"

section \<open>What the chain builds\<close>

text \<open>
  The four chains of calls differ in the container's name, the ports, the variables and the probed
  port only; the lemmas on containers are stated for the chain with these as parameters.
\<close>

definition roleContainer ::
  "opgo \<Rightarrow> ('a) roleResourceReconcilerBuilder_scheme \<Rightarrow> string \<Rightarrow> roleGroupInfo \<Rightarrow>
   roleGroupConfigSpec option \<Rightarrow> sortedMap \<Rightarrow> sortedMap \<Rightarrow> int \<Rightarrow> containerBuilder go" where
  "roleContainer G a name info roleGroupConfig ports envs probePort =
     (let c = CommonCommandArgs G (NewContainerBuilder G name (rb_image a) (rb_zkConfigMapName a) info
                                     roleGroupConfig)
      in go_bind (WithPorts ports c) (\<lambda>c.
         go_bind (WithEnvs envs c) (\<lambda>c.
         WithVolumeMounts [] (CommonCommandArgs G (WithReadinessAndLivenessProbe probePort c)))))"

lemma masterContainer_chain:
  "masterContainer G a info rgc = roleContainer G a MasterContainerName info rgc masterPorts masterEnvs MasterActualPort"
  by (simp add: masterContainer_def roleContainer_def Let_def)

lemma workerContainer_chain:
  "workerContainer G a info rgc = roleContainer G a WorkerContainerName info rgc workerPorts workerEnvs WorkerActualPort"
  by (simp add: workerContainer_def roleContainer_def Let_def)

lemma alerterContainer_chain:
  "alerterContainer G a info rgc = roleContainer G a AlerterContainerName info rgc alerterPorts javaOptsEnvs AlerterActualPort"
  by (simp add: alerterContainer_def roleContainer_def Let_def)

lemma apiContainer_chain:
  "apiContainer G a info rgc = roleContainer G a ApiContainerName info rgc apiPorts javaOptsEnvs ApiPort"
  by (simp add: apiContainer_def roleContainer_def Let_def)

lemma roleContainer_eq:
  "roleContainer G a name info rgc ports envs probePort =
   Done ((NewContainerBuilder G name (rb_image a) (rb_zkConfigMapName a) info rgc)
     \<lparr>cb_ports := ports_of (sorted_entries ports),
      cb_envs := concat (map envVars_of (sorted_entries envs)) @
        [\<lparr>ev_Name = ''REGISTRY_ZOOKEEPER_CONNECT_STRING'', ev_Value = [],
          ev_ValueFrom = Some (ConfigMapKeyRef (rb_zkConfigMapName a) ZookeeperDiscoveryKey)\<rparr>],
      cb_readiness := Some (healthProbe probePort ''readiness''),
      cb_liveness := Some (healthProbe probePort ''liveness''),
      cb_args := commandArgs G info @ commandArgs G info,
      cb_argsScript := strings_Join (commandArgs G info) newline\<rparr>)"
  by (simp add: roleContainer_def NewContainerBuilder_def CommonCommandArgs_def WithPorts_eq WithEnvs_eq
      zookeeperEnv_def WithReadinessAndLivenessProbe_def Let_def)

fun port_calls :: "container_call list \<Rightarrow> containerPort list" where
  "port_calls [] = []"
| "port_calls (AddPorts ps # calls) = ps @ port_calls calls"
| "port_calls (_ # calls) = port_calls calls"

text \<open>The ports of the containers of a workload, as name and number.\<close>

fun container_ports :: "container \<Rightarrow> (string \<times> goint32) list" where
  "container_ports (BuiltContainer bc) =
     map (\<lambda>p. (cp_Name p, cp_ContainerPort p)) (port_calls (bc_Calls bc))"
| "container_ports (PlainContainer _ _ _) = []"

definition workload_containers :: "workloadReconciler \<Rightarrow> container list" where
  "workload_containers w = wb_Containers (bw_Workload (wr_Builder w))"

definition service_ports :: "serviceProg \<Rightarrow> (string \<times> goint32) list" where
  "service_ports s = map (\<lambda>p. (cp_Name p, cp_ContainerPort p)) (svc_Ports s)"

lemma container_ports_Build:
  "bc_Calls (cb_Container c) = [] \<Longrightarrow>
   container_ports (fst (Build G c)) = map (\<lambda>p. (cp_Name p, cp_ContainerPort p)) (cb_ports c)"
  by (simp add: Build_container build_calls_def split: option.split)

lemma CreateDeploymentReconciler_containers:
  "workload_containers (CreateDeploymentReconciler G c img reps op info ov rgc vols) = [fst (Build G c)]"
  by (simp add: CreateDeploymentReconciler_def NewDeploymentReconciler_def NewWorkloadBuilder_def
      WithVolumes_def workload_containers_def Let_def)

lemma CreateStatefulSetReconciler_Done:
  "CreateStatefulSetReconciler G c img reps op info ov rgc pvc = Done w \<Longrightarrow>
   workload_containers w = [fst (Build G c)] \<and> wp_Name (bw_Prog (wr_Builder w)) = GetFullName G info \<and>
   wp_Replicas (bw_Prog (wr_Builder w)) = reps"
  by (auto simp: CreateStatefulSetReconciler_def NewStatefulSetReconciler_def NewWorkloadBuilder_def
      WithPvcTemplates_def workload_containers_def newProg_def StatefulsetName_def Let_def
      go_bind_Done_iff split: if_splits)

lemma CreateDeploymentReconciler_name:
  "wp_Name (bw_Prog (wr_Builder (CreateDeploymentReconciler G c img reps op info ov rgc vols))) =
   GetFullName G info"
  "wp_Replicas (bw_Prog (wr_Builder (CreateDeploymentReconciler G c img reps op info ov rgc vols))) = reps"
  by (simp_all add: CreateDeploymentReconciler_def NewDeploymentReconciler_def newProg_def
      DeploymentName_def Let_def)

section \<open>Names\<close>

fun resource_name :: "resource \<Rightarrow> string option" where
  "resource_name (ConfigMapResource cm) = Some (cm_Name cm)"
| "resource_name (WorkloadResource w) = Some (wp_Name (bw_Prog (wr_Builder w)))"
| "resource_name (ServiceResource s) = map_option svc_Name s"

text \<open>The workload of a role group: it has the name and the replicas of the group.\<close>

definition has_workload :: "opgo \<Rightarrow> roleGroupInfo \<Rightarrow> goint32 option \<Rightarrow> resource list \<Rightarrow> bool" where
  "has_workload G info replicas rs \<longleftrightarrow>
     (\<exists>w. WorkloadResource w \<in> set rs \<and> wp_Name (bw_Prog (wr_Builder w)) = GetFullName G info \<and>
          wp_Replicas (bw_Prog (wr_Builder w)) = replicas)"

text \<open>
  The contract of \<open>RoleResourceReconcilersBuilder\<close>: every resource that a builder makes for a role
  group has the full name of the group or is the environment config map of the cluster, and unless
  it makes nothing at all there is a workload with the replicas of the group. The registration of a
  role inherits it for all its groups.
\<close>

locale role_builder =
  fixes G :: opgo and C :: client and build :: resourceReconcilersBuilder
  assumes names: "build replicas info overrides rgc = Done rs \<Longrightarrow> x \<in> set rs \<Longrightarrow>
    resource_name x = Some (GetFullName G info) \<or> resource_name x = Some (GetOwnerName C @ ''-envs'')"
    and workload: "build replicas info overrides rgc = Done rs \<Longrightarrow> rs \<noteq> [] \<Longrightarrow> has_workload G info replicas rs"
begin

lemma metrics_name:
  "x \<in> set (metrics_resources G info) \<Longrightarrow> resource_name x = Some (GetFullName G info @ ''-metrics'')"
  by (auto simp: metrics_resources_def NewRoleGroupMetricsService_def CreateServiceMetricsName_def Let_def
      split: option.splits prod.splits)

lemma registered_names:
  assumes "RegisterResources G C M r = Done (None, r')" and "rr_Builder r = build"
    and "rr_Resources r = []" and "x \<in> set (rr_Resources r')"
  shows "\<exists>name group. (name, group) \<in> set (role_RoleGroups (rr_Spec r)) \<and>
    resource_name x \<in> {Some (GetFullName G (group_info r name)),
      Some (GetFullName G (group_info r name) @ ''-metrics''), Some (GetOwnerName C @ ''-envs'')}"
proof -
  from assms(1,3,4) obtain g xs where g: "g \<in> set (role_RoleGroups (rr_Spec r))"
    "group_resources G C M r g = Some xs" "x \<in> set xs"
    by (fastforce simp: RegisterResources_def registerGroups_ok_iff list_all_iff)
  obtain name group where ng: "g = (name, group)" by (cases g)
  with g(2,3) obtain rs where b: "group_builds G C M r name group rs"
    and x: "x \<in> set rs \<or> x \<in> set (metrics_resources G (group_info r name))"
    by (auto simp: group_resources_iff)
  from b obtain ov rgc where "build (rg_Replicas group) (group_info r name) ov rgc = Done rs"
    using assms(2) by (auto simp: group_builds_def)
  with x have "resource_name x \<in> {Some (GetFullName G (group_info r name)),
      Some (GetFullName G (group_info r name) @ ''-metrics''), Some (GetOwnerName C @ ''-envs'')}"
    using names [of "rg_Replicas group" "group_info r name" ov rgc rs x] metrics_name [of x] by blast
  with g(1) ng show ?thesis by blast
qed

end

lemma NewConfigMapReconciler_name:
  "NewConfigMapReconciler G C cr info container ov rgc = Done cm \<Longrightarrow> cm_Name cm = GetFullName G info"
  by (auto simp: NewConfigMapReconciler_def RoleGroupConfigMapName_def go_bind_Done_iff Let_def)

lemma NewEnvConfigMapReconciler_name:
  "NewEnvConfigMapReconciler G C cr ov info = Done cm \<Longrightarrow> cm_Name cm = GetOwnerName C @ ''-envs''"
  by (auto simp: NewEnvConfigMapReconciler_def RoleGroupEnvsConfigMapName_def go_bind_Done_iff Let_def)

lemma NewServiceReconciler_name:
  "NewServiceReconciler G name headless None ports labels annotations = Done s \<Longrightarrow>
   map_option svc_Name s = Some name"
  by (auto simp: NewServiceReconciler_def NewServiceBuilder_def go_bind_Done_iff Let_def)

lemmas resource_names = NewConfigMapReconciler_name NewEnvConfigMapReconciler_name
  NewServiceReconciler_name CreateStatefulSetReconciler_Done CreateDeploymentReconciler_name
  RoleGroupServiceName_def

interpretation master: role_builder G C "Master_ResourceReconcilers G C cr a" for G C cr a
  by unfold_locales
    (auto simp: Master_ResourceReconcilers_def masterContainer_chain go_bind_Done_iff resource_names has_workload_def)

interpretation worker: role_builder G C "Worker_ResourceReconcilers G C cr a" for G C cr a
  by unfold_locales
    (auto simp: Worker_ResourceReconcilers_def workerContainer_chain go_bind_Done_iff resource_names has_workload_def)

interpretation alerter: role_builder G C "Alerter_ResourceReconcilers G C cr a" for G C cr a
  by unfold_locales
    (auto simp: Alerter_ResourceReconcilers_def alerterContainer_chain go_bind_Done_iff resource_names has_workload_def Let_def)

interpretation api: role_builder G C "Api_ResourceReconcilers G C cr a" for G C cr a
  by unfold_locales
    (auto simp: Api_ResourceReconcilers_def apiContainer_chain go_bind_Done_iff resource_names has_workload_def Let_def
      split: option.splits)

section \<open>Ports\<close>

text \<open>The container ports and the service ports of a role come from one table.\<close>

lemma table_container_ports:
  assumes "gm_ok tbl"
  shows "map (\<lambda>p. (cp_Name p, cp_ContainerPort p))
      (ports_of (sorted_entries (map (\<lambda>(k, p). (k, port_value p)) tbl))) =
    map (\<lambda>k. (k, word_of_int (the (gm_get tbl k)))) (sorted_keys tbl)"
proof -
  let ?m = "map (\<lambda>(k, p). (k, port_value p)) tbl"
  have keys: "sorted_keys ?m = sorted_keys tbl"
    by (simp add: sorted_keys_def comp_def case_prod_beta)
  have at: "iface_at ?m k = port_value (the (gm_get tbl k))" if "k \<in> set (sorted_keys tbl)" for k
    using gm_get_key [OF that]
    by (cases "map_of tbl k") (simp_all add: iface_at_def gm_get_def map_of_map)
  have "sorted_entries ?m = map (\<lambda>k. (k, port_value (the (gm_get tbl k)))) (sorted_keys tbl)"
    using at by (simp add: sorted_entries_def SortedKeys_def keys)
  moreover have "map (\<lambda>p. (cp_Name p, cp_ContainerPort p)) (ports_of (map (\<lambda>k. (k, port_value (f k))) ks)) =
      map (\<lambda>k. (k, word_of_int (f k))) ks" for f ks
    by (induction ks) (simp_all add: port_value_def scast_word_of_int)
  ultimately show ?thesis by simp
qed

lemma table_service_ports:
  assumes "gm_ok tbl"
  shows "\<exists>s. NewServiceReconciler G name headless None (map (\<lambda>(k, p). (k, word_of_int p)) tbl) labels
      annotations = Done (Some s) \<and>
    service_ports s = map (\<lambda>k. (k, word_of_int (the (gm_get tbl k)))) (sorted_keys tbl) \<and>
    svc_MatchingLabels s = labels \<and> svc_Headless s = headless"
proof -
  let ?m = "map (\<lambda>(k, p). (k, word_of_int p)) tbl :: goint32 go_map"
  have keys: "sorted_keys ?m = sorted_keys tbl"
    by (simp add: sorted_keys_def comp_def case_prod_beta)
  have ok: "gm_ok ?m" using assms by (simp add: gm_ok_def comp_def case_prod_beta)
  have "the (gm_get ?m k) = word_of_int (the (gm_get tbl k))" if "k \<in> set (sorted_keys tbl)" for k
    using gm_get_key [OF that]
    by (cases "map_of tbl k") (simp_all add: gm_get_def map_of_map)
  then show ?thesis
    by (simp add: NewServiceReconciler_def NewServiceBuilder_def service_ports_Range [OF ok] keys
        service_ports_def comp_def)
qed

text \<open>The table of a role, and its builder, for a statement about all four roles.\<close>

definition role_table :: "role \<Rightarrow> (string \<times> int) list" where
  "role_table role =
     (if role = Master then [(MasterPortName, MasterPort), (MasterActualPortName, MasterActualPort)]
      else if role = Worker then [(WorkerPortName, WorkerPort), (WorkerActualPortName, WorkerActualPort)]
      else if role = Alerter then
        [(AlerterPortName, AlerterPort), (AlerterActualPortName, AlerterActualPort)]
      else [(ApiPortName, ApiPort), (ApiPythonPortName, ApiPythonPort)])"

definition role_build ::
  "opgo \<Rightarrow> client \<Rightarrow> dolphinschedulerCluster \<Rightarrow> apierRoleResourceReconcilerBuilder \<Rightarrow> role \<Rightarrow>
   resourceReconcilersBuilder" where
  "role_build G C cr a role =
     (if role = Master then Master_ResourceReconcilers G C cr (roleResourceReconcilerBuilder.truncate a)
      else if role = Worker then Worker_ResourceReconcilers G C cr (roleResourceReconcilerBuilder.truncate a)
      else if role = Alerter then
        Alerter_ResourceReconcilers G C cr (roleResourceReconcilerBuilder.truncate a)
      else Api_ResourceReconcilers G C cr a)"

lemma role_table_ok: "gm_ok (role_table role)"
  by (simp add: role_table_def gm_ok_def const_simps)

lemma role_tables:
  "masterPorts = map (\<lambda>(k, p). (k, port_value p)) (role_table Master)"
  "masterServicePorts = map (\<lambda>(k, p). (k, word_of_int p)) (role_table Master)"
  "workerPorts = map (\<lambda>(k, p). (k, port_value p)) (role_table Worker)"
  "workerServicePorts = map (\<lambda>(k, p). (k, word_of_int p)) (role_table Worker)"
  "alerterPorts = map (\<lambda>(k, p). (k, port_value p)) (role_table Alerter)"
  "alerterServicePorts = map (\<lambda>(k, p). (k, word_of_int p)) (role_table Alerter)"
  "apiPorts = map (\<lambda>(k, p). (k, port_value p)) (role_table Api)"
  "apiServicePorts = map (\<lambda>(k, p). (k, word_of_int p)) (role_table Api)"
  by (simp_all add: masterPorts_def masterServicePorts_def workerPorts_def workerServicePorts_def
      alerterPorts_def alerterServicePorts_def apiPorts_def apiServicePorts_def role_table_def role_names)

lemma fold_WithSecretEnvFrom:
  "fold WithSecretEnvFrom names c = (if names = [] then c else c\<lparr>cb_secretEnvfrom := last names\<rparr>)"
  by (induction names arbitrary: c) (simp_all add: WithSecretEnvFrom_def)

lemma authentication_keeps:
  assumes "authentication G C a c = Done (r, c')"
  shows "identity_of c' = identity_of c \<and> cb_ports c' = cb_ports c"
proof (cases "rb_authenticationSpec a")
  case None
  with assms show ?thesis by (simp add: authentication_def)
next
  case (Some specs)
  with assms obtain res err where "Authentication G C specs = Done (res, err)"
    by (auto simp: authentication_def go_bind_Done_iff)
  with Some assms show ?thesis
    by (cases err; cases "ar_LdapVolume res"; cases "ar_LdapVolumeMount res")
      (auto simp: authentication_def WithEnvs_eq WithVolumeMounts_single fold_WithSecretEnvFrom
        ResetCommandArgs_def identity_of_def Let_def)
qed

fun is_workload :: "resource \<Rightarrow> bool" where
  "is_workload (WorkloadResource _) = True"
| "is_workload _ = False"

fun is_service :: "resource \<Rightarrow> bool" where
  "is_service (ServiceResource _) = True"
| "is_service _ = False"

definition table_ports :: "role \<Rightarrow> (string \<times> goint32) list" where
  "table_ports role =
     map (\<lambda>k. (k, word_of_int (the (gm_get (role_table role) k)))) (sorted_keys (role_table role))"

lemma metrics_in_table:
  assumes "known_role role"
  shows "\<exists>p. GetMetricsPort role = (p, None) \<and> p \<in> snd ` set (table_ports role)"
proof -
  have "\<exists>k q. gm_get (role_table role) k = Some q \<and> GetMetricsPort role = (word_of_int q, None)"
  proof -
    have "gm_get (role_table Master) MasterActualPortName = Some MasterActualPort"
      "gm_get (role_table Worker) WorkerActualPortName = Some WorkerActualPort"
      "gm_get (role_table Alerter) AlerterActualPortName = Some AlerterActualPort"
      "gm_get (role_table Api) ApiPortName = Some ApiPort"
      by (simp_all add: role_table_def gm_get_def const_simps)
    moreover have "GetMetricsPort Master = (word_of_int MasterActualPort, None)"
      "GetMetricsPort Worker = (word_of_int WorkerActualPort, None)"
      "GetMetricsPort Alerter = (word_of_int AlerterActualPort, None)"
      "GetMetricsPort Api = (word_of_int ApiPort, None)"
      by (simp_all add: GetMetricsPort_def role_names)
    ultimately show ?thesis using assms unfolding known_role_def by blast
  qed
  then obtain k q where kq: "gm_get (role_table role) k = Some q"
    and p: "GetMetricsPort role = (word_of_int q, None)" by blast
  have "k \<in> set (sorted_keys (role_table role))"
    using kq gm_get_None_iff [of "role_table role" k] by simp
  with kq have "(k, word_of_int q) \<in> set (table_ports role)" by (force simp: table_ports_def)
  with p show ?thesis by force
qed

text \<open>The container of a role before its workload is created.\<close>

lemma role_container_ports:
  assumes "roleContainer G a name info rgc (map (\<lambda>(k, p). (k, port_value p)) (role_table role)) envs p = Done c"
    and "identity_of c' = identity_of c" and "cb_ports c' = cb_ports c"
  shows "container_ports (fst (Build G c')) = table_ports role"
proof -
  have "bc_Calls (cb_Container c') = []" and "cb_ports c' =
      ports_of (sorted_entries (map (\<lambda>(k, p). (k, port_value p)) (role_table role)))"
    using assms by (auto simp: roleContainer_eq NewContainerBuilder_def identity_of_def)
  then show ?thesis
    using table_container_ports [OF role_table_ok, of role]
    by (simp add: container_ports_Build table_ports_def)
qed

lemma role_service:
  assumes "NewServiceReconciler G name headless None
      (map (\<lambda>(k, p). (k, word_of_int p)) (role_table role)) labels annotations = Done svc"
  obtains s where "svc = Some s" and "service_ports s = table_ports role"
  using table_service_ports [OF role_table_ok, of G name headless role labels annotations] assms
  by (auto simp: table_ports_def)

text \<open>
  What every builder returns, apart from an API server whose authentication failed: one workload
  with one container and one service, both with the ports of the role's table.
\<close>

definition role_shape :: "role \<Rightarrow> resource list \<Rightarrow> bool" where
  "role_shape role rs \<longleftrightarrow>
     (\<exists>w s c. filter is_workload rs = [WorkloadResource w] \<and> filter is_service rs = [ServiceResource (Some s)] \<and>
        workload_containers w = [c] \<and> container_ports c = table_ports role \<and>
        service_ports s = table_ports role)"

lemma Master_shape:
  "Master_ResourceReconcilers G C cr a replicas info ov rgc = Done rs \<Longrightarrow> role_shape Master rs"
  using role_container_ports [of G a _ info rgc Master]
  by (auto simp: Master_ResourceReconcilers_def masterContainer_chain go_bind_Done_iff role_tables role_shape_def
      dest!: CreateStatefulSetReconciler_Done elim!: role_service)

lemma Worker_shape:
  "Worker_ResourceReconcilers G C cr a replicas info ov rgc = Done rs \<Longrightarrow> role_shape Worker rs"
  using role_container_ports [of G a _ info rgc Worker]
  by (auto simp: Worker_ResourceReconcilers_def workerContainer_chain go_bind_Done_iff role_tables role_shape_def
      dest!: CreateStatefulSetReconciler_Done elim!: role_service)

lemma Alerter_shape:
  "Alerter_ResourceReconcilers G C cr a replicas info ov rgc = Done rs \<Longrightarrow> role_shape Alerter rs"
  using role_container_ports [of G a _ info rgc Alerter]
  by (auto simp: Alerter_ResourceReconcilers_def alerterContainer_chain go_bind_Done_iff role_tables role_shape_def Let_def
      CreateDeploymentReconciler_containers elim!: role_service)

lemma Api_shape:
  assumes "Api_ResourceReconcilers G C cr a replicas info ov rgc = Done rs" and "rs \<noteq> []"
  shows "role_shape Api rs"
proof -
  from assms obtain cm c vols c' svc where
    c: "roleContainer G a ApiContainerName info rgc apiPorts javaOptsEnvs ApiPort = Done c"
    and c': "authentication G C a c = Done ((vols, None), c')"
    and svc: "NewServiceReconciler G (RoleGroupServiceName G info) False None apiServicePorts
        (GetLabels G info) (GetAnnotations G info) = Done svc"
    and rs: "rs = [ConfigMapResource cm, WorkloadResource (CreateDeploymentReconciler G c' (rb_image a)
        replicas (rb_clusterOperation a) info ov rgc vols), ServiceResource svc]"
    by (auto simp: Api_ResourceReconcilers_def apiContainer_chain go_bind_Done_iff Let_def split: option.splits)
  have "container_ports (fst (Build G c')) = table_ports Api"
    using role_container_ports [of G a ApiContainerName info rgc Api] c authentication_keeps [OF c']
    by (simp add: role_tables)
  with svc show ?thesis
    by (auto simp: rs role_shape_def role_tables CreateDeploymentReconciler_containers elim!: role_service)
qed

lemma role_build_shape:
  assumes "known_role role" and "role_build G C cr a role replicas info overrides rgc = Done rs" and "rs \<noteq> []"
  shows "role_shape role rs"
  using assms Master_shape Worker_shape Alerter_shape Api_shape
  by (auto simp: known_role_def role_build_def role_names)

text \<open>
  C5. A role group is reachable on the ports its server listens on: the workload of every role has
  one container, the service of the role group publishes exactly the ports of that container, and
  the port of the metrics service is one of them.
\<close>

theorem role_service_matches_container:
  assumes "known_role role"
    and "role_build G C cr a role replicas info overrides rgc = Done rs" and "rs \<noteq> []"
  shows "\<exists>w s c p. filter is_workload rs = [WorkloadResource w] \<and>
    filter is_service rs = [ServiceResource (Some s)] \<and> workload_containers w = [c] \<and>
    container_ports c = service_ports s \<and>
    GetMetricsPort role = (p, None) \<and> p \<in> snd ` set (service_ports s)"
proof -
  from role_build_shape [OF assms] obtain w s c where "filter is_workload rs = [WorkloadResource w]"
    "filter is_service rs = [ServiceResource (Some s)]" "workload_containers w = [c]"
    "container_ports c = table_ports role" "service_ports s = table_ports role"
    by (auto simp: role_shape_def)
  with metrics_in_table [OF assms(1)] show ?thesis by auto
qed

text \<open>
  What the API server of Kubernetes demands of the ports of a service and of a container: distinct
  names that are service names in the sense of RFC 6335, and numbers between 1 and 65535.
\<close>

definition service_name :: "string \<Rightarrow> bool" where
  "service_name n \<longleftrightarrow> n \<noteq> [] \<and> length n \<le> 15 \<and>
     list_all (\<lambda>c. CHR ''a'' \<le> c \<and> c \<le> CHR ''z'' \<or> CHR ''0'' \<le> c \<and> c \<le> CHR ''9'' \<or> c = CHR ''-'') n \<and>
     list_ex (\<lambda>c. CHR ''a'' \<le> c \<and> c \<le> CHR ''z'') n \<and>
     hd n \<noteq> CHR ''-'' \<and> last n \<noteq> CHR ''-'' \<and>
     \<not> list_ex (\<lambda>(c, d). c = CHR ''-'' \<and> d = CHR ''-'') (zip n (tl n))"

definition valid_ports :: "(string \<times> goint32) list \<Rightarrow> bool" where
  "valid_ports ps \<longleftrightarrow> ps \<noteq> [] \<and> distinct (map fst ps) \<and>
     list_all (\<lambda>(n, p). service_name n \<and> 1 \<le> sint p \<and> sint p \<le> 65535) ps"

lemma role_table_names: "list_all (\<lambda>(n, p). service_name n) (role_table role)"
  by (simp add: role_table_def service_name_def const_simps)

lemma role_table_numbers:
  "list_all (\<lambda>(n, p). 1 \<le> sint (word_of_int p :: goint32) \<and> sint (word_of_int p :: goint32) \<le> 65535) (role_table role)"
  by (simp add: role_table_def const_simps)

lemma table_ports_valid: "valid_ports (table_ports role)"
proof -
  have "service_name n \<and> 1 \<le> sint p \<and> sint p \<le> 65535" if "(n, p) \<in> set (table_ports role)" for n p
  proof -
    from that obtain q where "(n, q) \<in> set (role_table role)" and p: "p = word_of_int q"
      by (auto simp: table_ports_def simp flip: gm_get_Some_iff [OF role_table_ok])
    with role_table_names [of role] role_table_numbers [of role] show ?thesis
      by (auto simp: list_all_iff)
  qed
  moreover have "map fst (table_ports role) = sorted_keys (role_table role)"
    by (simp add: table_ports_def comp_def)
  moreover have "table_ports role \<noteq> []"
    by (simp add: table_ports_def sorted_keys_def role_table_def)
  ultimately show ?thesis
    using sorted_keys_distinct [OF role_table_ok] by (auto simp: valid_ports_def list_all_iff)
qed

text \<open>
  C18. The ports of every role are well formed: the ports of its container and of its service
  have distinct names, each a valid service name, and numbers that survive the conversion to
  32 bits as ports between 1 and 65535.
\<close>

theorem role_ports_well_formed:
  assumes "known_role role"
    and "role_build G C cr a role replicas info overrides rgc = Done rs" and "rs \<noteq> []"
  shows "\<exists>w s. WorkloadResource w \<in> set rs \<and> ServiceResource (Some s) \<in> set rs \<and>
    valid_ports (service_ports s) \<and> list_all (valid_ports \<circ> container_ports) (workload_containers w)"
proof -
  from role_build_shape [OF assms] obtain w s c where
    ws: "filter is_workload rs = [WorkloadResource w]" "filter is_service rs = [ServiceResource (Some s)]"
    and c: "workload_containers w = [c]" "container_ports c = table_ports role" "service_ports s = table_ports role"
    by (auto simp: role_shape_def)
  have "WorkloadResource w \<in> set (filter is_workload rs)" "ServiceResource (Some s) \<in> set (filter is_service rs)"
    by (simp_all add: ws)
  then have "WorkloadResource w \<in> set rs" "ServiceResource (Some s) \<in> set rs" by simp_all
  with c table_ports_valid [of role] show ?thesis
    by (intro exI [of _ w] exI [of _ s]) simp
qed

section \<open>When the builders return\<close>

text \<open>
  A role group without logging settings and with complete resources, in a cluster without S3: no
  builder panics. The default merge provides the resources.
\<close>

definition plain_group :: "dolphinschedulerCluster \<Rightarrow> roleGroupConfigSpec \<Rightarrow> bool" where
  "plain_group cr spec \<longleftrightarrow> cr_s3 cr = None \<and> rgc_Logging spec = None \<and>
     (\<exists>r. rgc_Resources spec = Some r \<and> full_resources r)"

lemma plain_config_map:
  "plain_group cr spec \<Longrightarrow> \<exists>cm. NewConfigMapReconciler G C cr info container ov (Some spec) = Done cm"
  by (rule NewConfigMapReconciler_plain) (simp_all add: plain_group_def)

lemma CreateStatefulSetReconciler_returns:
  assumes "rgc_Resources spec = Some r" and "full_resources r"
  shows "\<exists>w. CreateStatefulSetReconciler G c img reps op info ov (Some spec) pvc = Done w"
  using assms
  by (auto simp: CreateStatefulSetReconciler_def NewStatefulSetReconciler_def full_resources_def Let_def)

lemma NewServiceReconciler_returns:
  "gm_ok ports \<Longrightarrow> \<exists>s. NewServiceReconciler G name headless None ports labels annotations = Done s"
  by (simp add: NewServiceReconciler_def NewServiceBuilder_def service_ports_Range)

lemma service_tables_ok:
  "gm_ok masterServicePorts" "gm_ok workerServicePorts" "gm_ok alerterServicePorts" "gm_ok apiServicePorts"
  using role_table_ok by (simp_all add: role_tables gm_ok_def comp_def case_prod_beta)

lemma Master_returns:
  assumes "plain_group cr spec" and "\<exists>cm. NewEnvConfigMapReconciler G C cr ov info = Done cm"
  shows "\<exists>rs. Master_ResourceReconcilers G C cr a replicas info ov (Some spec) = Done rs"
proof -
  obtain r where r: "rgc_Resources spec = Some r" "full_resources r"
    using assms(1) by (auto simp: plain_group_def)
  obtain cm where "NewConfigMapReconciler G C cr info MasterContainerName ov (Some spec) = Done cm"
    using plain_config_map [OF assms(1)] ..
  moreover obtain svc where "NewServiceReconciler G (RoleGroupServiceName G info) True None masterServicePorts
      (GetLabels G info) (GetAnnotations G info) = Done svc"
    using NewServiceReconciler_returns [OF service_tables_ok(1)] ..
  moreover obtain c where "roleContainer G a MasterContainerName info (Some spec) masterPorts masterEnvs
      MasterActualPort = Done c" by (simp add: roleContainer_eq)
  moreover obtain w where "CreateStatefulSetReconciler G c (rb_image a) replicas (rb_clusterOperation a)
      info ov (Some spec) [] = Done w"
    using CreateStatefulSetReconciler_returns [OF r(1,2)] ..
  ultimately show ?thesis using assms(2) by (auto simp: Master_ResourceReconcilers_def masterContainer_chain)
qed

lemma Worker_returns:
  assumes "plain_group cr spec"
  shows "\<exists>rs. Worker_ResourceReconcilers G C cr a replicas info ov (Some spec) = Done rs"
proof -
  obtain r where r: "rgc_Resources spec = Some r" "full_resources r"
    using assms(1) by (auto simp: plain_group_def)
  obtain cm where "NewConfigMapReconciler G C cr info WorkerContainerName ov (Some spec) = Done cm"
    using plain_config_map [OF assms(1)] ..
  moreover obtain svc where "NewServiceReconciler G (RoleGroupServiceName G info) True None workerServicePorts
      (GetLabels G info) (GetAnnotations G info) = Done svc"
    using NewServiceReconciler_returns [OF service_tables_ok(2)] ..
  moreover obtain c where "roleContainer G a WorkerContainerName info (Some spec) workerPorts workerEnvs
      WorkerActualPort = Done c" by (simp add: roleContainer_eq)
  moreover obtain w where "CreateStatefulSetReconciler G c (rb_image a) replicas (rb_clusterOperation a)
      info ov (Some spec) WorkerDataVolumeName = Done w"
    using CreateStatefulSetReconciler_returns [OF r(1,2)] ..
  ultimately show ?thesis by (auto simp: Worker_ResourceReconcilers_def workerContainer_chain)
qed

lemma Alerter_returns:
  assumes "plain_group cr spec"
  shows "\<exists>rs. Alerter_ResourceReconcilers G C cr a replicas info ov (Some spec) = Done rs"
proof -
  obtain cm where "NewConfigMapReconciler G C cr info AlerterContainerName ov (Some spec) = Done cm"
    using plain_config_map [OF assms] ..
  moreover obtain svc where "NewServiceReconciler G (RoleGroupServiceName G info) False None
      alerterServicePorts (GetLabels G info) (GetAnnotations G info) = Done svc"
    using NewServiceReconciler_returns [OF service_tables_ok(3)] ..
  ultimately show ?thesis by (simp add: Alerter_ResourceReconcilers_def alerterContainer_chain roleContainer_eq)
qed

lemma Api_returns:
  assumes "plain_group cr spec" and "rb_authenticationSpec a = None"
  shows "\<exists>rs. Api_ResourceReconcilers G C cr a replicas info ov (Some spec) = Done rs \<and> rs \<noteq> []"
proof -
  obtain cm where "NewConfigMapReconciler G C cr info ApiContainerName ov (Some spec) = Done cm"
    using plain_config_map [OF assms(1)] ..
  moreover obtain svc where "NewServiceReconciler G (RoleGroupServiceName G info) False None
      apiServicePorts (GetLabels G info) (GetAnnotations G info) = Done svc"
    using NewServiceReconciler_returns [OF service_tables_ok(4)] ..
  ultimately show ?thesis
    using assms(2) by (simp add: Api_ResourceReconcilers_def apiContainer_chain authentication_def roleContainer_eq)
qed

lemma returns_nonempty:
  "role_shape role rs \<Longrightarrow> rs \<noteq> []"
  by (auto simp: role_shape_def)

text \<open>The merge of a role group succeeds and yields no logging settings.\<close>

definition mergeable :: "mergeApi \<Rightarrow> roleSpec \<Rightarrow> roleGroupSpec \<Rightarrow> bool" where
  "mergeable M spec rg \<longleftrightarrow>
     (\<exists>mc mo. MergeConfig M (role_Config spec) (rg_Config rg) = (mc, None) \<and>
        MergeOverrides M (role_OverridesSpec spec) (rg_OverridesSpec rg) = (mo, None) \<and>
        (\<forall>s. Option.bind mc cfg_RoleGroupConfigSpec = Some s \<longrightarrow> rgc_Logging s = None))"

lemma merged_plain:
  assumes "cr_s3 cr = None" and "full_resources d"
    and "\<forall>s. Option.bind mc cfg_RoleGroupConfigSpec = Some s \<longrightarrow> rgc_Logging s = None"
  shows "plain_group cr (mergedConfig (cfg_RoleGroupConfigSpec (orZero \<lparr>cfg_RoleGroupConfigSpec = None\<rparr> mc)) d raw)"
proof -
  let ?u = "cfg_RoleGroupConfigSpec (orZero \<lparr>cfg_RoleGroupConfigSpec = None\<rparr> mc)"
  have "rgc_Logging (mergedConfig ?u d raw) = None"
    using assms(3)
    by (cases mc; cases ?u) (auto simp: mergedConfig_def zeroRoleGroupConfigSpec_def orZero_def Let_def)
  moreover have "\<exists>r. rgc_Resources (mergedConfig ?u d raw) = Some r \<and> full_resources r"
    using mergedResources_full [OF assms(2)] by (simp add: mergedConfig_def Let_def)
  ultimately show ?thesis using assms(1) by (simp add: plain_group_def)
qed

text \<open>
  A builder that accepts plain role groups, under a condition of its own (\<open>ready\<close>): a role with such
  a builder registers a workload for every one of its groups.
\<close>

locale total_role_builder = role_builder +
  fixes cr :: dolphinschedulerCluster and ready :: bool
  assumes accepts: "ready \<Longrightarrow> plain_group cr spec \<Longrightarrow>
    \<exists>rs. build replicas info (Some ov) (Some spec) = Done rs \<and> rs \<noteq> []"
begin

lemma group_workload:
  assumes "ready" and "cr_s3 cr = None" and "rr_Builder r = build"
    and "known_role (ri_RoleName (rr_RoleInfo r))" and "mergeable M (rr_Spec r) rg"
    and "MarshalAffinity G (defaultAffinity G (ri_RoleName (rr_RoleInfo r)) (GetOwnerName C)) = (raw, None)"
  shows "\<exists>xs. group_resources G C M r (name, rg) = Some xs \<and>
    has_workload G (group_info r name) (rg_Replicas rg) xs"
proof -
  obtain mc mo where mc: "MergeConfig M (role_Config (rr_Spec r)) (rg_Config rg) = (mc, None)"
    and mo: "MergeOverrides M (role_OverridesSpec (rr_Spec r)) (rg_OverridesSpec rg) = (mo, None)"
    and log: "\<forall>s. Option.bind mc cfg_RoleGroupConfigSpec = Some s \<longrightarrow> rgc_Logging s = None"
    using assms(5) by (auto simp: mergeable_def)
  have "\<exists>rs. group_builds G C M r name rg rs \<and> has_workload G (group_info r name) (rg_Replicas rg) rs"
  proof (rule group_builds_known [OF assms(4,6) mc mo])
    fix ov d
    assume "full_resources d"
    then show "\<exists>rs. rr_Builder r (rg_Replicas rg) (group_info r name) (Some ov)
        (Some (mergedConfig (cfg_RoleGroupConfigSpec (orZero \<lparr>cfg_RoleGroupConfigSpec = None\<rparr> mc)) d raw)) =
      Done rs \<and> has_workload G (group_info r name) (rg_Replicas rg) rs"
      using accepts [OF assms(1) merged_plain [OF assms(2) _ log]] workload assms(3) by metis
  qed
  then obtain rs where "group_resources G C M r (name, rg) =
      Some (rs @ metrics_resources G (group_info r name))"
    and "has_workload G (group_info r name) (rg_Replicas rg) rs"
    by (auto simp: group_resources_iff)
  then show ?thesis by (auto simp: has_workload_def)
qed

lemma registers:
  assumes "ready" and "cr_s3 cr = None" and "rr_Builder r = build"
    and "known_role (ri_RoleName (rr_RoleInfo r))"
    and "list_all (mergeable M (rr_Spec r) \<circ> snd) (role_RoleGroups (rr_Spec r))"
    and "MarshalAffinity G (defaultAffinity G (ri_RoleName (rr_RoleInfo r)) (GetOwnerName C)) = (raw, None)"
  shows "\<exists>xs. RegisterResources G C M r = Done (None, r\<lparr>rr_Resources := xs\<rparr>) \<and>
    list_all (\<lambda>(name, rg). has_workload G (group_info r name) (rg_Replicas rg) xs)
      (role_RoleGroups (rr_Spec r))"
proof -
  have each: "\<exists>xs. group_resources G C M r (name, rg) = Some xs \<and>
      has_workload G (group_info r name) (rg_Replicas rg) xs"
    if "(name, rg) \<in> set (role_RoleGroups (rr_Spec r))" for name rg
    using that assms(5) by (intro group_workload [OF assms(1-4) _ assms(6)]) (auto simp: list_all_iff)
  let ?xs = "rr_Resources r @ concat (map (the \<circ> group_resources G C M r) (role_RoleGroups (rr_Spec r)))"
  have "list_all (\<lambda>g. group_resources G C M r g \<noteq> None) (role_RoleGroups (rr_Spec r))"
    using each by (fastforce simp: list_all_iff)
  moreover have "has_workload G (group_info r name) (rg_Replicas rg) ?xs"
    if "(name, rg) \<in> set (role_RoleGroups (rr_Spec r))" for name rg
    using each [OF that] that by (fastforce simp: has_workload_def)
  ultimately show ?thesis
    by (intro exI [of _ ?xs]) (auto simp: RegisterResources_def registerGroups_ok_iff list_all_iff)
qed

end

interpretation master: total_role_builder G C "Master_ResourceReconcilers G C cr a" cr
    "\<exists>db. cr_database cr = Some db \<and> well_formed_conn (db_ConnectionString db)" for G C cr a
proof
  fix spec replicas info ov
  assume "\<exists>db. cr_database cr = Some db \<and> well_formed_conn (db_ConnectionString db)" and "plain_group cr spec"
  then have "\<exists>rs. Master_ResourceReconcilers G C cr a replicas info (Some ov) (Some spec) = Done rs"
    by (auto intro!: Master_returns NewEnvConfigMapReconciler_returns)
  then show "\<exists>rs. Master_ResourceReconcilers G C cr a replicas info (Some ov) (Some spec) = Done rs \<and> rs \<noteq> []"
    by (auto dest: returns_nonempty [OF Master_shape])
qed

interpretation worker: total_role_builder G C "Worker_ResourceReconcilers G C cr a" cr True for G C cr a
  by unfold_locales (auto dest!: Worker_returns dest: returns_nonempty [OF Worker_shape])

interpretation alerter: total_role_builder G C "Alerter_ResourceReconcilers G C cr a" cr True for G C cr a
  by unfold_locales (auto dest!: Alerter_returns dest: returns_nonempty [OF Alerter_shape])

interpretation api: total_role_builder G C "Api_ResourceReconcilers G C cr a" cr
    "rb_authenticationSpec a = None" for G C cr a
  by unfold_locales (rule Api_returns)

section \<open>Properties of the roles\<close>

definition plain_spec :: roleGroupConfigSpec where
  "plain_spec = zeroRoleGroupConfigSpec\<lparr>rgc_Resources := Some \<lparr>
     res_CPU = Some \<lparr>cpu_Min = Quantity ''1'', cpu_Max = Quantity ''2''\<rparr>,
     res_Memory = Some (Quantity ''1Gi''), res_Storage = Some (Quantity ''1Gi'')\<rparr>\<rparr>"

definition example_apier :: apierRoleResourceReconcilerBuilder where
  "example_apier = \<lparr>rb_clusterOperation = None, rb_image = example_image, rb_zkConfigMapName = ''znode'',
     rb_authenticationSpec = None\<rparr>"

lemma plain_example: "plain_group example_cr plain_spec"
  by (simp add: plain_group_def plain_spec_def zeroRoleGroupConfigSpec_def full_resources_def cr_s3_def
      example_cr_def example_cluster_config_def)

lemma example_api_builds:
  obtains rs where "role_build example_opgo db_client example_cr example_apier Api (Some 1) example_info None
      (Some plain_spec) = Done rs" and "rs \<noteq> []"
proof -
  have "rb_authenticationSpec example_apier = None" by (simp add: example_apier_def)
  from Api_returns [OF plain_example this, of example_opgo db_client "Some 1" example_info None] that
  show thesis by (auto simp: role_build_def role_names)
qed

theorem role_service_matches_container_witness:
  "\<exists>rs w s c p. role_build example_opgo db_client example_cr example_apier Api (Some 1) example_info None
      (Some plain_spec) = Done rs \<and>
    filter is_workload rs = [WorkloadResource w] \<and> filter is_service rs = [ServiceResource (Some s)] \<and>
    workload_containers w = [c] \<and> container_ports c = service_ports s \<and>
    GetMetricsPort Api = (p, None) \<and> p \<in> snd ` set (service_ports s)"
proof -
  have known: "known_role Api" by (simp add: known_role_def)
  obtain rs where rs: "role_build example_opgo db_client example_cr example_apier Api (Some 1)
      example_info None (Some plain_spec) = Done rs" "rs \<noteq> []"
    by (rule example_api_builds)
  from role_service_matches_container [OF known rs] rs(1) show ?thesis by blast
qed

theorem role_ports_well_formed_witness:
  "\<exists>rs w s. role_build example_opgo db_client example_cr example_apier Api (Some 1) example_info None
      (Some plain_spec) = Done rs \<and>
    WorkloadResource w \<in> set rs \<and> ServiceResource (Some s) \<in> set rs \<and>
    valid_ports (service_ports s) \<and> list_all (valid_ports \<circ> container_ports) (workload_containers w)"
proof -
  have known: "known_role Api" by (simp add: known_role_def)
  obtain rs where rs: "role_build example_opgo db_client example_cr example_apier Api (Some 1)
      example_info None (Some plain_spec) = Done rs" "rs \<noteq> []"
    by (rule example_api_builds)
  from role_ports_well_formed [OF known rs] rs(1) show ?thesis by blast
qed

lemma Api_authentication_error:
  assumes "plain_group cr spec" and "rb_authenticationSpec a = Some specs"
    and "Authentication G C specs = Done (x, Some e)"
  shows "Api_ResourceReconcilers G C cr a replicas info overrides (Some spec) = Done []"
proof -
  obtain cm where "NewConfigMapReconciler G C cr info ApiContainerName overrides (Some spec) = Done cm"
    using plain_config_map [OF assms(1)] ..
  with assms(2,3) show ?thesis
    by (simp add: Api_ResourceReconcilers_def apiContainer_chain authentication_def roleContainer_eq)
qed

text \<open>
  C32. When the authentication of the API server cannot be configured, the registration of the API
  role still succeeds: \<open>RegisterResources\<close> returns no error, and all that it registers for the role
  groups are the metrics services it appends itself. There is no config map, no deployment and no
  service of the API server, so the metrics services select pods that never exist. The role groups
  are taken without S3 and logging settings, their merge is taken to succeed.
\<close>

theorem Api_authentication_error_is_silent:
  assumes "NewApierRole G C cr img (Some cc) op (Some spec) \<lparr>ri_ClusterInfo = info, ri_RoleName = Api\<rparr> = Done r"
    and "cc_Authentication cc = Some specs" and "Authentication G C specs = Done (x, Some e)"
    and "cr_s3 cr = None" and "list_all (mergeable M spec \<circ> snd) (role_RoleGroups spec)"
    and "MarshalAffinity G (defaultAffinity G Api (GetOwnerName C)) = (raw, None)"
  shows "\<exists>r'. RegisterResources G C M r = Done (None, r') \<and>
    rr_Resources r' = concat (map (\<lambda>(name, _). metrics_resources G (group_info r name)) (role_RoleGroups spec)) \<and>
    list_all (\<lambda>y. is_service y \<and> \<not> is_workload y) (rr_Resources r')"
proof -
  have r: "rr_Spec r = spec" "ri_RoleName (rr_RoleInfo r) = Api" "rr_Resources r = []"
    "rr_Builder r = Api_ResourceReconcilers G C cr \<lparr>rb_clusterOperation = op, rb_image = img,
      rb_zkConfigMapName = cc_ZookeeperConfigMapName cc, rb_authenticationSpec = Some specs\<rparr>"
    using assms(1,2) by (auto simp: NewApierRole_def NewRoleReconciler_def)
  have known: "known_role (ri_RoleName (rr_RoleInfo r))" by (simp add: r(2) known_role_def)
  have raw: "MarshalAffinity G (defaultAffinity G (ri_RoleName (rr_RoleInfo r)) (GetOwnerName C)) = (raw, None)"
    using assms(6) by (simp add: r(2))
  have "group_resources G C M r (name, rg) = Some (metrics_resources G (group_info r name))"
    if g: "(name, rg) \<in> set (role_RoleGroups spec)" for name rg
  proof -
    obtain mc mo where mc: "MergeConfig M (role_Config (rr_Spec r)) (rg_Config rg) = (mc, None)"
      and mo: "MergeOverrides M (role_OverridesSpec (rr_Spec r)) (rg_OverridesSpec rg) = (mo, None)"
      and log: "\<forall>s. Option.bind mc cfg_RoleGroupConfigSpec = Some s \<longrightarrow> rgc_Logging s = None"
      using assms(5) g by (auto simp: mergeable_def list_all_iff r(1))
    have "\<exists>rs. group_builds G C M r name rg rs \<and> rs = []"
    proof (rule group_builds_known [OF known raw mc mo])
      fix ov d
      assume "full_resources d"
      from Api_authentication_error [OF merged_plain [OF assms(4) this log] _ assms(3)]
      show "\<exists>rs. rr_Builder r (rg_Replicas rg) (group_info r name) (Some ov) (Some (mergedConfig
          (cfg_RoleGroupConfigSpec (orZero \<lparr>cfg_RoleGroupConfigSpec = None\<rparr> mc)) d raw)) = Done rs \<and> rs = []"
        by (simp add: r(4))
    qed
    then show ?thesis by (simp add: group_resources_iff)
  qed
  then have groups: "list_all (\<lambda>g. group_resources G C M r g \<noteq> None) (role_RoleGroups spec)"
    "map (the \<circ> group_resources G C M r) (role_RoleGroups spec) =
      map (\<lambda>(name, _). metrics_resources G (group_info r name)) (role_RoleGroups spec)"
    by (auto simp: list_all_iff)
  have "list_all (\<lambda>y. is_service y \<and> \<not> is_workload y) (metrics_resources G i)" for i
    by (simp add: metrics_resources_def split: option.split)
  then have "list_all (\<lambda>y. is_service y \<and> \<not> is_workload y)
      (concat (map (\<lambda>(name, _). metrics_resources G (group_info r name)) (role_RoleGroups spec)))"
    by (auto simp: list_all_iff)
  with groups(1) show ?thesis by (simp add: RegisterResources_def registerGroups_ok_iff r(1,3) groups(2))
qed

text \<open>An LDAP class without bind credentials.\<close>

definition unbound_client :: client where
  "unbound_client = no_auth_client\<lparr>GetAuthenticationClass := (\<lambda>_. (\<lparr>ac_AuthenticationProvider =
     Some \<lparr>ps_OIDC = None, ps_TLS = None, ps_Static = None,
           ps_LDAP = Some (example_ldap\<lparr>ldap_BindCredentials := None\<rparr>)\<rparr>\<rparr>, None))\<rparr>"

lemma unbound_ldap:
  "Authentication example_opgo unbound_client [\<lparr>as_AuthenticationClass = ''ldap'', as_Oidc = None\<rparr>] =
   Done (zeroAuthenticationResult, Some (ErrNew ''ldap provider or bind credentials cannot be nil''))"
  by (simp add: Authentication_def resolveAuthentications_def resolveAuthenticationClass_def
      unbound_client_def getAuthenticationProvider_def NewLdapProvider_def supported_types
      createAuthenticationConfig_def providerLDAP_def NewLDAPAuthenticationConfigGenerator_def
      case_prod_beta Let_def)

definition ldap_cluster_config :: clusterConfigSpec where
  "ldap_cluster_config = example_cluster_config\<lparr>cc_Authentication :=
     Some [\<lparr>as_AuthenticationClass = ''ldap'', as_Oidc = None\<rparr>]\<rparr>"

theorem Api_authentication_error_is_silent_witness:
  "\<exists>r r'. NewApierRole example_opgo unbound_client example_cr example_image (Some ldap_cluster_config) None
      (Some example_role) \<lparr>ri_ClusterInfo = ri_ClusterInfo (rgi_RoleInfo example_info), ri_RoleName = Api\<rparr> = Done r \<and>
    RegisterResources example_opgo unbound_client example_merge r = Done (None, r') \<and>
    map resource_name (rr_Resources r') = [Some ''ds-api-default-metrics'']"
proof -
  let ?info = "ri_ClusterInfo (rgi_RoleInfo example_info)"
  obtain r where r: "NewApierRole example_opgo unbound_client example_cr example_image (Some ldap_cluster_config)
      None (Some example_role) \<lparr>ri_ClusterInfo = ?info, ri_RoleName = Api\<rparr> = Done r"
    by (simp add: NewApierRole_def)
  have auth: "cc_Authentication ldap_cluster_config = Some [\<lparr>as_AuthenticationClass = ''ldap'', as_Oidc = None\<rparr>]"
    by (simp add: ldap_cluster_config_def)
  have s3: "cr_s3 example_cr = None" using plain_example by (simp add: plain_group_def)
  have groups: "list_all (mergeable example_merge example_role \<circ> snd) (role_RoleGroups example_role)"
    by (simp add: example_role_def mergeable_def example_merge_def)
  have "MarshalAffinity example_opgo (defaultAffinity example_opgo Api (GetOwnerName unbound_client)) = (''{}'', None)"
    by (simp add: example_opgo_def)
  from Api_authentication_error_is_silent [OF r auth unbound_ldap s3 groups this]
  obtain r' where r': "RegisterResources example_opgo unbound_client example_merge r = Done (None, r')"
    and res: "rr_Resources r' = concat (map (\<lambda>(name, _). metrics_resources example_opgo (group_info r name))
      (role_RoleGroups example_role))"
    by (elim exE conjE) (rule that)
  have "rr_RoleInfo r = \<lparr>ri_ClusterInfo = ?info, ri_RoleName = Api\<rparr>"
    using r by (auto simp: NewApierRole_def NewRoleReconciler_def)
  then have "map resource_name (rr_Resources r') = [Some ''ds-api-default-metrics'']"
    by (simp add: res example_role_def metrics_resources_def group_info_def NewRoleGroupMetricsService_def
        GetMetricsPort_def CreateServiceMetricsName_def example_opgo_def example_info_def role_names const_simps
        Let_def)
  note facts = r r' this
  show ?thesis by (rule exI [of _ r], rule exI [of _ r']) (intro conjI facts)
qed

text \<open>
  C31. With LDAP the script of the API server exports the bind credentials and then runs the start
  sequence twice, because \<open>CommonCommandArgs\<close> is called twice and \<open>apiServerCommandArgs\<close> uses the
  accumulated arguments; the credentials volume is mounted, but not read-only as its definition
  asks for.
\<close>

theorem Api_ldap_script:
  assumes "apiContainer G a info rgc = Done c"
    and "rb_authenticationSpec a = Some specs"
    and "Authentication G C specs = Done (r, None)"
    and "ar_LdapVolume r = Some vol" and "ar_LdapVolumeMount r = Some mount"
  shows "\<exists>c'. authentication G C a c = Done (([vol], None), c') \<and>
    cb_argsScript c' = strings_Join (ExtractLdapCredintialsAndExportCommand G #
      commandArgs G info @ commandArgs G info) newline \<and>
    last (cb_volumeMounts c') = \<lparr>vm_Name = vol_Name vol, vm_MountPath = vm_MountPath mount,
      vm_SubPath = [], vm_ReadOnly = False\<rparr>"
  using assms
  by (auto simp: authentication_def apiContainer_chain roleContainer_eq WithEnvs_eq WithVolumeMounts_single
      fold_WithSecretEnvFrom ResetCommandArgs_def apiServerCommandArgs_def GetCommandArgs_def Let_def)

theorem Api_ldap_script_witness:
  "\<exists>c c' vol. apiContainer example_opgo example_apier example_info None = Done c \<and>
    authentication example_opgo ldap_client (example_apier\<lparr>rb_authenticationSpec :=
      Some [\<lparr>as_AuthenticationClass = ''ldap'', as_Oidc = None\<rparr>]\<rparr>) c = Done (([vol], None), c') \<and>
    cb_argsScript c' = strings_Join (ExtractLdapCredintialsAndExportCommand example_opgo #
      commandArgs example_opgo example_info @ commandArgs example_opgo example_info) newline"
proof -
  let ?a = "example_apier\<lparr>rb_authenticationSpec := Some [\<lparr>as_AuthenticationClass = ''ldap'', as_Oidc = None\<rparr>]\<rparr>"
  obtain r where r: "Authentication example_opgo ldap_client
      [\<lparr>as_AuthenticationClass = ''ldap'', as_Oidc = None\<rparr>] = Done (r, None)"
    and "ar_LdapVolume r \<noteq> None" "ar_LdapVolumeMount r \<noteq> None"
    using ldap_client_Authentication_volume by (elim exE conjE)
  then obtain vol mount where vol: "ar_LdapVolume r = Some vol" "ar_LdapVolumeMount r = Some mount"
    by auto
  obtain c where c: "apiContainer example_opgo ?a example_info None = Done c" by (simp add: apiContainer_chain roleContainer_eq)
  obtain c' where c': "authentication example_opgo ldap_client ?a c = Done (([vol], None), c')"
    "cb_argsScript c' = strings_Join (ExtractLdapCredintialsAndExportCommand example_opgo #
      commandArgs example_opgo example_info @ commandArgs example_opgo example_info) newline"
    using Api_ldap_script [OF c _ r vol] by auto
  have "apiContainer example_opgo example_apier example_info None = Done c"
    using c by (simp add: apiContainer_chain roleContainer_eq)
  note facts = this c'
  show ?thesis by (rule exI [of _ c], rule exI [of _ c'], rule exI [of _ vol]) (intro conjI facts)
qed

end
