(* ===== verification/Cluster.thy ===== *)
theory Cluster
  imports Role_Builders
begin

text \<open>
  \<open>internal/controller/cluster\<close>: the image of the cluster, its RBAC objects, the job that
  initialises the database, and the registration of all resources of a custom resource. Like the
  other reconcilers, these are records of what is passed to operator-go's builders.
\<close>

section \<open>rbac.go\<close>

record serviceAccountProg =
  sa_Name :: string
  sa_Labels :: "string go_map"

record policyRule =
  pol_Verbs :: "string list"
  pol_APIGroups :: "string list"
  pol_Resources :: "string list"

record rbacRoleProg =
  rol_Name :: string
  rol_Labels :: "string go_map"
  rol_Rules :: "policyRule list"

record roleBindingProg =
  rbd_Name :: string
  rbd_Labels :: "string go_map"
  rbd_Subjects :: "string list"
  rbd_RoleRef :: string
  rbd_IsClusterRole :: bool

definition NewServiceAccountReconciler ::
  "string go_map \<Rightarrow> string go_map \<Rightarrow> serviceAccountProg" where
  "NewServiceAccountReconciler labels annotations =
     \<lparr>sa_Name = DefaultProductName, sa_Labels = labels\<rparr>"

definition NewRbacRoleReconciler :: "string go_map \<Rightarrow> string go_map \<Rightarrow> rbacRoleProg" where
  "NewRbacRoleReconciler labels annotations =
     \<lparr>rol_Name = DefaultProductName, rol_Labels = labels,
      rol_Rules = [\<lparr>pol_Verbs = [''get'', ''list'', ''watch''], pol_APIGroups = [''''],
                    pol_Resources = [''configmaps'']\<rparr>]\<rparr>"

definition NewRoleBindingReconciler :: "string go_map \<Rightarrow> string go_map \<Rightarrow> roleBindingProg" where
  "NewRoleBindingReconciler labels annotations =
     \<lparr>rbd_Name = DefaultProductName, rbd_Labels = labels, rbd_Subjects = [DefaultProductName],
      rbd_RoleRef = DefaultProductName, rbd_IsClusterRole = False\<rparr>"

section \<open>\<open>job_initscript.go\<close>\<close>

definition ContainerDbInitJob :: string where [const_simps]:
  "ContainerDbInitJob = ''dolphinscheduler-db-init-job''"
definition ContainerWaitForDb :: string where [const_simps]:
  "ContainerWaitForDb = ''wait-for-database''"

record jobProg =
  job_Name :: string
  job_Image :: image
  job_ClusterName :: string
  job_Labels :: "string go_map"
  job_Annotations :: "string go_map"
  job_RestartPolicy :: string
  job_InitContainers :: "container list"
  job_Containers :: "container list"
  job_SecurityContext :: "goint64 \<times> goint64 \<times> bool"

definition waitForDatabase :: "string \<Rightarrow> container go" where
  "waitForDatabase connectionString =
     go_bind (GetDatabaseHost connectionString) (\<lambda>(dbHost, _).
       Done (PlainContainer ContainerWaitForDb ''busybox:1.30.1''
         [''sh'', ''-xc'',
          ''for i in $(seq 1 180); do nc -z -w3 '' @ dbHost @
          '' 5432 && exit 0 || sleep 5; done; exit 1'']))"

definition initDatabase :: "opgo \<Rightarrow> string \<Rightarrow> image \<Rightarrow> clusterInfo \<Rightarrow> container" where
  "initDatabase G zookeeperConfigMapName img info =
     (let rolegroup = \<lparr>rgi_RoleInfo = \<lparr>ri_ClusterInfo = info, ri_RoleName = []\<rparr>,
                       rgi_RoleGroupName = []\<rparr>
      in fst (Build G (ResetCommandArgs
           ''chmod +x tools/bin/upgrade-schema.sh && tools/bin/upgrade-schema.sh''
           (ResetVolumeMounts
             (NewContainerBuilder G ContainerDbInitJob img zookeeperConfigMapName rolegroup None)))))"

definition NewJobInitScriptReconciler ::
  "opgo \<Rightarrow> client \<Rightarrow> image \<Rightarrow> clusterInfo \<Rightarrow> clusterConfigSpec option \<Rightarrow> jobProg go" where
  "NewJobInitScriptReconciler G C img info clusterConfigSpec =
     go_bind (go_deref clusterConfigSpec) (\<lambda>cc.
     go_bind (go_deref (cc_Database cc)) (\<lambda>db.
     go_bind (waitForDatabase (db_ConnectionString db)) (\<lambda>wait.
     Done \<lparr>job_Name = GetOwnerName C, job_Image = img, job_ClusterName = GetClusterName G info,
           job_Labels = ClusterGetLabels G info, job_Annotations = ClusterGetAnnotations G info,
           job_RestartPolicy = ''Never'', job_InitContainers = [wait],
           job_Containers = [initDatabase G (cc_ZookeeperConfigMapName cc) img info],
           job_SecurityContext = (1001, 1001, False)\<rparr>)))"

section \<open>cluster.go\<close>

datatype clusterResource =
    ServiceAccountResource serviceAccountProg
  | RbacRoleResource rbacRoleProg
  | RoleBindingResource roleBindingProg
  | JobResource jobProg
  | RoleResource roleReconciler

record clusterReconciler =
  cl_ClusterInfo :: clusterInfo
  cl_ClusterOperation :: "clusterOperationSpec option"
  cl_Spec :: dolphinschedulerClusterSpec
  cl_ClusterConfig :: "clusterConfigSpec option"
  cl_Resources :: "clusterResource list"

definition NewClusterReconciler ::
  "clusterInfo \<Rightarrow> dolphinschedulerClusterSpec \<Rightarrow> clusterReconciler" where
  "NewClusterReconciler info spec =
     \<lparr>cl_ClusterInfo = info, cl_ClusterOperation = spec_ClusterOperationSpec spec, cl_Spec = spec,
      cl_ClusterConfig = spec_ClusterConfig spec, cl_Resources = []\<rparr>"

text \<open>\<open>version.BuildVersion\<close> is set when the operator is linked: the argument \<open>buildVersion\<close>.\<close>

definition Cluster_GetImage :: "opgo \<Rightarrow> string \<Rightarrow> clusterReconciler \<Rightarrow> image go" where
  "Cluster_GetImage G buildVersion r =
     go_bind (go_deref (spec_Image (cl_Spec r))) (\<lambda>spec.
     let productVersion = (if img_ProductVersion spec \<noteq> [] then img_ProductVersion spec
                           else DefaultProductVersion) in
     go_bind (go_deref (img_PullPolicy spec)) (\<lambda>pullPolicy.
     let img = NewImage G DefaultProductName buildVersion productVersion
                 \<lparr>io_Custom = img_Custom spec, io_Repo = img_Repo spec, io_PullPolicy = pullPolicy\<rparr>
     in Done (if img_KubedoopVersion spec \<noteq> []
              then img\<lparr>im_KubedoopVersion := img_KubedoopVersion spec\<rparr> else img)))"

definition cluster_AddResource :: "clusterResource \<Rightarrow> clusterReconciler \<Rightarrow> clusterReconciler" where
  "cluster_AddResource x r = r\<lparr>cl_Resources := cl_Resources r @ [x]\<rparr>"

text \<open>
  The four roles are registered one after the other; the first error ends the registration before
  any role is added to the cluster.
\<close>

fun registerRoles ::
  "opgo \<Rightarrow> client \<Rightarrow> mergeApi \<Rightarrow> roleReconciler list \<Rightarrow> (go_error option \<times> roleReconciler list) go" where
  "registerRoles G C M [] = Done (None, [])"
| "registerRoles G C M (role # roles) =
     go_bind (RegisterResources G C M role) (\<lambda>(err, role').
     case err of
       Some e \<Rightarrow> Done (Some e, role' # roles)
     | None \<Rightarrow> go_bind (registerRoles G C M roles) (\<lambda>(err, roles'). Done (err, role' # roles')))"

definition Cluster_RegisterResources ::
  "opgo \<Rightarrow> client \<Rightarrow> mergeApi \<Rightarrow> string \<Rightarrow> dolphinschedulerCluster \<Rightarrow> clusterReconciler \<Rightarrow>
   (go_error option \<times> clusterReconciler) go" where
  "Cluster_RegisterResources G C M buildVersion cr r =
     (let clusterLabels = ClusterGetLabels G (cl_ClusterInfo r);
          annotations = ClusterGetAnnotations G (cl_ClusterInfo r);
          r1 = fold cluster_AddResource
                 [ServiceAccountResource (NewServiceAccountReconciler clusterLabels annotations),
                  RbacRoleResource (NewRbacRoleReconciler clusterLabels annotations),
                  RoleBindingResource (NewRoleBindingReconciler clusterLabels annotations)] r;
          getImage = Cluster_GetImage G buildVersion r;
          config = cl_ClusterConfig r; op = cl_ClusterOperation r; spec = cl_Spec r;
          roleInfo = (\<lambda>role. \<lparr>ri_ClusterInfo = cl_ClusterInfo r, ri_RoleName = role\<rparr>)
      in
      go_bind getImage (\<lambda>img.
      go_bind (NewJobInitScriptReconciler G C img (cl_ClusterInfo r) config) (\<lambda>job.
      let r2 = cluster_AddResource (JobResource job) r1 in
      go_bind getImage (\<lambda>img.
      go_bind (NewMasterRole G C cr img config op (spec_Master spec) (roleInfo Master)) (\<lambda>master.
      go_bind getImage (\<lambda>img.
      go_bind (NewAlerterRole G C cr img config op (spec_Alerter spec) (roleInfo Alerter)) (\<lambda>alerter.
      go_bind getImage (\<lambda>img.
      go_bind (NewApierRole G C cr img config op (spec_Api spec) (roleInfo Api)) (\<lambda>api.
      go_bind getImage (\<lambda>img.
      go_bind (NewWorkerRole G C cr img config op (spec_Worker spec) (roleInfo Worker)) (\<lambda>worker.
      go_bind (registerRoles G C M [master, alerter, api, worker]) (\<lambda>(err, roles).
      case err of
        Some e \<Rightarrow> Done (Some e, r2)
      | None \<Rightarrow> Done (None, fold (\<lambda>role. cluster_AddResource (RoleResource role)) roles r2)))))))))))))"

section \<open>The image\<close>

text \<open>
  When the image of the cluster is defined: \<open>GetImage\<close> panics exactly on a custom resource
  without image or without pull policy.
\<close>

theorem Cluster_GetImage_returns_iff:
  "returns (Cluster_GetImage G buildVersion r) \<longleftrightarrow>
   (case spec_Image (cl_Spec r) of None \<Rightarrow> False | Some spec \<Rightarrow> img_PullPolicy spec \<noteq> None)"
  by (cases "spec_Image (cl_Spec r)"; cases "img_PullPolicy (the (spec_Image (cl_Spec r)))")
    (simp_all add: Cluster_GetImage_def Let_def)

section \<open>The whole cluster is registered\<close>

definition cluster_roles :: "dolphinschedulerClusterSpec \<Rightarrow> (role \<times> roleSpec option) list" where
  "cluster_roles spec = [(Master, spec_Master spec), (Alerter, spec_Alerter spec),
     (Api, spec_Api spec), (Worker, spec_Worker spec)]"

text \<open>A custom resource with everything the operator dereferences, and without optional parts.\<close>

definition deployable :: "mergeApi \<Rightarrow> dolphinschedulerCluster \<Rightarrow> bool" where
  "deployable M cr \<longleftrightarrow>
     (\<exists>img. spec_Image (dc_Spec cr) = Some img \<and> img_PullPolicy img \<noteq> None) \<and>
     (\<exists>cc db. spec_ClusterConfig (dc_Spec cr) = Some cc \<and> cc_S3 cc = None \<and>
        cc_Authentication cc = None \<and> cc_Database cc = Some db \<and>
        well_formed_conn (db_ConnectionString db)) \<and>
     list_all (\<lambda>(_, s). \<exists>spec. s = Some spec \<and>
        list_all (mergeable M spec \<circ> snd) (role_RoleGroups spec)) (cluster_roles (dc_Spec cr))"

definition role_of :: "clusterInfo \<Rightarrow> role \<Rightarrow> string \<Rightarrow> roleGroupInfo" where
  "role_of info role name =
     \<lparr>rgi_RoleInfo = \<lparr>ri_ClusterInfo = info, ri_RoleName = role\<rparr>, rgi_RoleGroupName = name\<rparr>"

text \<open>A registered role: it has a workload for each of its groups.\<close>

definition complete_role :: "opgo \<Rightarrow> clusterInfo \<Rightarrow> role \<times> roleSpec option \<Rightarrow> roleReconciler \<Rightarrow> bool" where
  "complete_role G info rs x \<longleftrightarrow>
     (\<exists>spec. snd rs = Some spec \<and> ri_RoleName (rr_RoleInfo x) = fst rs \<and>
        list_all (\<lambda>(name, rg). has_workload G (role_of info (fst rs) name) (rg_Replicas rg) (rr_Resources x))
          (role_RoleGroups spec))"

lemma waitForDatabase_returns: "well_formed_conn s \<Longrightarrow> \<exists>c. waitForDatabase s = Done c"
  by (auto simp: well_formed_conn_def waitForDatabase_def GetDatabaseHost_conn)

lemma registerRoles_Cons:
  assumes "RegisterResources G C M r = Done (None, r')" and "registerRoles G C M rs = Done (None, rs')"
  shows "registerRoles G C M (r # rs) = Done (None, r' # rs')"
  using assms by simp

lemma NewRoleReconciler_fields [simp]:
  "rr_Spec (NewRoleReconciler info op cc img spec b) = spec"
  "rr_RoleInfo (NewRoleReconciler info op cc img spec b) = info"
  "rr_Builder (NewRoleReconciler info op cc img spec b) = b"
  by (simp_all add: NewRoleReconciler_def)

text \<open>One registration per role, from the contract of its builder.\<close>

context total_role_builder
begin

lemma complete:
  assumes "ready" and "cr_s3 cr = None" and "known_role role"
    and "list_all (mergeable M spec \<circ> snd) (role_RoleGroups spec)"
    and "snd (MarshalAffinity G (defaultAffinity G role (GetOwnerName C))) = None"
  shows "\<exists>r'. RegisterResources G C M
      (NewRoleReconciler \<lparr>ri_ClusterInfo = info, ri_RoleName = role\<rparr> op cc img spec build) =
      Done (None, r') \<and> complete_role G info (role, Some spec) r'"
proof -
  let ?r = "NewRoleReconciler \<lparr>ri_ClusterInfo = info, ri_RoleName = role\<rparr> op cc img spec build"
  obtain raw where "MarshalAffinity G (defaultAffinity G role (GetOwnerName C)) = (raw, None)"
    using assms(5) by (metis prod.collapse)
  then have "\<exists>xs. RegisterResources G C M ?r = Done (None, ?r\<lparr>rr_Resources := xs\<rparr>) \<and>
      list_all (\<lambda>(name, rg). has_workload G (group_info ?r name) (rg_Replicas rg) xs) (role_RoleGroups spec)"
    using registers [of ?r M raw] assms(1-4) by simp
  moreover have "group_info ?r name = role_of info role name" for name
    by (simp add: group_info_def role_of_def)
  ultimately show ?thesis by (auto simp: complete_role_def)
qed

end

lemma roles_registered:
  fixes info :: clusterInfo and op :: "clusterOperationSpec option" and cc :: "clusterConfigSpec option"
    and img :: image
  assumes db: "\<exists>db. cr_database cr = Some db \<and> well_formed_conn (db_ConnectionString db)"
    and s3: "cr_s3 cr = None" and auth: "rb_authenticationSpec ab = None"
    and groups: "list_all (mergeable M ma \<circ> snd) (role_RoleGroups ma)"
      "list_all (mergeable M al \<circ> snd) (role_RoleGroups al)"
      "list_all (mergeable M ap \<circ> snd) (role_RoleGroups ap)"
      "list_all (mergeable M wo \<circ> snd) (role_RoleGroups wo)"
    and affinity: "\<And>role. snd (MarshalAffinity G (defaultAffinity G role (GetOwnerName C))) = None"
  defines "reconciler \<equiv> \<lambda>role spec build. NewRoleReconciler
      \<lparr>ri_ClusterInfo = info, ri_RoleName = role\<rparr> op cc img spec build"
  shows "\<exists>roles. registerRoles G C M
      [reconciler Master ma (Master_ResourceReconcilers G C cr b),
       reconciler Alerter al (Alerter_ResourceReconcilers G C cr b),
       reconciler Api ap (Api_ResourceReconcilers G C cr ab),
       reconciler Worker wo (Worker_ResourceReconcilers G C cr b)] = Done (None, roles) \<and>
    list_all2 (complete_role G info)
      [(Master, Some ma), (Alerter, Some al), (Api, Some ap), (Worker, Some wo)] roles"
proof -
  have known: "known_role Master" "known_role Alerter" "known_role Api" "known_role Worker"
    by (simp_all add: known_role_def)
  obtain ma' where ma': "RegisterResources G C M (reconciler Master ma (Master_ResourceReconcilers G C cr b)) =
      Done (None, ma')" "complete_role G info (Master, Some ma) ma'"
    unfolding reconciler_def using master.complete [OF db s3 known(1) groups(1) affinity] by blast
  obtain al' where al': "RegisterResources G C M (reconciler Alerter al (Alerter_ResourceReconcilers G C cr b)) =
      Done (None, al')" "complete_role G info (Alerter, Some al) al'"
    unfolding reconciler_def using alerter.complete [OF TrueI s3 known(2) groups(2) affinity] by blast
  obtain ap' where ap': "RegisterResources G C M (reconciler Api ap (Api_ResourceReconcilers G C cr ab)) =
      Done (None, ap')" "complete_role G info (Api, Some ap) ap'"
    unfolding reconciler_def using api.complete [OF auth s3 known(3) groups(3) affinity] by blast
  obtain wo' where wo': "RegisterResources G C M (reconciler Worker wo (Worker_ResourceReconcilers G C cr b)) =
      Done (None, wo')" "complete_role G info (Worker, Some wo) wo'"
    unfolding reconciler_def using worker.complete [OF TrueI s3 known(4) groups(4) affinity] by blast
  show ?thesis
    by (rule exI [of _ "[ma', al', ap', wo']"]) (simp add: ma' al' ap' wo')
qed

text \<open>
  A complete custom resource is deployed completely: if image and pull policy, cluster
  configuration, a well-formed database URL and the four roles are given, without S3, logging and
  authentication settings, the registration neither panics nor fails. The cluster then has the
  service account, role and role binding, the database job, and the roles master, alerter, api and
  worker in this order, and every role group of the custom resource has a workload with its name
  and its replicas.
\<close>

lemma Cluster_registers_all:
  assumes cr: "deployable M cr"
    and affinity: "\<And>role. snd (MarshalAffinity G (defaultAffinity G role (GetOwnerName C))) = None"
  shows "\<exists>r' sa ro rb job roles.
    Cluster_RegisterResources G C M buildVersion cr (NewClusterReconciler info (dc_Spec cr)) = Done (None, r') \<and>
    cl_Resources r' = [ServiceAccountResource sa, RbacRoleResource ro, RoleBindingResource rb,
      JobResource job] @ map RoleResource roles \<and>
    list_all2 (complete_role G info) (cluster_roles (dc_Spec cr)) roles"
proof -
  let ?r = "NewClusterReconciler info (dc_Spec cr)" and ?s = "dc_Spec cr"
  obtain img where img: "Cluster_GetImage G buildVersion ?r = Done img"
    using cr by (auto simp: deployable_def Cluster_GetImage_def NewClusterReconciler_def Let_def)
  obtain cc db where cc: "spec_ClusterConfig ?s = Some cc" "cc_Database cc = Some db" "cc_S3 cc = None"
    "cc_Authentication cc = None" "well_formed_conn (db_ConnectionString db)"
    using cr by (auto simp: deployable_def)
  obtain job where job: "NewJobInitScriptReconciler G C img info (Some cc) = Done job"
    using waitForDatabase_returns [OF cc(5)] cc(2) by (auto simp: NewJobInitScriptReconciler_def)
  have s3: "cr_s3 cr = None" and db: "\<exists>db. cr_database cr = Some db \<and> well_formed_conn (db_ConnectionString db)"
    using cc by (simp_all add: cr_s3_def cr_database_def)
  obtain ma al ap wo where specs: "spec_Master ?s = Some ma" "spec_Alerter ?s = Some al" "spec_Api ?s = Some ap"
    "spec_Worker ?s = Some wo"
    and groups: "list_all (mergeable M ma \<circ> snd) (role_RoleGroups ma)"
      "list_all (mergeable M al \<circ> snd) (role_RoleGroups al)"
      "list_all (mergeable M ap \<circ> snd) (role_RoleGroups ap)"
      "list_all (mergeable M wo \<circ> snd) (role_RoleGroups wo)"
    using cr by (auto simp: deployable_def cluster_roles_def)
  let ?op = "spec_ClusterOperationSpec ?s" and ?zk = "cc_ZookeeperConfigMapName cc"
  have auth: "rb_authenticationSpec \<lparr>rb_clusterOperation = ?op, rb_image = img, rb_zkConfigMapName = ?zk,
      rb_authenticationSpec = None\<rparr> = None" by simp
  obtain roles where roles: "registerRoles G C M
      [NewRoleReconciler \<lparr>ri_ClusterInfo = info, ri_RoleName = Master\<rparr> ?op (Some cc) img ma
         (Master_ResourceReconcilers G C cr \<lparr>rb_clusterOperation = ?op, rb_image = img, rb_zkConfigMapName = ?zk\<rparr>),
       NewRoleReconciler \<lparr>ri_ClusterInfo = info, ri_RoleName = Alerter\<rparr> ?op (Some cc) img al
         (Alerter_ResourceReconcilers G C cr \<lparr>rb_clusterOperation = ?op, rb_image = img, rb_zkConfigMapName = ?zk\<rparr>),
       NewRoleReconciler \<lparr>ri_ClusterInfo = info, ri_RoleName = Api\<rparr> ?op (Some cc) img ap
         (Api_ResourceReconcilers G C cr \<lparr>rb_clusterOperation = ?op, rb_image = img, rb_zkConfigMapName = ?zk,
            rb_authenticationSpec = None\<rparr>),
       NewRoleReconciler \<lparr>ri_ClusterInfo = info, ri_RoleName = Worker\<rparr> ?op (Some cc) img wo
         (Worker_ResourceReconcilers G C cr \<lparr>rb_clusterOperation = ?op, rb_image = img, rb_zkConfigMapName = ?zk\<rparr>)] =
      Done (None, roles)"
    "list_all2 (complete_role G info) (cluster_roles ?s) roles"
    using roles_registered [OF db s3 auth groups affinity, where info = info and op = ?op and
        cc = "Some cc" and img = img and
        b = "\<lparr>rb_clusterOperation = ?op, rb_image = img, rb_zkConfigMapName = ?zk\<rparr>"]
    unfolding cluster_roles_def specs by blast
  have fold: "cl_Resources (fold (\<lambda>role. cluster_AddResource (RoleResource role)) xs r) =
      cl_Resources r @ map RoleResource xs" for xs r
    by (induction xs arbitrary: r) (simp_all add: cluster_AddResource_def)
  show ?thesis
    using img job specs cc(1,4) roles
    by (simp add: Cluster_RegisterResources_def NewClusterReconciler_def NewMasterRole_def fold
        NewAlerterRole_def NewApierRole_def NewWorkerRole_def cluster_AddResource_def Let_def
        del: registerRoles.simps) blast
qed

lemma example_deployable: "deployable example_merge example_cr"
proof -
  have "well_formed_conn (db_ConnectionString example_db)"
    unfolding well_formed_conn_def
    by (intro exI [of _ "''mysql''"] exI [of _ "''db''"] exI [of _ "''3306''"] exI [of _ "''ds''"]
        exI [of _ "''user=x''"] exI [of _ "''com.mysql.cj.jdbc.Driver''"] conjI example_db_parts)
  then show ?thesis
    by (simp add: deployable_def example_cr_def example_cluster_config_def cluster_roles_def example_role_def
        mergeable_def example_merge_def)
qed

section \<open>What a successful registration leaves\<close>

lemma registerRoles_Done:
  "registerRoles G C M rs = Done (None, rs') \<Longrightarrow>
   list_all2 (\<lambda>r r'. RegisterResources G C M r = Done (None, r')) rs rs'"
proof (induction rs arbitrary: rs')
  case (Cons r rs)
  then show ?case by (auto simp: go_bind_Done_iff split: option.splits)
qed simp

lemma fold_AddRole:
  "fold (\<lambda>role. cluster_AddResource (RoleResource role)) roles r =
   r\<lparr>cl_Resources := cl_Resources r @ map RoleResource roles\<rparr>"
  by (induction roles arbitrary: r) (simp_all add: cluster_AddResource_def)

lemma Cluster_RegisterResources_Done:
  assumes "Cluster_RegisterResources G C M buildVersion cr r = Done (None, r')"
  obtains img job master alerter api worker roles where
    "Cluster_GetImage G buildVersion r = Done img"
    and "NewJobInitScriptReconciler G C img (cl_ClusterInfo r) (cl_ClusterConfig r) = Done job"
    and "NewMasterRole G C cr img (cl_ClusterConfig r) (cl_ClusterOperation r) (spec_Master (cl_Spec r))
      \<lparr>ri_ClusterInfo = cl_ClusterInfo r, ri_RoleName = Master\<rparr> = Done master"
    and "NewAlerterRole G C cr img (cl_ClusterConfig r) (cl_ClusterOperation r) (spec_Alerter (cl_Spec r))
      \<lparr>ri_ClusterInfo = cl_ClusterInfo r, ri_RoleName = Alerter\<rparr> = Done alerter"
    and "NewApierRole G C cr img (cl_ClusterConfig r) (cl_ClusterOperation r) (spec_Api (cl_Spec r))
      \<lparr>ri_ClusterInfo = cl_ClusterInfo r, ri_RoleName = Api\<rparr> = Done api"
    and "NewWorkerRole G C cr img (cl_ClusterConfig r) (cl_ClusterOperation r) (spec_Worker (cl_Spec r))
      \<lparr>ri_ClusterInfo = cl_ClusterInfo r, ri_RoleName = Worker\<rparr> = Done worker"
    and "list_all2 (\<lambda>r r'. RegisterResources G C M r = Done (None, r')) [master, alerter, api, worker] roles"
    and "cl_Resources r' = cl_Resources r @
      [ServiceAccountResource (NewServiceAccountReconciler (ClusterGetLabels G (cl_ClusterInfo r))
         (ClusterGetAnnotations G (cl_ClusterInfo r))),
       RbacRoleResource (NewRbacRoleReconciler (ClusterGetLabels G (cl_ClusterInfo r))
         (ClusterGetAnnotations G (cl_ClusterInfo r))),
       RoleBindingResource (NewRoleBindingReconciler (ClusterGetLabels G (cl_ClusterInfo r))
         (ClusterGetAnnotations G (cl_ClusterInfo r))), JobResource job] @ map RoleResource roles"
proof -
  have adds: "cl_Resources (cluster_AddResource x q) = cl_Resources q @ [x]" for x q
    by (simp add: cluster_AddResource_def)
  from assms show thesis
    by (auto simp: Cluster_RegisterResources_def Let_def go_bind_Done_iff fold_AddRole adds
        split: option.splits simp del: registerRoles.simps
        dest!: registerRoles_Done intro!: that)
qed

section \<open>Identity\<close>

text \<open>
  C12. The pods run with the identity that the cluster registers: every deployment and every
  stateful set that is built names the service account of the registered binding, the binding
  grants the registered role and no cluster role, and that role permits reading config maps only.
\<close>

theorem workload_identity:
  assumes "DeploymentBuilder_Build G W b = Done ((Some obj, err), b') \<or>
    StatefulSetBuilder_Build G W b = Done ((Some obj, err), b')"
  shows "wo_ServiceAccountName obj = sa_Name (NewServiceAccountReconciler labels annotations) \<and>
    rbd_Subjects (NewRoleBindingReconciler labels annotations) = [wo_ServiceAccountName obj] \<and>
    rbd_RoleRef (NewRoleBindingReconciler labels annotations) =
      rol_Name (NewRbacRoleReconciler labels annotations) \<and>
    \<not> rbd_IsClusterRole (NewRoleBindingReconciler labels annotations) \<and>
    list_all (\<lambda>rule. pol_Resources rule = [''configmaps''] \<and> set (pol_Verbs rule) = {''get'', ''list'', ''watch''})
      (rol_Rules (NewRbacRoleReconciler labels annotations))"
  using assms deployment.service_account [of G W b obj err b'] statefulset.service_account [of G W b obj err b']
  by (auto simp: NewServiceAccountReconciler_def NewRoleBindingReconciler_def NewRbacRoleReconciler_def)

theorem workload_identity_witness:
  "\<exists>obj b'. DeploymentBuilder_Build example_opgo example_workloadApi
      (wr_Builder (NewDeploymentReconciler example_opgo False example_image (Some 1) example_info None
        (Some zeroRoleGroupConfigSpec) [] [])) = Done ((Some obj, None), b') \<and>
    wo_ServiceAccountName obj = sa_Name (NewServiceAccountReconciler [] [])"
proof -
  let ?b = "wr_Builder (NewDeploymentReconciler example_opgo False example_image (Some 1) example_info None
        (Some zeroRoleGroupConfigSpec) [] [])"
  have w: "wb_RoleGroupConfig (bw_Workload ?b) = Some zeroRoleGroupConfigSpec"
    by (simp add: NewDeploymentReconciler_def NewWorkloadBuilder_def Let_def)
  have z: "rgc_Affinity zeroRoleGroupConfigSpec = None" "rgc_Logging zeroRoleGroupConfigSpec = None"
    by (simp_all add: zeroRoleGroupConfigSpec_def)
  have "ExtractAffinity example_opgo (bw_Workload ?b) = (None, None)" "vector_enabled (bw_Workload ?b) = Done False"
    by (simp_all add: w z ExtractAffinity_def vector_enabled_def IsVectorEnable_def)
  then obtain obj b' where b: "DeploymentBuilder_Build example_opgo example_workloadApi ?b = Done ((Some obj, None), b')"
    by (simp add: DeploymentBuilder_Build_prepared prepareWorkload_def VectorDecorator_eq Let_def
        example_workloadApi_def)
  from workload_identity [OF disjI1 [OF b], of "[]" "[]"]
  have "wo_ServiceAccountName obj = sa_Name (NewServiceAccountReconciler [] [])" by (elim conjE)
  note facts = b this
  show ?thesis by (rule exI [of _ obj], rule exI [of _ b']) (intro conjI facts)
qed

section \<open>The database job\<close>

text \<open>
  The init container of the database job waits for the host of the connection string, but
  always on port 5432: the port of the connection string has no influence on it.
\<close>

theorem waitForDatabase_ignores_port:
  assumes "url_part t" "url_part h" "url_part p" "url_part n"
  shows "waitForDatabase (jdbc_conn t h p n q) =
    Done (PlainContainer ''wait-for-database'' ''busybox:1.30.1'' [''sh'', ''-xc'',
      ''for i in $(seq 1 180); do nc -z -w3 '' @ h @ '' 5432 && exit 0 || sleep 5; done; exit 1''])"
  by (simp add: waitForDatabase_def GetDatabaseHost_conn [OF assms] ContainerWaitForDb_def)

theorem waitForDatabase_ignores_port_witness:
  "waitForDatabase (jdbc_conn ''mysql'' ''db'' ''3306'' ''ds'' []) =
    Done (PlainContainer ''wait-for-database'' ''busybox:1.30.1'' [''sh'', ''-xc'',
      ''for i in $(seq 1 180); do nc -z -w3 '' @ ''db'' @ '' 5432 && exit 0 || sleep 5; done; exit 1''])"
  by (rule waitForDatabase_ignores_port) (simp_all add: url_part_def)

section \<open>The environment config map\<close>

fun envFrom_calls :: "container_call list \<Rightarrow> string list" where
  "envFrom_calls [] = []"
| "envFrom_calls (AddEnvFromConfigMap name # calls) = name # envFrom_calls calls"
| "envFrom_calls (_ # calls) = envFrom_calls calls"

fun container_envFrom :: "container \<Rightarrow> string list" where
  "container_envFrom (BuiltContainer bc) = envFrom_calls (bc_Calls bc)"
| "container_envFrom (PlainContainer _ _ _) = []"

lemma container_envFrom_Build:
  "bc_Calls (cb_Container c) = [] \<Longrightarrow> container_envFrom (fst (Build G c)) =
     [GetClusterName G (ri_ClusterInfo (rgi_RoleInfo (cb_RoleGroupInfo c))) @ ''-envs'']"
  by (simp add: Build_container build_calls_def split: option.split)

lemma initDatabase_envFrom:
  "container_envFrom (initDatabase G zk img ci) = [GetClusterName G ci @ ''-envs'']"
  by (simp add: initDatabase_def container_envFrom_Build ResetCommandArgs_def ResetVolumeMounts_def
      NewContainerBuilder_def Let_def)

text \<open>
  The database job and the servers read the same environment: where the cluster is named after
  the custom resource, the config map that the job's container takes its variables from is the one
  that a master role group registers.
\<close>

theorem init_job_environment:
  assumes "GetClusterName G (ri_ClusterInfo (rgi_RoleInfo info)) = GetOwnerName C"
    and "Master_ResourceReconcilers G C cr a replicas info overrides rgc = Done rs"
  shows "\<exists>cm. ConfigMapResource cm \<in> set rs \<and>
    container_envFrom (initDatabase G zk img (ri_ClusterInfo (rgi_RoleInfo info))) = [cm_Name cm]"
proof -
  obtain cm where cm: "NewEnvConfigMapReconciler G C cr overrides info = Done cm"
    "ConfigMapResource cm \<in> set rs"
    using assms(2) by (auto simp: Master_ResourceReconcilers_def masterContainer_chain go_bind_Done_iff)
  with assms(1) NewEnvConfigMapReconciler_name [OF cm(1)] show ?thesis by (auto simp: initDatabase_envFrom)
qed

definition example_master :: roleResourceReconcilerBuilder where
  "example_master = \<lparr>rb_clusterOperation = None, rb_image = example_image, rb_zkConfigMapName = ''znode''\<rparr>"

theorem init_job_environment_witness:
  "\<exists>rs cm. Master_ResourceReconcilers example_opgo db_client example_cr example_master (Some 1) example_info
      (Some \<lparr>ov_ConfigOverrides = None, ov_EnvOverrides = None\<rparr>) (Some plain_spec) = Done rs \<and>
    ConfigMapResource cm \<in> set rs \<and>
    container_envFrom (initDatabase example_opgo ''znode'' example_image
      (ri_ClusterInfo (rgi_RoleInfo example_info))) = [cm_Name cm]"
proof -
  let ?ov = "\<lparr>ov_ConfigOverrides = None, ov_EnvOverrides = None\<rparr>"
  have "\<exists>db. cr_database example_cr = Some db \<and> well_formed_conn (db_ConnectionString db)"
    using example_deployable by (simp add: deployable_def cr_database_def) (elim exE conjE, simp)
  from master.accepts [OF this plain_example, where G = example_opgo and C = db_client and a = example_master
      and replicas = "Some 1" and info = example_info and ov = ?ov]
  obtain rs where rs: "Master_ResourceReconcilers example_opgo db_client example_cr example_master (Some 1)
      example_info (Some ?ov) (Some plain_spec) = Done rs"
    by (elim exE conjE) (rule that)
  have "GetClusterName example_opgo (ri_ClusterInfo (rgi_RoleInfo example_info)) = GetOwnerName db_client"
    by (simp add: example_opgo_def example_info_def db_client_def example_client_def)
  from init_job_environment [OF this rs, of "''znode''" example_image]
  obtain cm where cm: "ConfigMapResource cm \<in> set rs"
    "container_envFrom (initDatabase example_opgo ''znode'' example_image
      (ri_ClusterInfo (rgi_RoleInfo example_info))) = [cm_Name cm]"
    by (elim exE conjE) (rule that)
  show ?thesis by (rule exI [of _ rs], rule exI [of _ cm]) (intro conjI rs cm)
qed

end
