(* ===== verification/Controller.thy ===== *)
theory Controller
  imports Cluster
begin

text \<open>
  \<open>internal/controller/dolphinschedulercluster_controller.go\<close>: the reconciler that
  controller-runtime calls for a changed custom resource. \<open>Reconcile\<close> is the function as written,
  on a state \<open>'w\<close> of the API server; \<open>requeued\<close> is the step from one pass of the work queue to the
  next. The API server, operator-go's \<open>BaseCluster\<close> and the helpers of controller-runtime are the
  record \<open>controllerApi\<close>, a parameter.
\<close>

section \<open>Types\<close>

record ctrlRequest =
  req_Namespace :: string
  req_Name :: string

record 'w controllerApi =
  GetInstance :: "string \<Rightarrow> string \<Rightarrow> 'w \<Rightarrow> dolphinschedulerCluster res"
  IgnoreNotFound :: "go_error \<Rightarrow> go_error option"
  GroupVersionKind :: "dolphinschedulerCluster \<Rightarrow> string \<times> string \<times> string"
  ClusterReconcile :: "clusterReconciler \<Rightarrow> 'w \<Rightarrow> ctrlResult res \<times> 'w"
  ClusterReady :: "clusterReconciler \<Rightarrow> 'w \<Rightarrow> ctrlResult res"
  IsZero :: "ctrlResult \<Rightarrow> bool"

text \<open>
  \<open>GetInstance\<close> takes a namespace and a name, \<open>ClusterReconcile\<close> and \<open>ClusterReady\<close> are the
  methods that \<open>Reconciler\<close> inherits from \<open>BaseCluster\<close>: the first creates and updates objects, so
  it returns the new state of the API server, the second only reads.
\<close>

definition zeroResult :: ctrlResult where
  "zeroResult = \<lparr>cr_Requeue = False, cr_RequeueAfter = 0\<rparr>"

section \<open>Reconcile\<close>

text \<open>The client of operator-go whose owner reference is the fetched instance.\<close>

definition instanceClient :: "client \<Rightarrow> dolphinschedulerCluster \<Rightarrow> client" where
  "instanceClient C inst = C\<lparr>GetOwnerName := dc_Name inst, GetOwnerNamespace := dc_Namespace inst\<rparr>"

definition instanceInfo :: "'w controllerApi \<Rightarrow> dolphinschedulerCluster \<Rightarrow> clusterInfo" where
  "instanceInfo K inst = (let (grp, version, kind) = GroupVersionKind K inst in
     \<lparr>ci_Group = grp, ci_Version = version, ci_Kind = kind, ci_ClusterName = dc_Name inst\<rparr>)"

definition registerInstance ::
  "opgo \<Rightarrow> client \<Rightarrow> mergeApi \<Rightarrow> string \<Rightarrow> 'w controllerApi \<Rightarrow> dolphinschedulerCluster \<Rightarrow>
   (go_error option \<times> clusterReconciler) go" where
  "registerInstance G C M buildVersion K inst =
     Cluster_RegisterResources G (instanceClient C inst) M buildVersion inst
       (NewClusterReconciler (instanceInfo K inst) (dc_Spec inst))"

definition Reconcile ::
  "opgo \<Rightarrow> client \<Rightarrow> mergeApi \<Rightarrow> string \<Rightarrow> 'w controllerApi \<Rightarrow> ctrlRequest \<Rightarrow> 'w \<Rightarrow>
   (ctrlResult res \<times> 'w) go" where
  "Reconcile G C M buildVersion K req w =
     (case GetInstance K (req_Namespace req) (req_Name req) w of
       (_, Some err) \<Rightarrow>
         if IgnoreNotFound K err = None then Done ((zeroResult, None), w)
         else Done ((zeroResult, Some err), w)
     | (inst, None) \<Rightarrow>
         go_bind (registerInstance G C M buildVersion K inst) (\<lambda>(err, r).
         case err of Some e \<Rightarrow> Done ((zeroResult, Some e), w) | None \<Rightarrow>
         let ((result, err), w) = ClusterReconcile K r w in
         if RequeueOrError (IsZero K) result err
         then (case err of
                 Some e \<Rightarrow> Done ((zeroResult, Some e), w)
               | None \<Rightarrow> Done ((zeroResult\<lparr>cr_RequeueAfter := word_of_int time_Second\<rparr>, None), w))
         else let (result, err) = ClusterReady K r w in
           if RequeueOrError (IsZero K) result err then Done ((result, err), w)
           else Done ((zeroResult, None), w)))"

section \<open>UpdateStatus and SetupWithManager\<close>

text \<open>
  \<open>retry.RetryOnConflict(retry.DefaultRetry, _)\<close> and the status write are parameters; both act on
  the state \<open>'w\<close> of the API server. The log is the list of its messages.
\<close>

definition UpdateStatus ::
  "(('w \<Rightarrow> go_error option \<times> 'w) \<Rightarrow> 'w \<Rightarrow> go_error option \<times> 'w) \<Rightarrow>
   (dolphinschedulerCluster \<Rightarrow> 'w \<Rightarrow> go_error option \<times> 'w) \<Rightarrow>
   dolphinschedulerCluster \<Rightarrow> 'w \<Rightarrow> go_error option \<times> string list \<times> 'w" where
  "UpdateStatus retryOnConflict statusUpdate inst w =
     (let (retryErr, w') = retryOnConflict (statusUpdate inst) w in
      case retryErr of
        Some e \<Rightarrow> (Some e, [''Failed to update vfm status after retries''], w')
      | None \<Rightarrow> (None, [''Successfully patched object status''], w'))"

datatype objectKind = KindDolphinschedulerCluster | KindStatefulSet | KindDeployment

record controllerBuilder =
  ctl_For :: "objectKind option"
  ctl_Owns :: "objectKind list"

definition NewControllerManagedBy :: controllerBuilder where
  "NewControllerManagedBy = \<lparr>ctl_For = None, ctl_Owns = []\<rparr>"

definition ctl_SetFor :: "objectKind \<Rightarrow> controllerBuilder \<Rightarrow> controllerBuilder" where
  "ctl_SetFor k b = b\<lparr>ctl_For := Some k\<rparr>"

definition ctl_AddOwns :: "objectKind \<Rightarrow> controllerBuilder \<Rightarrow> controllerBuilder" where
  "ctl_AddOwns k b = b\<lparr>ctl_Owns := ctl_Owns b @ [k]\<rparr>"

text \<open>The builder is a record of the calls; \<open>complete\<close> is \<open>Complete(r)\<close> of controller-runtime.\<close>

definition SetupWithManager :: "(controllerBuilder \<Rightarrow> go_error option) \<Rightarrow> go_error option" where
  "SetupWithManager complete =
     complete (ctl_AddOwns KindDeployment (ctl_AddOwns KindStatefulSet
       (ctl_SetFor KindDolphinschedulerCluster NewControllerManagedBy)))"

section \<open>One pass\<close>

lemma registerInstance_deployable:
  assumes cr: "deployable M inst"
    and affinity: "\<And>role. snd (MarshalAffinity G (defaultAffinity G role (dc_Name inst))) = None"
  shows "\<exists>r sa ro rb job roles.
    registerInstance G C M v K inst = Done (None, r) \<and>
    cl_Resources r = [ServiceAccountResource sa, RbacRoleResource ro, RoleBindingResource rb,
      JobResource job] @ map RoleResource roles \<and>
    list_all2 (complete_role G (instanceInfo K inst)) (cluster_roles (dc_Spec inst)) roles"
proof -
  have "snd (MarshalAffinity G (defaultAffinity G role (GetOwnerName (instanceClient C inst)))) = None" for role
    using affinity by (simp add: instanceClient_def)
  from Cluster_registers_all [OF cr this] show ?thesis unfolding registerInstance_def .
qed

text \<open>The cluster is settled: applying it changes nothing more and it is ready afterwards.\<close>

definition settled :: "'w controllerApi \<Rightarrow> clusterReconciler \<Rightarrow> 'w \<Rightarrow> bool" where
  "settled K r w \<longleftrightarrow> fst (ClusterReconcile K r w) = (zeroResult, None) \<and>
     ClusterReady K r (snd (ClusterReconcile K r w)) = (zeroResult, None)"

lemma second_not_zero: "zeroResult\<lparr>cr_RequeueAfter := word_of_int time_Second\<rparr> \<noteq> zeroResult"
  by (simp add: zeroResult_def time_Second_def)

text \<open>
  A pass over a registered instance applies the registered cluster, whatever it returns, and
  returns the zero result without an error exactly if the cluster is settled.
\<close>

lemma Reconcile_registered:
  assumes isZero: "\<And>r. IsZero K r \<longleftrightarrow> r = zeroResult"
    and "GetInstance K (req_Namespace req) (req_Name req) w = (inst, None)"
    and "registerInstance G C M v K inst = Done (None, r)"
  obtains res err where
    "Reconcile G C M v K req w = Done ((res, err), snd (ClusterReconcile K r w))"
    and "(res, err) = (zeroResult, None) \<longleftrightarrow> settled K r w"
proof -
  obtain res1 err1 w1 where apply_r: "ClusterReconcile K r w = ((res1, err1), w1)"
    by (metis prod.collapse)
  obtain res2 err2 where ready: "ClusterReady K r w1 = (res2, err2)" by (metis prod.collapse)
  have "\<exists>res err. Reconcile G C M v K req w = Done ((res, err), w1) \<and>
      ((res, err) = (zeroResult, None) \<longleftrightarrow> settled K r w)"
    using second_not_zero
    by (cases err1; cases err2; cases "res1 = zeroResult"; cases "res2 = zeroResult")
      (simp_all add: Reconcile_def assms(2,3) apply_r ready settled_def RequeueOrError_def isZero)
  with that apply_r show thesis by auto
qed

text \<open>
  C2. A pass ends without error and without another pass being scheduled exactly in two cases: the
  custom resource is gone and nothing is changed, or its resources were all registered and applied
  and then, in the state left by applying them, found ready. Every other outcome is an error or
  schedules a retry, so no unfinished cluster is ever dropped.
  The hypothesis is the documented meaning of \<open>Result.IsZero\<close>.
\<close>

theorem Reconcile_finished_iff:
  assumes isZero: "\<And>r. IsZero K r \<longleftrightarrow> r = zeroResult"
  shows "Reconcile G C M v K req w = Done ((zeroResult, None), w') \<longleftrightarrow>
    (\<exists>inst e. GetInstance K (req_Namespace req) (req_Name req) w = (inst, Some e) \<and>
       IgnoreNotFound K e = None \<and> w' = w) \<or>
    (\<exists>inst r. GetInstance K (req_Namespace req) (req_Name req) w = (inst, None) \<and>
       registerInstance G C M v K inst = Done (None, r) \<and>
       ClusterReconcile K r w = ((zeroResult, None), w') \<and> ClusterReady K r w' = (zeroResult, None))"
proof (cases "GetInstance K (req_Namespace req) (req_Name req) w")
  case (Pair inst err)
  show ?thesis
  proof (cases err)
    case None
    show ?thesis
    proof (cases "\<exists>r. registerInstance G C M v K inst = Done (None, r)")
      case True
      then obtain r where r: "registerInstance G C M v K inst = Done (None, r)" ..
      from isZero Pair [unfolded None] r show ?thesis
        by (rule Reconcile_registered) (auto simp: Pair None r settled_def prod_eq_iff)
    qed (auto simp: Reconcile_def Pair None go_bind_Done_iff split: option.splits)
  qed (auto simp: Reconcile_def Pair)
qed

text \<open>
  C1. A complete custom resource is deployed completely. If the fetched instance has an image and a
  pull policy, a cluster configuration with a well-formed database URL and the four roles, without
  S3, logging and authentication settings, then the pass registers the cluster, does not panic and
  leaves the state of the API server in which this cluster was applied; the cluster it applies has
  the service account, role and role binding, the database job, and the roles master, alerter, api
  and worker in this order, and every role group of the custom resource has a workload with its name
  and its replicas.
\<close>

theorem Reconcile_deploys:
  assumes inst: "GetInstance K (req_Namespace req) (req_Name req) w = (inst, None)"
    and cr: "deployable M inst"
    and affinity: "\<And>role. snd (MarshalAffinity G (defaultAffinity G role (dc_Name inst))) = None"
  shows "\<exists>r sa ro rb job roles res err.
    registerInstance G C M v K inst = Done (None, r) \<and>
    Reconcile G C M v K req w = Done ((res, err), snd (ClusterReconcile K r w)) \<and>
    cl_Resources r = [ServiceAccountResource sa, RbacRoleResource ro, RoleBindingResource rb,
      JobResource job] @ map RoleResource roles \<and>
    list_all2 (complete_role G (instanceInfo K inst)) (cluster_roles (dc_Spec inst)) roles"
proof -
  obtain r sa ro rb job roles where
    r: "registerInstance G C M v K inst = Done (None, r)"
    and facts: "cl_Resources r = [ServiceAccountResource sa, RbacRoleResource ro, RoleBindingResource rb,
      JobResource job] @ map RoleResource roles"
      "list_all2 (complete_role G (instanceInfo K inst)) (cluster_roles (dc_Spec inst)) roles"
    using registerInstance_deployable [OF cr affinity] by blast
  have "\<exists>res err. Reconcile G C M v K req w = Done ((res, err), snd (ClusterReconcile K r w))"
    by (simp add: Reconcile_def inst r Let_def split: prod.split option.split)
  with r facts show ?thesis by blast
qed

section \<open>The passes of the work queue\<close>





section \<open>Examples\<close>

text \<open>An API server that needs as many rounds as its state says.\<close>

definition example_kube :: "nat controllerApi" where
  "example_kube = \<lparr>GetInstance = (\<lambda>ns n w. if n = ''ds'' then (example_cr, None)
       else (example_cr, Some (ErrExt ''not found''))),
     IgnoreNotFound = (\<lambda>e. if e = ErrExt ''not found'' then None else Some e),
     GroupVersionKind = (\<lambda>_. (''dolphinscheduler.kubedoop.dev'', ''v1alpha1'', ''DolphinschedulerCluster'')),
     ClusterReconcile = (\<lambda>_ w. ((if w = 0 then zeroResult else zeroResult\<lparr>cr_Requeue := True\<rparr>, None), w - 1)),
     ClusterReady = (\<lambda>_ w. (zeroResult, None)),
     IsZero = (\<lambda>r. r = zeroResult)\<rparr>"

definition example_request :: ctrlRequest where
  "example_request = \<lparr>req_Namespace = ''default'', req_Name = ''ds''\<rparr>"

lemma example_found:
  "GetInstance example_kube (req_Namespace example_request) (req_Name example_request) w = (example_cr, None)"
  by (simp add: example_kube_def example_request_def)

lemma example_IsZero: "IsZero example_kube r \<longleftrightarrow> r = zeroResult"
  by (simp add: example_kube_def)

lemma example_affinity: "snd (MarshalAffinity example_opgo (defaultAffinity example_opgo role (dc_Name example_cr))) = None"
  by (simp add: example_opgo_def)

lemma example_instance_registers:
  "\<exists>r sa ro rb job roles.
    registerInstance example_opgo db_client example_merge ''N/A'' example_kube example_cr = Done (None, r) \<and>
    cl_Resources r = [ServiceAccountResource sa, RbacRoleResource ro, RoleBindingResource rb,
      JobResource job] @ map RoleResource roles \<and>
    list_all2 (complete_role example_opgo (instanceInfo example_kube example_cr))
      (cluster_roles (dc_Spec example_cr)) roles"
  by (rule registerInstance_deployable [OF example_deployable example_affinity])

theorem Reconcile_deploys_witness:
  "\<exists>r sa ro rb job roles res err.
    registerInstance example_opgo db_client example_merge ''N/A'' example_kube example_cr = Done (None, r) \<and>
    Reconcile example_opgo db_client example_merge ''N/A'' example_kube example_request 2 =
      Done ((res, err), snd (ClusterReconcile example_kube r 2)) \<and>
    cl_Resources r = [ServiceAccountResource sa, RbacRoleResource ro, RoleBindingResource rb,
      JobResource job] @ map RoleResource roles \<and>
    list_all2 (complete_role example_opgo (instanceInfo example_kube example_cr))
      (cluster_roles (dc_Spec example_cr)) roles"
  by (rule Reconcile_deploys [OF example_found example_deployable example_affinity])

theorem Reconcile_finished_iff_witness:
  "Reconcile example_opgo db_client example_merge ''N/A'' example_kube
     \<lparr>req_Namespace = ''default'', req_Name = ''gone''\<rparr> 2 = Done ((zeroResult, None), 2)"
  by (subst Reconcile_finished_iff [OF example_IsZero], rule disjI1)
    (rule exI [of _ example_cr], rule exI [of _ "ErrExt ''not found''"], simp add: example_kube_def)


end
