(* ===== verification/Operator_Main.thy ===== *)
theory Operator_Main
  imports Controller
begin

text \<open>
  \<open>cmd/main.go\<close>: the command line, the options of the manager and the
  start of the operator. The command line is parsed as Go's package \<open>flag\<close> does, with
  \<open>ExitOnError\<close>; the flags that other packages register (zap's logging flags, \<open>kubeconfig\<close>), the
  manager and the scheme builders are parameters. The operator's run is the list of the calls it
  makes to the manager, with its exit code.
\<close>

section \<open>Flags\<close>

record mainFlags =
  metricsAddr :: string
  probeAddr :: string
  enableLeaderElection :: bool
  secureMetrics :: bool
  enableHTTP2 :: bool
  foreignFlags :: "(string \<times> string) list"

definition defaultFlags :: mainFlags where
  "defaultFlags = \<lparr>metricsAddr = ''0'', probeAddr = '':8081'', enableLeaderElection = False,
     secureMetrics = True, enableHTTP2 = False, foreignFlags = []\<rparr>"

text \<open>
  A foreign flag: whether it is a boolean flag, and whether its setter accepts a value.
  \<open>foreignFlags\<close> lists the values that were set, in order.
\<close>

type_synonym flagSet = "string \<Rightarrow> (bool \<times> (string \<Rightarrow> bool)) option"

text \<open>\<open>strconv.ParseBool\<close>\<close>

definition ParseBool :: "string \<Rightarrow> bool option" where
  "ParseBool s =
     (if s \<in> {''1'', ''t'', ''T'', ''TRUE'', ''true'', ''True''} then Some True
      else if s \<in> {''0'', ''f'', ''F'', ''FALSE'', ''false'', ''False''} then Some False
      else None)"

definition stringFlag :: "string \<Rightarrow> (string \<Rightarrow> mainFlags \<Rightarrow> mainFlags) option" where
  "stringFlag name =
     (if name = ''metrics-bind-address'' then Some (\<lambda>v. metricsAddr_update (\<lambda>_. v))
      else if name = ''health-probe-bind-address'' then Some (\<lambda>v. probeAddr_update (\<lambda>_. v))
      else None)"

definition boolFlag :: "string \<Rightarrow> (bool \<Rightarrow> mainFlags \<Rightarrow> mainFlags) option" where
  "boolFlag name =
     (if name = ''leader-elect'' then Some (\<lambda>v. enableLeaderElection_update (\<lambda>_. v))
      else if name = ''metrics-secure'' then Some (\<lambda>v. secureMetrics_update (\<lambda>_. v))
      else if name = ''enable-http2'' then Some (\<lambda>v. enableHTTP2_update (\<lambda>_. v))
      else None)"

definition isBoolFlag :: "flagSet \<Rightarrow> string \<Rightarrow> bool option" where
  "isBoolFlag F name =
     (if boolFlag name \<noteq> None then Some True
      else if stringFlag name \<noteq> None then Some False
      else map_option fst (F name))"

definition setFlag :: "flagSet \<Rightarrow> string \<Rightarrow> string \<Rightarrow> mainFlags \<Rightarrow> mainFlags option" where
  "setFlag F name v fs =
     (case boolFlag name of
        Some upd \<Rightarrow> map_option (\<lambda>b. upd b fs) (ParseBool v)
      | None \<Rightarrow> (case stringFlag name of
          Some upd \<Rightarrow> Some (upd v fs)
        | None \<Rightarrow> (case F name of
            Some (_, accepts) \<Rightarrow>
              if accepts v then Some (fs\<lparr>foreignFlags := foreignFlags fs @ [(name, v)]\<rparr>) else None
          | None \<Rightarrow> None)))"

text \<open>What \<open>flag.Parse\<close> does with one argument: its name without the dashes, and its value.\<close>

fun flagText :: "string \<Rightarrow> string" where
  "flagText (d # e # s) = (if e = CHR ''-'' then s else e # s)"
| "flagText s = []"

definition flagName :: "string \<Rightarrow> string" where
  "flagName s = takeWhile (\<lambda>c. c \<noteq> CHR ''='') (flagText s)"

definition flagValue :: "string \<Rightarrow> string option" where
  "flagValue s = (case dropWhile (\<lambda>c. c \<noteq> CHR ''='') (flagText s) of [] \<Rightarrow> None | _ # v \<Rightarrow> Some v)"

datatype parsedFlag = NoFlag | OneFlag mainFlags "string list" | FlagHelp | FlagError

definition parseOne :: "flagSet \<Rightarrow> string \<Rightarrow> string list \<Rightarrow> mainFlags \<Rightarrow> parsedFlag" where
  "parseOne F s args fs =
     (let set = (\<lambda>v args. case setFlag F (flagName s) v fs of Some fs' \<Rightarrow> OneFlag fs' args | None \<Rightarrow> FlagError) in
      if length s < 2 \<or> hd s \<noteq> CHR ''-'' \<or> s = ''--'' then NoFlag
      else if flagText s = [] \<or> hd (flagText s) = CHR ''-'' \<or> hd (flagText s) = CHR ''='' then FlagError
      else case isBoolFlag F (flagName s) of
        None \<Rightarrow> if flagName s = ''help'' \<or> flagName s = ''h'' then FlagHelp else FlagError
      | Some True \<Rightarrow> set (case flagValue s of None \<Rightarrow> ''true'' | Some v \<Rightarrow> v) args
      | Some False \<Rightarrow> (case flagValue s of
          Some v \<Rightarrow> set v args
        | None \<Rightarrow> (case args of [] \<Rightarrow> FlagError | v # args' \<Rightarrow> set v args')))"

lemma parseOne_OneFlag:
  assumes "parseOne F s args fs = OneFlag fs' args'"
  shows "(\<exists>v. setFlag F (flagName s) v fs = Some fs') \<and> set args' \<subseteq> set args \<and> length args' \<le> length args"
  using assms by (auto simp: parseOne_def Let_def split: if_splits option.splits bool.splits list.splits)

datatype parsed = Parsed mainFlags | HelpRequested | ParseError

function flag_Parse :: "flagSet \<Rightarrow> string list \<Rightarrow> mainFlags \<Rightarrow> parsed" where
  "flag_Parse F [] fs = Parsed fs"
| "flag_Parse F (s # args) fs =
     (case parseOne F s args fs of
        NoFlag \<Rightarrow> Parsed fs
      | OneFlag fs' args' \<Rightarrow> flag_Parse F args' fs'
      | FlagHelp \<Rightarrow> HelpRequested
      | FlagError \<Rightarrow> ParseError)"
  by pat_completeness auto

termination
  by (relation "measure (\<lambda>(F, args, fs). length args)") (auto dest!: parseOne_OneFlag)

section \<open>Options of the manager\<close>

record tlsConfig =
  NextProtos :: "string list"

definition disableHTTP2 :: "tlsConfig \<Rightarrow> tlsConfig" where
  "disableHTTP2 c = c\<lparr>NextProtos := [''http/1.1'']\<rparr>"

record metricsServerOptions =
  BindAddress :: string
  SecureServing :: bool
  MetricsTLSOpts :: "(tlsConfig \<Rightarrow> tlsConfig) list"
  FilterProvider :: "string option"

record managerOptions =
  mo_Metrics :: metricsServerOptions
  mo_HealthProbeBindAddress :: string
  mo_LeaderElection :: bool
  mo_WebhookTLSOpts :: "(tlsConfig \<Rightarrow> tlsConfig) list"
  mo_LeaderElectionID :: string

definition managerOptions_of :: "mainFlags \<Rightarrow> managerOptions" where
  "managerOptions_of fs =
     (let tlsOpts = (if \<not> enableHTTP2 fs then [] @ [disableHTTP2] else []);
          webhookServer = tlsOpts;
          metrics = \<lparr>BindAddress = metricsAddr fs, SecureServing = secureMetrics fs,
                     MetricsTLSOpts = tlsOpts, FilterProvider = None\<rparr>;
          metrics = (if secureMetrics fs
                     then metrics\<lparr>FilterProvider := Some ''filters.WithAuthenticationAndAuthorization''\<rparr>
                     else metrics)
      in \<lparr>mo_Metrics = metrics, mo_HealthProbeBindAddress = probeAddr fs,
          mo_LeaderElection = enableLeaderElection fs, mo_WebhookTLSOpts = webhookServer,
          mo_LeaderElectionID = ''935091a9.kubedoop.dev''\<rparr>)"

section \<open>init and main\<close>

datatype schemePackage = ClientGoScheme | DolphinschedulerV1alpha1 | CommonsV1alpha1 | AuthV1alpha1

definition Must :: "go_error option \<Rightarrow> unit go" where
  "Must err = (case err of None \<Rightarrow> Done () | Some _ \<Rightarrow> Panic (PanicValue ''runtime.Must''))"

definition main_init :: "(schemePackage \<Rightarrow> go_error option) \<Rightarrow> unit go" where
  "main_init addToScheme =
     go_bind (Must (addToScheme ClientGoScheme)) (\<lambda>_.
     go_bind (Must (addToScheme DolphinschedulerV1alpha1)) (\<lambda>_.
     go_bind (Must (addToScheme CommonsV1alpha1)) (\<lambda>_.
     Must (addToScheme AuthV1alpha1))))"

record managerApi =
  GetConfig :: "go_error option"
  NewManager :: "managerOptions \<Rightarrow> go_error option"
  CompleteController :: "controllerBuilder \<Rightarrow> go_error option"
  AddHealthzCheck :: "string \<Rightarrow> go_error option"
  AddReadyzCheck :: "string \<Rightarrow> go_error option"
  StartManager :: "go_error option"

text \<open>
  \<open>GetConfig\<close> is the error on which \<open>GetConfigOrDie\<close> exits with code 1; \<open>StartManager\<close> is what
  \<open>Start\<close> returns when the manager stops.
\<close>

datatype managerCall =
    CallNewManager managerOptions
  | CallSetupController
  | CallAddHealthz
  | CallAddReadyz
  | CallStart

text \<open>\<open>call_or_exit\<close>: make the call; exit with code 1 on an error, else go on.\<close>

definition call_or_exit :: "managerCall \<Rightarrow> go_error option \<Rightarrow> managerCall list \<times> nat \<Rightarrow> managerCall list \<times> nat" where
  "call_or_exit c err rest = (case err of Some _ \<Rightarrow> ([c], 1) | None \<Rightarrow> (c # fst rest, snd rest))"

definition startManager :: "managerApi \<Rightarrow> mainFlags \<Rightarrow> managerCall list \<times> nat" where
  "startManager A fs =
     (if GetConfig A \<noteq> None then ([], 1)
      else let opts = managerOptions_of fs in
        call_or_exit (CallNewManager opts) (NewManager A opts)
       (call_or_exit CallSetupController (SetupWithManager (CompleteController A))
       (call_or_exit CallAddHealthz (AddHealthzCheck A ''healthz'')
       (call_or_exit CallAddReadyz (AddReadyzCheck A ''readyz'')
       (call_or_exit CallStart (StartManager A) ([], 0))))))"

definition operator_main :: "flagSet \<Rightarrow> managerApi \<Rightarrow> string list \<Rightarrow> managerCall list \<times> nat" where
  "operator_main F A args =
     (case flag_Parse F args defaultFlags of
        Parsed fs \<Rightarrow> startManager A fs
      | HelpRequested \<Rightarrow> ([], 0)
      | ParseError \<Rightarrow> ([], 2))"

text \<open>
  The process: Go runs \<open>init\<close> before \<open>main\<close>, and a panic ends the process with exit code 2 before
  anything else is done.
\<close>

definition operator_process ::
  "(schemePackage \<Rightarrow> go_error option) \<Rightarrow> flagSet \<Rightarrow> managerApi \<Rightarrow> string list \<Rightarrow> managerCall list \<times> nat" where
  "operator_process addToScheme F A args =
     (case main_init addToScheme of Panic _ \<Rightarrow> ([], 2) | Done _ \<Rightarrow> operator_main F A args)"

section \<open>The command line\<close>

text \<open>What one argument of the form \<open>--name=value\<close> does.\<close>

lemma flag_Parse_assignment:
  assumes "name \<noteq> []" and "hd name \<noteq> CHR ''-''" and "CHR ''='' \<notin> set name"
    and "isBoolFlag F name = Some b" and "setFlag F name v fs = Some fs'"
  shows "flag_Parse F ((''--'' @ name @ ''='' @ v) # args) fs = flag_Parse F args fs'"
proof -
  let ?s = "''--'' @ name @ ''='' @ v"
  have "hd name \<in> set name" using assms(1) by simp
  with assms(3) have hd: "hd name \<noteq> CHR ''=''" by metis
  have tw: "takeWhile (\<lambda>c. c \<noteq> CHR ''='') (name @ CHR ''='' # v) = name"
    "dropWhile (\<lambda>c. c \<noteq> CHR ''='') (name @ CHR ''='' # v) = CHR ''='' # v"
    using assms(3) by (induction name) auto
  have "flagName ?s = name" "flagValue ?s = Some v" "flagText ?s = name @ CHR ''='' # v"
    by (simp_all add: flagName_def flagValue_def tw)
  with assms hd show ?thesis by (cases b) (simp_all add: hd_append parseOne_def)
qed

fun showBool :: "bool \<Rightarrow> string" where
  "showBool True = ''true''"
| "showBool False = ''false''"

lemma ParseBool_showBool [simp]: "ParseBool (showBool b) = Some b"
  by (cases b) (simp_all add: ParseBool_def)

text \<open>A command line that sets every flag of the operator.\<close>

definition flagArgs :: "mainFlags \<Rightarrow> string list" where
  "flagArgs fs =
     [''--'' @ ''metrics-bind-address'' @ ''='' @ metricsAddr fs,
      ''--'' @ ''health-probe-bind-address'' @ ''='' @ probeAddr fs,
      ''--'' @ ''leader-elect'' @ ''='' @ showBool (enableLeaderElection fs),
      ''--'' @ ''metrics-secure'' @ ''='' @ showBool (secureMetrics fs),
      ''--'' @ ''enable-http2'' @ ''='' @ showBool (enableHTTP2 fs)]"

lemma set_own_flags:
  "setFlag F ''metrics-bind-address'' v fs = Some (fs\<lparr>metricsAddr := v\<rparr>)"
  "setFlag F ''health-probe-bind-address'' v fs = Some (fs\<lparr>probeAddr := v\<rparr>)"
  "setFlag F ''leader-elect'' (showBool b) fs = Some (fs\<lparr>enableLeaderElection := b\<rparr>)"
  "setFlag F ''metrics-secure'' (showBool b) fs = Some (fs\<lparr>secureMetrics := b\<rparr>)"
  "setFlag F ''enable-http2'' (showBool b) fs = Some (fs\<lparr>enableHTTP2 := b\<rparr>)"
  by (simp_all add: setFlag_def boolFlag_def stringFlag_def)

lemma own_flag_kinds:
  "isBoolFlag F ''metrics-bind-address'' = Some False"
  "isBoolFlag F ''health-probe-bind-address'' = Some False"
  "isBoolFlag F ''leader-elect'' = Some True"
  "isBoolFlag F ''metrics-secure'' = Some True"
  "isBoolFlag F ''enable-http2'' = Some True"
  by (simp_all add: isBoolFlag_def boolFlag_def stringFlag_def)

lemmas parse_own_flag =
  flag_Parse_assignment [OF _ _ _ own_flag_kinds(1) set_own_flags(1)]
  flag_Parse_assignment [OF _ _ _ own_flag_kinds(2) set_own_flags(2)]
  flag_Parse_assignment [OF _ _ _ own_flag_kinds(3) set_own_flags(3)]
  flag_Parse_assignment [OF _ _ _ own_flag_kinds(4) set_own_flags(4)]
  flag_Parse_assignment [OF _ _ _ own_flag_kinds(5) set_own_flags(5)]

text \<open>
  C27. Every setting of the operator can be given on the command line: the arguments that spell out
  a set of flags are parsed back into these flags, whatever the addresses contain and whatever
  flags other packages register.
\<close>

theorem flag_Parse_roundtrip:
  "flag_Parse F (flagArgs fs) (defaultFlags\<lparr>foreignFlags := foreignFlags fs\<rparr>) = Parsed fs"
proof -
  let ?d = "defaultFlags\<lparr>foreignFlags := foreignFlags fs\<rparr>"
  have "flag_Parse F (flagArgs fs) ?d = Parsed (?d\<lparr>metricsAddr := metricsAddr fs, probeAddr := probeAddr fs,
      enableLeaderElection := enableLeaderElection fs, secureMetrics := secureMetrics fs,
      enableHTTP2 := enableHTTP2 fs\<rparr>)"
    unfolding flagArgs_def by (subst parse_own_flag, simp_all del: append.simps flag_Parse.simps(2))+
  then show ?thesis by (simp add: defaultFlags_def)
qed

text \<open>A property that every setter keeps holds after parsing.\<close>

lemma flag_Parse_invariant:
  assumes "flag_Parse F args fs = Parsed fs'" and "P fs"
    and "\<And>s v fs fs'. s \<in> set args \<Longrightarrow> setFlag F (flagName s) v fs = Some fs' \<Longrightarrow> P fs \<Longrightarrow> P fs'"
  shows "P fs'"
  using assms
proof (induction F args fs rule: flag_Parse.induct)
  case (2 F s args fs)
  show ?case
  proof (cases "parseOne F s args fs")
    case (OneFlag fs1 args')
    then obtain v where v: "setFlag F (flagName s) v fs = Some fs1" "set args' \<subseteq> set args"
      using parseOne_OneFlag by blast
    have "P fs1" by (rule 2(4) [OF _ v(1) 2(3)]) simp
    moreover have "flag_Parse F args' fs1 = Parsed fs'" using 2(2) OneFlag by simp
    moreover have "P fs3" if "t \<in> set args'" "setFlag F (flagName t) w fs2 = Some fs3" "P fs2" for t w fs2 fs3
      by (rule 2(4) [OF _ that(2,3)]) (use that(1) v(2) in auto)
    ultimately show ?thesis by (intro 2(1) [OF OneFlag])
  qed (use 2 in simp_all)
qed simp

lemma setFlag_http2:
  "setFlag F name v fs = Some fs' \<Longrightarrow> name \<noteq> ''enable-http2'' \<Longrightarrow> enableHTTP2 fs' = enableHTTP2 fs"
  by (auto simp: setFlag_def boolFlag_def stringFlag_def split: if_splits option.splits)

section \<open>The start of the operator\<close>

definition apply_opts :: "(tlsConfig \<Rightarrow> tlsConfig) list \<Rightarrow> tlsConfig \<Rightarrow> tlsConfig" where
  "apply_opts opts c = fold (\<lambda>f. f) opts c"

text \<open>
  C24. HTTP/2 is off unless it is asked for: if no argument names the flag \<open>enable-http2\<close>, then in
  whatever manager the operator creates, the metrics server and the webhook server both negotiate
  HTTP/1.1 only. The metrics server is served securely if and only if it is protected by the
  authentication and authorization filter.
\<close>

theorem operator_main_no_http2:
  assumes "\<And>s. s \<in> set args \<Longrightarrow> flagName s \<noteq> ''enable-http2''"
    and "CallNewManager opts \<in> set (fst (operator_main F A args))"
  shows "NextProtos (apply_opts (MetricsTLSOpts (mo_Metrics opts)) c) = [''http/1.1''] \<and>
    NextProtos (apply_opts (mo_WebhookTLSOpts opts) c) = [''http/1.1''] \<and>
    (SecureServing (mo_Metrics opts) \<longleftrightarrow> FilterProvider (mo_Metrics opts) \<noteq> None)"
proof -
  from assms(2) obtain fs where fs: "flag_Parse F args defaultFlags = Parsed fs"
    "CallNewManager opts \<in> set (fst (startManager A fs))"
    by (auto simp: operator_main_def split: parsed.splits)
  have "\<not> enableHTTP2 fs"
    by (rule flag_Parse_invariant [OF fs(1)]) (auto simp: defaultFlags_def setFlag_http2 assms(1))
  moreover have "opts = managerOptions_of fs"
    using fs(2) by (auto simp: startManager_def call_or_exit_def Let_def split: if_splits option.splits)
  ultimately show ?thesis
    by (simp add: managerOptions_of_def apply_opts_def disableHTTP2_def Let_def)
qed

definition example_manager :: managerApi where
  "example_manager = \<lparr>GetConfig = None, NewManager = (\<lambda>_. None), CompleteController = (\<lambda>_. None),
     AddHealthzCheck = (\<lambda>_. None), AddReadyzCheck = (\<lambda>_. None), StartManager = None\<rparr>"

theorem operator_main_no_http2_witness:
  "\<exists>opts. CallNewManager opts \<in> set (fst (operator_main (\<lambda>_. None) example_manager [''--leader-elect''])) \<and>
    NextProtos (apply_opts (MetricsTLSOpts (mo_Metrics opts)) \<lparr>NextProtos = [''h2'', ''http/1.1'']\<rparr>) = [''http/1.1'']"
proof -
  have name: "flagName ''--leader-elect'' = ''leader-elect''" "flagText ''--leader-elect'' = ''leader-elect''"
    "flagValue ''--leader-elect'' = None"
    by (simp_all add: flagName_def flagValue_def)
  have "parseOne (\<lambda>_. None) ''--leader-elect'' [] defaultFlags =
      OneFlag (defaultFlags\<lparr>enableLeaderElection := True\<rparr>) []"
    using set_own_flags(3) [where b = True] by (simp add: parseOne_def name own_flag_kinds)
  then have "flag_Parse (\<lambda>_. None) [''--leader-elect''] defaultFlags =
      Parsed (defaultFlags\<lparr>enableLeaderElection := True\<rparr>)" by simp
  then have call: "CallNewManager (managerOptions_of (defaultFlags\<lparr>enableLeaderElection := True\<rparr>)) \<in>
      set (fst (operator_main (\<lambda>_. None) example_manager [''--leader-elect'']))"
    by (simp add: operator_main_def startManager_def call_or_exit_def example_manager_def)
  have names: "flagName s \<noteq> ''enable-http2''" if "s \<in> set [''--leader-elect'']" for s
    using that by (simp add: name)
  note protos = operator_main_no_http2 [OF names call, of "\<lparr>NextProtos = [''h2'', ''http/1.1'']\<rparr>"]
  show ?thesis
    by (rule exI [of _ "managerOptions_of (defaultFlags\<lparr>enableLeaderElection := True\<rparr>)"])
      (intro conjI call protos [THEN conjunct1])
qed

text \<open>
  C25. The manager is started exactly if the flags can be parsed and the configuration, the manager,
  the controller and both probes were set up without an error; all calls before it were then made
  in order. The exit code is 2 exactly for a bad command line, and 0 exactly if help was asked for
  or the started manager stopped without an error.
\<close>

theorem operator_main_starts_iff:
  "(CallStart \<in> set (fst (operator_main F A args)) \<longleftrightarrow>
     (\<exists>fs. flag_Parse F args defaultFlags = Parsed fs \<and> GetConfig A = None \<and>
        NewManager A (managerOptions_of fs) = None \<and> SetupWithManager (CompleteController A) = None \<and>
        AddHealthzCheck A ''healthz'' = None \<and> AddReadyzCheck A ''readyz'' = None \<and>
        fst (operator_main F A args) = [CallNewManager (managerOptions_of fs), CallSetupController,
          CallAddHealthz, CallAddReadyz, CallStart])) \<and>
   (snd (operator_main F A args) = 2 \<longleftrightarrow> flag_Parse F args defaultFlags = ParseError) \<and>
   (snd (operator_main F A args) = 0 \<longleftrightarrow> flag_Parse F args defaultFlags = HelpRequested \<or>
      CallStart \<in> set (fst (operator_main F A args)) \<and> StartManager A = None)"
  by (cases "flag_Parse F args defaultFlags")
    (simp_all add: operator_main_def startManager_def call_or_exit_def Let_def split: option.split)

text \<open>
  The process makes no call unless all four packages of \<open>init\<close> could be added to the scheme; it then
  does what \<open>main\<close> does.
\<close>

lemma operator_process_iff:
  "fst (operator_process addToScheme F A args) \<noteq> [] \<longleftrightarrow>
     (\<forall>p. addToScheme p = None) \<and> fst (operator_main F A args) \<noteq> []"
  "(\<forall>p. addToScheme p = None) \<Longrightarrow> operator_process addToScheme F A args = operator_main F A args"
proof -
  have init: "main_init addToScheme = Done () \<longleftrightarrow> (\<forall>p. addToScheme p = None)"
  proof
    assume "main_init addToScheme = Done ()"
    then have "addToScheme ClientGoScheme = None \<and> addToScheme DolphinschedulerV1alpha1 = None \<and>
        addToScheme CommonsV1alpha1 = None \<and> addToScheme AuthV1alpha1 = None"
      by (auto simp: main_init_def Must_def go_bind_Done_iff split: option.splits)
    then show "\<forall>p. addToScheme p = None" by (metis schemePackage.exhaust)
  qed (simp add: main_init_def Must_def)
  show "fst (operator_process addToScheme F A args) \<noteq> [] \<longleftrightarrow>
      (\<forall>p. addToScheme p = None) \<and> fst (operator_main F A args) \<noteq> []"
    using init by (cases "main_init addToScheme") (auto simp: operator_process_def)
  show "(\<forall>p. addToScheme p = None) \<Longrightarrow> operator_process addToScheme F A args = operator_main F A args"
    using init by (simp add: operator_process_def)
qed

end
