(* ===== verification/Cluster_Settings.thy ===== *)
theory Cluster_Settings
  imports Controller
begin

text \<open>
  The settings of a custom resource that concern the whole cluster: its image (\<open>GetImage\<close>), the
  stop flag of \<open>clusterOperation\<close> and the ZooKeeper config map. They pass through
  \<open>RegisterResources\<close> of the cluster, the constructors of the four roles, their builders and the
  workload reconcilers. The locale \<open>settings_builder\<close> is the contract of a builder that hands
  them on; the four builders satisfy it, and the registered cluster inherits it.
\<close>

section \<open>The settings of a workload\<close>

fun env_calls :: "container_call list \<Rightarrow> envVar list" where
  "env_calls [] = []"
| "env_calls (AddEnvVars vs # calls) = vs @ env_calls calls"
| "env_calls (_ # calls) = env_calls calls"

fun container_envs :: "container \<Rightarrow> envVar list" where
  "container_envs (BuiltContainer bc) = env_calls (bc_Calls bc)"
| "container_envs (PlainContainer _ _ _) = []"

fun container_image :: "container \<Rightarrow> image option" where
  "container_image (BuiltContainer bc) = Some (bc_Image bc)"
| "container_image (PlainContainer _ _ _) = None"

definition zk_env :: "string \<Rightarrow> envVar" where
  "zk_env zk = \<lparr>ev_Name = ''REGISTRY_ZOOKEEPER_CONNECT_STRING'', ev_Value = [],
     ev_ValueFrom = Some (ConfigMapKeyRef zk ZookeeperDiscoveryKey)\<rparr>"

definition has_settings :: "image \<Rightarrow> clusterOperationSpec option \<Rightarrow> string \<Rightarrow> workloadReconciler \<Rightarrow> bool" where
  "has_settings img op zk w \<longleftrightarrow>
     wr_Stopped w = isStopped op \<and> wp_Image (bw_Prog (wr_Builder w)) = img \<and>
     list_all (\<lambda>c. container_image c = Some img \<and> zk_env zk \<in> set (container_envs c)) (workload_containers w)"

lemma Build_settings:
  assumes "bc_Calls (cb_Container c) = []"
  shows "container_image (fst (Build G c)) = Some (bc_Image (cb_Container c))"
    and "container_envs (fst (Build G c)) = cb_envs c"
  using assms by (simp_all add: Build_container build_calls_def split: option.split)

definition ready_container :: "image \<Rightarrow> string \<Rightarrow> containerBuilder \<Rightarrow> bool" where
  "ready_container img zk c \<longleftrightarrow>
     bc_Calls (cb_Container c) = [] \<and> bc_Image (cb_Container c) = img \<and> zk_env zk \<in> set (cb_envs c)"

lemma Deployment_settings:
  assumes "ready_container img zk c"
  shows "has_settings img op zk (CreateDeploymentReconciler G c img reps op info ov rgc vols)"
proof -
  let ?w = "CreateDeploymentReconciler G c img reps op info ov rgc vols"
  have "wr_Stopped ?w = isStopped op \<and> wp_Image (bw_Prog (wr_Builder ?w)) = img"
    by (simp add: CreateDeploymentReconciler_def NewDeploymentReconciler_def newProg_def Let_def)
  with assms show ?thesis
    by (simp add: has_settings_def ready_container_def CreateDeploymentReconciler_containers Build_settings)
qed

lemma StatefulSet_settings:
  assumes "ready_container img zk c"
    and "CreateStatefulSetReconciler G c img reps op info ov rgc pvc = Done w"
  shows "has_settings img op zk w"
proof -
  have "wr_Stopped w = isStopped op \<and> wp_Image (bw_Prog (wr_Builder w)) = img"
    using assms(2)
    by (auto simp: CreateStatefulSetReconciler_def NewStatefulSetReconciler_def newProg_def Let_def
        go_bind_Done_iff split: if_splits)
  with assms(1) CreateStatefulSetReconciler_Done [OF assms(2)] show ?thesis
    by (simp add: has_settings_def ready_container_def Build_settings)
qed

lemma roleContainer_settings:
  "roleContainer G a name info rgc ports envs p = Done c \<Longrightarrow>
   ready_container (rb_image a) (rb_zkConfigMapName a) c"
  by (auto simp: ready_container_def roleContainer_eq NewContainerBuilder_def zk_env_def)

lemma authentication_envs:
  assumes "authentication G C a c = Done (r, c')"
  shows "set (cb_envs c) \<subseteq> set (cb_envs c')"
proof (cases "rb_authenticationSpec a")
  case None
  with assms show ?thesis by (simp add: authentication_def)
next
  case (Some specs)
  with assms obtain res err where "Authentication G C specs = Done (res, err)"
    by (auto simp: authentication_def go_bind_Done_iff)
  with Some assms show ?thesis
    by (cases err; cases "ar_LdapVolume res"; cases "ar_LdapVolumeMount res")
      (auto simp: authentication_def WithEnvs_eq WithVolumeMounts_single fold_WithSecretEnvFrom
        ResetCommandArgs_def Let_def)
qed

lemma authentication_settings:
  assumes "authentication G C a c = Done (r, c')" and "ready_container img zk c"
  shows "ready_container img zk c'"
  using assms(2) authentication_envs [OF assms(1)] authentication_keeps [OF assms(1)]
  by (auto simp: ready_container_def identity_of_def)

section \<open>The contract of a builder\<close>

locale settings_builder =
  fixes build :: resourceReconcilersBuilder
    and img :: image and op :: "clusterOperationSpec option" and zk :: string
  assumes settings: "build replicas info ov rgc = Done rs \<Longrightarrow> WorkloadResource w \<in> set rs \<Longrightarrow>
    has_settings img op zk w"
begin

lemma registered_settings:
  assumes "RegisterResources G C M r = Done (None, r')" and "rr_Builder r = build"
    and "rr_Resources r = []" and "WorkloadResource w \<in> set (rr_Resources r')"
  shows "has_settings img op zk w"
proof -
  from assms(1,3,4) obtain g xs where g: "g \<in> set (role_RoleGroups (rr_Spec r))"
    "group_resources G C M r g = Some xs" "WorkloadResource w \<in> set xs"
    by (fastforce simp: RegisterResources_def registerGroups_ok_iff list_all_iff)
  obtain name rg where ng: "g = (name, rg)" by (cases g)
  have "WorkloadResource w \<notin> set (metrics_resources G (group_info r name))"
    by (simp add: metrics_resources_def split: option.split)
  with g(2,3) ng obtain rs where "group_builds G C M r name rg rs" "WorkloadResource w \<in> set rs"
    by (auto simp: group_resources_iff)
  with assms(2) show ?thesis by (auto simp: group_builds_def intro: settings)
qed

end

interpretation master_settings: settings_builder "Master_ResourceReconcilers G C cr a"
    "rb_image a" "rb_clusterOperation a" "rb_zkConfigMapName a" for G C cr a
  by unfold_locales
    (auto simp: Master_ResourceReconcilers_def masterContainer_chain go_bind_Done_iff intro: StatefulSet_settings roleContainer_settings)

interpretation worker_settings: settings_builder "Worker_ResourceReconcilers G C cr a"
    "rb_image a" "rb_clusterOperation a" "rb_zkConfigMapName a" for G C cr a
  by unfold_locales
    (auto simp: Worker_ResourceReconcilers_def workerContainer_chain go_bind_Done_iff intro: StatefulSet_settings roleContainer_settings)

interpretation alerter_settings: settings_builder "Alerter_ResourceReconcilers G C cr a"
    "rb_image a" "rb_clusterOperation a" "rb_zkConfigMapName a" for G C cr a
  by unfold_locales
    (auto simp: Alerter_ResourceReconcilers_def alerterContainer_chain go_bind_Done_iff Let_def intro!: Deployment_settings
      intro: roleContainer_settings)

interpretation api_settings: settings_builder "Api_ResourceReconcilers G C cr a"
    "rb_image a" "rb_clusterOperation a" "rb_zkConfigMapName a" for G C cr a
  by unfold_locales
    (auto simp: Api_ResourceReconcilers_def apiContainer_chain go_bind_Done_iff Let_def split: option.splits
      intro!: Deployment_settings intro: authentication_settings [OF _ roleContainer_settings])

section \<open>The whole cluster\<close>

text \<open>The constructors of the roles hand the settings to their builders.\<close>

lemma role_constructors:
  "NewMasterRole G C cr img (Some cc) op spec info = Done q \<Longrightarrow> rr_Resources q = [] \<and>
   rr_Builder q = Master_ResourceReconcilers G C cr
     \<lparr>rb_clusterOperation = op, rb_image = img, rb_zkConfigMapName = cc_ZookeeperConfigMapName cc\<rparr>"
  "NewWorkerRole G C cr img (Some cc) op spec info = Done q \<Longrightarrow> rr_Resources q = [] \<and>
   rr_Builder q = Worker_ResourceReconcilers G C cr
     \<lparr>rb_clusterOperation = op, rb_image = img, rb_zkConfigMapName = cc_ZookeeperConfigMapName cc\<rparr>"
  "NewAlerterRole G C cr img (Some cc) op spec info = Done q \<Longrightarrow> rr_Resources q = [] \<and>
   rr_Builder q = Alerter_ResourceReconcilers G C cr
     \<lparr>rb_clusterOperation = op, rb_image = img, rb_zkConfigMapName = cc_ZookeeperConfigMapName cc\<rparr>"
  "NewApierRole G C cr img (Some cc) op spec info = Done q \<Longrightarrow> rr_Resources q = [] \<and>
   rr_Builder q = Api_ResourceReconcilers G C cr
     \<lparr>rb_clusterOperation = op, rb_image = img, rb_zkConfigMapName = cc_ZookeeperConfigMapName cc,
      rb_authenticationSpec = cc_Authentication cc\<rparr>"
  by (auto simp: NewMasterRole_def NewWorkerRole_def NewAlerterRole_def NewApierRole_def
      NewRoleReconciler_def go_bind_Done_iff)

lemma role_settings:
  assumes "RegisterResources G C M q = Done (None, q')" and "WorkloadResource w \<in> set (rr_Resources q')"
    and "NewMasterRole G C cr img (Some cc) op spec info = Done q \<or>
      NewWorkerRole G C cr img (Some cc) op spec info = Done q \<or>
      NewAlerterRole G C cr img (Some cc) op spec info = Done q \<or>
      NewApierRole G C cr img (Some cc) op spec info = Done q"
  shows "has_settings img op (cc_ZookeeperConfigMapName cc) w"
  using assms(3)
proof (elim disjE)
  assume "NewMasterRole G C cr img (Some cc) op spec info = Done q"
  from master_settings.registered_settings [OF assms(1) _ _ assms(2)] role_constructors(1) [OF this]
  show ?thesis by fastforce
next
  assume "NewWorkerRole G C cr img (Some cc) op spec info = Done q"
  from worker_settings.registered_settings [OF assms(1) _ _ assms(2)] role_constructors(2) [OF this]
  show ?thesis by fastforce
next
  assume "NewAlerterRole G C cr img (Some cc) op spec info = Done q"
  from alerter_settings.registered_settings [OF assms(1) _ _ assms(2)] role_constructors(3) [OF this]
  show ?thesis by fastforce
next
  assume "NewApierRole G C cr img (Some cc) op spec info = Done q"
  from api_settings.registered_settings [OF assms(1) _ _ assms(2)] role_constructors(4) [OF this]
  show ?thesis by fastforce
qed

text \<open>
  C7. The settings of the whole cluster reach every workload: after a successful registration
  every workload of every role is stopped exactly if the custom resource stops the cluster, has the
  image of the custom resource, and all its containers run that image and take the ZooKeeper
  address from the config map that the custom resource names.
\<close>

theorem cluster_settings_reach_workloads:
  assumes "registerInstance G C M buildVersion K inst = Done (None, r)"
  shows "\<exists>img cc. Cluster_GetImage G buildVersion (NewClusterReconciler (instanceInfo K inst) (dc_Spec inst)) =
      Done img \<and> spec_ClusterConfig (dc_Spec inst) = Some cc \<and>
    (\<forall>role w. RoleResource role \<in> set (cl_Resources r) \<and> WorkloadResource w \<in> set (rr_Resources role) \<longrightarrow>
       has_settings img (spec_ClusterOperationSpec (dc_Spec inst)) (cc_ZookeeperConfigMapName cc) w)"
proof -
  let ?r = "NewClusterReconciler (instanceInfo K inst) (dc_Spec inst)"
  let ?op = "spec_ClusterOperationSpec (dc_Spec inst)"
  have fields: "cl_ClusterConfig ?r = spec_ClusterConfig (dc_Spec inst)" "cl_ClusterOperation ?r = ?op"
    "cl_Resources ?r = []"
    by (simp_all add: NewClusterReconciler_def)
  from assms obtain img job master alerter api worker roles where
    img: "Cluster_GetImage G buildVersion ?r = Done img"
    and m: "NewMasterRole G (instanceClient C inst) inst img (cl_ClusterConfig ?r) (cl_ClusterOperation ?r)
      (spec_Master (cl_Spec ?r)) \<lparr>ri_ClusterInfo = cl_ClusterInfo ?r, ri_RoleName = Master\<rparr> = Done master"
    and al: "NewAlerterRole G (instanceClient C inst) inst img (cl_ClusterConfig ?r) (cl_ClusterOperation ?r)
      (spec_Alerter (cl_Spec ?r)) \<lparr>ri_ClusterInfo = cl_ClusterInfo ?r, ri_RoleName = Alerter\<rparr> = Done alerter"
    and ap: "NewApierRole G (instanceClient C inst) inst img (cl_ClusterConfig ?r) (cl_ClusterOperation ?r)
      (spec_Api (cl_Spec ?r)) \<lparr>ri_ClusterInfo = cl_ClusterInfo ?r, ri_RoleName = Api\<rparr> = Done api"
    and wo: "NewWorkerRole G (instanceClient C inst) inst img (cl_ClusterConfig ?r) (cl_ClusterOperation ?r)
      (spec_Worker (cl_Spec ?r)) \<lparr>ri_ClusterInfo = cl_ClusterInfo ?r, ri_RoleName = Worker\<rparr> = Done worker"
    and reg: "list_all2 (\<lambda>r r'. RegisterResources G (instanceClient C inst) M r = Done (None, r'))
      [master, alerter, api, worker] roles"
    and roles: "{role. RoleResource role \<in> set (cl_Resources r)} = set roles"
    unfolding registerInstance_def
    by (rule Cluster_RegisterResources_Done) (rule that, assumption+, auto simp: fields)
  from m obtain cc where cc: "spec_ClusterConfig (dc_Spec inst) = Some cc"
    by (auto simp: NewMasterRole_def go_bind_Done_iff go_deref_Done_iff fields)
  note built = m [unfolded fields cc] al [unfolded fields cc] ap [unfolded fields cc] wo [unfolded fields cc]
  have "has_settings img ?op (cc_ZookeeperConfigMapName cc) w"
    if role: "role \<in> set roles" and w: "WorkloadResource w \<in> set (rr_Resources role)" for role w
  proof -
    from reg role obtain q where q: "q \<in> set [master, alerter, api, worker]"
      "RegisterResources G (instanceClient C inst) M q = Done (None, role)"
      unfolding list_all2_conv_all_nth by (metis in_set_conv_nth)
    from q(1) consider "q = master" | "q = alerter" | "q = api" | "q = worker" by auto
    then show ?thesis
      by cases (rule role_settings [OF q(2) w], rule disjI1 disjI2, use built in \<open>blast\<close>)+
  qed
  with img cc roles show ?thesis by blast
qed

theorem cluster_settings_reach_workloads_witness:
  "\<exists>r img role w. registerInstance example_opgo db_client example_merge ''N/A'' example_kube example_cr =
      Done (None, r) \<and> RoleResource role \<in> set (cl_Resources r) \<and>
    WorkloadResource w \<in> set (rr_Resources role) \<and> has_settings img None ''znode'' w"
proof -
  obtain r sa ro rb job roles where
    r: "registerInstance example_opgo db_client example_merge ''N/A'' example_kube example_cr = Done (None, r)"
    and res: "cl_Resources r = [ServiceAccountResource sa, RbacRoleResource ro, RoleBindingResource rb,
      JobResource job] @ map RoleResource roles"
    and roles: "list_all2 (complete_role example_opgo (instanceInfo example_kube example_cr))
      (cluster_roles (dc_Spec example_cr)) roles"
    using example_instance_registers by (elim exE conjE) (rule that)
  obtain role where role: "role \<in> set roles"
    "complete_role example_opgo (instanceInfo example_kube example_cr) (Master, Some example_role) role"
  proof -
    have "spec_Master (dc_Spec example_cr) = Some example_role" by (simp add: example_cr_def)
    with roles show thesis by (cases roles) (auto simp: cluster_roles_def intro: that)
  qed
  then obtain w where w: "WorkloadResource w \<in> set (rr_Resources role)"
    by (auto simp: complete_role_def has_workload_def example_role_def)
  have "RoleResource role \<in> set (cl_Resources r)" using role(1) by (simp add: res)
  moreover have "spec_ClusterOperationSpec (dc_Spec example_cr) = None"
    "spec_ClusterConfig (dc_Spec example_cr) = Some example_cluster_config"
    "cc_ZookeeperConfigMapName example_cluster_config = ''znode''"
    by (simp_all add: example_cr_def example_cluster_config_def)
  ultimately obtain img where "has_settings img None ''znode'' w"
    using cluster_settings_reach_workloads [OF r] w by (elim exE conjE) auto
  with r \<open>RoleResource role \<in> set (cl_Resources r)\<close> w show ?thesis
    by (intro exI conjI)
qed

end
