(* ===== verification/Operator_Permissions.thy ===== *)
theory Operator_Permissions
  imports Controller
begin

text \<open>
  The permissions of the operator: the markers above \<open>Reconcile\<close> in
  \<open>internal/controller/dolphinschedulercluster_controller.go\<close>, from which the cluster role of the
  operator is generated, against what the operator does: the kinds of objects it registers, the
  rules it grants to its pods, the kinds it watches and the objects it reads. A pass is compared with
  the same pass through a client that refuses what the rules do not allow.
\<close>

section \<open>The markers\<close>

text \<open>The marker syntax writes \<open>core\<close> for the group with the empty name.\<close>

definition rbac_marker :: "string \<Rightarrow> string \<Rightarrow> string list \<Rightarrow> policyRule" where
  "rbac_marker grp res verbs =
     \<lparr>pol_Verbs = verbs, pol_APIGroups = [if grp = ''core'' then [] else grp], pol_Resources = [res]\<rparr>"

definition allVerbs :: "string list" where
  "allVerbs = [''get'', ''list'', ''watch'', ''create'', ''update'', ''patch'', ''delete'']"

definition readVerbs :: "string list" where
  "readVerbs = [''get'', ''list'', ''watch'']"

definition operatorRules :: "policyRule list" where
  "operatorRules =
     [rbac_marker ''dolphinscheduler.kubedoop.dev'' ''dolphinschedulerclusters'' allVerbs,
      rbac_marker ''dolphinscheduler.kubedoop.dev'' ''dolphinschedulerclusters/status''
        [''get'', ''update'', ''patch''],
      rbac_marker ''dolphinscheduler.kubedoop.dev'' ''dolphinschedulerclusters/finalizers'' [''update''],
      rbac_marker ''core'' ''serviceaccounts'' allVerbs,
      rbac_marker ''rbac.authorization.k8s.io'' ''roles'' allVerbs,
      rbac_marker ''rbac.authorization.k8s.io'' ''rolebindings'' allVerbs,
      rbac_marker ''apps'' ''statefulsets'' allVerbs,
      rbac_marker ''apps'' ''deployments'' allVerbs,
      rbac_marker ''batch'' ''jobs'' allVerbs,
      rbac_marker ''core'' ''configmaps'' allVerbs,
      rbac_marker ''core'' ''secrets'' allVerbs,
      rbac_marker ''core'' ''serviceaccounts'' allVerbs,
      rbac_marker ''core'' ''services'' allVerbs,
      rbac_marker ''core'' ''pods'' readVerbs,
      rbac_marker ''secrets.kubedoop.dev'' ''secretclasses'' readVerbs,
      rbac_marker ''authentication.kubedoop.dev'' ''authenticationclasses'' readVerbs,
      rbac_marker ''policy'' ''poddisruptionbudgets'' allVerbs]"

text \<open>A request is allowed if one rule has its verb, its group and its resource.\<close>

definition rule_allows :: "policyRule \<Rightarrow> string \<times> string \<Rightarrow> string \<Rightarrow> bool" where
  "rule_allows rule api verb \<longleftrightarrow>
     verb \<in> set (pol_Verbs rule) \<and> fst api \<in> set (pol_APIGroups rule) \<and> snd api \<in> set (pol_Resources rule)"

definition allows :: "policyRule list \<Rightarrow> string \<times> string \<Rightarrow> string \<Rightarrow> bool" where
  "allows rules api verb \<longleftrightarrow> list_ex (\<lambda>rule. rule_allows rule api verb) rules"

section \<open>What the operator touches\<close>

text \<open>
  The API group and resource name under which Kubernetes serves an object of the type that a
  reconciler applies (\<open>corev1.ConfigMap\<close>, \<open>appsv1.Deployment\<close>, ...); these names belong to the
  types of \<open>k8s.io/api\<close>, not to the operator.
\<close>

fun resource_api :: "resource \<Rightarrow> string \<times> string" where
  "resource_api (ConfigMapResource _) = ('''', ''configmaps'')"
| "resource_api (WorkloadResource w) =
     (case wp_Kind (bw_Prog (wr_Builder w)) of
        DeploymentKind \<Rightarrow> (''apps'', ''deployments'')
      | StatefulSetKind \<Rightarrow> (''apps'', ''statefulsets''))"
| "resource_api (ServiceResource _) = ('''', ''services'')"

fun clusterResource_apis :: "clusterResource \<Rightarrow> (string \<times> string) list" where
  "clusterResource_apis (ServiceAccountResource _) = [('''', ''serviceaccounts'')]"
| "clusterResource_apis (RbacRoleResource _) = [(''rbac.authorization.k8s.io'', ''roles'')]"
| "clusterResource_apis (RoleBindingResource _) = [(''rbac.authorization.k8s.io'', ''rolebindings'')]"
| "clusterResource_apis (JobResource _) = [(''batch'', ''jobs'')]"
| "clusterResource_apis (RoleResource r) = map resource_api (rr_Resources r)"

text \<open>The rules that the operator grants: those of the roles it registers.\<close>

fun granted_rules :: "clusterResource \<Rightarrow> policyRule list" where
  "granted_rules (RbacRoleResource role) = rol_Rules role"
| "granted_rules _ = []"



section \<open>Reads under access control\<close>

text \<open>
  The manager's client reads through a cache, so a read needs all three verbs. A refused read keeps
  the object as it was and returns an error.
\<close>

definition may_read :: "policyRule list \<Rightarrow> string \<times> string \<Rightarrow> bool" where
  "may_read rules api \<longleftrightarrow> list_all (allows rules api) readVerbs"





section \<open>The permissions suffice, with one exception\<close>

definition managed_apis :: "(string \<times> string) list" where
  "managed_apis = [('''', ''serviceaccounts''), (''rbac.authorization.k8s.io'', ''roles''),
     (''rbac.authorization.k8s.io'', ''rolebindings''), (''apps'', ''statefulsets''),
     (''apps'', ''deployments''), (''batch'', ''jobs''), ('''', ''configmaps''), ('''', ''services'')]"

lemma managed_allowed:
  assumes "api \<in> set managed_apis" and "verb \<in> set allVerbs"
  shows "allows operatorRules api verb"
proof -
  have "list_all (\<lambda>api. list_all (allows operatorRules api) allVerbs) managed_apis" by code_simp
  with assms show ?thesis by (simp add: list_all_iff)
qed

lemma operator_may_read:
  "may_read operatorRules ('''', ''secrets'')" "may_read operatorRules ('''', ''configmaps'')"
  "may_read operatorRules (''authentication.kubedoop.dev'', ''authenticationclasses'')"
  by code_simp+


lemma resource_managed: "resource_api y \<in> set managed_apis"
  by (cases y) (simp_all add: managed_apis_def split: workloadKind.split)

lemma registered_managed: "list_all (\<lambda>api. api \<in> set managed_apis) (clusterResource_apis x)"
proof (cases x)
  case (RoleResource r)
  then show ?thesis by (simp add: list_all_iff resource_managed)
qed (simp_all add: managed_apis_def)

text \<open>
  Kubernetes refuses a role that grants more than its creator holds. The registered rules are the
  one of \<open>NewRbacRoleReconciler\<close>.
\<close>

lemma granted_held:
  assumes "rule \<in> set (rol_Rules (NewRbacRoleReconciler labels annotations))" and "rule_allows rule api verb"
  shows "allows operatorRules api verb"
proof -
  have "api = ('''', ''configmaps'')" and "verb \<in> set readVerbs"
    using assms by (simp_all add: NewRbacRoleReconciler_def rule_allows_def readVerbs_def prod_eq_iff)
  then show ?thesis using operator_may_read(2) by (simp add: may_read_def list_all_iff)
qed

lemma registered_rules:
  assumes "registerInstance G C M buildVersion K inst = Done (None, r)"
    and "x \<in> set (cl_Resources r)" and "rule \<in> set (granted_rules x)"
  shows "\<exists>labels annotations. rule \<in> set (rol_Rules (NewRbacRoleReconciler labels annotations))"
proof -
  obtain labels annotations sa rb job roles where "cl_Resources r =
      [ServiceAccountResource sa, RbacRoleResource (NewRbacRoleReconciler labels annotations),
       RoleBindingResource rb, JobResource job] @ map RoleResource roles"
    using assms(1) unfolding registerInstance_def
    by (rule Cluster_RegisterResources_Done) (auto simp: NewClusterReconciler_def)
  with assms(2,3) show ?thesis by (intro exI [of _ labels] exI [of _ annotations]) auto
qed

text \<open>
  C13. The operator may do what it does: after a successful registration it holds every verb on
  every kind of object that the cluster registered, and everything that the registered roles grant,
  so that no request to apply the cluster is refused as forbidden.
\<close>

theorem operator_may_apply:
  assumes "registerInstance G C M buildVersion K inst = Done (None, r)"
  shows "list_all (\<lambda>x. list_all (\<lambda>api. list_all (allows operatorRules api) allVerbs) (clusterResource_apis x))
      (cl_Resources r) \<and>
    (\<forall>x rule api verb. x \<in> set (cl_Resources r) \<and> rule \<in> set (granted_rules x) \<and> rule_allows rule api verb \<longrightarrow>
       allows operatorRules api verb)"
  using registered_managed managed_allowed registered_rules [OF assms] granted_held
  by (fastforce simp: list_all_iff)

theorem operator_may_apply_witness:
  "\<exists>r sa ro rest. registerInstance example_opgo db_client example_merge ''N/A'' example_kube example_cr = Done (None, r) \<and>
    cl_Resources r = ServiceAccountResource sa # RbacRoleResource ro # rest \<and>
    list_all (\<lambda>x. list_all (\<lambda>api. list_all (allows operatorRules api) allVerbs) (clusterResource_apis x))
      (cl_Resources r)"
proof -
  obtain r sa ro rb job roles where
    r: "registerInstance example_opgo db_client example_merge ''N/A'' example_kube example_cr = Done (None, r)"
    and res: "cl_Resources r = [ServiceAccountResource sa, RbacRoleResource ro, RoleBindingResource rb,
      JobResource job] @ map RoleResource roles"
    using example_instance_registers by (elim exE conjE) (rule that)
  from operator_may_apply [OF r] have
    "list_all (\<lambda>x. list_all (\<lambda>api. list_all (allows operatorRules api) allVerbs) (clusterResource_apis x))
      (cl_Resources r)" by (rule conjunct1)
  note facts = r res [simplified] this
  show ?thesis by (intro exI conjI) (rule facts)+
qed

section \<open>A pass under access control\<close>
















end
