(* ===== verification/Pod_Volumes.thy ===== *)
theory Pod_Volumes
  imports Role_Builders
begin

text \<open>
  How the pieces of a role group fit inside a pod: the mounts that \<open>container.go\<close> gives a container,
  the volumes that \<open>workload.go\<close> gives the pod, and the config map that \<open>configmap.go\<close> writes are made
  in three places that only share names. The definitions follow a mount through its volume to the
  registered config map, as the kubelet does; the theorems say which file a server reads.
\<close>

section \<open>Following a mount\<close>

fun mount_calls :: "container_call list \<Rightarrow> volumeMount list" where
  "mount_calls [] = []"
| "mount_calls (AddVolumeMounts ms # calls) = ms @ mount_calls calls"
| "mount_calls (_ # calls) = mount_calls calls"

fun container_mounts :: "container \<Rightarrow> volumeMount list" where
  "container_mounts (BuiltContainer bc) = mount_calls (bc_Calls bc)"
| "container_mounts (PlainContainer _ _ _) = []"

definition workload_volumes :: "workloadReconciler \<Rightarrow> volume list" where
  "workload_volumes w = wb_volumes (bw_Workload (wr_Builder w))"

definition workload_claims :: "workloadReconciler \<Rightarrow> string list" where
  "workload_claims w = map pvc_Name (wb_pvcs (bw_Workload (wr_Builder w)))"

fun registered_config_map :: "string \<Rightarrow> resource list \<Rightarrow> configMapResource option" where
  "registered_config_map n [] = None"
| "registered_config_map n (ConfigMapResource cm # rs) =
     (if cm_Name cm = n then Some cm else registered_config_map n rs)"
| "registered_config_map n (_ # rs) = registered_config_map n rs"

text \<open>
  The files of a config map volume: all keys, or with a list of items the named keys under their
  paths.
\<close>

definition projected :: "(string \<times> string) list \<Rightarrow> string go_map \<Rightarrow> string \<Rightarrow> string option" where
  "projected items data f =
     (if items = [] then gm_get data f
      else Option.bind (find (\<lambda>(key, p). p = f) items) (\<lambda>(key, p). gm_get data key))"

fun volume_file :: "resource list \<Rightarrow> volumeSource \<Rightarrow> string \<Rightarrow> string option" where
  "volume_file rs (ConfigMapVolume n items) f =
     Option.bind (registered_config_map n rs) (\<lambda>cm. projected items (cm_Data cm) f)"
| "volume_file rs _ f = None"

definition mounted_text :: "resource list \<Rightarrow> workloadReconciler \<Rightarrow> volumeMount \<Rightarrow> string option" where
  "mounted_text rs w m =
     Option.bind (find (\<lambda>v. vol_Name v = vm_Name m) (workload_volumes w))
       (\<lambda>v. volume_file rs (vol_Source v) (vm_SubPath m))"

section \<open>What the builders give a pod\<close>

lemma container_mounts_Build:
  "bc_Calls (cb_Container c) = [] \<Longrightarrow> container_mounts (fst (Build G c)) = cb_volumeMounts c"
  by (simp add: Build_container build_calls_def split: option.split)

lemma CreateDeploymentReconciler_volumes:
  "workload_volumes (CreateDeploymentReconciler G c img reps op info ov rgc vols) =
   commonVolumes G info @ vols"
  by (simp add: CreateDeploymentReconciler_def NewDeploymentReconciler_def NewWorkloadBuilder_def
      WithVolumes_def workload_volumes_def Let_def)

lemma CreateStatefulSetReconciler_volumes:
  "CreateStatefulSetReconciler G c img reps op info ov rgc pvc = Done w \<Longrightarrow>
   workload_volumes w = commonVolumes G info \<and>
   workload_claims w = (if pvc = [] then [] else [pvc])"
  by (auto simp: CreateStatefulSetReconciler_def NewStatefulSetReconciler_def NewWorkloadBuilder_def
      WithPvcTemplates_def workload_volumes_def workload_claims_def Let_def go_bind_Done_iff split: if_splits)

lemma roleContainer_mounts:
  "roleContainer G a name info rgc ports envs p = Done c \<Longrightarrow>
   bc_Calls (cb_Container c) = [] \<and> cb_RoleGroupInfo c = info \<and>
   cb_volumeMounts c = commonVolumeMounts G info"
  by (auto simp: roleContainer_eq NewContainerBuilder_def)

lemma ldapMounts_volume:
  "ldapMounts G ps = Done (Some (vol, mount, n), e) \<Longrightarrow> vol_Name vol = LdapBindCredintialsVolumeName"
  by (induction ps)
    (auto simp: AddLdapCredintialsVolumesAndVolumeMounts_def go_bind_Done_iff Let_def
      split: if_splits option.splits)

lemma Authentication_volume:
  assumes "Authentication G C specs = Done (r, None)" and "ar_LdapVolume r = Some vol"
  shows "vol_Name vol = LdapBindCredintialsVolumeName"
  using assms ldapMounts_volume
  by (auto simp: Authentication_def go_bind_Done_iff split: option.splits)

text \<open>The API server: at most one more volume, and a mount of it.\<close>

lemma authentication_mounts:
  assumes "authentication G C a c = Done ((vols, None), c')"
  shows "\<exists>ms. cb_volumeMounts c' = cb_volumeMounts c @ ms \<and> map vm_Name ms = map vol_Name vols \<and>
    (vols = [] \<or> map vol_Name vols = [LdapBindCredintialsVolumeName])"
proof (cases "rb_authenticationSpec a")
  case None
  with assms show ?thesis by (simp add: authentication_def)
next
  case (Some specs)
  with assms obtain r where r: "Authentication G C specs = Done (r, None)"
    by (auto simp: authentication_def go_bind_Done_iff split: option.splits)
  with Some assms show ?thesis
    by (cases "ar_LdapVolume r"; cases "ar_LdapVolumeMount r")
      (auto simp: authentication_def WithEnvs_eq WithVolumeMounts_single fold_WithSecretEnvFrom
        ResetCommandArgs_def Authentication_volume Let_def)
qed

lemma CreateDeploymentReconciler_claims:
  "workload_claims (CreateDeploymentReconciler G c img reps op info ov rgc vols) = []"
  by (simp add: CreateDeploymentReconciler_def NewDeploymentReconciler_def NewWorkloadBuilder_def
      WithVolumes_def workload_claims_def Let_def)

definition main_container :: "role \<Rightarrow> string" where
  "main_container role =
     (if role = Master then MasterContainerName else if role = Worker then WorkerContainerName
      else if role = Alerter then AlerterContainerName else ApiContainerName)"

text \<open>
  The pod of a role group: the first resource is the config map of the group, and the container and
  the pod have the common mounts and volumes, the API server possibly one more of each.
\<close>

definition role_pod ::
  "opgo \<Rightarrow> client \<Rightarrow> dolphinschedulerCluster \<Rightarrow> role \<Rightarrow> roleGroupInfo \<Rightarrow> overridesSpec option \<Rightarrow>
   roleGroupConfigSpec option \<Rightarrow> resource list \<Rightarrow> workloadReconciler \<Rightarrow> container \<Rightarrow> bool" where
  "role_pod G C cr role info ov rgc rs w c \<longleftrightarrow>
     filter is_workload rs = [WorkloadResource w] \<and> workload_containers w = [c] \<and>
     (\<exists>b. c = fst (Build G b) \<and> bc_Calls (cb_Container b) = [] \<and> cb_RoleGroupInfo b = info) \<and>
     (\<exists>cm rest. rs = ConfigMapResource cm # rest \<and>
        NewConfigMapReconciler G C cr info (main_container role) ov rgc = Done cm) \<and>
     (\<exists>ms vols. container_mounts c = commonVolumeMounts G info @ ms \<and>
        workload_volumes w = commonVolumes G info @ vols \<and> map vm_Name ms = map vol_Name vols \<and>
        (vols = [] \<or> map vol_Name vols = [LdapBindCredintialsVolumeName])) \<and>
     workload_claims w = (if role = Worker then [WorkerDataVolumeName] else [])"

lemma role_pod_workload:
  assumes "role_pod G C cr role info ov rgc rs w c"
  shows "filter is_workload rs = [WorkloadResource w]" and "workload_containers w = [c]"
    and "workload_claims w = (if role = Worker then [WorkerDataVolumeName] else [])"
  using assms by (simp_all add: role_pod_def)

lemma role_pod_container:
  assumes "role_pod G C cr role info ov rgc rs w c"
  obtains b where "c = fst (Build G b)" and "bc_Calls (cb_Container b) = []" and "cb_RoleGroupInfo b = info"
  using assms unfolding role_pod_def by (elim conjE exE)

lemma Master_pod:
  assumes "Master_ResourceReconcilers G C cr a replicas info ov rgc = Done rs"
  shows "\<exists>w c. role_pod G C cr Master info ov rgc rs w c"
proof -
  from assms obtain cm envs c w svc where
    "NewConfigMapReconciler G C cr info MasterContainerName ov rgc = Done cm"
    and c: "roleContainer G a MasterContainerName info rgc masterPorts masterEnvs MasterActualPort = Done c"
    and w: "CreateStatefulSetReconciler G c (rb_image a) replicas (rb_clusterOperation a) info ov rgc [] =
      Done w"
    and "rs = [ConfigMapResource cm, ConfigMapResource envs, WorkloadResource w, ServiceResource svc]"
    by (auto simp: Master_ResourceReconcilers_def masterContainer_chain go_bind_Done_iff)
  with CreateStatefulSetReconciler_Done [OF w] CreateStatefulSetReconciler_volumes [OF w]
    roleContainer_mounts [OF c]
  show ?thesis by (auto simp: role_pod_def container_mounts_Build main_container_def role_names)
qed

lemma Worker_pod:
  assumes "Worker_ResourceReconcilers G C cr a replicas info ov rgc = Done rs"
  shows "\<exists>w c. role_pod G C cr Worker info ov rgc rs w c"
proof -
  from assms obtain cm c w svc where
    "NewConfigMapReconciler G C cr info WorkerContainerName ov rgc = Done cm"
    and c: "roleContainer G a WorkerContainerName info rgc workerPorts workerEnvs WorkerActualPort = Done c"
    and w: "CreateStatefulSetReconciler G c (rb_image a) replicas (rb_clusterOperation a) info ov rgc
      WorkerDataVolumeName = Done w"
    and "rs = [ConfigMapResource cm, WorkloadResource w, ServiceResource svc]"
    by (auto simp: Worker_ResourceReconcilers_def workerContainer_chain go_bind_Done_iff)
  moreover have "WorkerDataVolumeName \<noteq> []" by (simp add: const_simps)
  ultimately show ?thesis
    using CreateStatefulSetReconciler_Done [OF w] CreateStatefulSetReconciler_volumes [OF w]
      roleContainer_mounts [OF c]
    by (auto simp: role_pod_def container_mounts_Build main_container_def role_names)
qed

lemma Alerter_pod:
  assumes "Alerter_ResourceReconcilers G C cr a replicas info ov rgc = Done rs"
  shows "\<exists>w c. role_pod G C cr Alerter info ov rgc rs w c"
proof -
  from assms obtain cm c svc where
    "NewConfigMapReconciler G C cr info AlerterContainerName ov rgc = Done cm"
    and c: "roleContainer G a AlerterContainerName info rgc alerterPorts javaOptsEnvs AlerterActualPort =
      Done c"
    and "rs = [ConfigMapResource cm, WorkloadResource (CreateDeploymentReconciler G c (rb_image a) replicas
      (rb_clusterOperation a) info ov rgc []), ServiceResource svc]"
    by (auto simp: Alerter_ResourceReconcilers_def alerterContainer_chain go_bind_Done_iff Let_def)
  with roleContainer_mounts [OF c] show ?thesis
    by (auto simp: role_pod_def container_mounts_Build main_container_def role_names
        CreateDeploymentReconciler_containers CreateDeploymentReconciler_volumes
        CreateDeploymentReconciler_claims)
qed

lemma Api_pod:
  assumes "Api_ResourceReconcilers G C cr a replicas info ov rgc = Done rs" and "rs \<noteq> []"
  shows "\<exists>w c. role_pod G C cr Api info ov rgc rs w c"
proof -
  from assms obtain cm c vols c' svc where
    cm: "NewConfigMapReconciler G C cr info ApiContainerName ov rgc = Done cm"
    and c: "roleContainer G a ApiContainerName info rgc apiPorts javaOptsEnvs ApiPort = Done c"
    and c': "authentication G C a c = Done ((vols, None), c')"
    and rs: "rs = [ConfigMapResource cm, WorkloadResource (CreateDeploymentReconciler G c' (rb_image a)
        replicas (rb_clusterOperation a) info ov rgc vols), ServiceResource svc]"
    by (auto simp: Api_ResourceReconcilers_def apiContainer_chain go_bind_Done_iff Let_def split: option.splits)
  have c'_id: "bc_Calls (cb_Container c') = []" "cb_RoleGroupInfo c' = info"
    using authentication_keeps [OF c'] roleContainer_mounts [OF c] by (simp_all add: identity_of_def)
  moreover have "container_mounts (fst (Build G c')) = cb_volumeMounts c'"
    by (rule container_mounts_Build [OF c'_id(1)])
  moreover obtain ms where "cb_volumeMounts c' = commonVolumeMounts G info @ ms"
    "map vm_Name ms = map vol_Name vols"
    "vols = [] \<or> map vol_Name vols = [LdapBindCredintialsVolumeName]"
    using authentication_mounts [OF c'] roleContainer_mounts [OF c] by auto
  ultimately show ?thesis
    using cm by (auto simp: rs role_pod_def main_container_def role_names
        CreateDeploymentReconciler_containers CreateDeploymentReconciler_volumes
        CreateDeploymentReconciler_claims)
qed

lemma role_build_pod:
  assumes "known_role role" and "role_build G C cr a role replicas info ov rgc = Done rs" and "rs \<noteq> []"
  obtains w c where "role_pod G C cr role info ov rgc rs w c"
proof -
  have "\<exists>w c. role_pod G C cr role info ov rgc rs w c"
    using assms Master_pod Worker_pod Alerter_pod Api_pod
    by (auto simp: known_role_def role_build_def role_names)
  then show thesis using that by (elim exE)
qed

section \<open>The configuration files of a server\<close>

lemma commonVolumes_find:
  "find (\<lambda>v. vol_Name v = ConfigVolumeName) (commonVolumes G info @ vols) =
     Some \<lparr>vol_Name = ConfigVolumeName, vol_Source = ConfigMapVolume (RoleGroupConfigMapName G info) []\<rparr>"
  "find (\<lambda>v. vol_Name v = LogbackVolumeName) (commonVolumes G info @ vols) =
     Some \<lparr>vol_Name = LogbackVolumeName,
           vol_Source = ConfigMapVolume (RoleGroupConfigMapName G info)
                          [(LogbackPropertiesFileName, LogbackPropertiesFileName)]\<rparr>"
  by (simp_all add: commonVolumes_def const_simps)

text \<open>
  The config map has both files if both generators succeed; the vector file, whose name operator-go
  fixes, must not be one of them.
\<close>

lemma ConfigMap_files:
  assumes "NewConfigMapReconciler G C cr info container ov (Some spec) = Done cm"
    and "CommonPropertiesGenerator_Generate C
      \<lparr>cpg_s3 = cr_s3 cr, cpg_namespace = GetOwnerNamespace C, cpg_overrides = ov\<rparr> = Done (props, None)"
    and "LogbackXmlGenerator_Generate G
      \<lparr>lxg_loggingSpec = rgc_Logging spec, lxg_container = container\<rparr> = Done (xml, None)"
    and "VectorConfigFileName G \<notin> {DolphinCommonPropertiesName, LogbackPropertiesFileName}"
  shows "cm_Name cm = RoleGroupConfigMapName G info \<and>
    gm_get (cm_Data cm) DolphinCommonPropertiesName = Some props \<and>
    gm_get (cm_Data cm) LogbackPropertiesFileName = Some xml"
proof -
  let ?data = "gm_put LogbackPropertiesFileName xml (gm_put DolphinCommonPropertiesName props [])"
  have "DolphinCommonPropertiesName \<noteq> LogbackPropertiesFileName"
    using distinct_files by (simp add: CommonPropertiesGenerator_FileName_def LogbackXmlGenerator_FileName_def)
  then have "gm_get ?data DolphinCommonPropertiesName = Some props"
    "gm_get ?data LogbackPropertiesFileName = Some xml"
    by (simp_all add: gm_get_put)
  moreover from assms(1-3) have "cm_Name cm = RoleGroupConfigMapName G info \<and>
      (cm_Data cm = ?data \<or> (\<exists>v. cm_Data cm = gm_put (VectorConfigFileName G) v ?data))"
    by (auto simp: NewConfigMapReconciler_def cr_s3_def GenerateAllFile_def go_bind_Done_iff
        CommonPropertiesGenerator_FileName_def LogbackXmlGenerator_FileName_def
        ExtendConfigMapDataByVector_def Let_def split: if_splits option.splits)
  ultimately show ?thesis using assms(4) by (auto simp: gm_get_put)
qed

text \<open>
  C6. The server of every role finds its configuration: its only container mounts, at the
  paths where the server of the role reads \<open>common.properties\<close> and \<open>logback-spring.xml\<close>, exactly the
  texts that the two generators make for the role group. Every mount names a volume of the pod and no
  two volumes have the same name, also with the LDAP volume of the API server.
\<close>

theorem role_config_files_mounted:
  assumes "known_role role"
    and "role_build G C cr a role replicas info ov (Some spec) = Done rs" and "rs \<noteq> []"
    and "CommonPropertiesGenerator_Generate C
      \<lparr>cpg_s3 = cr_s3 cr, cpg_namespace = GetOwnerNamespace C, cpg_overrides = ov\<rparr> = Done (props, None)"
    and "LogbackXmlGenerator_Generate G
      \<lparr>lxg_loggingSpec = rgc_Logging spec, lxg_container = main_container role\<rparr> = Done (xml, None)"
    and "VectorConfigFileName G \<notin> {DolphinCommonPropertiesName, LogbackPropertiesFileName}"
  shows "\<exists>w c. filter is_workload rs = [WorkloadResource w] \<and> workload_containers w = [c] \<and>
    distinct (map vol_Name (workload_volumes w)) \<and>
    set (map vm_Name (container_mounts c)) \<subseteq> set (map vol_Name (workload_volumes w)) \<and>
    (\<exists>m \<in> set (container_mounts c). mounted_text rs w m = Some props \<and>
       vm_MountPath m = RoleConfigPath G (ri_RoleName (rgi_RoleInfo info)) DolphinCommonPropertiesName) \<and>
    (\<exists>m \<in> set (container_mounts c). mounted_text rs w m = Some xml \<and>
       vm_MountPath m = RoleConfigPath G (ri_RoleName (rgi_RoleInfo info)) LogbackPropertiesFileName)"
proof -
  obtain w c where pod: "role_pod G C cr role info ov (Some spec) rs w c"
    by (rule role_build_pod [OF assms(1-3)])
  then obtain cm rest ms vols where rs: "rs = ConfigMapResource cm # rest"
    and cm: "NewConfigMapReconciler G C cr info (main_container role) ov (Some spec) = Done cm"
    and ms: "container_mounts c = commonVolumeMounts G info @ ms" "map vm_Name ms = map vol_Name vols"
    and vols: "workload_volumes w = commonVolumes G info @ vols"
      "vols = [] \<or> map vol_Name vols = [LdapBindCredintialsVolumeName]"
    unfolding role_pod_def by (elim conjE exE)
  note data = ConfigMap_files [OF cm assms(4-6)]
  have shown: "mounted_text rs w m = Some (if vm_Name m = ConfigVolumeName then props else xml)"
    if "m \<in> set (commonVolumeMounts G info)" for m
    using that data rs
    by (auto simp: mounted_text_def vols(1) commonVolumeMounts_def commonVolumes_find projected_def Let_def)
      (simp add: const_simps)
  have "distinct (map vol_Name (workload_volumes w))"
    using vols by (auto simp: commonVolumes_def const_simps)
  moreover have "set (map vm_Name (container_mounts c)) \<subseteq> set (map vol_Name (workload_volumes w))"
    using ms vols(1) by (simp add: commonVolumeMounts_def commonVolumes_def Let_def subset_insertI2)
  moreover have "\<exists>m \<in> set (container_mounts c). mounted_text rs w m = Some props \<and>
      vm_MountPath m = RoleConfigPath G (ri_RoleName (rgi_RoleInfo info)) DolphinCommonPropertiesName"
    using shown [of "commonVolumeMounts G info ! 0"] ms(1)
    by (simp add: commonVolumeMounts_def Let_def)
  moreover have "\<exists>m \<in> set (container_mounts c). mounted_text rs w m = Some xml \<and>
      vm_MountPath m = RoleConfigPath G (ri_RoleName (rgi_RoleInfo info)) LogbackPropertiesFileName"
    using shown [of "commonVolumeMounts G info ! 1"] ms(1)
    by (simp add: commonVolumeMounts_def Let_def const_simps)
  ultimately show ?thesis
    using role_pod_workload [OF pod] by (intro exI [of _ w] exI [of _ c] conjI) (simp_all only:)
qed

text \<open>
  C38. No server keeps its log or its data on a volume: the container of no role mounts the log
  volume, which is made for the pod and from which the vector agent reads, and no worker mounts its
  claimed data volume.
\<close>

theorem role_logs_unmounted:
  assumes "known_role role"
    and "role_build G C cr a role replicas info ov rgc = Done rs" and "rs \<noteq> []"
  shows "\<exists>w c. filter is_workload rs = [WorkloadResource w] \<and> workload_containers w = [c] \<and>
    LoggingVolumeName \<in> set (map vol_Name (workload_volumes w)) \<and>
    workload_claims w = (if role = Worker then [WorkerDataVolumeName] else []) \<and>
    vf_LogVolume (GetVecctorFactory img) = LoggingVolumeName \<and>
    set (map vm_Name (container_mounts c)) \<inter> {LoggingVolumeName, WorkerDataVolumeName} = {}"
proof -
  obtain w c where pod: "role_pod G C cr role info ov rgc rs w c"
    by (rule role_build_pod [OF assms])
  then obtain ms vols where "container_mounts c = commonVolumeMounts G info @ ms"
    and vols: "workload_volumes w = commonVolumes G info @ vols"
    and "map vm_Name ms = map vol_Name vols"
    and "vols = [] \<or> map vol_Name vols = [LdapBindCredintialsVolumeName]"
    unfolding role_pod_def by (elim conjE exE)
  then have "map vm_Name (container_mounts c) \<in>
      {[ConfigVolumeName, LogbackVolumeName],
       [ConfigVolumeName, LogbackVolumeName, LdapBindCredintialsVolumeName]}"
    by (auto simp: commonVolumeMounts_def Let_def)
  then have "set (map vm_Name (container_mounts c)) \<inter> {LoggingVolumeName, WorkerDataVolumeName} = {}"
    by (elim insertE emptyE; simp only:) (simp_all add: const_simps)
  moreover have "LoggingVolumeName \<in> set (map vol_Name (workload_volumes w))"
    by (simp add: vols commonVolumes_def)
  moreover have "vf_LogVolume (GetVecctorFactory img) = LoggingVolumeName"
    by (simp add: GetVecctorFactory_def)
  ultimately show ?thesis
    using role_pod_workload [OF pod] by (intro exI [of _ w] exI [of _ c] conjI) (simp_all only:)
qed

section \<open>A role group of the example cluster\<close>

lemma example_files:
  "CommonPropertiesGenerator_Generate db_client
     \<lparr>cpg_s3 = cr_s3 example_cr, cpg_namespace = GetOwnerNamespace db_client, cpg_overrides = None\<rparr> =
   Done (ToProperties [], None)"
  "VectorConfigFileName example_opgo \<notin> {DolphinCommonPropertiesName, LogbackPropertiesFileName}"
  by (simp_all add: CommonPropertiesGenerator_Generate_def cr_s3_def example_cr_def
      example_cluster_config_def overriddenProperties_def example_opgo_def const_simps Let_def)

theorem role_config_files_mounted_witness:
  "\<exists>rs w c. role_build example_opgo db_client example_cr example_apier Api (Some 1) example_info None
      (Some plain_spec) = Done rs \<and>
    filter is_workload rs = [WorkloadResource w] \<and> workload_containers w = [c] \<and>
    (\<exists>m \<in> set (container_mounts c). mounted_text rs w m = Some (ToProperties []) \<and>
       vm_MountPath m = RoleConfigPath example_opgo (ri_RoleName (rgi_RoleInfo example_info))
         DolphinCommonPropertiesName)"
proof -
  have known: "known_role Api" by (simp add: known_role_def)
  obtain rs where rs: "role_build example_opgo db_client example_cr example_apier Api (Some 1)
      example_info None (Some plain_spec) = Done rs" "rs \<noteq> []"
    by (rule example_api_builds)
  obtain xml where xml: "LogbackXmlGenerator_Generate example_opgo
      \<lparr>lxg_loggingSpec = rgc_Logging plain_spec, lxg_container = main_container Api\<rparr> = Done (xml, None)"
    by (simp add: plain_spec_def zeroRoleGroupConfigSpec_def LogbackXmlGenerator_Generate_default
        Content_def example_opgo_def)
  from role_config_files_mounted [OF known rs example_files(1) xml example_files(2)] rs(1)
  show ?thesis by (elim exE conjE, intro exI conjI)
qed

theorem role_logs_unmounted_witness:
  "\<exists>rs w c. role_build example_opgo db_client example_cr example_apier Worker (Some 1) example_info None
      (Some plain_spec) = Done rs \<and>
    filter is_workload rs = [WorkloadResource w] \<and> workload_containers w = [c] \<and>
    workload_claims w = [WorkerDataVolumeName] \<and>
    WorkerDataVolumeName \<notin> set (map vm_Name (container_mounts c))"
proof -
  have known: "known_role Worker" by (simp add: known_role_def)
  obtain rs where build: "Worker_ResourceReconcilers example_opgo db_client example_cr
      (roleResourceReconcilerBuilder.truncate example_apier) (Some 1) example_info None (Some plain_spec) =
      Done rs"
    using Worker_returns [OF plain_example] ..
  have "rs \<noteq> []" by (rule returns_nonempty [OF Worker_shape [OF build]])
  moreover have rs: "role_build example_opgo db_client example_cr example_apier Worker (Some 1) example_info
      None (Some plain_spec) = Done rs"
    using build by (simp add: role_build_def role_names)
  ultimately show ?thesis
    using role_logs_unmounted [OF known rs, where img = example_image]
    by (elim exE conjE meta_impE) (assumption, intro exI conjI, assumption+, simp_all)
qed

end
