(* ===== verification/Env_Sharing.thy ===== *)
theory Env_Sharing
  imports Cluster Pod_Volumes
begin

text \<open>
  Who writes and who reads the environment config map. Every master role group registers it
  (\<open>master/role.go\<close>) under a name made of the cluster's name only (\<open>RoleGroupEnvsConfigMapName\<close>), with
  the environment overrides of the group as its data (\<open>configmap.go\<close>), and every container of the
  cluster takes its variables from it (\<open>container.go\<close>).
\<close>

section \<open>The writers\<close>

text \<open>The variables that the defaults and the database settings claim for themselves.\<close>

definition reserved_envs :: "string list" where
  "reserved_envs = [''TZ'', ''SPRING_JACKSON_TIME_ZONE'', ''DATABASE'', ''SPRING_DATASOURCE_URL'',
     ''SPRING_DATASOURCE_USERNAME'', ''SPRING_DATASOURCE_PASSWORD'', ''SPRING_DATASOURCE_DRIVER-CLASS-NAME'']"

lemma databaseEnvs_reserved: "k \<notin> set reserved_envs \<Longrightarrow> gm_get (databaseEnvs cfg) k = None"
  by (simp add: databaseEnvs_def reserved_envs_def gm_get_Cons gm_get_def)

lemma ComputeEnv_reserved: "k \<notin> set reserved_envs \<Longrightarrow> gm_get (fst (ComputeEnv c)) k = None"
  by (simp add: ComputeEnv_def reserved_envs_def gm_get_Cons gm_get_def)

lemma MergeDefaultConfig_overrides:
  "MergeDefaultConfig G c (Some ov) cfg = Done (None, ov', cfg') \<Longrightarrow> ov' = Some (mergedOverrides c ov)"
  by (auto simp: MergeDefaultConfig_def go_bind_Done_iff mergedOverrides_def Let_def split: option.splits)

lemma EnvConfigMap_keeps:
  assumes "NewEnvConfigMapReconciler G C cr (Some ov) info = Done cm"
    and "ov_EnvOverrides ov = Some eo" and "gm_ok eo" and "k \<notin> set reserved_envs"
  shows "gm_get (cm_Data cm) k = gm_get eo k"
proof -
  let ?e = "env_generator_of C cr (Some ov)"
  have ok: "gm_ok (maps_Copy [] eo)" by (simp add: gm_ok_Copy)
  from assms(1) obtain m err where gen: "EnvConfigmapDataGenerator_Generate C ?e = Done (m, err)"
    and data: "cm_Data cm = maps_Copy [] m"
    by (auto simp: NewEnvConfigMapReconciler_eq GenerateAllEnv_def go_bind_Done_iff)
  have "gm_ok m" using EnvGenerate_cases [OF gen] by simp
  moreover have "gm_get m k = gm_get eo k"
    using gen assms(2-4) databaseEnvs_reserved ok
    by (auto simp: EnvConfigmapDataGenerator_Generate_def env_generator_of_def go_bind_Done_iff
        gm_get_Copy databaseEnvs_ok map_add_def Let_def split: option.splits)
  ultimately show ?thesis by (simp add: data gm_get_Copy)
qed

text \<open>What one master role group contributes.\<close>

lemma master_group_env_map:
  assumes "group_builds G C M r name rg rs" and "rr_Builder r = Master_ResourceReconcilers G C cr a"
    and "MergeOverrides M (role_OverridesSpec (rr_Spec r)) (rg_OverridesSpec rg) = (Some ov, None)"
    and "ov_EnvOverrides ov = Some eo" and "gm_ok eo"
  shows "\<exists>cm. ConfigMapResource cm \<in> set rs \<and> cm_Name cm = GetOwnerName C @ ''-envs'' \<and>
    (\<forall>k. k \<notin> set reserved_envs \<longrightarrow> gm_get (cm_Data cm) k = gm_get eo k)"
proof -
  from assms(1-3) obtain d ov' mc cfg where
    "MergeDefaultConfig G d (Some ov) mc = Done (None, ov', cfg)"
    and rs: "Master_ResourceReconcilers G C cr a (rg_Replicas rg) (group_info r name) ov'
      (cfg_RoleGroupConfigSpec cfg) = Done rs"
    by (auto simp: group_builds_def orZero_def)
  then have ov': "ov' = Some (mergedOverrides d ov)" by (simp add: MergeDefaultConfig_overrides)
  have env: "ov_EnvOverrides (mergedOverrides d ov) = Some (mergeEnvOverrides d (Some eo))"
    using assms(4) by (simp add: mergedOverrides_def)
  have ok: "gm_ok (mergeEnvOverrides d (Some eo))"
    using assms(5) by (simp add: mergeEnvOverrides_def gm_ok_Copy Let_def)
  from rs obtain cm where cm: "NewEnvConfigMapReconciler G C cr ov' (group_info r name) = Done cm"
    "ConfigMapResource cm \<in> set rs"
    by (auto simp: Master_ResourceReconcilers_def masterContainer_chain go_bind_Done_iff)
  have "gm_get (cm_Data cm) k = gm_get eo k" if "k \<notin> set reserved_envs" for k
    using EnvConfigMap_keeps [OF cm(1) [unfolded ov'] env ok that] ComputeEnv_reserved [OF that]
    by (simp add: mergeEnvOverrides_get map_add_def)
  with cm NewEnvConfigMapReconciler_name [OF cm(1)] show ?thesis by blast
qed

text \<open>Registering a master role leaves such a config map for every one of its groups.\<close>

lemma registered_env_map:
  assumes "RegisterResources G C M r = Done (None, r')"
    and "rr_Builder r = Master_ResourceReconcilers G C cr a"
    and "(name, rg) \<in> set (role_RoleGroups (rr_Spec r))"
    and "MergeOverrides M (role_OverridesSpec (rr_Spec r)) (rg_OverridesSpec rg) = (Some ov, None)"
    and "ov_EnvOverrides ov = Some eo" and "gm_ok eo"
  shows "\<exists>cm. ConfigMapResource cm \<in> set (rr_Resources r') \<and> cm_Name cm = GetOwnerName C @ ''-envs'' \<and>
    (\<forall>k. k \<notin> set reserved_envs \<longrightarrow> gm_get (cm_Data cm) k = gm_get eo k)"
proof -
  from assms(1) have all: "list_all (\<lambda>g. group_resources G C M r g \<noteq> None) (role_RoleGroups (rr_Spec r))"
    and r': "r' = r\<lparr>rr_Resources := rr_Resources r @
      concat (map (the \<circ> group_resources G C M r) (role_RoleGroups (rr_Spec r)))\<rparr>"
    by (simp_all add: RegisterResources_def registerGroups_ok_iff)
  from all assms(3) obtain xs where xs: "group_resources G C M r (name, rg) = Some xs"
    by (auto simp: list_all_iff)
  then obtain rs where rs: "group_builds G C M r name rg rs" "set rs \<subseteq> set xs"
    by (auto simp: group_resources_iff)
  have "set xs \<subseteq> set (rr_Resources r')"
    using xs assms(3) by (force simp: r')
  with rs(2) master_group_env_map [OF rs(1) assms(2,4-6)] show ?thesis by blast
qed

text \<open>
  C20. The master role groups write one config map with different contents: when two groups of
  a registered master role override a variable (not one of the reserved ones) differently, the role
  has registered two config maps of the same name that disagree on the variable, so that the groups
  overwrite each other's environment.
\<close>

theorem master_env_maps_conflict:
  assumes "RegisterResources G C M r = Done (None, r')"
    and "rr_Builder r = Master_ResourceReconcilers G C cr a"
    and "(name, rg) \<in> set (role_RoleGroups (rr_Spec r))" and "(name', rg') \<in> set (role_RoleGroups (rr_Spec r))"
    and "MergeOverrides M (role_OverridesSpec (rr_Spec r)) (rg_OverridesSpec rg) = (Some ov, None)"
    and "MergeOverrides M (role_OverridesSpec (rr_Spec r)) (rg_OverridesSpec rg') = (Some ov', None)"
    and "ov_EnvOverrides ov = Some eo" and "gm_ok eo" and "ov_EnvOverrides ov' = Some eo'" and "gm_ok eo'"
    and "gm_get eo k \<noteq> gm_get eo' k" and "k \<notin> set reserved_envs"
  shows "\<exists>cm cm'. {ConfigMapResource cm, ConfigMapResource cm'} \<subseteq> set (rr_Resources r') \<and>
    cm_Name cm = cm_Name cm' \<and> gm_get (cm_Data cm) k = gm_get eo k \<and> gm_get (cm_Data cm') k = gm_get eo' k \<and>
    gm_get (cm_Data cm) k \<noteq> gm_get (cm_Data cm') k"
proof -
  obtain cm where "ConfigMapResource cm \<in> set (rr_Resources r')" "cm_Name cm = GetOwnerName C @ ''-envs''"
    "gm_get (cm_Data cm) k = gm_get eo k"
    using registered_env_map [OF assms(1,2,3,5,7,8)] assms(12) by blast
  moreover obtain cm' where "ConfigMapResource cm' \<in> set (rr_Resources r')"
    "cm_Name cm' = GetOwnerName C @ ''-envs''" "gm_get (cm_Data cm') k = gm_get eo' k"
    using registered_env_map [OF assms(1,2,4,6,9,10)] assms(12) by blast
  ultimately show ?thesis using assms(11) by (intro exI [of _ cm] exI [of _ cm']) simp
qed

section \<open>The readers\<close>

text \<open>
  C19. The whole cluster reads one environment: where the cluster is named after the custom
  resource, the container of every role and the container of the database job take their variables
  from the config map that a master role group registers.
\<close>

theorem cluster_environment_shared:
  assumes "GetClusterName G (ri_ClusterInfo (rgi_RoleInfo info)) = GetOwnerName C"
    and "known_role role" and "role_build G C cr a role replicas info ov rgc = Done rs" and "rs \<noteq> []"
    and "Master_ResourceReconcilers G C cr' m mreplicas minfo mov mrgc = Done mrs"
  shows "\<exists>cm w c. ConfigMapResource cm \<in> set mrs \<and> filter is_workload rs = [WorkloadResource w] \<and>
    workload_containers w = [c] \<and> container_envFrom c = [cm_Name cm] \<and>
    container_envFrom (initDatabase G zk img (ri_ClusterInfo (rgi_RoleInfo info))) = [cm_Name cm]"
proof -
  obtain cm where cm: "NewEnvConfigMapReconciler G C cr' mov minfo = Done cm" "ConfigMapResource cm \<in> set mrs"
    using assms(5) by (auto simp: Master_ResourceReconcilers_def masterContainer_chain go_bind_Done_iff)
  obtain w c where pod: "role_pod G C cr role info ov rgc rs w c"
    by (rule role_build_pod [OF assms(2-4)])
  then obtain b where "c = fst (Build G b)" "bc_Calls (cb_Container b) = []" "cb_RoleGroupInfo b = info"
    by (rule role_pod_container)
  then have "container_envFrom c = [cm_Name cm]"
    using assms(1) NewEnvConfigMapReconciler_name [OF cm(1)] by (simp add: container_envFrom_Build)
  moreover have "container_envFrom (initDatabase G zk img (ri_ClusterInfo (rgi_RoleInfo info))) = [cm_Name cm]"
    using assms(1) NewEnvConfigMapReconciler_name [OF cm(1)] by (simp add: initDatabase_envFrom)
  ultimately show ?thesis
    using cm(2) role_pod_workload [OF pod]
    by (intro exI [of _ cm] exI [of _ w] exI [of _ c] conjI) (simp_all only:)
qed

section \<open>An example\<close>

definition env_group :: "string \<Rightarrow> roleGroupSpec" where
  "env_group v = \<lparr>rg_Replicas = Some 1, rg_Config = None,
     rg_OverridesSpec = Some \<lparr>ov_ConfigOverrides = None, ov_EnvOverrides = Some [(''MASTER_EXEC_THREADS'', v)]\<rparr>\<rparr>"

definition two_masters :: roleReconciler where
  "two_masters = NewRoleReconciler (rgi_RoleInfo example_info) None None example_image
     (example_role\<lparr>role_RoleGroups := [(''a'', env_group ''10''), (''b'', env_group ''20'')]\<rparr>)
     (Master_ResourceReconcilers example_opgo db_client example_cr example_master)"

lemma example_database: "\<exists>db. cr_database example_cr = Some db \<and> well_formed_conn (db_ConnectionString db)"
  using example_deployable by (simp add: deployable_def cr_database_def) (elim exE conjE, simp)

lemma two_masters_register:
  "\<exists>r'. RegisterResources example_opgo db_client example_merge two_masters = Done (None, r')"
proof -
  have "rr_Builder two_masters = Master_ResourceReconcilers example_opgo db_client example_cr example_master"
    "known_role (ri_RoleName (rr_RoleInfo two_masters))"
    by (simp_all add: two_masters_def NewRoleReconciler_def example_info_def known_role_def role_names)
  moreover have "list_all (mergeable example_merge (rr_Spec two_masters) \<circ> snd)
      (role_RoleGroups (rr_Spec two_masters))"
    by (simp add: two_masters_def NewRoleReconciler_def mergeable_def example_merge_def example_role_def
        env_group_def)
  moreover have "MarshalAffinity example_opgo (defaultAffinity example_opgo
      (ri_RoleName (rr_RoleInfo two_masters)) (GetOwnerName db_client)) = (''{}'', None)"
    by (simp add: example_opgo_def)
  moreover have "cr_s3 example_cr = None" using plain_example by (simp add: plain_group_def)
  ultimately show ?thesis
    using master.registers [OF example_database] by (elim meta_allE) blast
qed

theorem master_env_maps_conflict_witness:
  "\<exists>r' c1 c2. RegisterResources example_opgo db_client example_merge two_masters = Done (None, r') \<and>
    {ConfigMapResource c1, ConfigMapResource c2} \<subseteq> set (rr_Resources r') \<and> cm_Name c1 = cm_Name c2 \<and>
    gm_get (cm_Data c1) ''MASTER_EXEC_THREADS'' = Some ''10'' \<and>
    gm_get (cm_Data c2) ''MASTER_EXEC_THREADS'' = Some ''20''"
proof -
  obtain r' where r': "RegisterResources example_opgo db_client example_merge two_masters = Done (None, r')"
    using two_masters_register ..
  let ?ov = "\<lambda>v. \<lparr>ov_ConfigOverrides = None, ov_EnvOverrides = Some [(''MASTER_EXEC_THREADS'', v)]\<rparr>"
  have groups: "(''a'', env_group ''10'') \<in> set (role_RoleGroups (rr_Spec two_masters))"
    "(''b'', env_group ''20'') \<in> set (role_RoleGroups (rr_Spec two_masters))"
    by (simp_all add: two_masters_def NewRoleReconciler_def)
  have merges: "MergeOverrides example_merge (role_OverridesSpec (rr_Spec two_masters))
      (rg_OverridesSpec (env_group v)) = (Some (?ov v), None)" for v
    by (simp add: example_merge_def env_group_def)
  have builder: "rr_Builder two_masters =
      Master_ResourceReconcilers example_opgo db_client example_cr example_master"
    by (simp add: two_masters_def NewRoleReconciler_def)
  have "\<exists>c1 c2. {ConfigMapResource c1, ConfigMapResource c2} \<subseteq> set (rr_Resources r') \<and>
      cm_Name c1 = cm_Name c2 \<and>
      gm_get (cm_Data c1) ''MASTER_EXEC_THREADS'' = gm_get [(''MASTER_EXEC_THREADS'', ''10'')] ''MASTER_EXEC_THREADS'' \<and>
      gm_get (cm_Data c2) ''MASTER_EXEC_THREADS'' = gm_get [(''MASTER_EXEC_THREADS'', ''20'')] ''MASTER_EXEC_THREADS'' \<and>
      gm_get (cm_Data c1) ''MASTER_EXEC_THREADS'' \<noteq> gm_get (cm_Data c2) ''MASTER_EXEC_THREADS''"
    by (rule master_env_maps_conflict [OF r' builder groups merges merges])
      (simp_all add: gm_ok_def gm_get_Cons reserved_envs_def)
  then obtain c1 c2 where "{ConfigMapResource c1, ConfigMapResource c2} \<subseteq> set (rr_Resources r')"
    "cm_Name c1 = cm_Name c2" "gm_get (cm_Data c1) ''MASTER_EXEC_THREADS'' = Some ''10''"
    "gm_get (cm_Data c2) ''MASTER_EXEC_THREADS'' = Some ''20''"
    by (elim exE conjE) (rule that, simp_all add: gm_get_Cons)
  note facts = r' this
  show ?thesis
    by (rule exI [of _ r'], rule exI [of _ c1], rule exI [of _ c2]) (intro conjI facts)
qed

theorem cluster_environment_shared_witness:
  "\<exists>rs mrs cm w c.
    role_build example_opgo db_client example_cr example_apier Api (Some 1) example_info None
      (Some plain_spec) = Done rs \<and>
    Master_ResourceReconcilers example_opgo db_client example_cr example_master (Some 1) example_info
      (Some zeroOverridesSpec) (Some plain_spec) = Done mrs \<and>
    ConfigMapResource cm \<in> set mrs \<and> filter is_workload rs = [WorkloadResource w] \<and>
    workload_containers w = [c] \<and> container_envFrom c = [cm_Name cm]"
proof -
  have owner: "GetClusterName example_opgo (ri_ClusterInfo (rgi_RoleInfo example_info)) = GetOwnerName db_client"
    by (simp add: example_opgo_def example_info_def db_client_def example_client_def)
  have known: "known_role Api" by (simp add: known_role_def)
  obtain rs where rs: "role_build example_opgo db_client example_cr example_apier Api (Some 1)
      example_info None (Some plain_spec) = Done rs" "rs \<noteq> []"
    by (rule example_api_builds)
  obtain mrs where mrs: "Master_ResourceReconcilers example_opgo db_client example_cr example_master (Some 1)
      example_info (Some zeroOverridesSpec) (Some plain_spec) = Done mrs"
    using master.accepts [OF example_database plain_example, where G = example_opgo and C = db_client
        and a = example_master and replicas = "Some 1" and info = example_info and ov = zeroOverridesSpec]
    by (elim exE conjE) (rule that)
  from cluster_environment_shared [OF owner known rs mrs, of "''znode''" example_image] rs(1) mrs
  show ?thesis by (elim exE conjE, intro exI conjI)
qed

end
