(* ===== verification/Go_Heap.thy ===== *)
theory Go_Heap
  imports Go_Prelude
begin

text \<open>
  A heap for code whose correctness depends on aliasing. The heap is the list of its cells, an
  address is an index, and \<open>new\<close> appends a cell, so that the old heap is a prefix of the new one.
  A struct in memory holds addresses where the Go struct holds pointers, slices and maps.

  \<open>deep_copyable\<close> is the contract of a deep copy: what a struct denotes, which cells it
  reaches, and that the copy denotes the same value and reaches new cells only. It is closed under
  pointers, products, lists and representation, so that the contract of a type follows from
  those of its fields.
\<close>

named_theorems copyable_intros \<open>the contract of deep copies, constructor by constructor\<close>

type_synonym addr = nat
type_synonym 'c heap = "'c list"

section \<open>The contract\<close>

locale deep_copyable =
  fixes denote :: "'c heap \<Rightarrow> 'm \<Rightarrow> 'v option"
    and reach :: "'c heap \<Rightarrow> 'm \<Rightarrow> addr set"
    and copy :: "'m \<Rightarrow> 'c heap \<Rightarrow> ('m \<times> 'c heap) go"
  assumes in_heap: "denote h m = Some v \<Longrightarrow> reach h m \<subseteq> {..<length h}"
    and denote_new: "denote h m = Some v \<Longrightarrow> denote (h @ g) m = Some v"
    and reach_new: "denote h m = Some v \<Longrightarrow> reach (h @ g) m = reach h m"
    and denote_frame: "denote h m = Some v \<Longrightarrow> a \<notin> reach h m \<Longrightarrow> denote (h[a := c]) m = Some v"
    and reach_frame: "denote h m = Some v \<Longrightarrow> a \<notin> reach h m \<Longrightarrow> reach (h[a := c]) m = reach h m"
    and copies: "denote h m = Some v \<Longrightarrow> \<exists>m' g. copy m h = Done (m', h @ g) \<and>
      denote (h @ g) m' = Some v \<and> reach (h @ g) m' \<subseteq> {length h..<length (h @ g)}"
begin

text \<open>The copy is apart from the original, so no write through one is seen through the other.\<close>

lemma independent:
  assumes "denote h m = Some v"
  shows "\<exists>m' h'. copy m h = Done (m', h') \<and> take (length h) h' = h \<and> denote h' m' = Some v \<and>
    denote h' m = Some v \<and> reach h' m \<inter> reach h' m' = {} \<and>
    (\<forall>a c. a \<in> reach h' m' \<longrightarrow> denote (h'[a := c]) m = Some v) \<and>
    (\<forall>a c. a \<in> reach h' m \<longrightarrow> denote (h'[a := c]) m' = Some v)"
proof -
  obtain m' g where c: "copy m h = Done (m', h @ g)" "denote (h @ g) m' = Some v"
    "reach (h @ g) m' \<subseteq> {length h..<length (h @ g)}"
    using copies [OF assms] by blast
  have old: "denote (h @ g) m = Some v" "reach (h @ g) m \<subseteq> {..<length h}"
    using denote_new [OF assms] reach_new [OF assms] in_heap [OF assms] by auto
  with c(3) have apart: "reach (h @ g) m \<inter> reach (h @ g) m' = {}" by fastforce
  have "denote ((h @ g)[a := x]) m = Some v" if "a \<in> reach (h @ g) m'" for a x
    by (rule denote_frame [OF old(1)]) (use apart that in blast)
  moreover have "denote ((h @ g)[a := x]) m' = Some v" if "a \<in> reach (h @ g) m" for a x
    by (rule denote_frame [OF c(2)]) (use apart that in blast)
  ultimately show ?thesis
    using c old(1) apart by (intro exI [of _ m'] exI [of _ "h @ g"]) simp
qed

end

section \<open>Plain data\<close>

definition plain_denote :: "'c heap \<Rightarrow> 'm \<Rightarrow> 'm option" where
  "plain_denote h m = Some m"

definition plain_reach :: "'c heap \<Rightarrow> 'm \<Rightarrow> addr set" where
  "plain_reach h m = {}"

definition plain_copy :: "'m \<Rightarrow> 'c heap \<Rightarrow> ('m \<times> 'c heap) go" where
  "plain_copy m h = Done (m, h)"

lemma plain_copyable [copyable_intros]: "deep_copyable plain_denote plain_reach plain_copy"
  by unfold_locales (auto simp: plain_denote_def plain_reach_def plain_copy_def intro: exI [of _ "[]"])

section \<open>Pointers\<close>

text \<open>How the values of a type are stored in cells.\<close>

record ('m, 'c) cellType =
  cell_of :: "'m \<Rightarrow> 'c"
  of_cell :: "'c \<Rightarrow> 'm option"

definition cell_ok :: "('m, 'c) cellType \<Rightarrow> bool" where
  "cell_ok T \<longleftrightarrow> (\<forall>m. of_cell T (cell_of T m) = Some m)"

definition load :: "('m, 'c) cellType \<Rightarrow> 'c heap \<Rightarrow> addr \<Rightarrow> 'm option" where
  "load T h a = (if a < length h then of_cell T (h ! a) else None)"

definition ptr_denote ::
  "('m, 'c) cellType \<Rightarrow> ('c heap \<Rightarrow> 'm \<Rightarrow> 'v option) \<Rightarrow> 'c heap \<Rightarrow> addr option \<Rightarrow> 'v option option" where
  "ptr_denote T d h p = (case p of None \<Rightarrow> Some None
     | Some a \<Rightarrow> (case load T h a of None \<Rightarrow> None | Some m \<Rightarrow> map_option Some (d h m)))"

definition ptr_reach ::
  "('m, 'c) cellType \<Rightarrow> ('c heap \<Rightarrow> 'm \<Rightarrow> addr set) \<Rightarrow> 'c heap \<Rightarrow> addr option \<Rightarrow> addr set" where
  "ptr_reach T r h p = (case p of None \<Rightarrow> {}
     | Some a \<Rightarrow> insert a (case load T h a of None \<Rightarrow> {} | Some m \<Rightarrow> r h m))"

text \<open>
  \<open>out := new(T); in.DeepCopyInto(out)\<close>: the new cell first holds the shallow copy \<open>*out = *in\<close>,
  with which every \<open>DeepCopyInto\<close> begins. \<open>new_copy\<close> does it for a pointer that may be nil, and
  \<open>value_copy\<close> is \<open>*in.DeepCopy()\<close>.
\<close>

definition new_value ::
  "('m, 'c) cellType \<Rightarrow> ('m \<Rightarrow> 'c heap \<Rightarrow> ('m \<times> 'c heap) go) \<Rightarrow> 'm \<Rightarrow> 'c heap \<Rightarrow> (addr \<times> 'c heap) go" where
  "new_value T copy m h =
     go_bind (copy m (h @ [cell_of T m])) (\<lambda>(m', h'). Done (length h, h'[length h := cell_of T m']))"

definition new_copy ::
  "('m, 'c) cellType \<Rightarrow> ('m \<Rightarrow> 'c heap \<Rightarrow> ('m \<times> 'c heap) go) \<Rightarrow> addr option \<Rightarrow> 'c heap \<Rightarrow>
   (addr option \<times> 'c heap) go" where
  "new_copy T copy p h = (case p of
     None \<Rightarrow> Done (None, h)
   | Some a \<Rightarrow> (case load T h a of
       None \<Rightarrow> Panic NilDeref
     | Some m \<Rightarrow> go_bind (new_value T copy m h) (\<lambda>(a', h'). Done (Some a', h'))))"

definition value_copy ::
  "('m, 'c) cellType \<Rightarrow> ('m \<Rightarrow> 'c heap \<Rightarrow> ('m \<times> 'c heap) go) \<Rightarrow> 'm \<Rightarrow> 'c heap \<Rightarrow> ('m \<times> 'c heap) go" where
  "value_copy T copy m h = go_bind (new_value T copy m h) (\<lambda>(a, h').
     case load T h' a of None \<Rightarrow> Panic NilDeref | Some m' \<Rightarrow> Done (m', h'))"

lemma load_new: "load T h a = Some m \<Longrightarrow> load T (h @ g) a = Some m"
  by (auto simp: load_def nth_append split: if_splits)

lemma load_frame: "a \<noteq> b \<Longrightarrow> load T (h[b := c]) a = load T h a"
  by (simp add: load_def)

lemma load_written: "cell_ok T \<Longrightarrow> a < length h \<Longrightarrow> load T (h[a := cell_of T m]) a = Some m"
  by (simp add: load_def cell_ok_def)

context deep_copyable
begin

lemma ptr_new:
  assumes "ptr_denote T denote h p = Some v"
  shows "ptr_denote T denote (h @ g) p = Some v \<and> ptr_reach T reach (h @ g) p = ptr_reach T reach h p \<and>
    ptr_reach T reach h p \<subseteq> {..<length h}"
proof (cases p)
  case (Some a)
  with assms obtain m u where m: "load T h a = Some m" "denote h m = Some u" "v = Some u"
    by (auto simp: ptr_denote_def split: option.splits)
  have "a < length h" using m(1) by (simp add: load_def split: if_splits)
  with Some m load_new [OF m(1), of g] denote_new [OF m(2), of g] reach_new [OF m(2), of g] in_heap [OF m(2)]
  show ?thesis by (auto simp: ptr_denote_def ptr_reach_def)
qed (use assms in \<open>simp add: ptr_denote_def ptr_reach_def\<close>)

lemma ptr_frame:
  assumes "ptr_denote T denote h p = Some v" and "a \<notin> ptr_reach T reach h p"
  shows "ptr_denote T denote (h[a := c]) p = Some v \<and> ptr_reach T reach (h[a := c]) p = ptr_reach T reach h p"
proof (cases p)
  case (Some b)
  with assms obtain m u where m: "load T h b = Some m" "denote h m = Some u" "v = Some u"
    and a: "a \<noteq> b" "a \<notin> reach h m"
    by (auto simp: ptr_denote_def ptr_reach_def split: option.splits)
  with Some load_frame [of b a T h c] denote_frame [OF m(2) a(2), of c] reach_frame [OF m(2) a(2), of c]
  show ?thesis by (simp add: ptr_denote_def ptr_reach_def)
qed (use assms in \<open>simp_all add: ptr_denote_def ptr_reach_def\<close>)

lemma new_value:
  assumes "denote h m = Some v" and T: "cell_ok T"
  shows "\<exists>m' g. new_value T copy m h = Done (length h, h @ g) \<and> load T (h @ g) (length h) = Some m' \<and>
    denote (h @ g) m' = Some v \<and> insert (length h) (reach (h @ g) m') \<subseteq> {length h..<length (h @ g)}"
proof -
  let ?h = "h @ [cell_of T m]"
  obtain m' g where c: "copy m ?h = Done (m', ?h @ g)" "denote (?h @ g) m' = Some v"
    "reach (?h @ g) m' \<subseteq> {length ?h..<length (?h @ g)}"
    using copies [OF denote_new [OF assms(1)]] by blast
  let ?g = "cell_of T m' # g"
  have h': "(?h @ g)[length h := cell_of T m'] = h @ ?g" by simp
  have fresh: "length h \<notin> reach (?h @ g) m'" using c(3) by auto
  have "denote (h @ ?g) m' = Some v" "reach (h @ ?g) m' = reach (?h @ g) m'"
    using denote_frame [OF c(2) fresh, of "cell_of T m'"] reach_frame [OF c(2) fresh, of "cell_of T m'"]
    unfolding h' by simp_all
  moreover have "load T (h @ ?g) (length h) = Some m'" using T by (simp add: load_def cell_ok_def)
  ultimately show ?thesis
    using c by (intro exI [of _ m'] exI [of _ ?g]) (auto simp: new_value_def)
qed

lemma ptr_copies:
  assumes "ptr_denote T denote h p = Some v" and T: "cell_ok T"
  shows "\<exists>p' g. new_copy T copy p h = Done (p', h @ g) \<and> ptr_denote T denote (h @ g) p' = Some v \<and>
    ptr_reach T reach (h @ g) p' \<subseteq> {length h..<length (h @ g)}"
proof (cases p)
  case None
  with assms show ?thesis
    by (intro exI [of _ None] exI [of _ "[]"]) (simp add: ptr_denote_def ptr_reach_def new_copy_def)
next
  case (Some a)
  with assms obtain m u where m: "load T h a = Some m" "denote h m = Some u" "v = Some u"
    by (auto simp: ptr_denote_def split: option.splits)
  obtain m' g where "new_value T copy m h = Done (length h, h @ g)" "load T (h @ g) (length h) = Some m'"
    "denote (h @ g) m' = Some u" "insert (length h) (reach (h @ g) m') \<subseteq> {length h..<length (h @ g)}"
    using new_value [OF m(2) T] by blast
  with Some m show ?thesis
    by (intro exI [of _ "Some (length h)"] exI [of _ g]) (simp add: ptr_denote_def ptr_reach_def new_copy_def)
qed

lemma value_copyable: "cell_ok T \<Longrightarrow> deep_copyable denote reach (value_copy T copy)"
proof
  assume T: "cell_ok T"
  fix h m v
  assume "denote h m = Some v"
  then obtain m' g where "new_value T copy m h = Done (length h, h @ g)" "load T (h @ g) (length h) = Some m'"
    "denote (h @ g) m' = Some v" "insert (length h) (reach (h @ g) m') \<subseteq> {length h..<length (h @ g)}"
    using new_value [OF _ T] by blast
  then show "\<exists>m' g. value_copy T copy m h = Done (m', h @ g) \<and> denote (h @ g) m' = Some v \<and>
      reach (h @ g) m' \<subseteq> {length h..<length (h @ g)}"
    by (intro exI [of _ m'] exI [of _ g]) (simp add: value_copy_def)
qed (rule in_heap denote_new reach_new denote_frame reach_frame; assumption)+

lemma ptr_copyable: "cell_ok T \<Longrightarrow> deep_copyable (ptr_denote T denote) (ptr_reach T reach) (new_copy T copy)"
  by unfold_locales
    (rule ptr_new [THEN conjunct1] ptr_new [THEN conjunct2, THEN conjunct1] ptr_new [THEN conjunct2, THEN conjunct2]
      ptr_frame [THEN conjunct1] ptr_frame [THEN conjunct2] ptr_copies; assumption)+

end

lemmas [copyable_intros] = deep_copyable.ptr_copyable deep_copyable.value_copyable

section \<open>Products\<close>

definition prod_denote ::
  "('c heap \<Rightarrow> 'm \<Rightarrow> 'v option) \<Rightarrow> ('c heap \<Rightarrow> 'n \<Rightarrow> 'w option) \<Rightarrow> 'c heap \<Rightarrow> 'm \<times> 'n \<Rightarrow> ('v \<times> 'w) option" where
  "prod_denote d e h = (\<lambda>(m, n). case d h m of None \<Rightarrow> None | Some v \<Rightarrow> map_option (Pair v) (e h n))"

definition prod_reach ::
  "('c heap \<Rightarrow> 'm \<Rightarrow> addr set) \<Rightarrow> ('c heap \<Rightarrow> 'n \<Rightarrow> addr set) \<Rightarrow> 'c heap \<Rightarrow> 'm \<times> 'n \<Rightarrow> addr set" where
  "prod_reach r s h = (\<lambda>(m, n). r h m \<union> s h n)"

definition prod_copy ::
  "('m \<Rightarrow> 'c heap \<Rightarrow> ('m \<times> 'c heap) go) \<Rightarrow> ('n \<Rightarrow> 'c heap \<Rightarrow> ('n \<times> 'c heap) go) \<Rightarrow>
   'm \<times> 'n \<Rightarrow> 'c heap \<Rightarrow> (('m \<times> 'n) \<times> 'c heap) go" where
  "prod_copy c k = (\<lambda>(m, n) h. go_bind (c m h) (\<lambda>(m', h'). go_bind (k n h') (\<lambda>(n', h''). Done ((m', n'), h''))))"

lemma prod_denote_Some:
  "prod_denote d e h (m, n) = Some v \<longleftrightarrow> (\<exists>x y. v = (x, y) \<and> d h m = Some x \<and> e h n = Some y)"
  by (auto simp: prod_denote_def split: option.splits)

lemma prod_copyable [copyable_intros]:
  assumes a: "deep_copyable d r c" and b: "deep_copyable e s k"
  shows "deep_copyable (prod_denote d e) (prod_reach r s) (prod_copy c k)"
proof
  fix h :: "'a list" and m :: "'b \<times> 'd" and v g a x
  assume v: "prod_denote d e h m = Some v"
  obtain m1 m2 v1 v2 where m: "m = (m1, m2)" "v = (v1, v2)" "d h m1 = Some v1" "e h m2 = Some v2"
    using v by (cases m) (auto simp: prod_denote_Some)
  note A = deep_copyable.in_heap [OF a m(3)] deep_copyable.denote_new [OF a m(3)]
    deep_copyable.reach_new [OF a m(3)] deep_copyable.denote_frame [OF a m(3)] deep_copyable.reach_frame [OF a m(3)]
  note B = deep_copyable.in_heap [OF b m(4)] deep_copyable.denote_new [OF b m(4)]
    deep_copyable.reach_new [OF b m(4)] deep_copyable.denote_frame [OF b m(4)] deep_copyable.reach_frame [OF b m(4)]
  show "prod_reach r s h m \<subseteq> {..<length h}" "prod_denote d e (h @ g) m = Some v"
    "prod_reach r s (h @ g) m = prod_reach r s h m"
    using A B by (simp_all add: m prod_denote_Some prod_reach_def)
  show "prod_denote d e (h[a := x]) m = Some v" "prod_reach r s (h[a := x]) m = prod_reach r s h m"
    if "a \<notin> prod_reach r s h m"
    using A B that by (simp_all add: m prod_denote_Some prod_reach_def)
  obtain m1' g1 where c1: "c m1 h = Done (m1', h @ g1)" "d (h @ g1) m1' = Some v1"
    "r (h @ g1) m1' \<subseteq> {length h..<length (h @ g1)}"
    using deep_copyable.copies [OF a m(3)] by blast
  obtain m2' g2 where c2: "k m2 (h @ g1) = Done (m2', (h @ g1) @ g2)" "e ((h @ g1) @ g2) m2' = Some v2"
    "s ((h @ g1) @ g2) m2' \<subseteq> {length (h @ g1)..<length ((h @ g1) @ g2)}"
    using deep_copyable.copies [OF b B(2)] by blast
  have "d ((h @ g1) @ g2) m1' = Some v1" "r ((h @ g1) @ g2) m1' \<subseteq> {length h..<length (h @ g1)}"
    using deep_copyable.denote_new [OF a c1(2)] deep_copyable.reach_new [OF a c1(2)] c1(3) by auto
  with c1 c2 show "\<exists>m' g. prod_copy c k m h = Done (m', h @ g) \<and> prod_denote d e (h @ g) m' = Some v \<and>
      prod_reach r s (h @ g) m' \<subseteq> {length h..<length (h @ g)}"
    by (intro exI [of _ "(m1', m2')"] exI [of _ "g1 @ g2"])
      (fastforce simp: m prod_denote_Some prod_copy_def prod_reach_def)
qed

section \<open>Lists\<close>

fun list_denote :: "('c heap \<Rightarrow> 'm \<Rightarrow> 'v option) \<Rightarrow> 'c heap \<Rightarrow> 'm list \<Rightarrow> 'v list option" where
  "list_denote d h [] = Some []"
| "list_denote d h (m # ms) = (case d h m of None \<Rightarrow> None | Some v \<Rightarrow> map_option (Cons v) (list_denote d h ms))"

definition list_reach :: "('c heap \<Rightarrow> 'm \<Rightarrow> addr set) \<Rightarrow> 'c heap \<Rightarrow> 'm list \<Rightarrow> addr set" where
  "list_reach r h ms = \<Union> (set (map (r h) ms))"

text \<open>\<open>for i := range in { in[i].DeepCopyInto(&out[i]) }\<close>\<close>

fun list_copy :: "('m \<Rightarrow> 'c heap \<Rightarrow> ('m \<times> 'c heap) go) \<Rightarrow> 'm list \<Rightarrow> 'c heap \<Rightarrow> ('m list \<times> 'c heap) go" where
  "list_copy c [] h = Done ([], h)"
| "list_copy c (m # ms) h =
     go_bind (c m h) (\<lambda>(m', h'). go_bind (list_copy c ms h') (\<lambda>(ms', h''). Done (m' # ms', h'')))"

lemma list_reach_Nil [simp]: "list_reach r h [] = {}"
  by (simp add: list_reach_def)

context deep_copyable
begin

lemma list_new:
  assumes "list_denote denote h ms = Some vs"
  shows "list_reach reach h ms \<subseteq> {..<length h} \<and> list_denote denote (h @ g) ms = Some vs \<and>
    list_reach reach (h @ g) ms = list_reach reach h ms"
  using assms
proof (induction ms arbitrary: vs)
  case (Cons m ms)
  then obtain v ws where v: "denote h m = Some v" "list_denote denote h ms = Some ws" "vs = v # ws"
    by (auto split: option.splits)
  with Cons.IH [OF v(2)] in_heap [OF v(1)] denote_new [OF v(1), of g] reach_new [OF v(1), of g]
  show ?case by (simp add: list_reach_def)
qed simp

lemma list_frame:
  assumes "list_denote denote h ms = Some vs" and "a \<notin> list_reach reach h ms"
  shows "list_denote denote (h[a := c]) ms = Some vs \<and> list_reach reach (h[a := c]) ms = list_reach reach h ms"
  using assms
proof (induction ms arbitrary: vs)
  case (Cons m ms)
  then obtain v ws where v: "denote h m = Some v" "list_denote denote h ms = Some ws" "vs = v # ws"
    and a: "a \<notin> reach h m" "a \<notin> list_reach reach h ms"
    by (auto simp: list_reach_def split: option.splits)
  with Cons.IH [OF v(2) a(2)] denote_frame [OF v(1) a(1), of c] reach_frame [OF v(1) a(1), of c]
  show ?case by (simp add: list_reach_def)
qed simp

lemma list_copies:
  assumes "list_denote denote h ms = Some vs"
  shows "\<exists>ms' g. list_copy copy ms h = Done (ms', h @ g) \<and> list_denote denote (h @ g) ms' = Some vs \<and>
    list_reach reach (h @ g) ms' \<subseteq> {length h..<length (h @ g)}"
  using assms
proof (induction ms arbitrary: vs h)
  case (Cons m ms)
  then obtain v ws where v: "denote h m = Some v" "list_denote denote h ms = Some ws" "vs = v # ws"
    by (auto split: option.splits)
  obtain m' g where c: "copy m h = Done (m', h @ g)" "denote (h @ g) m' = Some v"
    "reach (h @ g) m' \<subseteq> {length h..<length (h @ g)}"
    using copies [OF v(1)] by blast
  obtain ms' k where cs: "list_copy copy ms (h @ g) = Done (ms', (h @ g) @ k)"
    "list_denote denote ((h @ g) @ k) ms' = Some ws"
    "list_reach reach ((h @ g) @ k) ms' \<subseteq> {length (h @ g)..<length ((h @ g) @ k)}"
    using Cons.IH [of "h @ g" ws] list_new [OF v(2), of g] by blast
  have "denote ((h @ g) @ k) m' = Some v" "reach ((h @ g) @ k) m' \<subseteq> {length h..<length (h @ g)}"
    using denote_new [OF c(2)] reach_new [OF c(2)] c(3) by auto
  with c cs v(3) show ?case
    by (intro exI [of _ "m' # ms'"] exI [of _ "g @ k"]) (fastforce simp: list_reach_def)
qed simp

lemma list_copyable: "deep_copyable (list_denote denote) (list_reach reach) (list_copy copy)"
  by unfold_locales
    (rule list_new [THEN conjunct1] list_new [THEN conjunct2, THEN conjunct1] list_new [THEN conjunct2, THEN conjunct2]
      list_frame [THEN conjunct1] list_frame [THEN conjunct2] list_copies; assumption)+

end

lemmas [copyable_intros] = deep_copyable.list_copyable

section \<open>Structs\<close>

text \<open>
  A struct is a tuple of its fields: \<open>get\<close> and \<open>put\<close> pass between them, and \<open>val\<close> makes the value of
  the struct out of the values of the fields.
\<close>

definition struct_denote ::
  "('s \<Rightarrow> 'm) \<Rightarrow> ('v \<Rightarrow> 'w) \<Rightarrow> ('c heap \<Rightarrow> 'm \<Rightarrow> 'v option) \<Rightarrow> 'c heap \<Rightarrow> 's \<Rightarrow> 'w option" where
  "struct_denote get val d h s = map_option val (d h (get s))"

definition struct_reach :: "('s \<Rightarrow> 'm) \<Rightarrow> ('c heap \<Rightarrow> 'm \<Rightarrow> addr set) \<Rightarrow> 'c heap \<Rightarrow> 's \<Rightarrow> addr set" where
  "struct_reach get r h s = r h (get s)"

definition struct_copy ::
  "('s \<Rightarrow> 'm) \<Rightarrow> ('m \<Rightarrow> 's) \<Rightarrow> ('m \<Rightarrow> 'c heap \<Rightarrow> ('m \<times> 'c heap) go) \<Rightarrow> 's \<Rightarrow> 'c heap \<Rightarrow> ('s \<times> 'c heap) go" where
  "struct_copy get put c s h = go_bind (c (get s) h) (\<lambda>(m', h'). Done (put m', h'))"

lemma struct_copyable:
  assumes a: "deep_copyable d r c" and put: "\<And>m. get (put m) = m"
  shows "deep_copyable (struct_denote get val d) (struct_reach get r) (struct_copy get put c)"
proof
  fix h :: "'a list" and s v g a x
  assume "struct_denote get val d h s = Some v"
  then obtain u where u: "d h (get s) = Some u" "v = val u" by (auto simp: struct_denote_def)
  show "struct_reach get r h s \<subseteq> {..<length h}" "struct_denote get val d (h @ g) s = Some v"
    "struct_reach get r (h @ g) s = struct_reach get r h s"
    using deep_copyable.in_heap [OF a u(1)] deep_copyable.denote_new [OF a u(1)]
      deep_copyable.reach_new [OF a u(1)] by (simp_all add: struct_denote_def struct_reach_def u(2))
  show "struct_denote get val d (h[a := x]) s = Some v"
    "struct_reach get r (h[a := x]) s = struct_reach get r h s" if "a \<notin> struct_reach get r h s"
    using deep_copyable.denote_frame [OF a u(1)] deep_copyable.reach_frame [OF a u(1)] that
    by (simp_all add: struct_denote_def struct_reach_def u(2))
  obtain m' g' where "c (get s) h = Done (m', h @ g')" "d (h @ g') m' = Some u"
    "r (h @ g') m' \<subseteq> {length h..<length (h @ g')}"
    using deep_copyable.copies [OF a u(1)] by blast
  then show "\<exists>m' g. struct_copy get put c s h = Done (m', h @ g) \<and>
      struct_denote get val d (h @ g) m' = Some v \<and>
      struct_reach get r (h @ g) m' \<subseteq> {length h..<length (h @ g)}"
    by (intro exI [of _ "put m'"] exI [of _ g'])
      (simp add: struct_denote_def struct_reach_def struct_copy_def put u(2))
qed

text \<open>A method is a deep copy of a struct if it copies the tuple of the fields.\<close>

lemma struct_copyableI:
  assumes "\<And>s h. method s h = struct_copy get put c s h" and "deep_copyable d r c" and "\<And>m. get (put m) = m"
  shows "deep_copyable (struct_denote get val d) (struct_reach get r) method"
proof -
  have "method = struct_copy get put c" using assms(1) by (intro ext)
  then show ?thesis by (simp only:) (rule struct_copyable, rule assms(2), rule assms(3))
qed

section \<open>Maps\<close>

text \<open>A map that denotes anything has distinct keys, as every Go map.\<close>

definition map_denote :: "('c heap \<Rightarrow> 'm \<Rightarrow> 'v option) \<Rightarrow> 'c heap \<Rightarrow> 'm go_map \<Rightarrow> 'v go_map option" where
  "map_denote d h kvs = (if gm_ok kvs then list_denote (prod_denote plain_denote d) h kvs else None)"

definition map_reach :: "('c heap \<Rightarrow> 'm \<Rightarrow> addr set) \<Rightarrow> 'c heap \<Rightarrow> 'm go_map \<Rightarrow> addr set" where
  "map_reach r = list_reach (prod_reach plain_reach r)"

text \<open>\<open>for key, val := range in { out[key] = copy of val }\<close>\<close>

fun map_copy_from ::
  "('m \<Rightarrow> 'c heap \<Rightarrow> ('m \<times> 'c heap) go) \<Rightarrow> 'm go_map \<Rightarrow> 'm go_map \<Rightarrow> 'c heap \<Rightarrow> ('m go_map \<times> 'c heap) go" where
  "map_copy_from c [] out h = Done (out, h)"
| "map_copy_from c ((key, val) # rest) out h =
     go_bind (c val h) (\<lambda>(val', h'). map_copy_from c rest (gm_put key val' out) h')"

definition map_copy :: "('m \<Rightarrow> 'c heap \<Rightarrow> ('m \<times> 'c heap) go) \<Rightarrow> 'm go_map \<Rightarrow> 'c heap \<Rightarrow> ('m go_map \<times> 'c heap) go" where
  "map_copy c kvs h = map_copy_from c kvs [] h"

lemma gm_put_new: "k \<notin> fst ` set m \<Longrightarrow> gm_put k v m = m @ [(k, v)]"
  by (induction m) (auto simp: gm_put_def)

lemma map_copy_from_list:
  assumes "gm_ok kvs" and "fst ` set kvs \<inter> fst ` set out = {}"
  shows "map_copy_from c kvs out h =
    go_bind (list_copy (prod_copy plain_copy c) kvs h) (\<lambda>(kvs', h'). Done (out @ kvs', h'))"
  using assms
proof (induction kvs arbitrary: out h)
  case (Cons kv kvs)
  obtain key val where kv: "kv = (key, val)" by (cases kv)
  have IH: "map_copy_from c kvs (gm_put key x out) h' =
      go_bind (list_copy (prod_copy plain_copy c) kvs h') (\<lambda>(kvs', h''). Done (gm_put key x out @ kvs', h''))" for x h'
    using Cons.prems by (intro Cons.IH) (auto simp: kv gm_ok_def gm_put_new)
  have "gm_put key x out = out @ [(key, x)]" for x
    using Cons.prems(2) by (intro gm_put_new) (auto simp: kv)
  with IH show ?case
    by (cases "c val h") (simp_all add: kv prod_copy_def plain_copy_def go_bind_assoc split_def)
qed simp

lemma list_copy_keys:
  "list_copy (prod_copy plain_copy c) kvs h = Done (kvs', h') \<Longrightarrow> map fst kvs' = map fst kvs"
  by (induction kvs arbitrary: h kvs')
    (auto simp: prod_copy_def plain_copy_def go_bind_Done_iff)

lemma map_denote_Some:
  "map_denote d h kvs = Some v \<longleftrightarrow> gm_ok kvs \<and> list_denote (prod_denote plain_denote d) h kvs = Some v"
  by (simp add: map_denote_def)

lemma map_copyable [copyable_intros]:
  assumes "deep_copyable d r c"
  shows "deep_copyable (map_denote d) (map_reach r) (map_copy c)"
proof -
  note a = deep_copyable.list_copyable [OF prod_copyable [OF plain_copyable assms]]
  note laws = deep_copyable.in_heap [OF a] deep_copyable.denote_new [OF a] deep_copyable.reach_new [OF a]
    deep_copyable.denote_frame [OF a] deep_copyable.reach_frame [OF a]
  have ok: "gm_ok kvs" and d: "list_denote (prod_denote plain_denote d) h kvs = Some v"
    if "map_denote d h kvs = Some v" for h kvs v
    using that by (simp_all add: map_denote_Some)
  show ?thesis
  proof
    fix h kvs v
    assume v: "map_denote d h kvs = Some v"
    from deep_copyable.copies [OF a d [OF v]] obtain kvs' g where
      c: "list_copy (prod_copy plain_copy c) kvs h = Done (kvs', h @ g)"
      "list_denote (prod_denote plain_denote d) (h @ g) kvs' = Some v"
      "list_reach (prod_reach plain_reach r) (h @ g) kvs' \<subseteq> {length h..<length (h @ g)}" by blast
    have "map_copy c kvs h = Done (kvs', h @ g)"
      using ok [OF v] c(1) by (simp add: map_copy_def map_copy_from_list)
    moreover have "gm_ok kvs'" using ok [OF v] list_copy_keys [OF c(1)] by (simp add: gm_ok_def)
    ultimately show "\<exists>m' g. map_copy c kvs h = Done (m', h @ g) \<and> map_denote d (h @ g) m' = Some v \<and>
        map_reach r (h @ g) m' \<subseteq> {length h..<length (h @ g)}"
      using c by (intro exI [of _ kvs'] exI [of _ g]) (simp add: map_denote_def map_reach_def)
  qed (unfold map_denote_Some map_reach_def, (assumption | erule conjE | intro conjI | rule laws)+)
qed

end
