(* ===== verification/Deep_Copy.thy ===== *)
theory Deep_Copy
  imports Go_Heap Api_Types
begin

text \<open>
  \<open>api/v1alpha1/zz_generated.deepcopy.go\<close>: the deep copies of the custom resource. controller-runtime
  hands out copies of cached objects, so the reconciler may change what it was given only because a
  copy shares no memory with the original. The structs are modelled as they lie in memory, with an
  address for every pointer, slice and map; \<open>denote\<close> functions read them as the values of
  \<open>Api_Types\<close>, which the rest of the development uses.

  The struct types of other modules are opaque (\<open>foreign\<close>: their plain data and the addresses they
  hold), and their own \<open>DeepCopyInto\<close> methods are parameters (\<open>foreignApi\<close>). A slice is the address
  of its backing array, which holds exactly its elements.
\<close>

section \<open>Structs in memory\<close>

datatype foreign = Foreign string "addr list"

datatype foreignKind = S3BucketSpecK | RoleGroupConfigSpecK | OverridesSpecK | RoleConfigSpecK
  | ObjectMetaK | ListMetaK | StatusK

record mOidcCredentialSecretSpec =
  m_Secret :: string
  m_ExtraScopes :: "addr option"

record mAuthenticationSpec =
  m_AuthenticationClass :: string
  m_Oidc :: "addr option"

record mClusterConfigSpec =
  m_ClusterDomain :: string
  m_IngressHost :: string
  m_VectorAggregatorConfigMapName :: string
  m_ZookeeperConfigMapName :: string
  m_S3 :: "addr option"
  m_Database :: "addr option"
  m_Authentication :: "addr option"

record mConfigSpec =
  m_RoleGroupConfigSpec :: "addr option"

record mRoleGroupSpec =
  m_Replicas :: "addr option"
  m_GroupConfig :: "addr option"
  m_GroupOverridesSpec :: "addr option"

record mRoleSpec =
  m_Config :: "addr option"
  m_RoleGroups :: "addr option"
  m_RoleConfig :: "addr option"
  m_OverridesSpec :: "addr option"

record mImageSpec =
  m_Custom :: string
  m_Repo :: string
  m_KubedoopVersion :: string
  m_ProductVersion :: string
  m_PullPolicy :: "addr option"
  m_PullSecretName :: string

record mClusterSpec =
  m_Image :: "addr option"
  m_ClusterConfig :: "addr option"
  m_ClusterOperationSpec :: "addr option"
  m_Master :: "addr option"
  m_Worker :: "addr option"
  m_Alerter :: "addr option"
  m_Api :: "addr option"

record mCluster =
  m_TypeMeta :: "string \<times> string"
  m_ObjectMeta :: foreign
  m_Spec :: mClusterSpec
  m_Status :: foreign

record mClusterList =
  m_ListTypeMeta :: "string \<times> string"
  m_ListMeta :: foreign
  m_Items :: "addr option"

datatype cell =
    CStrings "string list"
  | CString string
  | CInt32 goint32
  | COidc mOidcCredentialSecretSpec
  | CAuth mAuthenticationSpec
  | CAuths "mAuthenticationSpec list"
  | CDatabase databaseSpec
  | CClusterOperation clusterOperationSpec
  | CForeign foreign
  | CClusterConfig mClusterConfigSpec
  | CConfig mConfigSpec
  | CRoleGroup mRoleGroupSpec
  | CRoleGroups "mRoleGroupSpec go_map"
  | CRole mRoleSpec
  | CImage mImageSpec
  | CSpec mClusterSpec
  | CCluster mCluster
  | CClusters "mCluster list"
  | CClusterList mClusterList

definition stringsT :: "(string list, cell) cellType" where
  "stringsT = \<lparr>cell_of = CStrings, of_cell = (\<lambda>c. case c of CStrings x \<Rightarrow> Some x | _ \<Rightarrow> None)\<rparr>"
definition stringT :: "(string, cell) cellType" where
  "stringT = \<lparr>cell_of = CString, of_cell = (\<lambda>c. case c of CString x \<Rightarrow> Some x | _ \<Rightarrow> None)\<rparr>"
definition int32T :: "(goint32, cell) cellType" where
  "int32T = \<lparr>cell_of = CInt32, of_cell = (\<lambda>c. case c of CInt32 x \<Rightarrow> Some x | _ \<Rightarrow> None)\<rparr>"
definition oidcT :: "(mOidcCredentialSecretSpec, cell) cellType" where
  "oidcT = \<lparr>cell_of = COidc, of_cell = (\<lambda>c. case c of COidc x \<Rightarrow> Some x | _ \<Rightarrow> None)\<rparr>"
definition authT :: "(mAuthenticationSpec, cell) cellType" where
  "authT = \<lparr>cell_of = CAuth, of_cell = (\<lambda>c. case c of CAuth x \<Rightarrow> Some x | _ \<Rightarrow> None)\<rparr>"
definition authsT :: "(mAuthenticationSpec list, cell) cellType" where
  "authsT = \<lparr>cell_of = CAuths, of_cell = (\<lambda>c. case c of CAuths x \<Rightarrow> Some x | _ \<Rightarrow> None)\<rparr>"
definition databaseT :: "(databaseSpec, cell) cellType" where
  "databaseT = \<lparr>cell_of = CDatabase, of_cell = (\<lambda>c. case c of CDatabase x \<Rightarrow> Some x | _ \<Rightarrow> None)\<rparr>"
definition clusterOperationT :: "(clusterOperationSpec, cell) cellType" where
  "clusterOperationT =
     \<lparr>cell_of = CClusterOperation, of_cell = (\<lambda>c. case c of CClusterOperation x \<Rightarrow> Some x | _ \<Rightarrow> None)\<rparr>"
definition foreignT :: "(foreign, cell) cellType" where
  "foreignT = \<lparr>cell_of = CForeign, of_cell = (\<lambda>c. case c of CForeign x \<Rightarrow> Some x | _ \<Rightarrow> None)\<rparr>"
definition clusterConfigT :: "(mClusterConfigSpec, cell) cellType" where
  "clusterConfigT = \<lparr>cell_of = CClusterConfig, of_cell = (\<lambda>c. case c of CClusterConfig x \<Rightarrow> Some x | _ \<Rightarrow> None)\<rparr>"
definition configT :: "(mConfigSpec, cell) cellType" where
  "configT = \<lparr>cell_of = CConfig, of_cell = (\<lambda>c. case c of CConfig x \<Rightarrow> Some x | _ \<Rightarrow> None)\<rparr>"
definition roleGroupT :: "(mRoleGroupSpec, cell) cellType" where
  "roleGroupT = \<lparr>cell_of = CRoleGroup, of_cell = (\<lambda>c. case c of CRoleGroup x \<Rightarrow> Some x | _ \<Rightarrow> None)\<rparr>"
definition roleGroupsT :: "(mRoleGroupSpec go_map, cell) cellType" where
  "roleGroupsT = \<lparr>cell_of = CRoleGroups, of_cell = (\<lambda>c. case c of CRoleGroups x \<Rightarrow> Some x | _ \<Rightarrow> None)\<rparr>"
definition roleT :: "(mRoleSpec, cell) cellType" where
  "roleT = \<lparr>cell_of = CRole, of_cell = (\<lambda>c. case c of CRole x \<Rightarrow> Some x | _ \<Rightarrow> None)\<rparr>"
definition imageT :: "(mImageSpec, cell) cellType" where
  "imageT = \<lparr>cell_of = CImage, of_cell = (\<lambda>c. case c of CImage x \<Rightarrow> Some x | _ \<Rightarrow> None)\<rparr>"
definition specT :: "(mClusterSpec, cell) cellType" where
  "specT = \<lparr>cell_of = CSpec, of_cell = (\<lambda>c. case c of CSpec x \<Rightarrow> Some x | _ \<Rightarrow> None)\<rparr>"
definition clusterT :: "(mCluster, cell) cellType" where
  "clusterT = \<lparr>cell_of = CCluster, of_cell = (\<lambda>c. case c of CCluster x \<Rightarrow> Some x | _ \<Rightarrow> None)\<rparr>"
definition clustersT :: "(mCluster list, cell) cellType" where
  "clustersT = \<lparr>cell_of = CClusters, of_cell = (\<lambda>c. case c of CClusters x \<Rightarrow> Some x | _ \<Rightarrow> None)\<rparr>"
definition clusterListT :: "(mClusterList, cell) cellType" where
  "clusterListT = \<lparr>cell_of = CClusterList, of_cell = (\<lambda>c. case c of CClusterList x \<Rightarrow> Some x | _ \<Rightarrow> None)\<rparr>"

lemmas cellType_defs = stringsT_def stringT_def int32T_def oidcT_def authT_def authsT_def databaseT_def
  clusterOperationT_def foreignT_def clusterConfigT_def configT_def roleGroupT_def roleGroupsT_def
  roleT_def imageT_def specT_def clusterT_def clustersT_def clusterListT_def

lemma cells_ok [copyable_intros]:
  "cell_ok stringsT" "cell_ok stringT" "cell_ok int32T" "cell_ok oidcT" "cell_ok authT" "cell_ok authsT"
  "cell_ok databaseT" "cell_ok clusterOperationT" "cell_ok foreignT" "cell_ok clusterConfigT"
  "cell_ok configT" "cell_ok roleGroupT" "cell_ok roleGroupsT" "cell_ok roleT" "cell_ok imageT"
  "cell_ok specT" "cell_ok clusterT" "cell_ok clustersT" "cell_ok clusterListT"
  by (simp_all add: cell_ok_def cellType_defs)

section \<open>The foreign types\<close>

text \<open>
  \<open>fa_copy\<close> is \<open>DeepCopyInto\<close> of a foreign type, the other fields say what such a struct denotes and
  reaches. Of an object's metadata the operator reads name and namespace.
\<close>

record foreignApi =
  fa_copy :: "foreignKind \<Rightarrow> foreign \<Rightarrow> cell heap \<Rightarrow> (foreign \<times> cell heap) go"
  fa_reach :: "foreignKind \<Rightarrow> cell heap \<Rightarrow> foreign \<Rightarrow> addr set"
  fa_S3BucketSpec :: "cell heap \<Rightarrow> foreign \<Rightarrow> s3BucketSpec option"
  fa_RoleGroupConfigSpec :: "cell heap \<Rightarrow> foreign \<Rightarrow> roleGroupConfigSpec option"
  fa_OverridesSpec :: "cell heap \<Rightarrow> foreign \<Rightarrow> overridesSpec option"
  fa_RoleConfigSpec :: "cell heap \<Rightarrow> foreign \<Rightarrow> roleConfigSpec option"
  fa_ObjectMeta :: "cell heap \<Rightarrow> foreign \<Rightarrow> (string \<times> string) option"
  fa_ListMeta :: "cell heap \<Rightarrow> foreign \<Rightarrow> string option"
  fa_Status :: "cell heap \<Rightarrow> foreign \<Rightarrow> string option"

definition foreign_copies :: "foreignApi \<Rightarrow> bool" where
  "foreign_copies F \<longleftrightarrow>
     deep_copyable (fa_S3BucketSpec F) (fa_reach F S3BucketSpecK) (fa_copy F S3BucketSpecK) \<and>
     deep_copyable (fa_RoleGroupConfigSpec F) (fa_reach F RoleGroupConfigSpecK) (fa_copy F RoleGroupConfigSpecK) \<and>
     deep_copyable (fa_OverridesSpec F) (fa_reach F OverridesSpecK) (fa_copy F OverridesSpecK) \<and>
     deep_copyable (fa_RoleConfigSpec F) (fa_reach F RoleConfigSpecK) (fa_copy F RoleConfigSpecK) \<and>
     deep_copyable (fa_ObjectMeta F) (fa_reach F ObjectMetaK) (fa_copy F ObjectMetaK) \<and>
     deep_copyable (fa_ListMeta F) (fa_reach F ListMetaK) (fa_copy F ListMetaK) \<and>
     deep_copyable (fa_Status F) (fa_reach F StatusK) (fa_copy F StatusK)"

section \<open>The methods\<close>

definition OidcCredentialSecretSpec_DeepCopyInto ::
  "mOidcCredentialSecretSpec \<Rightarrow> cell heap \<Rightarrow> (mOidcCredentialSecretSpec \<times> cell heap) go" where
  "OidcCredentialSecretSpec_DeepCopyInto inp h =
     (let out = inp in
      go_bind (new_copy stringsT plain_copy (m_ExtraScopes inp) h) (\<lambda>(p, h).
      Done (out\<lparr>m_ExtraScopes := p\<rparr>, h)))"

definition OidcCredentialSecretSpec_DeepCopy :: "addr option \<Rightarrow> cell heap \<Rightarrow> (addr option \<times> cell heap) go" where
  "OidcCredentialSecretSpec_DeepCopy = new_copy oidcT OidcCredentialSecretSpec_DeepCopyInto"

definition AuthenticationSpec_DeepCopyInto ::
  "mAuthenticationSpec \<Rightarrow> cell heap \<Rightarrow> (mAuthenticationSpec \<times> cell heap) go" where
  "AuthenticationSpec_DeepCopyInto inp h =
     (let out = inp in
      go_bind (new_copy oidcT OidcCredentialSecretSpec_DeepCopyInto (m_Oidc inp) h) (\<lambda>(p, h).
      Done (out\<lparr>m_Oidc := p\<rparr>, h)))"

definition AuthenticationSpec_DeepCopy :: "addr option \<Rightarrow> cell heap \<Rightarrow> (addr option \<times> cell heap) go" where
  "AuthenticationSpec_DeepCopy = new_copy authT AuthenticationSpec_DeepCopyInto"

definition DatabaseSpec_DeepCopyInto :: "databaseSpec \<Rightarrow> cell heap \<Rightarrow> (databaseSpec \<times> cell heap) go" where
  "DatabaseSpec_DeepCopyInto inp h = Done (inp, h)"

definition DatabaseSpec_DeepCopy :: "addr option \<Rightarrow> cell heap \<Rightarrow> (addr option \<times> cell heap) go" where
  "DatabaseSpec_DeepCopy = new_copy databaseT DatabaseSpec_DeepCopyInto"

definition ClusterConfigSpec_DeepCopyInto ::
  "foreignApi \<Rightarrow> mClusterConfigSpec \<Rightarrow> cell heap \<Rightarrow> (mClusterConfigSpec \<times> cell heap) go" where
  "ClusterConfigSpec_DeepCopyInto F inp h =
     (let out = inp in
      go_bind (new_copy foreignT (fa_copy F S3BucketSpecK) (m_S3 inp) h) (\<lambda>(p, h).
      let out = out\<lparr>m_S3 := p\<rparr> in
      go_bind (new_copy databaseT plain_copy (m_Database inp) h) (\<lambda>(p, h).
      let out = out\<lparr>m_Database := p\<rparr> in
      go_bind (new_copy authsT (list_copy AuthenticationSpec_DeepCopyInto) (m_Authentication inp) h) (\<lambda>(p, h).
      Done (out\<lparr>m_Authentication := p\<rparr>, h)))))"

definition ClusterConfigSpec_DeepCopy ::
  "foreignApi \<Rightarrow> addr option \<Rightarrow> cell heap \<Rightarrow> (addr option \<times> cell heap) go" where
  "ClusterConfigSpec_DeepCopy F = new_copy clusterConfigT (ClusterConfigSpec_DeepCopyInto F)"

definition ConfigSpec_DeepCopyInto ::
  "foreignApi \<Rightarrow> mConfigSpec \<Rightarrow> cell heap \<Rightarrow> (mConfigSpec \<times> cell heap) go" where
  "ConfigSpec_DeepCopyInto F inp h =
     (let out = inp in
      go_bind (new_copy foreignT (fa_copy F RoleGroupConfigSpecK) (m_RoleGroupConfigSpec inp) h) (\<lambda>(p, h).
      Done (out\<lparr>m_RoleGroupConfigSpec := p\<rparr>, h)))"

definition ConfigSpec_DeepCopy :: "foreignApi \<Rightarrow> addr option \<Rightarrow> cell heap \<Rightarrow> (addr option \<times> cell heap) go" where
  "ConfigSpec_DeepCopy F = new_copy configT (ConfigSpec_DeepCopyInto F)"

definition RoleGroupSpec_DeepCopyInto ::
  "foreignApi \<Rightarrow> mRoleGroupSpec \<Rightarrow> cell heap \<Rightarrow> (mRoleGroupSpec \<times> cell heap) go" where
  "RoleGroupSpec_DeepCopyInto F inp h =
     (let out = inp in
      go_bind (new_copy int32T plain_copy (m_Replicas inp) h) (\<lambda>(p, h).
      let out = out\<lparr>m_Replicas := p\<rparr> in
      go_bind (new_copy configT (ConfigSpec_DeepCopyInto F) (m_GroupConfig inp) h) (\<lambda>(p, h).
      let out = out\<lparr>m_GroupConfig := p\<rparr> in
      go_bind (new_copy foreignT (fa_copy F OverridesSpecK) (m_GroupOverridesSpec inp) h) (\<lambda>(p, h).
      Done (out\<lparr>m_GroupOverridesSpec := p\<rparr>, h)))))"

definition RoleGroupSpec_DeepCopy :: "foreignApi \<Rightarrow> addr option \<Rightarrow> cell heap \<Rightarrow> (addr option \<times> cell heap) go" where
  "RoleGroupSpec_DeepCopy F = new_copy roleGroupT (RoleGroupSpec_DeepCopyInto F)"

text \<open>The groups of a role are copied with \<open>*val.DeepCopy()\<close>, by way of a cell of their own.\<close>

definition RoleSpec_DeepCopyInto ::
  "foreignApi \<Rightarrow> mRoleSpec \<Rightarrow> cell heap \<Rightarrow> (mRoleSpec \<times> cell heap) go" where
  "RoleSpec_DeepCopyInto F inp h =
     (let out = inp in
      go_bind (new_copy configT (ConfigSpec_DeepCopyInto F) (m_Config inp) h) (\<lambda>(p, h).
      let out = out\<lparr>m_Config := p\<rparr> in
      go_bind (new_copy roleGroupsT (map_copy (value_copy roleGroupT (RoleGroupSpec_DeepCopyInto F)))
                 (m_RoleGroups inp) h) (\<lambda>(p, h).
      let out = out\<lparr>m_RoleGroups := p\<rparr> in
      go_bind (new_copy foreignT (fa_copy F RoleConfigSpecK) (m_RoleConfig inp) h) (\<lambda>(p, h).
      let out = out\<lparr>m_RoleConfig := p\<rparr> in
      go_bind (new_copy foreignT (fa_copy F OverridesSpecK) (m_OverridesSpec inp) h) (\<lambda>(p, h).
      Done (out\<lparr>m_OverridesSpec := p\<rparr>, h))))))"

definition RoleSpec_DeepCopy :: "foreignApi \<Rightarrow> addr option \<Rightarrow> cell heap \<Rightarrow> (addr option \<times> cell heap) go" where
  "RoleSpec_DeepCopy F = new_copy roleT (RoleSpec_DeepCopyInto F)"

definition ImageSpec_DeepCopyInto :: "mImageSpec \<Rightarrow> cell heap \<Rightarrow> (mImageSpec \<times> cell heap) go" where
  "ImageSpec_DeepCopyInto inp h =
     (let out = inp in
      go_bind (new_copy stringT plain_copy (m_PullPolicy inp) h) (\<lambda>(p, h).
      Done (out\<lparr>m_PullPolicy := p\<rparr>, h)))"

definition ImageSpec_DeepCopy :: "addr option \<Rightarrow> cell heap \<Rightarrow> (addr option \<times> cell heap) go" where
  "ImageSpec_DeepCopy = new_copy imageT ImageSpec_DeepCopyInto"

definition DolphinschedulerClusterSpec_DeepCopyInto ::
  "foreignApi \<Rightarrow> mClusterSpec \<Rightarrow> cell heap \<Rightarrow> (mClusterSpec \<times> cell heap) go" where
  "DolphinschedulerClusterSpec_DeepCopyInto F inp h =
     (let out = inp in
      go_bind (new_copy imageT ImageSpec_DeepCopyInto (m_Image inp) h) (\<lambda>(p, h).
      let out = out\<lparr>m_Image := p\<rparr> in
      go_bind (new_copy clusterConfigT (ClusterConfigSpec_DeepCopyInto F) (m_ClusterConfig inp) h) (\<lambda>(p, h).
      let out = out\<lparr>m_ClusterConfig := p\<rparr> in
      go_bind (new_copy clusterOperationT plain_copy (m_ClusterOperationSpec inp) h) (\<lambda>(p, h).
      let out = out\<lparr>m_ClusterOperationSpec := p\<rparr> in
      go_bind (new_copy roleT (RoleSpec_DeepCopyInto F) (m_Master inp) h) (\<lambda>(p, h).
      let out = out\<lparr>m_Master := p\<rparr> in
      go_bind (new_copy roleT (RoleSpec_DeepCopyInto F) (m_Worker inp) h) (\<lambda>(p, h).
      let out = out\<lparr>m_Worker := p\<rparr> in
      go_bind (new_copy roleT (RoleSpec_DeepCopyInto F) (m_Alerter inp) h) (\<lambda>(p, h).
      let out = out\<lparr>m_Alerter := p\<rparr> in
      go_bind (new_copy roleT (RoleSpec_DeepCopyInto F) (m_Api inp) h) (\<lambda>(p, h).
      Done (out\<lparr>m_Api := p\<rparr>, h)))))))))"

definition DolphinschedulerClusterSpec_DeepCopy ::
  "foreignApi \<Rightarrow> addr option \<Rightarrow> cell heap \<Rightarrow> (addr option \<times> cell heap) go" where
  "DolphinschedulerClusterSpec_DeepCopy F = new_copy specT (DolphinschedulerClusterSpec_DeepCopyInto F)"

definition DolphinschedulerCluster_DeepCopyInto ::
  "foreignApi \<Rightarrow> mCluster \<Rightarrow> cell heap \<Rightarrow> (mCluster \<times> cell heap) go" where
  "DolphinschedulerCluster_DeepCopyInto F inp h =
     (let out = inp; out = out\<lparr>m_TypeMeta := m_TypeMeta inp\<rparr> in
      go_bind (fa_copy F ObjectMetaK (m_ObjectMeta inp) h) (\<lambda>(x, h).
      let out = out\<lparr>m_ObjectMeta := x\<rparr> in
      go_bind (DolphinschedulerClusterSpec_DeepCopyInto F (m_Spec inp) h) (\<lambda>(x, h).
      let out = out\<lparr>m_Spec := x\<rparr> in
      go_bind (fa_copy F StatusK (m_Status inp) h) (\<lambda>(x, h).
      Done (out\<lparr>m_Status := x\<rparr>, h)))))"

definition DolphinschedulerCluster_DeepCopy ::
  "foreignApi \<Rightarrow> addr option \<Rightarrow> cell heap \<Rightarrow> (addr option \<times> cell heap) go" where
  "DolphinschedulerCluster_DeepCopy F = new_copy clusterT (DolphinschedulerCluster_DeepCopyInto F)"

text \<open>\<open>DeepCopyObject\<close> returns the nil interface, not an interface that holds a nil pointer.\<close>

datatype runtimeObject = NilObject | ClusterObject "addr option" | ClusterListObject "addr option"

definition DolphinschedulerCluster_DeepCopyObject ::
  "foreignApi \<Rightarrow> addr option \<Rightarrow> cell heap \<Rightarrow> (runtimeObject \<times> cell heap) go" where
  "DolphinschedulerCluster_DeepCopyObject F inp h =
     go_bind (DolphinschedulerCluster_DeepCopy F inp h) (\<lambda>(c, h).
     Done (if c \<noteq> None then ClusterObject c else NilObject, h))"

definition DolphinschedulerClusterList_DeepCopyInto ::
  "foreignApi \<Rightarrow> mClusterList \<Rightarrow> cell heap \<Rightarrow> (mClusterList \<times> cell heap) go" where
  "DolphinschedulerClusterList_DeepCopyInto F inp h =
     (let out = inp; out = out\<lparr>m_ListTypeMeta := m_ListTypeMeta inp\<rparr> in
      go_bind (fa_copy F ListMetaK (m_ListMeta inp) h) (\<lambda>(x, h).
      let out = out\<lparr>m_ListMeta := x\<rparr> in
      go_bind (new_copy clustersT (list_copy (DolphinschedulerCluster_DeepCopyInto F)) (m_Items inp) h) (\<lambda>(p, h).
      Done (out\<lparr>m_Items := p\<rparr>, h))))"

definition DolphinschedulerClusterList_DeepCopy ::
  "foreignApi \<Rightarrow> addr option \<Rightarrow> cell heap \<Rightarrow> (addr option \<times> cell heap) go" where
  "DolphinschedulerClusterList_DeepCopy F = new_copy clusterListT (DolphinschedulerClusterList_DeepCopyInto F)"

definition DolphinschedulerClusterList_DeepCopyObject ::
  "foreignApi \<Rightarrow> addr option \<Rightarrow> cell heap \<Rightarrow> (runtimeObject \<times> cell heap) go" where
  "DolphinschedulerClusterList_DeepCopyObject F inp h =
     go_bind (DolphinschedulerClusterList_DeepCopy F inp h) (\<lambda>(c, h).
     Done (if c \<noteq> None then ClusterListObject c else NilObject, h))"

section \<open>What the structs denote and reach\<close>

text \<open>
  Every struct as the tuple of its fields, plain ones first, the others in the order in which they
  are copied.
\<close>

lemmas copy_defs = struct_copy_def prod_copy_def plain_copy_def go_bind_assoc split_def

abbreviation oidc_fields where
  "oidc_fields \<equiv> \<lambda>m. (m_Secret m, m_ExtraScopes m)"

abbreviation oidc_put where
  "oidc_put \<equiv> \<lambda>(ya, za).
     \<lparr>m_Secret = ya, m_ExtraScopes = za\<rparr>"

definition oidc_denote :: "cell heap \<Rightarrow> mOidcCredentialSecretSpec \<Rightarrow> oidcCredentialSecretSpec option" where
  "oidc_denote = struct_denote oidc_fields
     (\<lambda>(ya, za). \<lparr>ocs_Secret = ya, ocs_ExtraScopes = (case za of None \<Rightarrow> [] | Some xs \<Rightarrow> xs)\<rparr>)
     (prod_denote plain_denote
      (ptr_denote stringsT plain_denote))"

definition oidc_reach :: "cell heap \<Rightarrow> mOidcCredentialSecretSpec \<Rightarrow> addr set" where
  "oidc_reach = struct_reach oidc_fields
     (prod_reach plain_reach
      (ptr_reach stringsT plain_reach))"

lemma oidc_copyable [copyable_intros]:
  "deep_copyable oidc_denote oidc_reach OidcCredentialSecretSpec_DeepCopyInto"
  unfolding oidc_denote_def oidc_reach_def
proof (rule struct_copyableI [where put = oidc_put])
  fix m h
  show "OidcCredentialSecretSpec_DeepCopyInto m h = struct_copy oidc_fields oidc_put
      (prod_copy plain_copy
       (new_copy stringsT plain_copy)) m h"
    by (cases m) (simp add: OidcCredentialSecretSpec_DeepCopyInto_def copy_defs)
qed (intro copyable_intros, auto)

abbreviation auth_fields where
  "auth_fields \<equiv> \<lambda>m. (m_AuthenticationClass m, m_Oidc m)"

abbreviation auth_put where
  "auth_put \<equiv> \<lambda>(ya, za).
     \<lparr>m_AuthenticationClass = ya, m_Oidc = za\<rparr>"

definition auth_denote :: "cell heap \<Rightarrow> mAuthenticationSpec \<Rightarrow> authenticationSpec option" where
  "auth_denote = struct_denote auth_fields
     (\<lambda>(ya, za). \<lparr>as_AuthenticationClass = ya, as_Oidc = za\<rparr>)
     (prod_denote plain_denote
      (ptr_denote oidcT oidc_denote))"

definition auth_reach :: "cell heap \<Rightarrow> mAuthenticationSpec \<Rightarrow> addr set" where
  "auth_reach = struct_reach auth_fields
     (prod_reach plain_reach
      (ptr_reach oidcT oidc_reach))"

lemma auth_copyable [copyable_intros]:
  "deep_copyable auth_denote auth_reach AuthenticationSpec_DeepCopyInto"
  unfolding auth_denote_def auth_reach_def
proof (rule struct_copyableI [where put = auth_put])
  fix m h
  show "AuthenticationSpec_DeepCopyInto m h = struct_copy auth_fields auth_put
      (prod_copy plain_copy
       (new_copy oidcT OidcCredentialSecretSpec_DeepCopyInto)) m h"
    by (cases m) (simp add: AuthenticationSpec_DeepCopyInto_def copy_defs)
qed (intro copyable_intros, auto)

abbreviation image_fields where
  "image_fields \<equiv> \<lambda>m. ((m_Custom m, m_Repo m, m_KubedoopVersion m, m_ProductVersion m, m_PullSecretName m),
     m_PullPolicy m)"

abbreviation image_put where
  "image_put \<equiv> \<lambda>((ya, yb, yc, yd, ye), za).
     \<lparr>m_Custom = ya, m_Repo = yb, m_KubedoopVersion = yc, m_ProductVersion = yd,
     m_PullPolicy = za, m_PullSecretName = ye\<rparr>"

definition image_denote :: "cell heap \<Rightarrow> mImageSpec \<Rightarrow> imageSpec option" where
  "image_denote = struct_denote image_fields
     (\<lambda>((ya, yb, yc, yd, ye), za). \<lparr>img_Custom = ya, img_Repo = yb, img_KubedoopVersion = yc, img_ProductVersion = yd,
        img_PullPolicy = za, img_PullSecretName = ye\<rparr>)
     (prod_denote plain_denote
      (ptr_denote stringT plain_denote))"

definition image_reach :: "cell heap \<Rightarrow> mImageSpec \<Rightarrow> addr set" where
  "image_reach = struct_reach image_fields
     (prod_reach plain_reach
      (ptr_reach stringT plain_reach))"

lemma image_copyable [copyable_intros]:
  "deep_copyable image_denote image_reach ImageSpec_DeepCopyInto"
  unfolding image_denote_def image_reach_def
proof (rule struct_copyableI [where put = image_put])
  fix m h
  show "ImageSpec_DeepCopyInto m h = struct_copy image_fields image_put
      (prod_copy plain_copy
       (new_copy stringT plain_copy)) m h"
    by (cases m) (simp add: ImageSpec_DeepCopyInto_def copy_defs)
qed (intro copyable_intros, auto)

lemma foreign_copyable:
  assumes "foreign_copies F"
  shows "deep_copyable (fa_S3BucketSpec F) (fa_reach F S3BucketSpecK) (fa_copy F S3BucketSpecK)"
    "deep_copyable (fa_RoleGroupConfigSpec F) (fa_reach F RoleGroupConfigSpecK) (fa_copy F RoleGroupConfigSpecK)"
    "deep_copyable (fa_OverridesSpec F) (fa_reach F OverridesSpecK) (fa_copy F OverridesSpecK)"
    "deep_copyable (fa_RoleConfigSpec F) (fa_reach F RoleConfigSpecK) (fa_copy F RoleConfigSpecK)"
    "deep_copyable (fa_ObjectMeta F) (fa_reach F ObjectMetaK) (fa_copy F ObjectMetaK)"
    "deep_copyable (fa_ListMeta F) (fa_reach F ListMetaK) (fa_copy F ListMetaK)"
    "deep_copyable (fa_Status F) (fa_reach F StatusK) (fa_copy F StatusK)"
  using assms by (simp_all add: foreign_copies_def)

abbreviation clusterConfig_fields where
  "clusterConfig_fields \<equiv> \<lambda>m. ((m_ClusterDomain m, m_IngressHost m, m_VectorAggregatorConfigMapName m, m_ZookeeperConfigMapName m),
     m_S3 m, m_Database m, m_Authentication m)"

abbreviation clusterConfig_put where
  "clusterConfig_put \<equiv> \<lambda>((ya, yb, yc, yd), za, zb, zc).
     \<lparr>m_ClusterDomain = ya, m_IngressHost = yb, m_VectorAggregatorConfigMapName = yc,
     m_ZookeeperConfigMapName = yd, m_S3 = za, m_Database = zb, m_Authentication = zc\<rparr>"

definition clusterConfig_denote :: "foreignApi \<Rightarrow> cell heap \<Rightarrow> mClusterConfigSpec \<Rightarrow> clusterConfigSpec option" where
  "clusterConfig_denote F = struct_denote clusterConfig_fields
     (\<lambda>((ya, yb, yc, yd), za, zb, zc). \<lparr>cc_ClusterDomain = ya, cc_IngressHost = yb, cc_VectorAggregatorConfigMapName = yc,
        cc_ZookeeperConfigMapName = yd, cc_S3 = za, cc_Database = zb, cc_Authentication = zc\<rparr>)
     (prod_denote plain_denote
      (prod_denote (ptr_denote foreignT (fa_S3BucketSpec F))
       (prod_denote (ptr_denote databaseT plain_denote)
        (ptr_denote authsT (list_denote auth_denote)))))"

definition clusterConfig_reach :: "foreignApi \<Rightarrow> cell heap \<Rightarrow> mClusterConfigSpec \<Rightarrow> addr set" where
  "clusterConfig_reach F = struct_reach clusterConfig_fields
     (prod_reach plain_reach
      (prod_reach (ptr_reach foreignT (fa_reach F S3BucketSpecK))
       (prod_reach (ptr_reach databaseT plain_reach)
        (ptr_reach authsT (list_reach auth_reach)))))"

lemma clusterConfig_copyable [copyable_intros]:
  assumes "foreign_copies F"
  shows "deep_copyable (clusterConfig_denote F) (clusterConfig_reach F)
    (ClusterConfigSpec_DeepCopyInto F)"
  unfolding clusterConfig_denote_def clusterConfig_reach_def
proof (rule struct_copyableI [where put = clusterConfig_put])
  fix m h
  show "ClusterConfigSpec_DeepCopyInto F m h = struct_copy clusterConfig_fields clusterConfig_put
      (prod_copy plain_copy
       (prod_copy (new_copy foreignT (fa_copy F S3BucketSpecK))
        (prod_copy (new_copy databaseT plain_copy)
         (new_copy authsT (list_copy AuthenticationSpec_DeepCopyInto))))) m h"
    by (cases m) (simp add: ClusterConfigSpec_DeepCopyInto_def copy_defs)
qed (use assms in \<open>intro copyable_intros foreign_copyable\<close>, auto)

abbreviation config_fields where
  "config_fields \<equiv> \<lambda>m. m_RoleGroupConfigSpec m"

abbreviation config_put where
  "config_put \<equiv> \<lambda>za.
     \<lparr>m_RoleGroupConfigSpec = za\<rparr>"

definition config_denote :: "foreignApi \<Rightarrow> cell heap \<Rightarrow> mConfigSpec \<Rightarrow> configSpec option" where
  "config_denote F = struct_denote config_fields
     (\<lambda>za. \<lparr>cfg_RoleGroupConfigSpec = za\<rparr>)
     (ptr_denote foreignT (fa_RoleGroupConfigSpec F))"

definition config_reach :: "foreignApi \<Rightarrow> cell heap \<Rightarrow> mConfigSpec \<Rightarrow> addr set" where
  "config_reach F = struct_reach config_fields
     (ptr_reach foreignT (fa_reach F RoleGroupConfigSpecK))"

lemma config_copyable [copyable_intros]:
  assumes "foreign_copies F"
  shows "deep_copyable (config_denote F) (config_reach F)
    (ConfigSpec_DeepCopyInto F)"
  unfolding config_denote_def config_reach_def
proof (rule struct_copyableI [where put = config_put])
  fix m h
  show "ConfigSpec_DeepCopyInto F m h = struct_copy config_fields config_put
      (new_copy foreignT (fa_copy F RoleGroupConfigSpecK)) m h"
    by (cases m) (simp add: ConfigSpec_DeepCopyInto_def copy_defs)
qed (use assms in \<open>intro copyable_intros foreign_copyable\<close>, auto)

abbreviation roleGroup_fields where
  "roleGroup_fields \<equiv> \<lambda>m. (m_Replicas m, m_GroupConfig m, m_GroupOverridesSpec m)"

abbreviation roleGroup_put where
  "roleGroup_put \<equiv> \<lambda>(za, zb, zc).
     \<lparr>m_Replicas = za, m_GroupConfig = zb, m_GroupOverridesSpec = zc\<rparr>"

definition roleGroup_denote :: "foreignApi \<Rightarrow> cell heap \<Rightarrow> mRoleGroupSpec \<Rightarrow> roleGroupSpec option" where
  "roleGroup_denote F = struct_denote roleGroup_fields
     (\<lambda>(za, zb, zc). \<lparr>rg_Replicas = za, rg_Config = zb, rg_OverridesSpec = zc\<rparr>)
     (prod_denote (ptr_denote int32T plain_denote)
      (prod_denote (ptr_denote configT (config_denote F))
       (ptr_denote foreignT (fa_OverridesSpec F))))"

definition roleGroup_reach :: "foreignApi \<Rightarrow> cell heap \<Rightarrow> mRoleGroupSpec \<Rightarrow> addr set" where
  "roleGroup_reach F = struct_reach roleGroup_fields
     (prod_reach (ptr_reach int32T plain_reach)
      (prod_reach (ptr_reach configT (config_reach F))
       (ptr_reach foreignT (fa_reach F OverridesSpecK))))"

lemma roleGroup_copyable [copyable_intros]:
  assumes "foreign_copies F"
  shows "deep_copyable (roleGroup_denote F) (roleGroup_reach F)
    (RoleGroupSpec_DeepCopyInto F)"
  unfolding roleGroup_denote_def roleGroup_reach_def
proof (rule struct_copyableI [where put = roleGroup_put])
  fix m h
  show "RoleGroupSpec_DeepCopyInto F m h = struct_copy roleGroup_fields roleGroup_put
      (prod_copy (new_copy int32T plain_copy)
       (prod_copy (new_copy configT (ConfigSpec_DeepCopyInto F))
        (new_copy foreignT (fa_copy F OverridesSpecK)))) m h"
    by (cases m) (simp add: RoleGroupSpec_DeepCopyInto_def copy_defs)
qed (use assms in \<open>intro copyable_intros foreign_copyable\<close>, auto)

abbreviation role_fields where
  "role_fields \<equiv> \<lambda>m. (m_Config m, m_RoleGroups m, m_RoleConfig m, m_OverridesSpec m)"

abbreviation role_put where
  "role_put \<equiv> \<lambda>(za, zb, zc, zd).
     \<lparr>m_Config = za, m_RoleGroups = zb, m_RoleConfig = zc, m_OverridesSpec = zd\<rparr>"

definition role_denote :: "foreignApi \<Rightarrow> cell heap \<Rightarrow> mRoleSpec \<Rightarrow> roleSpec option" where
  "role_denote F = struct_denote role_fields
     (\<lambda>(za, zb, zc, zd). \<lparr>role_Config = za, role_RoleGroups = (case zb of None \<Rightarrow> [] | Some gs \<Rightarrow> gs),
        role_RoleConfig = zc, role_OverridesSpec = zd\<rparr>)
     (prod_denote (ptr_denote configT (config_denote F))
      (prod_denote (ptr_denote roleGroupsT (map_denote (roleGroup_denote F)))
       (prod_denote (ptr_denote foreignT (fa_RoleConfigSpec F))
        (ptr_denote foreignT (fa_OverridesSpec F)))))"

definition role_reach :: "foreignApi \<Rightarrow> cell heap \<Rightarrow> mRoleSpec \<Rightarrow> addr set" where
  "role_reach F = struct_reach role_fields
     (prod_reach (ptr_reach configT (config_reach F))
      (prod_reach (ptr_reach roleGroupsT (map_reach (roleGroup_reach F)))
       (prod_reach (ptr_reach foreignT (fa_reach F RoleConfigSpecK))
        (ptr_reach foreignT (fa_reach F OverridesSpecK)))))"

lemma role_copyable [copyable_intros]:
  assumes "foreign_copies F"
  shows "deep_copyable (role_denote F) (role_reach F)
    (RoleSpec_DeepCopyInto F)"
  unfolding role_denote_def role_reach_def
proof (rule struct_copyableI [where put = role_put])
  fix m h
  show "RoleSpec_DeepCopyInto F m h = struct_copy role_fields role_put
      (prod_copy (new_copy configT (ConfigSpec_DeepCopyInto F))
       (prod_copy (new_copy roleGroupsT (map_copy (value_copy roleGroupT (RoleGroupSpec_DeepCopyInto F))))
        (prod_copy (new_copy foreignT (fa_copy F RoleConfigSpecK))
         (new_copy foreignT (fa_copy F OverridesSpecK))))) m h"
    by (cases m) (simp add: RoleSpec_DeepCopyInto_def copy_defs)
qed (use assms in \<open>intro copyable_intros foreign_copyable\<close>, auto)

abbreviation spec_fields where
  "spec_fields \<equiv> \<lambda>m. (m_Image m, m_ClusterConfig m, m_ClusterOperationSpec m, m_Master m, m_Worker m,
     m_Alerter m, m_Api m)"

abbreviation spec_put where
  "spec_put \<equiv> \<lambda>(za, zb, zc, zd, ze, zf, zg).
     \<lparr>m_Image = za, m_ClusterConfig = zb, m_ClusterOperationSpec = zc, m_Master = zd,
     m_Worker = ze, m_Alerter = zf, m_Api = zg\<rparr>"

definition spec_denote :: "foreignApi \<Rightarrow> cell heap \<Rightarrow> mClusterSpec \<Rightarrow> dolphinschedulerClusterSpec option" where
  "spec_denote F = struct_denote spec_fields
     (\<lambda>(za, zb, zc, zd, ze, zf, zg). \<lparr>spec_Image = za, spec_ClusterConfig = zb, spec_ClusterOperationSpec = zc, spec_Master = zd,
        spec_Worker = ze, spec_Alerter = zf, spec_Api = zg\<rparr>)
     (prod_denote (ptr_denote imageT image_denote)
      (prod_denote (ptr_denote clusterConfigT (clusterConfig_denote F))
       (prod_denote (ptr_denote clusterOperationT plain_denote)
        (prod_denote (ptr_denote roleT (role_denote F))
         (prod_denote (ptr_denote roleT (role_denote F))
          (prod_denote (ptr_denote roleT (role_denote F))
           (ptr_denote roleT (role_denote F))))))))"

definition spec_reach :: "foreignApi \<Rightarrow> cell heap \<Rightarrow> mClusterSpec \<Rightarrow> addr set" where
  "spec_reach F = struct_reach spec_fields
     (prod_reach (ptr_reach imageT image_reach)
      (prod_reach (ptr_reach clusterConfigT (clusterConfig_reach F))
       (prod_reach (ptr_reach clusterOperationT plain_reach)
        (prod_reach (ptr_reach roleT (role_reach F))
         (prod_reach (ptr_reach roleT (role_reach F))
          (prod_reach (ptr_reach roleT (role_reach F))
           (ptr_reach roleT (role_reach F))))))))"

lemma spec_copyable [copyable_intros]:
  assumes "foreign_copies F"
  shows "deep_copyable (spec_denote F) (spec_reach F)
    (DolphinschedulerClusterSpec_DeepCopyInto F)"
  unfolding spec_denote_def spec_reach_def
proof (rule struct_copyableI [where put = spec_put])
  fix m h
  show "DolphinschedulerClusterSpec_DeepCopyInto F m h = struct_copy spec_fields spec_put
      (prod_copy (new_copy imageT ImageSpec_DeepCopyInto)
       (prod_copy (new_copy clusterConfigT (ClusterConfigSpec_DeepCopyInto F))
        (prod_copy (new_copy clusterOperationT plain_copy)
         (prod_copy (new_copy roleT (RoleSpec_DeepCopyInto F))
          (prod_copy (new_copy roleT (RoleSpec_DeepCopyInto F))
           (prod_copy (new_copy roleT (RoleSpec_DeepCopyInto F))
            (new_copy roleT (RoleSpec_DeepCopyInto F)))))))) m h"
    by (cases m) (simp add: DolphinschedulerClusterSpec_DeepCopyInto_def copy_defs)
qed (use assms in \<open>intro copyable_intros foreign_copyable\<close>, auto)

text \<open>An object of the API: the custom resource, with its type and its status.\<close>

record apiObject =
  obj_TypeMeta :: "string \<times> string"
  obj_Cluster :: dolphinschedulerCluster
  obj_Status :: string

abbreviation cluster_fields where
  "cluster_fields \<equiv> \<lambda>m. (m_TypeMeta m, m_ObjectMeta m, m_Spec m, m_Status m)"

abbreviation cluster_put where
  "cluster_put \<equiv> \<lambda>(ya, za, zb, zc).
     \<lparr>m_TypeMeta = ya, m_ObjectMeta = za, m_Spec = zb, m_Status = zc\<rparr>"

definition cluster_denote :: "foreignApi \<Rightarrow> cell heap \<Rightarrow> mCluster \<Rightarrow> apiObject option" where
  "cluster_denote F = struct_denote cluster_fields
     (\<lambda>(ya, za, zb, zc). \<lparr>obj_TypeMeta = ya, obj_Cluster = \<lparr>dc_Name = fst za, dc_Namespace = snd za, dc_Spec = zb\<rparr>,
        obj_Status = zc\<rparr>)
     (prod_denote plain_denote
      (prod_denote (fa_ObjectMeta F)
       (prod_denote (spec_denote F)
        (fa_Status F))))"

definition cluster_reach :: "foreignApi \<Rightarrow> cell heap \<Rightarrow> mCluster \<Rightarrow> addr set" where
  "cluster_reach F = struct_reach cluster_fields
     (prod_reach plain_reach
      (prod_reach (fa_reach F ObjectMetaK)
       (prod_reach (spec_reach F)
        (fa_reach F StatusK))))"

lemma cluster_copyable [copyable_intros]:
  assumes "foreign_copies F"
  shows "deep_copyable (cluster_denote F) (cluster_reach F)
    (DolphinschedulerCluster_DeepCopyInto F)"
  unfolding cluster_denote_def cluster_reach_def
proof (rule struct_copyableI [where put = cluster_put])
  fix m h
  show "DolphinschedulerCluster_DeepCopyInto F m h = struct_copy cluster_fields cluster_put
      (prod_copy plain_copy
       (prod_copy (fa_copy F ObjectMetaK)
        (prod_copy (DolphinschedulerClusterSpec_DeepCopyInto F)
         (fa_copy F StatusK)))) m h"
    by (cases m) (simp add: DolphinschedulerCluster_DeepCopyInto_def copy_defs)
qed (use assms in \<open>intro copyable_intros foreign_copyable\<close>, auto)

abbreviation clusterList_fields where
  "clusterList_fields \<equiv> \<lambda>m. (m_ListTypeMeta m, m_ListMeta m, m_Items m)"

abbreviation clusterList_put where
  "clusterList_put \<equiv> \<lambda>(ya, za, zb).
     \<lparr>m_ListTypeMeta = ya, m_ListMeta = za, m_Items = zb\<rparr>"

definition clusterList_denote :: "foreignApi \<Rightarrow> cell heap \<Rightarrow> mClusterList \<Rightarrow> ((string \<times> string) \<times> string \<times> apiObject list) option" where
  "clusterList_denote F = struct_denote clusterList_fields
     (\<lambda>(ya, za, zb). (ya, za, case zb of None \<Rightarrow> [] | Some xs \<Rightarrow> xs))
     (prod_denote plain_denote
      (prod_denote (fa_ListMeta F)
       (ptr_denote clustersT (list_denote (cluster_denote F)))))"

definition clusterList_reach :: "foreignApi \<Rightarrow> cell heap \<Rightarrow> mClusterList \<Rightarrow> addr set" where
  "clusterList_reach F = struct_reach clusterList_fields
     (prod_reach plain_reach
      (prod_reach (fa_reach F ListMetaK)
       (ptr_reach clustersT (list_reach (cluster_reach F)))))"

lemma clusterList_copyable [copyable_intros]:
  assumes "foreign_copies F"
  shows "deep_copyable (clusterList_denote F) (clusterList_reach F)
    (DolphinschedulerClusterList_DeepCopyInto F)"
  unfolding clusterList_denote_def clusterList_reach_def
proof (rule struct_copyableI [where put = clusterList_put])
  fix m h
  show "DolphinschedulerClusterList_DeepCopyInto F m h = struct_copy clusterList_fields clusterList_put
      (prod_copy plain_copy
       (prod_copy (fa_copy F ListMetaK)
        (new_copy clustersT (list_copy (DolphinschedulerCluster_DeepCopyInto F))))) m h"
    by (cases m) (simp add: DolphinschedulerClusterList_DeepCopyInto_def copy_defs)
qed (use assms in \<open>intro copyable_intros foreign_copyable\<close>, auto)

interpretation oidc_copy: deep_copyable oidc_denote oidc_reach OidcCredentialSecretSpec_DeepCopyInto
  by (rule oidc_copyable)

interpretation auth_copy: deep_copyable auth_denote auth_reach AuthenticationSpec_DeepCopyInto
  by (rule auth_copyable)

interpretation image_copy: deep_copyable image_denote image_reach ImageSpec_DeepCopyInto
  by (rule image_copyable)

section \<open>Copies are independent\<close>

abbreviation cluster_ptr_denote where
  "cluster_ptr_denote F \<equiv> ptr_denote clusterT (cluster_denote F)"

abbreviation cluster_ptr_reach where
  "cluster_ptr_reach F \<equiv> ptr_reach clusterT (cluster_reach F)"

abbreviation list_ptr_denote where
  "list_ptr_denote F \<equiv> ptr_denote clusterListT (clusterList_denote F)"

abbreviation list_ptr_reach where
  "list_ptr_reach F \<equiv> ptr_reach clusterListT (clusterList_reach F)"

lemma cluster_ptr_copyable:
  "foreign_copies F \<Longrightarrow>
   deep_copyable (cluster_ptr_denote F) (cluster_ptr_reach F) (DolphinschedulerCluster_DeepCopy F)"
  unfolding DolphinschedulerCluster_DeepCopy_def by (intro copyable_intros)

lemma list_ptr_copyable:
  "foreign_copies F \<Longrightarrow>
   deep_copyable (list_ptr_denote F) (list_ptr_reach F) (DolphinschedulerClusterList_DeepCopy F)"
  unfolding DolphinschedulerClusterList_DeepCopy_def by (intro copyable_intros)

text \<open>
  C14. A deep copy of a custom resource is independent of the original. If the deep copies of the
  foreign types keep their contract, then \<open>DeepCopy\<close> of a well-formed object (or of nil) returns an
  object that denotes the same custom resource, leaves the old memory as it was, and shares no
  address with the original: no write to memory of the copy changes the original, and no write to
  memory of the original changes the copy.
\<close>

theorem DeepCopy_independent:
  assumes "foreign_copies F" and "cluster_ptr_denote F h p = Some v"
  shows "\<exists>p' h'. DolphinschedulerCluster_DeepCopy F p h = Done (p', h') \<and> take (length h) h' = h \<and>
    cluster_ptr_denote F h' p' = Some v \<and> cluster_ptr_denote F h' p = Some v \<and>
    cluster_ptr_reach F h' p \<inter> cluster_ptr_reach F h' p' = {} \<and>
    (\<forall>a c. a \<in> cluster_ptr_reach F h' p' \<longrightarrow> cluster_ptr_denote F (h'[a := c]) p = Some v) \<and>
    (\<forall>a c. a \<in> cluster_ptr_reach F h' p \<longrightarrow> cluster_ptr_denote F (h'[a := c]) p' = Some v)"
  by (rule deep_copyable.independent [OF cluster_ptr_copyable [OF assms(1)] assms(2)])

text \<open>The same for a list of custom resources, as the informer's cache hands it out.\<close>

lemma list_DeepCopy_independent:
  assumes "foreign_copies F" and "list_ptr_denote F h p = Some v"
  shows "\<exists>p' h'. DolphinschedulerClusterList_DeepCopy F p h = Done (p', h') \<and> take (length h) h' = h \<and>
    list_ptr_denote F h' p' = Some v \<and> list_ptr_denote F h' p = Some v \<and>
    list_ptr_reach F h' p \<inter> list_ptr_reach F h' p' = {} \<and>
    (\<forall>a c. a \<in> list_ptr_reach F h' p' \<longrightarrow> list_ptr_denote F (h'[a := c]) p = Some v) \<and>
    (\<forall>a c. a \<in> list_ptr_reach F h' p \<longrightarrow> list_ptr_denote F (h'[a := c]) p' = Some v)"
  by (rule deep_copyable.independent [OF list_ptr_copyable [OF assms(1)] assms(2)])

text \<open>\<open>DeepCopyObject\<close> never wraps a nil pointer in an interface that is not nil.\<close>

lemma DeepCopyObject_nil_iff:
  assumes "DolphinschedulerCluster_DeepCopyObject F p h = Done (obj, h')"
  shows "(obj = NilObject \<longleftrightarrow> p = None) \<and> obj \<noteq> ClusterObject None"
  using assms
  by (cases p) (auto simp: DolphinschedulerCluster_DeepCopyObject_def DolphinschedulerCluster_DeepCopy_def
      new_copy_def new_value_def go_bind_Done_iff split: option.splits)

section \<open>An example\<close>

text \<open>Foreign structs without pointers, which a shallow copy copies.\<close>

lemma const_copyable: "deep_copyable (\<lambda>_ m. Some (f m)) plain_reach plain_copy"
  by unfold_locales (auto simp: plain_reach_def plain_copy_def intro: exI [of _ "[]"])

definition plain_foreign :: foreignApi where
  "plain_foreign = \<lparr>fa_copy = (\<lambda>_. plain_copy), fa_reach = (\<lambda>_. plain_reach),
     fa_S3BucketSpec = (\<lambda>_ m. Some \<lparr>s3_BucketName = (case m of Foreign t _ \<Rightarrow> t), s3_Connection = None\<rparr>),
     fa_RoleGroupConfigSpec = (\<lambda>_ m. Some \<lparr>rgc_Affinity = None,
       rgc_GracefulShutdownTimeout = (case m of Foreign t _ \<Rightarrow> t), rgc_Logging = None, rgc_Resources = None\<rparr>),
     fa_OverridesSpec = (\<lambda>_ m. Some \<lparr>ov_ConfigOverrides = None, ov_EnvOverrides = None\<rparr>),
     fa_RoleConfigSpec = (\<lambda>_ m. Some (RoleConfigSpec (case m of Foreign t _ \<Rightarrow> t))),
     fa_ObjectMeta = (\<lambda>_ m. Some (case m of Foreign t _ \<Rightarrow> t, ''default'')),
     fa_ListMeta = (\<lambda>_ m. Some (case m of Foreign t _ \<Rightarrow> t)),
     fa_Status = (\<lambda>_ m. Some (case m of Foreign t _ \<Rightarrow> t))\<rparr>"

lemma plain_foreign_copies: "foreign_copies plain_foreign"
  unfolding foreign_copies_def plain_foreign_def foreignApi.simps
  by (intro conjI const_copyable)

definition example_heap :: "cell heap" where
  "example_heap =
     [CString ''Always'',
      CImage \<lparr>m_Custom = [], m_Repo = ''quay.io'', m_KubedoopVersion = [], m_ProductVersion = [],
        m_PullPolicy = Some 0, m_PullSecretName = []\<rparr>,
      CInt32 2,
      CRoleGroups [(''default'', \<lparr>m_Replicas = Some 2, m_GroupConfig = None, m_GroupOverridesSpec = None\<rparr>)],
      CRole \<lparr>m_Config = None, m_RoleGroups = Some 3, m_RoleConfig = None, m_OverridesSpec = None\<rparr>,
      CCluster \<lparr>m_TypeMeta = (''DolphinschedulerCluster'', ''v1alpha1''), m_ObjectMeta = Foreign ''ds'' [],
        m_Spec = \<lparr>m_Image = Some 1, m_ClusterConfig = None, m_ClusterOperationSpec = None, m_Master = Some 4,
          m_Worker = None, m_Alerter = None, m_Api = None\<rparr>, m_Status = Foreign '''' []\<rparr>]"

lemmas denote_defs = cluster_denote_def spec_denote_def role_denote_def roleGroup_denote_def image_denote_def
  struct_denote_def prod_denote_def plain_denote_def ptr_denote_def map_denote_def load_def cellType_defs

lemma example_heap_denotes: "\<exists>v. cluster_ptr_denote plain_foreign example_heap (Some 5) = Some v"
  by (simp add: denote_defs example_heap_def plain_foreign_def gm_ok_def)

theorem DeepCopy_independent_witness:
  "\<exists>p' h'. DolphinschedulerCluster_DeepCopy plain_foreign (Some 5) example_heap = Done (p', h') \<and>
    take 6 h' = example_heap \<and>
    cluster_ptr_denote plain_foreign h' p' = cluster_ptr_denote plain_foreign example_heap (Some 5) \<and>
    cluster_ptr_reach plain_foreign h' (Some 5) \<inter> cluster_ptr_reach plain_foreign h' p' = {}"
proof -
  obtain v where v: "cluster_ptr_denote plain_foreign example_heap (Some 5) = Some v"
    using example_heap_denotes by blast
  have "length example_heap = 6" by (simp add: example_heap_def)
  with DeepCopy_independent [OF plain_foreign_copies v] v show ?thesis by auto
qed

end
