(* ===== verification/App_Info.thy ===== *)
theory App_Info
  imports Go_Strings
begin

text \<open>
  \<open>internal/util/version\<close>: the description of the build and its JSON text. \<open>encoding/json\<close> is
  modelled for what \<open>String\<close> marshals, a struct of strings: the escapes of a string, with HTML
  characters escaped and invalid UTF-8 replaced, byte by byte as Go does it.
\<close>

section \<open>version.go\<close>

record appInfo =
  app_Name :: string
  app_AppVersion :: string
  app_BuildTime :: string
  app_GitCommit :: string
  app_GoVersion :: string
  app_Compiler :: string
  app_Platform :: string

text \<open>The variables that \<open>-ldflags\<close> may set, and the build's own constants of package \<open>runtime\<close>.\<close>

record buildInfo =
  bi_BuildVersion :: string
  bi_BuildTime :: string
  bi_GitCommit :: string
  bi_GoVersion :: string
  bi_Compiler :: string
  bi_GOOS :: string
  bi_GOARCH :: string

definition NewAppInfo :: "buildInfo \<Rightarrow> string \<Rightarrow> appInfo" where
  "NewAppInfo b name =
     \<lparr>app_Name = name, app_AppVersion = bi_BuildVersion b, app_BuildTime = bi_BuildTime b,
      app_GitCommit = bi_GitCommit b, app_GoVersion = bi_GoVersion b, app_Compiler = bi_Compiler b,
      app_Platform = bi_GOOS b @ ''/'' @ bi_GOARCH b\<rparr>"

section \<open>UTF-8\<close>

definition byte :: "char \<Rightarrow> nat" where
  "byte c = of_char c"

definition within :: "nat \<Rightarrow> nat \<Rightarrow> char \<Rightarrow> bool" where
  "within lo hi c \<longleftrightarrow> lo \<le> byte c \<and> byte c \<le> hi"

text \<open>The size of the encoded character at the front, 0 if there is none.\<close>

fun utf8_size :: "string \<Rightarrow> nat" where
  "utf8_size [] = 0"
| "utf8_size (c # s) =
     (if byte c < 0x80 then 1
      else if within 0xC2 0xDF c then
        (case s of d # _ \<Rightarrow> if within 0x80 0xBF d then 2 else 0 | _ \<Rightarrow> 0)
      else if within 0xE0 0xEF c then
        (case s of d # e # _ \<Rightarrow>
           if within (if byte c = 0xE0 then 0xA0 else 0x80) (if byte c = 0xED then 0x9F else 0xBF) d \<and>
              within 0x80 0xBF e then 3 else 0
         | _ \<Rightarrow> 0)
      else if within 0xF0 0xF4 c then
        (case s of d # e # f # _ \<Rightarrow>
           if within (if byte c = 0xF0 then 0x90 else 0x80) (if byte c = 0xF4 then 0x8F else 0xBF) d \<and>
              within 0x80 0xBF e \<and> within 0x80 0xBF f then 4 else 0
         | _ \<Rightarrow> 0)
      else 0)"

section \<open>JSON\<close>

definition jquote :: char where "jquote = CHR 0x22"
definition jslash :: char where "jslash = CHR 0x5C"

definition hex_digit :: "nat \<Rightarrow> char" where
  "hex_digit n = (if n < 10 then char_of (48 + n) else char_of (87 + n))"

definition ascii_escape :: "char \<Rightarrow> string" where
  "ascii_escape c =
     (if c = jquote \<or> c = jslash then [jslash, c]
      else if c = CHR 0x08 then jslash # ''b''
      else if c = CHR 0x0C then jslash # ''f''
      else if c = CHR 0x0A then jslash # ''n''
      else if c = CHR 0x0D then jslash # ''r''
      else if c = CHR 0x09 then jslash # ''t''
      else if byte c < 0x20 \<or> c = CHR ''<'' \<or> c = CHR ''>'' \<or> c = CHR ''&'' then
        jslash # ''u00'' @ [hex_digit (byte c div 16), hex_digit (byte c mod 16)]
      else [c])"

definition lineSeparator :: string where "lineSeparator = [CHR 0xE2, CHR 0x80, CHR 0xA8]"
definition paragraphSeparator :: string where "paragraphSeparator = [CHR 0xE2, CHR 0x80, CHR 0xA9]"

function json_body :: "string \<Rightarrow> string" where
  "json_body [] = []"
| "json_body (c # s) =
     (if byte c < 0x80 then ascii_escape c @ json_body s
      else let n = utf8_size (c # s); r = take n (c # s) in
        if n = 0 then jslash # ''ufffd'' @ json_body s
        else (if r = lineSeparator then jslash # ''u2028''
              else if r = paragraphSeparator then jslash # ''u2029''
              else r) @ json_body (drop n (c # s)))"
  by pat_completeness auto
termination
  by (relation "measure length") auto

declare json_body.simps(2) [simp del]

definition json_string :: "string \<Rightarrow> string" where
  "json_string s = jquote # json_body s @ [jquote]"

definition json_Marshal :: "(string \<times> string) list \<Rightarrow> string" where
  "json_Marshal members =
     ''{'' @ strings_Join (map (\<lambda>(k, v). json_string k @ '':'' @ json_string v) members) '','' @ ''}''"

text \<open>Marshalling a struct of strings has no error, so the branch of \<open>String\<close> for one is dead.\<close>

definition AppInfo_String :: "appInfo \<Rightarrow> string" where
  "AppInfo_String a =
     json_Marshal [(''AppName'', app_Name a), (''AppVersion'', app_AppVersion a), (''BuildTime'', app_BuildTime a),
       (''GitCommit'', app_GitCommit a), (''GoVersion'', app_GoVersion a), (''Compiler'', app_Compiler a),
       (''Platform'', app_Platform a)]"

section \<open>Reading JSON back\<close>

text \<open>A reader for objects of strings: the escapes of JSON, without surrogate pairs.\<close>

definition hex_val :: "char \<Rightarrow> nat" where
  "hex_val c = (if within 48 57 c then byte c - 48 else if within 97 102 c then byte c - 87 else byte c - 55)"

definition utf8_encode :: "nat \<Rightarrow> string" where
  "utf8_encode n =
     (if n < 0x80 then [char_of n]
      else if n < 0x800 then [char_of (0xC0 + n div 64), char_of (0x80 + n mod 64)]
      else [char_of (0xE0 + n div 4096), char_of (0x80 + n div 64 mod 64), char_of (0x80 + n mod 64)])"

definition simple_escape :: "char \<Rightarrow> char option" where
  "simple_escape e = map_of [(jquote, jquote), (jslash, jslash), (CHR ''/'', CHR ''/''), (CHR ''b'', CHR 0x08),
     (CHR ''f'', CHR 0x0C), (CHR ''n'', CHR 0x0A), (CHR ''r'', CHR 0x0D), (CHR ''t'', CHR 0x09)] e"

definition prepend :: "string \<Rightarrow> (string \<times> string) option \<Rightarrow> (string \<times> string) option" where
  "prepend v = map_option (\<lambda>(w, r). (v @ w, r))"

fun unquote :: "string \<Rightarrow> (string \<times> string) option" where
  "unquote [] = None"
| "unquote (c # s) =
     (if c = jquote then Some ([], s)
      else if c = jslash then
        (case s of
           [] \<Rightarrow> None
         | e # t \<Rightarrow>
             if e = CHR ''u'' then
               (case t of
                  w # x # y # z # t' \<Rightarrow> prepend (utf8_encode
                    (4096 * hex_val w + 256 * hex_val x + 16 * hex_val y + hex_val z)) (unquote t')
                | _ \<Rightarrow> None)
             else (case simple_escape e of
                     None \<Rightarrow> None
                   | Some d \<Rightarrow> prepend [d] (unquote t)))
      else prepend [c] (unquote s))"

definition quoted :: "string \<Rightarrow> (string \<times> string) option" where
  "quoted s = (case s of c # t \<Rightarrow> if c = jquote then unquote t else None | [] \<Rightarrow> None)"

fun read_members :: "nat \<Rightarrow> string \<Rightarrow> (string \<times> string) list option" where
  "read_members 0 s = None"
| "read_members (Suc n) s =
     (case quoted s of
        Some (k, c # t) \<Rightarrow>
          if c = CHR '':'' then
            (case quoted t of
               Some (v, d # u) \<Rightarrow>
                 if d = CHR '','' then map_option (Cons (k, v)) (read_members n u)
                 else if d = CHR ''}'' \<and> u = [] then Some [(k, v)] else None
             | _ \<Rightarrow> None)
          else None
      | _ \<Rightarrow> None)"

text \<open>The fuel of \<open>read_members\<close>, the length of the text, exceeds the number of members.\<close>

definition json_Unmarshal :: "string \<Rightarrow> (string \<times> string) list option" where
  "json_Unmarshal s = (case s of c # t \<Rightarrow> if c = CHR ''{'' then read_members (length t) t else None | [] \<Rightarrow> None)"

function valid_utf8 :: "string \<Rightarrow> bool" where
  "valid_utf8 [] = True"
| "valid_utf8 (c # s) = (case utf8_size (c # s) of 0 \<Rightarrow> False | Suc n \<Rightarrow> valid_utf8 (drop n s))"
  by pat_completeness auto
termination
  by (relation "measure length") (simp_all del: utf8_size.simps)

declare valid_utf8.simps(2) [simp del]

section \<open>The round trip\<close>

lemma hex_val_digit: "n < 16 \<Longrightarrow> hex_val (hex_digit n) = n"
  by (auto simp: hex_val_def hex_digit_def within_def byte_def)

lemma char_byte: "char_of (byte c) = c"
  by (simp add: byte_def)

lemma prepend_Nil [simp]: "prepend [] x = x"
  by (cases x) (simp_all add: prepend_def)

lemma prepend_prepend [simp]: "prepend v (prepend w x) = prepend (v @ w) x"
  by (cases x) (auto simp: prepend_def)

lemma prepend_Some [simp]: "prepend v (Some (w, r)) = Some (v @ w, r)"
  by (simp add: prepend_def)

lemma unquote_u:
  "unquote (jslash # ''u'' @ [w, x, y, z] @ s) = prepend (utf8_encode
     (4096 * hex_val w + 256 * hex_val x + 16 * hex_val y + hex_val z)) (unquote s)"
  by (simp add: jslash_def jquote_def)

lemma unquote_escape:
  assumes "byte c < 0x80"
  shows "unquote (ascii_escape c @ s) = prepend [c] (unquote s)"
proof (cases "byte c < 0x20 \<or> c = CHR ''<'' \<or> c = CHR ''>'' \<or> c = CHR ''&''")
  case True
  have "4096 * hex_val (CHR ''0'') + 256 * hex_val (CHR ''0'') + 16 * hex_val (hex_digit (byte c div 16)) +
      hex_val (hex_digit (byte c mod 16)) = byte c"
    using assms by (simp add: hex_val_digit) (simp add: hex_val_def within_def byte_def)
  then have "unquote (jslash # ''u'' @ [CHR ''0'', CHR ''0'', hex_digit (byte c div 16), hex_digit (byte c mod 16)] @ s) =
      prepend [c] (unquote s)"
    unfolding unquote_u using assms by (simp add: utf8_encode_def char_byte)
  with True show ?thesis
    by (auto simp: ascii_escape_def jslash_def jquote_def simple_escape_def)
next
  case False
  then show ?thesis by (auto simp: ascii_escape_def jslash_def jquote_def simple_escape_def)
qed

lemma unquote_raw:
  "(\<And>d. d \<in> set r \<Longrightarrow> 0x80 \<le> byte d) \<Longrightarrow> unquote (r @ s) = prepend r (unquote s)"
proof (induction r)
  case (Cons d r)
  have "0x80 \<le> byte d" using Cons.prems by simp
  then have "d \<noteq> jquote" "d \<noteq> jslash" by (auto simp: jquote_def jslash_def byte_def)
  with Cons show ?case by simp
qed simp

lemma utf8_size_bytes:
  assumes "0x80 \<le> byte c" and "d \<in> set (take (utf8_size (c # s)) (c # s))"
  shows "0x80 \<le> byte d"
  using assms by (auto simp: within_def split: if_splits list.splits)

lemma unquote_separators:
  "unquote (jslash # ''u2028'' @ s) = prepend lineSeparator (unquote s)"
  "unquote (jslash # ''u2029'' @ s) = prepend paragraphSeparator (unquote s)"
proof -
  have "4096 * hex_val (CHR ''2'') + 256 * hex_val (CHR ''0'') + 16 * hex_val (CHR ''2'') + hex_val (CHR ''8'') = 0x2028"
    "4096 * hex_val (CHR ''2'') + 256 * hex_val (CHR ''0'') + 16 * hex_val (CHR ''2'') + hex_val (CHR ''9'') = 0x2029"
    by (simp_all add: hex_val_def within_def byte_def)
  moreover have "utf8_encode 0x2028 = lineSeparator" "utf8_encode 0x2029 = paragraphSeparator"
    by (simp_all add: utf8_encode_def lineSeparator_def paragraphSeparator_def char_of_def bit_0)
  ultimately show "unquote (jslash # ''u2028'' @ s) = prepend lineSeparator (unquote s)"
    "unquote (jslash # ''u2029'' @ s) = prepend paragraphSeparator (unquote s)"
    using unquote_u [of "CHR ''2''" "CHR ''0''" "CHR ''2''" "CHR ''8''" s]
      unquote_u [of "CHR ''2''" "CHR ''0''" "CHR ''2''" "CHR ''9''" s] by (simp_all del: unquote.simps)
qed

lemma unquote_body: "valid_utf8 s \<Longrightarrow> unquote (json_body s @ t) = prepend s (unquote t)"
proof (induction s rule: json_body.induct)
  case (2 c s)
  from "2.prems" obtain n where n: "utf8_size (c # s) = Suc n" "valid_utf8 (drop n s)"
    by (simp add: valid_utf8.simps(2) del: utf8_size.simps split: nat.splits)
  show ?case
  proof (cases "byte c < 0x80")
    case True
    then have "n = 0" using n(1) by simp
    with True n(2) "2.IH"(1) [OF True] show ?thesis
      by (simp add: json_body.simps(2) unquote_escape)
  next
    case False
    let ?r = "take (Suc n) (c # s)"
    have IH: "unquote (json_body (drop n s) @ t) = prepend (drop n s) (unquote t)"
      using "2.IH"(3) [OF False refl refl] n by (simp del: utf8_size.simps)
    have raw: "unquote (?r @ x) = prepend ?r (unquote x)" for x
      by (rule unquote_raw) (use utf8_size_bytes [of c _ s] False n(1) in \<open>simp del: utf8_size.simps\<close>)
    have "unquote ((if ?r = lineSeparator then jslash # ''u2028''
        else if ?r = paragraphSeparator then jslash # ''u2029'' else ?r) @ x) = prepend ?r (unquote x)" for x
      using unquote_separators [of x] raw [of x] by (simp del: unquote.simps take.simps)
    then have "unquote (json_body (c # s) @ t) = prepend ?r (prepend (drop n s) (unquote t))"
      using False n(1) IH by (simp add: json_body.simps(2) Let_def del: utf8_size.simps unquote.simps take_Suc_Cons)
    then show ?thesis by simp
  qed
qed simp

lemma quoted_string: "valid_utf8 s \<Longrightarrow> quoted (json_string s @ t) = Some (s, t)"
  by (simp add: quoted_def json_string_def unquote_body jquote_def)

lemma read_members_Marshal:
  assumes "list_all (\<lambda>(k, v). valid_utf8 k \<and> valid_utf8 v) kvs" and "kvs \<noteq> []" and "length kvs \<le> n"
  shows "read_members n (strings_Join (map (\<lambda>(k, v). json_string k @ '':'' @ json_string v) kvs) '','' @ ''}'') = Some kvs"
  using assms
proof (induction kvs arbitrary: n)
  case (Cons kv kvs)
  obtain k v where kv: "kv = (k, v)" by (cases kv)
  obtain n' where n: "n = Suc n'" using Cons.prems(3) by (cases n) auto
  have valid: "valid_utf8 k" "valid_utf8 v" using Cons.prems(1) by (simp_all add: kv)
  show ?case
  proof (cases "kvs = []")
    case True
    with valid show ?thesis by (simp add: kv n quoted_string)
  next
    case False
    with Cons have "read_members n' (strings_Join (map (\<lambda>(k, v). json_string k @ '':'' @ json_string v) kvs) '','' @ ''}'') = Some kvs"
      by (simp add: n)
    with False valid show ?thesis by (simp add: kv n quoted_string strings_Join_Cons)
  qed
qed simp

lemma length_members:
  "length kvs \<le> length (strings_Join (map (\<lambda>(k, v). json_string k @ '':'' @ json_string v) kvs) '','')"
proof (induction kvs)
  case (Cons kv kvs)
  then show ?case by (cases "kvs = []"; cases kv) (simp_all add: strings_Join_Cons json_string_def)
qed simp

lemma json_roundtrip:
  assumes "list_all (\<lambda>(k, v). valid_utf8 k \<and> valid_utf8 v) kvs" and "kvs \<noteq> []"
  shows "json_Unmarshal (json_Marshal kvs) = Some kvs"
proof -
  let ?t = "strings_Join (map (\<lambda>(k, v). json_string k @ '':'' @ json_string v) kvs) '','' @ ''}''"
  have "length kvs \<le> length ?t" using length_members [of kvs] by simp
  from read_members_Marshal [OF assms this] show ?thesis by (simp add: json_Unmarshal_def json_Marshal_def)
qed

lemma keys_valid:
  "valid_utf8 ''AppName''" "valid_utf8 ''AppVersion''" "valid_utf8 ''BuildTime''" "valid_utf8 ''GitCommit''"
  "valid_utf8 ''GoVersion''" "valid_utf8 ''Compiler''" "valid_utf8 ''Platform''"
  by (simp_all add: valid_utf8.simps(2) byte_def)

text \<open>
  C28. The text of the build information can be read back: for fields in valid UTF-8 it is a
  JSON object with the seven members of the struct, each with exactly the value of its field,
  whatever quotes, control characters, HTML characters or line separators the value contains.
\<close>

theorem AppInfo_String_roundtrip:
  assumes "list_all valid_utf8 [app_Name a, app_AppVersion a, app_BuildTime a, app_GitCommit a,
    app_GoVersion a, app_Compiler a, app_Platform a]"
  shows "json_Unmarshal (AppInfo_String a) =
    Some [(''AppName'', app_Name a), (''AppVersion'', app_AppVersion a), (''BuildTime'', app_BuildTime a),
       (''GitCommit'', app_GitCommit a), (''GoVersion'', app_GoVersion a), (''Compiler'', app_Compiler a),
       (''Platform'', app_Platform a)]"
  unfolding AppInfo_String_def by (rule json_roundtrip) (use assms in \<open>simp_all add: keys_valid\<close>)

definition example_app :: appInfo where
  "example_app = NewAppInfo \<lparr>bi_BuildVersion = ''0.0.0-dev'', bi_BuildTime = ''N/A'', bi_GitCommit = ''N/A'',
     bi_GoVersion = ''go1.25'', bi_Compiler = ''gc'', bi_GOOS = ''linux'', bi_GOARCH = ''amd64''\<rparr> ''R&D <ds>''"

theorem AppInfo_String_roundtrip_witness:
  "json_Unmarshal (AppInfo_String example_app) =
    Some [(''AppName'', ''R&D <ds>''), (''AppVersion'', ''0.0.0-dev''), (''BuildTime'', ''N/A''),
       (''GitCommit'', ''N/A''), (''GoVersion'', ''go1.25''), (''Compiler'', ''gc''),
       (''Platform'', ''linux/amd64'')]"
proof -
  have "list_all valid_utf8 [app_Name example_app, app_AppVersion example_app, app_BuildTime example_app,
      app_GitCommit example_app, app_GoVersion example_app, app_Compiler example_app, app_Platform example_app]"
    by (simp add: example_app_def NewAppInfo_def valid_utf8.simps(2) byte_def)
  from AppInfo_String_roundtrip [OF this] show ?thesis by (simp add: example_app_def NewAppInfo_def)
qed

end
