(* ===== verification/Spec2Isabelle.thy ===== *)
theory Spec2Isabelle
  imports Operator_Main Cluster_Settings Operator_Permissions Env_Sharing Deep_Copy App_Info
begin

text \<open>
  A verification of the DolphinScheduler operator: a Kubernetes controller, in Go, that turns a
  \<open>DolphinschedulerCluster\<close> custom resource into service accounts, config maps, a database job,
  stateful sets, deployments and services.

  \<^bold>\<open>The program.\<close> \<open>cmd/main.go\<close> parses the command line and starts a manager, which calls
  \<open>Reconcile\<close> (\<open>internal/controller\<close>) for a changed custom resource. A pass fetches the instance,
  lets the cluster reconciler (\<open>internal/controller/cluster\<close>) register its resources, applies them
  and asks whether they are ready. The cluster registers RBAC objects, the database job and four
  roles (\<open>internal/controller/{master,alerter,api,worker}\<close>); a role registers its role groups
  (\<open>internal/common/role.go\<close>), each of which merges the user's configuration with defaults
  (\<open>config.go\<close>) and builds config maps, a workload, a service and a metrics service. The contents
  of the config maps come from the extractors of \<open>pkg/util\<close> and the generators of \<open>pkg/config\<close>;
  the API server adds its authentication (\<open>internal/security\<close>).

  \<^bold>\<open>How it is modelled.\<close> Every Go function is an executable HOL function of the same name.
  \<^item> A call that may panic has type \<open>'a go\<close> (\<open>Done\<close>, \<open>Panic\<close>): nil dereferences, index panics and
    failed assertions are values. An error is the second component of a pair (\<open>'a res\<close>), because
    callers do read the first one. A pointer is an option, a map an association list with distinct
    keys whose order stands for the unspecified order of \<open>range\<close>, a sized integer a word.
  \<^item> Methods that update a builder return the updated record. Where the operator drives a foreign
    builder, the record keeps the list of the calls made to it, in order.
  \<^item> Values share nothing, so a pointer needs no address, except where sharing is the point: the
    generated deep copies work on a heap, a list of cells in which pointers, slices and maps are
    addresses and allocation appends a cell.
  \<^item> Code of other modules is a parameter: \<open>opgo\<close> (functions and constants of operator-go),
    \<open>client\<close> (reads from the API server), \<open>mergeApi\<close> (the reflective merge), \<open>workloadApi\<close> (the
    objects its builders make), \<open>controllerApi\<close> and \<open>managerApi\<close> (controller-runtime), \<open>foreignApi\<close> (the
    deep copies of foreign structs). What a
    theorem needs of them is one of its hypotheses; the example values of these records are used
    in the concrete instances only.

  \<^bold>\<open>The theories.\<close>
  \<^descr> \<open>Go_Prelude\<close>, \<open>Go_Strings\<close> Go itself: panics, errors, maps, sorted iteration, \<open>strings\<close>,
    \<open>strconv\<close>, \<open>path\<close>; the simplification collections and the locale \<open>keyed_store\<close> of maps.
  \<^descr> \<open>Platform\<close>, \<open>Api_Types\<close> the data of the Kubernetes and operator-go types that the operator
    reads or writes, and the custom resource (\<open>api/v1alpha1\<close>).
  \<^descr> \<open>Go_Heap\<close>, \<open>Deep_Copy\<close> the heap, the contract of a deep copy (locale \<open>deep_copyable\<close>) with one
    rule per type constructor of Go, and the methods of \<open>zz_generated.deepcopy.go\<close>, every one of
    which satisfies it: a copy equals the original and shares no memory with it.
  \<^descr> \<open>Pkg_Util\<close>, \<open>Pkg_Database\<close>, \<open>Pkg_S3\<close>, \<open>Pkg_Config\<close> the packages under \<open>pkg\<close>: sorted maps and
    properties files (iteration is independent of the map's order; a file can be read back), the
    JDBC and S3 extractors (round trip on well-formed input; exactly which inputs panic), and the
    generators.
  \<^descr> \<open>Common_Util\<close>, \<open>Common_Config\<close>, \<open>Product_Logging\<close>, \<open>Config_Map\<close> names, ports, defaults,
    logging and config maps: the merge with the defaults refines a field-by-field specification;
    the exact contents of the config maps on success and on every failing lookup.
  \<^descr> \<open>Container_Builder\<close>, \<open>Workload\<close>, \<open>Common_Service\<close> containers, deployments, stateful sets and
    services; the two workload builders satisfy one contract (locale \<open>pod_workload\<close>).
  \<^descr> \<open>Security\<close> LDAP and OIDC: locales \<open>auth_config_generator\<close> and \<open>oidc_endpoints\<close>, both
    interpreted on the generators of the source.
  \<^descr> \<open>Role_Reconciler\<close>, \<open>Role_Builders\<close> the registration of role groups, independent of the order
    of the map; the four roles as instances of \<open>role_builder\<close> and \<open>total_role_builder\<close>.
  \<^descr> \<open>Pod_Volumes\<close>, \<open>Env_Sharing\<close> how mounts, volumes and config maps of a role group meet in a pod,
    and who writes and reads the environment config map of the cluster.
  \<^descr> \<open>Cluster_Settings\<close>, \<open>Operator_Permissions\<close> the image, the stop flag and the ZooKeeper config map
    of a custom resource on their way to every workload (locale \<open>settings_builder\<close>, interpreted on the
    four builders), and the RBAC markers of the operator against what it registers and grants; a pass
    through a client that enforces them equals a pass without, S3 references apart.
  \<^descr> \<open>Cluster\<close>, \<open>Controller\<close>, \<open>Operator_Main\<close> the whole cluster, the pass as a function on the state
    of the API server, the step relation \<open>requeued\<close> from one pass of the work queue to the next,
    and the process.
  \<^descr> \<open>App_Info\<close> the build information of \<open>internal/util/version\<close> and its JSON text, with the part
    of \<open>encoding/json\<close> and UTF-8 that a struct of strings needs; the text can be read back.

  \<^bold>\<open>What is shown.\<close> A complete custom resource is deployed completely, without a panic, a pass
  never ends quietly before the cluster is ready, and the work queue reaches a finished pass after a
  bounded number of retries if every unfinished round makes progress; the roles' services, containers, mounted files,
  identities and environments fit together; deep copies are independent of their originals; results do not depend on map iteration order; user settings survive
  the merge where the code keeps them. Where the code panics or swallows an error, the theorems
  state exactly when.

  \<^bold>\<open>Bounds and termination.\<close> There is no fuel: every loop of the source ranges over a finite
  list or map, the pod name loop ends by the measure \<open>replicas - i\<close>, the flag parser consumes its
  arguments, and the JSON encoder consumes at least one byte per step. Integers keep their width: ports are 32-bit words,
  and conversions wrap as in Go.

  \<^bold>\<open>Not modelled.\<close> Log messages other than those of \<open>UpdateStatus\<close> and \<open>context.Context\<close>, on
  which no result depends; the verbs of
  \<open>Sprintf\<close> beyond \<open>%d\<close>, \<open>%v\<close> and \<open>%%\<close> in the templates of \<open>CreateKvContentByReplicas\<close>, which nothing
  calls; and manifests, charts and end-to-end tests, which are no Go code. Every function of the Go
  sources has a definition.
\<close>

section \<open>From the custom resource to a finished pass\<close>

text \<open>
  A registration that succeeds on an instance whose cluster is applied and ready
  ends the pass; the converse direction is the statement about finished passes in \<open>Controller\<close>.
\<close>

lemma ready_cluster_finishes:
  assumes "GetInstance K (req_Namespace req) (req_Name req) w = (inst, None)"
    and "registerInstance G C M v K inst = Done (None, r)"
    and "ClusterReconcile K r w = ((res, None), w')" and "IsZero K res"
    and "ClusterReady K r w' = (res', None)" and "IsZero K res'"
  shows "Reconcile G C M v K req w = Done ((zeroResult, None), w')"
  using assms by (simp add: Reconcile_def RequeueOrError_def)

end
